(* ===== verification/PyValue.thy ===== *)
theory PyValue
  imports "HOL-Library.Char_ord" "HOL-Library.AList"
begin

text \<open>
  The data the handlers work on. Rows, payloads and events are Python dictionaries without a
  static type, so they are modelled by one datatype of Python values, with Python's equality,
  truthiness and \<open>dict\<close> operations on it; the dataclasses of the source become records in the
  theories of their components. The theory also holds the text formats the source uses
  (zero-padded decimals and hexadecimals, the character classes of its regular expressions).

  Conventions. A \<open>str\<close> is a list of characters; the alphabet of the model is \<open>char\<close> (code
  points below 256). \<open>PDec m e\<close> is the finite \<open>Decimal\<close> \<open>m * 10 ^ e\<close>, which is what the
  DynamoDB client returns for numbers. A \<open>dict\<close> is an association list with distinct string
  keys in insertion order.
\<close>

named_theorems row_simps \<open>reading and writing dictionaries\<close>

section \<open>Values\<close>

datatype pyval =
    PNone
  | PBool bool
  | PInt int
  | PDec int int
  | PStr string
  | PBytes string
  | PList "pyval list"
  | PDict "(string \<times> pyval) list"

type_synonym dict = "(string \<times> pyval) list"

text \<open>Exceptions: the source's own classes with their code, and the built-in ones.\<close>

datatype exc =
    AuthorityError string
  | AppError string bool
  | OwnershipError string
  | ProjectionFault string
  | HistoryError string string
  | OperationsReceiptFault
  | AttributeError
  | IndexError
  | MessageError string
  | RecoveryError string
  | KeyError string
  | TypeError
  | ValueError
  | StoreNotConfigured
  | ZeroDivisionError
  | SdkError

type_synonym 'a result = "exc + 'a"

definition rbind :: "'a result \<Rightarrow> ('a \<Rightarrow> 'b result) \<Rightarrow> 'b result" where
  "rbind m f = (case m of Inl e \<Rightarrow> Inl e | Inr x \<Rightarrow> f x)"

lemma rbind_simps [simp]: "rbind (Inl e) f = Inl e" "rbind (Inr x) f = f x"
  by (simp_all add: rbind_def)

lemma rbind_Inr_iff: "rbind m f = Inr y \<longleftrightarrow> (\<exists>x. m = Inr x \<and> f x = Inr y)"
  by (cases m) simp_all

lemma rbind_Inl_iff: "rbind m f = Inl e \<longleftrightarrow> m = Inl e \<or> (\<exists>x. m = Inr x \<and> f x = Inl e)"
  by (cases m) simp_all

lemma rbind_cong [fundef_cong]:
  "m = m' \<Longrightarrow> (\<And>x. m' = Inr x \<Longrightarrow> f x = f' x) \<Longrightarrow> rbind m f = rbind m' f'"
  by (cases m') (auto simp: rbind_def)

text \<open>\<open>raise_if\<close> is the source's \<open>if ...: raise ...\<close> in a pure function.\<close>

definition raise_if :: "bool \<Rightarrow> exc \<Rightarrow> unit result" where
  "raise_if b e = (if b then Inl e else Inr ())"

lemma raise_if_simps [simp]:
  "raise_if True e = Inl e" "raise_if False e = Inr ()"
  "raise_if b e = Inr u \<longleftrightarrow> \<not> b"
  "raise_if b e = Inl e' \<longleftrightarrow> b \<and> e' = e"
  by (auto simp: raise_if_def)

lemma rbind_raise_if [simp]:
  "rbind (raise_if b e) f = Inr y \<longleftrightarrow> \<not> b \<and> f () = Inr y"
  by (auto simp: raise_if_def)

section \<open>Numbers\<close>

text \<open>Every Python number of the model is a pair (mantissa, decimal exponent).\<close>

fun pynum :: "pyval \<Rightarrow> (int \<times> int) option" where
  "pynum (PInt n) = Some (n, 0)"
| "pynum (PDec m e) = Some (m, e)"
| "pynum (PBool b) = Some (of_bool b, 0)"
| "pynum _ = None"

definition scaled :: "int \<Rightarrow> int \<times> int \<Rightarrow> int" where
  "scaled k x = fst x * 10 ^ nat (snd x - k)"

definition num_eq :: "int \<times> int \<Rightarrow> int \<times> int \<Rightarrow> bool" where
  "num_eq x y = (let k = min (snd x) (snd y) in scaled k x = scaled k y)"

definition num_less :: "int \<times> int \<Rightarrow> int \<times> int \<Rightarrow> bool" where
  "num_less x y = (let k = min (snd x) (snd y) in scaled k x < scaled k y)"

lemma num_cmp_int [simp]:
  "num_eq (a, 0) (b, 0) \<longleftrightarrow> a = b" "num_less (a, 0) (b, 0) \<longleftrightarrow> a < b"
  by (simp_all add: num_eq_def num_less_def scaled_def)

lemma num_eq_sym: "num_eq x y \<longleftrightarrow> num_eq y x"
  by (auto simp: num_eq_def Let_def min.commute)

text \<open>
  \<open>integral(value)\<close> of the authority: \<open>None\<close> for a bool and for a value that is not an
  integer, the integer otherwise.
\<close>

fun integral :: "pyval \<Rightarrow> int option" where
  "integral (PInt n) = Some n"
| "integral (PDec m e) =
     (if 0 \<le> e then Some (m * 10 ^ nat e)
      else if m mod 10 ^ nat (- e) = 0 then Some (m div 10 ^ nat (- e)) else None)"
| "integral _ = None"

lemma integral_PStr_None [simp]: "integral (PStr s) = None" "integral PNone = None"
  by simp_all

section \<open>Equality\<close>

text \<open>
  Python's \<open>==\<close>: numbers by value (with \<open>True == 1\<close>), lists element by element,
  dictionaries by key whatever their order. DynamoDB's equality differs only in that a bool
  is never equal to a number; \<open>veq True\<close> is the strict one.
\<close>

fun is_bool :: "pyval \<Rightarrow> bool" where
  "is_bool (PBool b) = True"
| "is_bool _ = False"

definition atom_eq :: "bool \<Rightarrow> pyval \<Rightarrow> pyval \<Rightarrow> bool" where
  "atom_eq strict a b =
     (if strict \<and> is_bool a \<noteq> is_bool b then False
      else (case pynum a of
              None \<Rightarrow> a = b
            | Some x \<Rightarrow> (case pynum b of None \<Rightarrow> False | Some y \<Rightarrow> num_eq x y)))"

function veq :: "bool \<Rightarrow> pyval \<Rightarrow> pyval \<Rightarrow> bool" where
  "veq strict (PDict d) v =
     (case v of
        PDict e \<Rightarrow> length d = length e
          \<and> list_all (\<lambda>kx. case map_of e (fst kx) of None \<Rightarrow> False
                            | Some y \<Rightarrow> veq strict (snd kx) y) d
      | _ \<Rightarrow> False)"
| "veq strict (PList xs) v =
     (case v of
        PList ys \<Rightarrow> length xs = length ys
          \<and> list_all (\<lambda>xy. veq strict (fst xy) (snd xy)) (zip xs ys)
      | _ \<Rightarrow> False)"
| "veq strict PNone v = atom_eq strict PNone v"
| "veq strict (PBool b) v = atom_eq strict (PBool b) v"
| "veq strict (PInt n) v = atom_eq strict (PInt n) v"
| "veq strict (PDec m e) v = atom_eq strict (PDec m e) v"
| "veq strict (PStr s) v = atom_eq strict (PStr s) v"
| "veq strict (PBytes s) v = atom_eq strict (PBytes s) v"
  by pat_completeness auto
termination
proof (relation "measure (\<lambda>(s, a, b). size a)", goal_cases)
  case 1
  then show ?case by simp
next
  case (2 strict d v e kx y)
  then have "size (snd kx) \<le> size_list (size_prod (\<lambda>_. 0) size) d"
    by (cases kx, intro size_list_estimation' [of kx]) auto
  then show ?case by (simp add: less_Suc_eq_le)
next
  case (3 strict xs v ys xy)
  then have "fst xy \<in> set xs"
    by (metis in_set_zipE prod.collapse)
  then have "size (fst xy) \<le> size_list size xs"
    by (auto intro!: size_list_estimation')
  then show ?case by (simp add: less_Suc_eq_le case_prod_beta)
qed

text \<open>\<open>pyeq\<close> is Python's \<open>==\<close>, \<open>aveq\<close> the equality of DynamoDB attribute values.\<close>

abbreviation pyeq :: "pyval \<Rightarrow> pyval \<Rightarrow> bool" where "pyeq \<equiv> veq False"
abbreviation aveq :: "pyval \<Rightarrow> pyval \<Rightarrow> bool" where "aveq \<equiv> veq True"

lemma pynum_None_iff: "pynum v = None \<longleftrightarrow>
    v = PNone \<or> (\<exists>s. v = PStr s) \<or> (\<exists>s. v = PBytes s) \<or> (\<exists>xs. v = PList xs) \<or> (\<exists>d. v = PDict d)"
  by (cases v) simp_all

lemma veq_str [simp]:
  "veq st v (PStr s) \<longleftrightarrow> v = PStr s" "veq st (PStr s) v \<longleftrightarrow> v = PStr s"
  by (cases v; auto simp: atom_eq_def)+

lemma veq_none [simp]:
  "veq st v PNone \<longleftrightarrow> v = PNone" "veq st PNone v \<longleftrightarrow> v = PNone"
  by (cases v; auto simp: atom_eq_def)+

lemma veq_bool_strict [simp]: "veq True v (PBool b) \<longleftrightarrow> v = PBool b"
  by (cases v; cases b) (auto simp: atom_eq_def num_eq_def scaled_def split: if_splits)

lemma veq_int [simp]: "veq st (PInt a) (PInt b) \<longleftrightarrow> a = b"
  by (simp add: atom_eq_def)

declare veq.simps [simp del]

lemma veq_dict:
  "veq st (PDict d) (PDict e) \<longleftrightarrow> length d = length e
     \<and> (\<forall>(k, x) \<in> set d. \<exists>y. map_of e k = Some y \<and> veq st x y)"
  by (auto simp: veq.simps list_all_iff split: option.splits)

lemma veq_dictD: "veq st (PDict d) v \<Longrightarrow> \<exists>e. v = PDict e"
  by (cases v) (auto simp: veq.simps)

lemma scaled_shift: "k \<le> snd x \<Longrightarrow> j \<le> k \<Longrightarrow> scaled j x = scaled k x * 10 ^ nat (k - j)"
  by (simp add: scaled_def power_add [symmetric] nat_add_distrib [symmetric] algebra_simps)

lemma num_eq_at:
  assumes "j \<le> snd x" "j \<le> snd y"
  shows "num_eq x y \<longleftrightarrow> scaled j x = scaled j y"
proof -
  let ?k = "min (snd x) (snd y)"
  have "scaled j x = scaled ?k x * 10 ^ nat (?k - j)" "scaled j y = scaled ?k y * 10 ^ nat (?k - j)"
    by (rule scaled_shift; use assms in simp)+
  then show ?thesis by (simp add: num_eq_def Let_def)
qed

lemma num_eq_trans:
  assumes "num_eq x y" "num_eq y z"
  shows "num_eq x z"
proof -
  define j where "j = min (snd x) (min (snd y) (snd z))"
  have "num_eq x y \<longleftrightarrow> scaled j x = scaled j y" "num_eq y z \<longleftrightarrow> scaled j y = scaled j z"
    "num_eq x z \<longleftrightarrow> scaled j x = scaled j z"
    by (rule num_eq_at; simp add: j_def)+
  with assms show ?thesis by simp
qed

lemma integral_dec: "integral (PDec m e) = Some k \<longleftrightarrow> num_eq (m, e) (k, 0)"
proof (cases "0 \<le> e")
  case True
  then show ?thesis by (auto simp: num_eq_def scaled_def)
next
  case False
  let ?p = "10 ^ nat (- e) :: int"
  have "0 < ?p" by simp
  then have "m mod ?p = 0 \<and> m div ?p = k \<longleftrightarrow> m = k * ?p"
    by (metis mod_mult_self2_is_0 mult_div_mod_eq nonzero_mult_div_cancel_right add.right_neutral
        less_irrefl mult.commute)
  with False show ?thesis by (auto simp: num_eq_def scaled_def)
qed

lemma integral_Some_iff:
  "integral v = Some k \<longleftrightarrow> \<not> is_bool v \<and> (\<exists>x. pynum v = Some x \<and> num_eq x (k, 0))"
  by (cases v) (auto simp del: integral.simps(2) simp: integral_dec)

lemma veq_pynum:
  assumes "veq st a b" "pynum a = Some x \<or> pynum b = Some y"
  shows "\<exists>x y. pynum a = Some x \<and> pynum b = Some y \<and> num_eq x y \<and> (st \<longrightarrow> is_bool a = is_bool b)"
  using assms by (cases a; cases b) (auto simp: veq.simps atom_eq_def split: if_splits)

lemma veq_pynum_left:
  "veq st a b \<Longrightarrow> pynum a = Some x \<Longrightarrow>
     \<exists>y. pynum b = Some y \<and> num_eq x y \<and> (st \<longrightarrow> is_bool a = is_bool b)"
  by (drule veq_pynum [where x = x]) auto

lemma veq_pynum_right:
  "veq st a b \<Longrightarrow> pynum b = Some y \<Longrightarrow>
     \<exists>x. pynum a = Some x \<and> num_eq x y \<and> (st \<longrightarrow> is_bool a = is_bool b)"
  by (drule veq_pynum [where y = y]) auto

lemma pynum_veq:
  "pynum a = Some x \<Longrightarrow> pynum b = Some y \<Longrightarrow> is_bool a = is_bool b \<Longrightarrow> veq st a b \<longleftrightarrow> num_eq x y"
  by (cases a) (auto simp: veq.simps atom_eq_def)

lemma option_eq_by_Some: "(\<And>k. a = Some k \<longleftrightarrow> b = Some k) \<Longrightarrow> a = b"
  by (metis option.exhaust)

lemma integral_num_eq:
  assumes "integral a = Some k" "pynum a = Some x" "pynum b = Some y" "num_eq x y" "\<not> is_bool b"
  shows "integral b = Some k"
proof -
  from assms(1,2) have "num_eq x (k, 0)" by (simp add: integral_Some_iff)
  then have "num_eq y (k, 0)" using num_eq_trans [of y x "(k, 0)"] assms(4) num_eq_sym by simp
  with assms(3,5) show ?thesis by (simp add: integral_Some_iff)
qed

lemma aveq_integral:
  assumes "aveq a b"
  shows "integral a = integral b"
proof (rule option_eq_by_Some)
  fix k
  show "integral a = Some k \<longleftrightarrow> integral b = Some k"
  proof
    assume a: "integral a = Some k"
    then obtain x where x: "pynum a = Some x" "\<not> is_bool a" by (auto simp: integral_Some_iff)
    with veq_pynum_left [OF assms x(1)] obtain y where y: "pynum b = Some y" "num_eq x y" "\<not> is_bool b" by blast
    show "integral b = Some k" by (rule integral_num_eq [OF a x(1) y])
  next
    assume b: "integral b = Some k"
    then obtain y where y: "pynum b = Some y" "\<not> is_bool b" by (auto simp: integral_Some_iff)
    with veq_pynum_right [OF assms y(1)] obtain x where x: "pynum a = Some x" "num_eq x y" "\<not> is_bool a" by blast
    show "integral a = Some k"
      by (rule integral_num_eq [OF b y(1) x(1) x(2) [unfolded num_eq_sym [of x y]] x(3)])
  qed
qed

lemma veq_integral:
  assumes "integral v = Some k"
  shows "veq st v (PInt n) \<longleftrightarrow> k = n"
proof -
  from assms obtain x where v: "\<not> is_bool v" "pynum v = Some x" "num_eq x (k, 0)"
    by (auto simp: integral_Some_iff)
  then have "veq st v (PInt n) \<longleftrightarrow> num_eq x (n, 0)"
    by (intro pynum_veq) auto
  also have "\<dots> \<longleftrightarrow> num_eq (k, 0) (n, 0)"
    using v(3) num_eq_trans num_eq_sym by blast
  finally show ?thesis by simp
qed

lemma veq_integral_both:
  assumes "veq st a b" "integral a = Some m" "integral b = Some n"
  shows "m = n"
proof -
  from assms(2,3) obtain x y where xy: "pynum a = Some x" "num_eq x (m, 0)" "\<not> is_bool b" "pynum b = Some y"
    by (auto simp: integral_Some_iff)
  with veq_pynum_left [OF assms(1) xy(1)] have "num_eq x y" by auto
  then have "integral b = Some m" by (rule integral_num_eq [OF assms(2) xy(1,4) _ xy(3)])
  with assms(3) show ?thesis by simp
qed

lemma aveq_PInt_integral: "aveq v (PInt n) \<Longrightarrow> integral v = Some n"
  by (drule aveq_integral) simp

section \<open>Dictionaries\<close>

text \<open>
  \<open>d.get(k)\<close>, \<open>d.get(k, default)\<close>, \<open>d[k]\<close> (with its \<open>KeyError\<close>), \<open>k in d\<close>,
  \<open>d[k] = v\<close>, \<open>d | e\<close> and \<open>set(d)\<close>.
\<close>

definition dget :: "dict \<Rightarrow> string \<Rightarrow> pyval" where
  "dget d k = (case map_of d k of None \<Rightarrow> PNone | Some v \<Rightarrow> v)"

definition dget_or :: "dict \<Rightarrow> string \<Rightarrow> pyval \<Rightarrow> pyval" where
  "dget_or d k dflt = (case map_of d k of None \<Rightarrow> dflt | Some v \<Rightarrow> v)"

definition didx :: "dict \<Rightarrow> string \<Rightarrow> pyval result" where
  "didx d k = (case map_of d k of None \<Rightarrow> Inl (KeyError k) | Some v \<Rightarrow> Inr v)"

definition dhas :: "dict \<Rightarrow> string \<Rightarrow> bool" where
  "dhas d k = (map_of d k \<noteq> None)"

abbreviation dset :: "string \<Rightarrow> pyval \<Rightarrow> dict \<Rightarrow> dict" where
  "dset \<equiv> AList.update"

abbreviation ddel :: "string \<Rightarrow> dict \<Rightarrow> dict" where
  "ddel \<equiv> AList.delete"

fun dmerge :: "dict \<Rightarrow> dict \<Rightarrow> dict" where
  "dmerge d [] = d"
| "dmerge d (kv # e) = dmerge (dset (fst kv) (snd kv) d) e"

definition has_keys :: "dict \<Rightarrow> string list \<Rightarrow> bool" where
  "has_keys d ks = (set (map fst d) = set ks)"

lemma dget_simps [simp, row_simps]:
  "dget ((k', v) # d) k = (if k' = k then v else dget d k)" "dget [] k = PNone"
  by (simp_all add: dget_def)

lemma dget_or_simps [simp, row_simps]:
  "dget_or ((k', v) # d) k w = (if k' = k then v else dget_or d k w)" "dget_or [] k w = w"
  by (simp_all add: dget_or_def)

lemma didx_simps [simp, row_simps]:
  "didx ((k', v) # d) k = (if k' = k then Inr v else didx d k)" "didx [] k = Inl (KeyError k)"
  by (simp_all add: didx_def)

lemma dhas_simps [simp, row_simps]:
  "dhas ((k', v) # d) k \<longleftrightarrow> k' = k \<or> dhas d k" "\<not> dhas [] k"
  by (simp_all add: dhas_def)

lemma dset_row [simp, row_simps]:
  "dget (dset k v d) k' = (if k = k' then v else dget d k')"
  "dget_or (dset k v d) k' w = (if k = k' then v else dget_or d k' w)"
  "dhas (dset k v d) k' \<longleftrightarrow> k = k' \<or> dhas d k'"
  "didx (dset k v d) k' = (if k = k' then Inr v else didx d k')"
  by (simp_all add: dget_def dget_or_def dhas_def didx_def update_conv')

lemma ddel_row [simp, row_simps]:
  "dget (ddel k d) k' = (if k = k' then PNone else dget d k')"
  "dhas (ddel k d) k' \<longleftrightarrow> k \<noteq> k' \<and> dhas d k'"
  by (simp_all add: dget_def dhas_def delete_conv')

lemma map_of_dmerge: "map_of (dmerge d e) = map_of d ++ map_of (rev e)"
  by (induction d e rule: dmerge.induct)
    (auto simp: update_conv' map_add_def fun_eq_iff split: option.splits)

lemma didx_Inr_iff: "didx d k = Inr v \<longleftrightarrow> map_of d k = Some v"
  by (auto simp: didx_def split: option.splits)

lemma dget_integral_has: "integral (dget d k) = Some n \<Longrightarrow> \<exists>v. map_of d k = Some v \<and> integral v = Some n"
  by (cases "map_of d k") (auto simp: dget_def)

lemma integral_has: "integral (dget d k) = Some n \<Longrightarrow> dhas d k"
  by (cases "map_of d k") (auto simp: dget_def dhas_def)

text \<open>A value used as a dictionary: \<open>isinstance(v, dict)\<close>.\<close>

fun as_dict :: "pyval \<Rightarrow> dict option" where
  "as_dict (PDict d) = Some d"
| "as_dict _ = None"

fun as_str :: "pyval \<Rightarrow> string option" where
  "as_str (PStr s) = Some s"
| "as_str _ = None"

lemma as_dict_Some [simp]: "as_dict v = Some d \<longleftrightarrow> v = PDict d"
  by (cases v) auto

lemma as_str_Some [simp]: "as_str v = Some s \<longleftrightarrow> v = PStr s"
  by (cases v) auto

text \<open>
  An integer field of a row that has been checked with \<open>integral\<close> before it is used (the
  source then compares and adds the stored number itself, which has the same value).
\<close>

definition inum :: "dict \<Rightarrow> string \<Rightarrow> int" where
  "inum d k = (case integral (dget d k) of None \<Rightarrow> 0 | Some n \<Rightarrow> n)"

lemma inum_simps [simp, row_simps]:
  "inum ((k', v) # d) k = (if k' = k then (case integral v of None \<Rightarrow> 0 | Some n \<Rightarrow> n) else inum d k)"
  "inum (dset k' v d) k = (if k' = k then (case integral v of None \<Rightarrow> 0 | Some n \<Rightarrow> n) else inum d k)"
  by (simp_all add: inum_def)

lemma integral_inum: "integral (dget d k) \<noteq> None \<Longrightarrow> integral (dget d k) = Some (inum d k)"
  by (auto simp: inum_def)

lemma inum_eqI: "integral (dget d k) = Some n \<Longrightarrow> inum d k = n"
  by (simp add: inum_def)

text \<open>Values as Python builds them have distinct keys in every dictionary.\<close>

fun wf_val :: "pyval \<Rightarrow> bool" where
  "wf_val (PDict d) = (distinct (map fst d) \<and> list_all (\<lambda>kv. wf_val (snd kv)) d)"
| "wf_val (PList xs) = list_all wf_val xs"
| "wf_val _ = True"

lemma veq_refl: "wf_val v \<Longrightarrow> veq st v v"
proof (induction v rule: wf_val.induct)
  case (1 d)
  then show ?case by (fastforce simp: veq_dict list_all_iff)
next
  case (2 xs)
  then show ?case by (auto simp: veq.simps list_all_iff set_zip)
qed (auto simp: veq.simps atom_eq_def num_eq_def split: option.splits)

lemma dset_same: "map_of d k = Some v \<Longrightarrow> dset k v d = d"
  by (induction d) (auto split: if_splits)

lemma has_keys_dset: "has_keys d ks \<Longrightarrow> k \<in> set ks \<Longrightarrow> has_keys (dset k v d) ks"
  by (auto simp: has_keys_def dom_update)

lemma dget_dset_same: "dget d k = v \<Longrightarrow> dhas d k \<Longrightarrow> dset k v d = d"
  by (rule dset_same) (auto simp: dget_def dhas_def split: option.splits)

lemma has_keys_dhas: "has_keys d ks \<Longrightarrow> dhas d k \<longleftrightarrow> k \<in> set ks"
  by (auto simp: has_keys_def dhas_def map_of_eq_None_iff)

lemma wf_dset: "wf_val (PDict d) \<Longrightarrow> wf_val v \<Longrightarrow> wf_val (PDict (dset k v d))"
proof -
  assume d: "wf_val (PDict d)" "wf_val v"
  have "snd ` set (dset k v d) \<subseteq> insert v (snd ` set d)"
    by (induction d) auto
  with d show ?thesis by (fastforce simp: list_all_iff distinct_update)
qed

lemma dget_dmerge: "dget (dmerge d e) k = (case map_of (rev e) k of None \<Rightarrow> dget d k | Some v \<Rightarrow> v)"
  by (auto simp: dget_def map_of_dmerge map_add_def split: option.splits)

lemma didx_dmerge: "map_of (rev e) k = Some v \<Longrightarrow> didx (dmerge d e) k = Inr v"
  by (simp add: didx_def map_of_dmerge map_add_def)

lemma wf_dmerge: "wf_val (PDict d) \<Longrightarrow> list_all (\<lambda>kv. wf_val (snd kv)) e \<Longrightarrow> wf_val (PDict (dmerge d e))"
  by (induction d e rule: dmerge.induct) (simp_all add: wf_dset del: wf_val.simps)

text \<open>Truthiness (\<open>if v:\<close>, \<open>not v\<close>).\<close>

fun truthy :: "pyval \<Rightarrow> bool" where
  "truthy PNone = False"
| "truthy (PBool b) = b"
| "truthy (PInt n) = (n \<noteq> 0)"
| "truthy (PDec m e) = (m \<noteq> 0)"
| "truthy (PStr s) = (s \<noteq> [])"
| "truthy (PBytes s) = (s \<noteq> [])"
| "truthy (PList xs) = (xs \<noteq> [])"
| "truthy (PDict d) = (d \<noteq> [])"

end
