(* ===== verification/PyText.thy ===== *)
theory PyText
  imports PyValue
begin

text \<open>
  The text formats of the source: decimal and hexadecimal numbers with zero padding
  (\<open>f'{n:012d}'\<close>, \<open>f'{n:08x}'\<close>, \<open>int(s, 16)\<close>), \<open>str.split\<close> on one character,
  and the character classes of the regular expressions given to \<open>re.fullmatch\<close>. Shared
  facts: a number survives printing, padding and reading, and a joined text splits into the
  parts it was joined from.
\<close>

section \<open>Character classes\<close>

definition code :: "char \<Rightarrow> nat" where
  "code c = of_char c"

definition is_digit :: "char \<Rightarrow> bool" where   \<comment> \<open>\<open>[0-9]\<close>\<close>
  "is_digit c = (48 \<le> code c \<and> code c \<le> 57)"

definition is_hex :: "char \<Rightarrow> bool" where   \<comment> \<open>\<open>[0-9a-f]\<close>\<close>
  "is_hex c = (is_digit c \<or> 97 \<le> code c \<and> code c \<le> 102)"

definition is_alnum :: "char \<Rightarrow> bool" where   \<comment> \<open>\<open>[A-Za-z0-9]\<close>\<close>
  "is_alnum c = (is_digit c \<or> 65 \<le> code c \<and> code c \<le> 90 \<or> 97 \<le> code c \<and> code c \<le> 122)"

definition is_ident :: "char \<Rightarrow> bool" where   \<comment> \<open>\<open>[A-Za-z0-9_-]\<close>\<close>
  "is_ident c = (is_alnum c \<or> c = CHR ''_'' \<or> c = CHR ''-'')"

definition fullmatch :: "(char \<Rightarrow> bool) \<Rightarrow> nat \<Rightarrow> nat \<Rightarrow> string \<Rightarrow> bool" where
  \<comment> \<open>\<open>re.fullmatch('[cls]{lo,hi}', s)\<close>\<close>
  "fullmatch cls lo hi s = (lo \<le> length s \<and> length s \<le> hi \<and> list_all cls s)"

definition str_matches :: "(string \<Rightarrow> bool) \<Rightarrow> pyval \<Rightarrow> bool" where
  \<comment> \<open>\<open>isinstance(v, str) and pattern.fullmatch(v)\<close>\<close>
  "str_matches p v = (case as_str v of None \<Rightarrow> False | Some s \<Rightarrow> p s)"

lemma str_matches_iff: "str_matches p v \<longleftrightarrow> (\<exists>s. v = PStr s \<and> p s)"
  by (auto simp: str_matches_def split: option.splits)

lemma str_matches_PStr [simp]: "str_matches p (PStr s) = p s" "\<not> str_matches p PNone"
  by (simp_all add: str_matches_def)

definition one_of :: "pyval \<Rightarrow> string list \<Rightarrow> bool" where
  \<comment> \<open>\<open>v in ('a', 'b')\<close> for a tuple of texts\<close>
  "one_of v ss = str_matches (\<lambda>s. s \<in> set ss) v"

lemma one_of_simps [simp]: "one_of (PStr s) ss \<longleftrightarrow> s \<in> set ss" "\<not> one_of PNone ss"
  by (simp_all add: one_of_def)

lemma one_of_iff: "one_of v ss \<longleftrightarrow> (\<exists>s. v = PStr s \<and> s \<in> set ss)"
  by (auto simp: one_of_def str_matches_iff)

definition prefixed :: "string \<Rightarrow> (string \<Rightarrow> bool) \<Rightarrow> string \<Rightarrow> bool" where
  \<comment> \<open>a pattern that starts with a literal text\<close>
  "prefixed p f s = (take (length p) s = p \<and> f (drop (length p) s))"

lemma prefixed_append [simp]: "prefixed p f (p @ s) = f s"
  by (simp add: prefixed_def)

lemma is_hex_not_underscore: "is_hex c \<Longrightarrow> c \<noteq> CHR ''_''"
  by (auto simp: is_hex_def is_digit_def code_def)

lemma is_alnum_not_underscore: "is_alnum c \<Longrightarrow> c \<noteq> CHR ''_''"
  by (auto simp: is_alnum_def is_digit_def code_def)

section \<open>Numbers\<close>

definition digit_char :: "nat \<Rightarrow> char" where
  "digit_char d = char_of (if d < 10 then 48 + d else 87 + d)"

definition digit_val :: "char \<Rightarrow> nat" where
  "digit_val c = (if code c < 58 then code c - 48 else code c - 87)"

fun to_base :: "nat \<Rightarrow> nat \<Rightarrow> string" where
  "to_base b n = (if n < b \<or> b < 2 then [digit_char n] else to_base b (n div b) @ [digit_char (n mod b)])"

declare to_base.simps [simp del]

definition of_base :: "nat \<Rightarrow> string \<Rightarrow> nat" where
  "of_base b s = foldl (\<lambda>a c. a * b + digit_val c) 0 s"

definition zfill :: "nat \<Rightarrow> string \<Rightarrow> string" where
  "zfill w s = replicate (w - length s) CHR ''0'' @ s"

definition show_int :: "int \<Rightarrow> string" where   \<comment> \<open>\<open>str(n)\<close>\<close>
  "show_int n = (if n < 0 then CHR ''-'' # to_base 10 (nat (- n)) else to_base 10 (nat n))"

definition fmt_d :: "nat \<Rightarrow> int \<Rightarrow> string" where   \<comment> \<open>\<open>f'{n:0wd}'\<close>\<close>
  "fmt_d w n = (if n < 0 then CHR ''-'' # zfill (w - 1) (to_base 10 (nat (- n)))
                else zfill w (to_base 10 (nat n)))"

definition fmt_x :: "nat \<Rightarrow> int \<Rightarrow> string" where   \<comment> \<open>\<open>f'{n:0wx}'\<close>\<close>
  "fmt_x w n = (if n < 0 then CHR ''-'' # zfill (w - 1) (to_base 16 (nat (- n)))
                else zfill w (to_base 16 (nat n)))"

lemma code_digit_char: "d < 16 \<Longrightarrow> code (digit_char d) = (if d < 10 then 48 + d else 87 + d)"
  by (simp add: code_def digit_char_def)

lemma digit_val_char [simp]: "d < 16 \<Longrightarrow> digit_val (digit_char d) = d"
  by (auto simp: digit_val_def code_digit_char)

lemma digit_val_0 [simp]: "digit_val CHR ''0'' = 0"
  by (simp add: digit_val_def code_def)

lemma is_hex_digit_char: "d < 16 \<Longrightarrow> is_hex (digit_char d)"
  by (auto simp: is_hex_def is_digit_def code_digit_char)

lemma of_base_append: "of_base b (s @ [c]) = of_base b s * b + digit_val c"
  by (simp add: of_base_def)

lemma mod_base: "2 \<le> b \<Longrightarrow> b \<le> 16 \<Longrightarrow> n mod b < (16 :: nat)"
  using mod_less_divisor [of b n] by linarith

lemma of_base_to_base: "2 \<le> b \<Longrightarrow> b \<le> 16 \<Longrightarrow> of_base b (to_base b n) = n"
proof (induction b n rule: to_base.induct)
  case (1 b n)
  show ?case
  proof (cases "n < b")
    case True
    with "1.prems" show ?thesis by (simp add: to_base.simps [of b n] of_base_def)
  next
    case False
    with 1 have "of_base b (to_base b (n div b)) = n div b" and "n mod b < b" by auto
    with False "1.prems" show ?thesis
      by (simp add: to_base.simps [of b n] of_base_append mod_base)
  qed
qed

lemma of_base_zfill: "of_base b (zfill w s) = of_base b s"
proof -
  have "foldl (\<lambda>a c. a * b + digit_val c) 0 (replicate n CHR ''0'') = 0" for n
    by (induction n) auto
  then show ?thesis by (simp add: of_base_def zfill_def)
qed

lemma to_base_hex: "2 \<le> b \<Longrightarrow> b \<le> 16 \<Longrightarrow> list_all is_hex (to_base b n)"
proof (induction b n rule: to_base.induct)
  case (1 b n)
  with mod_base [of b n] show ?case by (auto simp: to_base.simps [of b n] is_hex_digit_char)
qed

lemma zfill_hex: "list_all is_hex s \<Longrightarrow> list_all is_hex (zfill w s)"
  by (auto simp: zfill_def list_all_iff is_hex_def is_digit_def code_def)

lemma length_to_base: "2 \<le> b \<Longrightarrow> n < b ^ w \<Longrightarrow> 0 < w \<Longrightarrow> length (to_base b n) \<le> w"
proof (induction b n arbitrary: w rule: to_base.induct)
  case (1 b n)
  show ?case
  proof (cases "n < b")
    case True
    with "1.prems" show ?thesis by (simp add: to_base.simps [of b n])
  next
    case False
    with "1.prems" obtain v where w: "w = Suc v" "0 < v" by (cases w; cases "w - 1") auto
    with "1.prems" have "n div b < b ^ v"
      by (simp add: less_mult_imp_div_less mult.commute)
    with False 1 w have "length (to_base b (n div b)) \<le> v" by auto
    with False "1.prems" w show ?thesis by (simp add: to_base.simps [of b n])
  qed
qed

lemma length_zfill [simp]: "length (zfill w s) = max w (length s)"
  by (simp add: zfill_def)

lemma fmt_x_fullmatch: "0 \<le> n \<Longrightarrow> n < 16 ^ w \<Longrightarrow> 0 < w \<Longrightarrow> fullmatch is_hex w w (fmt_x w n)"
  using length_to_base [of 16 "nat n" w] zfill_hex [OF to_base_hex [of 16 "nat n"], of w]
  by (auto simp: fullmatch_def fmt_x_def nat_less_iff)

lemma of_base_fmt_x: "0 \<le> n \<Longrightarrow> of_base 16 (fmt_x w n) = nat n"
  by (simp add: fmt_x_def of_base_zfill of_base_to_base)

lemma to_base_digits: "list_all is_digit (to_base 10 n)"
proof (induction "10 :: nat" n rule: to_base.induct)
  case (1 n)
  have "is_digit (digit_char d)" if "d < 10" for d
    using that by (simp add: is_digit_def code_digit_char)
  with 1 show ?case by (subst to_base.simps) simp
qed

lemma of_base_digits: "list_all is_digit s \<Longrightarrow> of_base 10 s < 10 ^ length s"
proof (induction s rule: rev_induct)
  case (snoc c s)
  then have "48 \<le> code c" "code c \<le> 57" by (simp_all add: is_digit_def)
  then have "code c - 48 < 10" "code c < 58" by linarith+
  then have "digit_val c < 10" by (simp add: digit_val_def)
  with snoc show ?case by (simp add: of_base_append)
qed (simp add: of_base_def)

lemma fmt_d_fullmatch: "0 \<le> n \<Longrightarrow> n < 10 ^ w \<Longrightarrow> 0 < w \<Longrightarrow> fullmatch is_digit w w (fmt_d w n)"
  using length_to_base [of 10 "nat n" w] to_base_digits [of "nat n"]
  by (auto simp: fullmatch_def fmt_d_def nat_less_iff zfill_def list_all_iff is_digit_def code_def)

section \<open>Splitting\<close>

fun split_on :: "char \<Rightarrow> string \<Rightarrow> string list" where   \<comment> \<open>\<open>s.split(c)\<close>\<close>
  "split_on c [] = [[]]"
| "split_on c (x # xs) = (if x = c then [] # split_on c xs
                           else (x # hd (split_on c xs)) # tl (split_on c xs))"

lemma split_on_nonempty: "split_on c s \<noteq> []"
  by (induction c s rule: split_on.induct) auto

lemma split_on_free: "c \<notin> set s \<Longrightarrow> split_on c s = [s]"
  by (induction c s rule: split_on.induct) auto

lemma split_on_join: "c \<notin> set s \<Longrightarrow> split_on c (s @ c # t) = s # split_on c t"
  by (induction s) auto

fun join_on :: "char \<Rightarrow> string list \<Rightarrow> string" where
  "join_on c [] = []"
| "join_on c [s] = s"
| "join_on c (s # t # ss) = s @ c # join_on c (t # ss)"

lemma join_split: "join_on c (split_on c s) = s"
proof (induction c s rule: split_on.induct)
  case (2 c x xs)
  then show ?case
    using split_on_nonempty [of c xs] by (cases "split_on c xs"; cases "tl (split_on c xs)") auto
qed simp

section \<open>Methods of \<open>str\<close>\<close>

definition is_space :: "char \<Rightarrow> bool" where
  "is_space c = (9 \<le> code c \<and> code c \<le> 13 \<or> 28 \<le> code c \<and> code c \<le> 32 \<or> code c = 133 \<or> code c = 160)"

definition strip :: "string \<Rightarrow> string" where
  "strip s = rev (dropWhile is_space (rev (dropWhile is_space s)))"

function split_ws :: "string \<Rightarrow> string list" where   \<comment> \<open>\<open>s.split()\<close>\<close>
  "split_ws [] = []"
| "split_ws (c # cs) = (if is_space c then split_ws cs
     else (c # takeWhile (\<lambda>x. \<not> is_space x) cs) # split_ws (dropWhile (\<lambda>x. \<not> is_space x) cs))"
  by pat_completeness auto
termination
  by (relation "measure length") (auto simp: le_imp_less_Suc length_dropWhile_le)

definition lower :: "string \<Rightarrow> string" where
  "lower = map (\<lambda>c. if 65 \<le> code c \<and> code c \<le> 90 \<or> 192 \<le> code c \<and> code c \<le> 222 \<and> code c \<noteq> 215
                      then char_of (code c + 32) else c)"

definition is_digit_like :: "char \<Rightarrow> bool" where
  \<comment> \<open>the characters for which \<open>str.isdigit\<close> holds: the digits and the superscripts\<close>
  "is_digit_like c = (is_digit c \<or> code c \<in> {178, 179, 185})"

definition parse_int :: "string \<Rightarrow> int result" where
  \<comment> \<open>\<open>int(s)\<close> of a text of digits; Python refuses more than 4300 of them\<close>
  "parse_int s = (if s \<noteq> [] \<and> list_all is_digit s \<and> length s \<le> 4300 then Inr (int (of_base 10 s)) else Inl ValueError)"

definition first_then :: "(char \<Rightarrow> bool) \<Rightarrow> (char \<Rightarrow> bool) \<Rightarrow> nat \<Rightarrow> string \<Rightarrow> bool" where
  \<comment> \<open>\<open>[first][rest]{0,hi}\<close>\<close>
  "first_then f g hi s = (case s of [] \<Rightarrow> False | c # cs \<Rightarrow> f c \<and> fullmatch g 0 hi cs)"

lemma strip_idem: "strip (strip s) = strip s"
proof -
  have drop: "s \<noteq> [] \<longrightarrow> \<not> is_space (hd s) \<Longrightarrow> dropWhile is_space s = s" for s
    by (cases s) auto
  define a where "a = dropWhile is_space s"
  define b where "b = dropWhile is_space (rev a)"
  have a: "a \<noteq> [] \<longrightarrow> \<not> is_space (hd a)" unfolding a_def by (metis hd_dropWhile)
  have b: "b \<noteq> [] \<longrightarrow> \<not> is_space (hd b)" unfolding b_def by (metis hd_dropWhile)
  have "\<exists>p. rev a = p @ b" unfolding b_def by (metis takeWhile_dropWhile_id)
  then obtain p where "a = rev b @ rev p" by (metis rev_append rev_rev_ident)
  with a have "rev b \<noteq> [] \<longrightarrow> \<not> is_space (hd (rev b))" by (cases "rev b") auto
  with b show ?thesis by (simp add: strip_def a_def [symmetric] b_def [symmetric] drop)
qed

section \<open>\<open>str(v)\<close>\<close>

definition dec_str :: "int \<Rightarrow> int \<Rightarrow> string" where   \<comment> \<open>\<open>str(Decimal)\<close>\<close>
  "dec_str m e =
     (let ds = to_base 10 (nat \<bar>m\<bar>); n = int (length ds); left = e + n;
          dot = (if e \<le> 0 \<and> left > -6 then left else 1);
          body = (if dot \<le> 0 then ''0.'' @ replicate (nat (- dot)) CHR ''0'' @ ds
                  else if dot \<ge> n then ds @ replicate (nat (dot - n)) CHR ''0''
                  else take (nat dot) ds @ ''.'' @ drop (nat dot) ds);
          ex = (if left = dot then [] else if left > dot then ''E+'' @ show_int (left - dot) else ''E'' @ show_int (left - dot))
      in (if m < 0 then CHR ''-'' # body @ ex else body @ ex))"

definition text_is :: "pyval \<Rightarrow> string \<Rightarrow> bool" where
  \<comment> \<open>\<open>str(v) == s\<close> for a text \<open>s\<close> without quotes and brackets\<close>
  "text_is v s =
     (case v of
        PStr t \<Rightarrow> t = s
      | PInt n \<Rightarrow> show_int n = s
      | PDec m e \<Rightarrow> dec_str m e = s
      | PBool b \<Rightarrow> (if b then ''True'' else ''False'') = s
      | PNone \<Rightarrow> s = ''None''
      | _ \<Rightarrow> False)"

lemma text_is_PStr [simp]: "text_is (PStr t) s \<longleftrightarrow> t = s"
  by (simp add: text_is_def)

end
