(* ===== verification/Dynamo.thy ===== *)
theory Dynamo
  imports PyText
begin

text \<open>
  The interface between the handlers and the database service. A handler reads items by key
  and writes through \<open>transact_write_items\<close>, a batch of conditional actions. What a handler
  sends is data of the model (\<open>action\<close>, with its condition expression as \<open>cond\<close> and its
  update expression as a list of \<open>update\<close>s); what the service does with it is a parameter
  (\<open>transact\<close> of \<open>env\<close>), constrained only by the documented behaviour stated in the locale
  \<open>transact_service\<close>: a batch is applied as a whole or not at all, only when every condition
  holds, and a caller that gets an unspecific failure does not know which of the two happened.
  \<open>ref_transact\<close> is one concrete service, used to show that the laws can be met.

  An operation is a function on \<open>world\<close> (the tables and a tick that counts interactions).
  Before each interaction other writers may commit (\<open>peers\<close>), each call of the clock may
  give another time, and a read may fail: a theorem about an operation is a theorem about it
  in any such environment.
\<close>

section \<open>Actions\<close>

type_synonym key = "string \<times> string"   \<comment> \<open>partition key \<open>PK\<close>, sort key \<open>SK\<close>\<close>
type_synonym db = "string \<Rightarrow> key \<Rightarrow> dict option"

datatype cmp = CEq | CNe | CLt | CLe | CGt | CGe

datatype cond =
    Always
  | Exists string
  | NotExists string
  | Cmp cmp string pyval
  | And cond cond
  | Or cond cond

datatype update = USet string pyval | UAdd string int | URemove string

datatype action =
    ConditionCheck string key cond
  | Put string dict cond
  | Update string key "update list" cond
  | Delete string key cond

fun all_of :: "cond list \<Rightarrow> cond" where
  "all_of [] = Always"
| "all_of [c] = c"
| "all_of (c # cs) = And c (all_of cs)"

definition num_cmp :: "cmp \<Rightarrow> pyval \<Rightarrow> pyval \<Rightarrow> bool" where
  "num_cmp op a b =
     (if is_bool a \<or> is_bool b then False
      else (case (pynum a, pynum b) of
         (Some x, Some y) \<Rightarrow>
           (case op of CLt \<Rightarrow> num_less x y | CLe \<Rightarrow> \<not> num_less y x
             | CGt \<Rightarrow> num_less y x | CGe \<Rightarrow> \<not> num_less x y | _ \<Rightarrow> False)
       | _ \<Rightarrow> False))"

fun cond_holds :: "cond \<Rightarrow> dict \<Rightarrow> bool" where
  "cond_holds Always d = True"
| "cond_holds (Exists a) d = dhas d a"
| "cond_holds (NotExists a) d = (\<not> dhas d a)"
| "cond_holds (Cmp op a v) d =
     (case map_of d a of
        None \<Rightarrow> op = CNe
      | Some w \<Rightarrow> (case op of CEq \<Rightarrow> aveq w v | CNe \<Rightarrow> \<not> aveq w v | _ \<Rightarrow> num_cmp op w v))"
| "cond_holds (And c e) d = (cond_holds c d \<and> cond_holds e d)"
| "cond_holds (Or c e) d = (cond_holds c d \<or> cond_holds e d)"

definition add_num :: "pyval \<Rightarrow> int \<Rightarrow> pyval" where
  "add_num v n =
     (case v of
        PInt m \<Rightarrow> PInt (m + n)
      | PDec m e \<Rightarrow> (let k = min e 0 in PDec (scaled k (m, e) + scaled k (n, 0)) k)
      | _ \<Rightarrow> v)"

fun addable :: "update \<Rightarrow> dict \<Rightarrow> bool" where
  "addable (UAdd a n) d =
     (case map_of d a of None \<Rightarrow> True | Some v \<Rightarrow> pynum v \<noteq> None \<and> \<not> is_bool v)"
| "addable _ d = True"

fun apply_update :: "update \<Rightarrow> dict \<Rightarrow> dict" where
  "apply_update (USet a v) d = dset a v d"
| "apply_update (UAdd a n) d =
     dset a (case map_of d a of None \<Rightarrow> PInt n | Some v \<Rightarrow> add_num v n) d"
| "apply_update (URemove a) d = ddel a d"

definition key_item :: "key \<Rightarrow> dict" where
  "key_item k = [(''PK'', PStr (fst k)), (''SK'', PStr (snd k))]"

definition item_key :: "dict \<Rightarrow> key" where
  "item_key d = ((case dget d ''PK'' of PStr s \<Rightarrow> s | _ \<Rightarrow> []),
                 (case dget d ''SK'' of PStr s \<Rightarrow> s | _ \<Rightarrow> []))"

fun target :: "action \<Rightarrow> string \<times> key" where
  "target (ConditionCheck t k c) = (t, k)"
| "target (Put t d c) = (t, item_key d)"
| "target (Update t k us c) = (t, k)"
| "target (Delete t k c) = (t, k)"

fun guard :: "action \<Rightarrow> cond" where
  "guard (ConditionCheck t k c) = c"
| "guard (Put t d c) = c"
| "guard (Update t k us c) = c"
| "guard (Delete t k c) = c"

definition contents :: "dict option \<Rightarrow> dict" where   \<comment> \<open>an absent item has no attributes\<close>
  "contents it = (case it of None \<Rightarrow> [] | Some d \<Rightarrow> d)"

fun after :: "action \<Rightarrow> dict option \<Rightarrow> dict option" where
  "after (ConditionCheck t k c) it = it"
| "after (Put t d c) it = Some d"
| "after (Update t k us c) it =
     Some (fold apply_update us (case it of None \<Rightarrow> key_item k | Some d \<Rightarrow> d))"
| "after (Delete t k c) it = None"

fun updates :: "action \<Rightarrow> update list" where
  "updates (Update t k us c) = us"
| "updates _ = []"

definition holds_at :: "action \<Rightarrow> db \<Rightarrow> bool" where
  "holds_at a db =
     (let d = contents (db (fst (target a)) (snd (target a)))
      in cond_holds (guard a) d \<and> list_all (\<lambda>u. addable u d) (updates a))"

text \<open>A batch is well formed: at most 100 actions, no two on the same item.\<close>

definition batch_wf :: "action list \<Rightarrow> bool" where
  "batch_wf acts = (acts \<noteq> [] \<and> length acts \<le> 100 \<and> distinct (map target acts))"

definition batch_holds :: "action list \<Rightarrow> db \<Rightarrow> bool" where
  "batch_holds acts db = (batch_wf acts \<and> list_all (\<lambda>a. holds_at a db) acts)"

definition commit :: "action list \<Rightarrow> db \<Rightarrow> db" where
  "commit acts db =
     (\<lambda>t k. case find (\<lambda>a. target a = (t, k)) acts of
              None \<Rightarrow> db t k
            | Some a \<Rightarrow> after a (db t k))"

lemma commit_untouched: "(t, k) \<notin> set (map target acts) \<Longrightarrow> commit acts db t k = db t k"
proof -
  assume "(t, k) \<notin> set (map target acts)"
  then have "find (\<lambda>a. target a = (t, k)) acts = None" by (force simp: find_None_iff)
  then show ?thesis by (simp add: commit_def)
qed

lemma commit_at:
  assumes "a \<in> set acts" "distinct (map target acts)" "target a = (t, k)"
  shows "commit acts db t k = after a (db t k)"
proof -
  have "find (\<lambda>a. target a = (t, k)) acts = Some a"
    using assms by (induction acts) (auto simp: rev_image_eqI)
  then show ?thesis by (simp add: commit_def)
qed

lemma add_num_integral: "integral v = Some k \<Longrightarrow> integral (add_num v n) = Some (k + n)"
proof (cases v)
  case (PDec m e)
  assume "integral v = Some k"
  with PDec have "num_eq (m, e) (k, 0)" by (simp only: integral_dec)
  then have "scaled (min e 0) (m, e) = scaled (min e 0) (k, 0)" by (simp add: num_eq_def Let_def)
  with PDec have "add_num v n = PDec (scaled (min e 0) (k, 0) + scaled (min e 0) (n, 0)) (min e 0)"
    by (simp add: add_num_def Let_def)
  moreover have "num_eq (scaled (min e 0) (k, 0) + scaled (min e 0) (n, 0), min e 0) (k + n, 0)"
    by (simp add: num_eq_def scaled_def algebra_simps)
  ultimately show ?thesis by (simp only: integral_dec)
qed (auto simp: add_num_def)

lemma batch_holds_at:
  "batch_holds acts db \<Longrightarrow> a \<in> set acts \<Longrightarrow> holds_at a db \<and> distinct (map target acts)"
  by (auto simp: batch_holds_def batch_wf_def list_all_iff)

lemma commit_cases:
  assumes "batch_holds acts db"
  obtains "commit acts db t k = db t k" "(t, k) \<notin> set (map target acts)"
  | a where "a \<in> set acts" "target a = (t, k)" "holds_at a db" "commit acts db t k = after a (db t k)"
proof (cases "(t, k) \<in> set (map target acts)")
  case True
  then obtain a where "a \<in> set acts" "target a = (t, k)" by force
  with batch_holds_at [OF assms this(1)] show thesis by (intro that(2)) (auto intro: commit_at)
next
  case False
  then show thesis by (intro that(1) commit_untouched) auto
qed

section \<open>The service\<close>

datatype outcome = Committed | Cancelled | Failed

text \<open>
  Documented behaviour of the service. \<open>Cancelled\<close> is \<open>TransactionCanceledException\<close>:
  nothing was written. \<open>Failed\<close> is every other error, such as a lost response.
\<close>

locale transact_service =
  fixes tx :: "nat \<Rightarrow> action list \<Rightarrow> db \<Rightarrow> outcome \<times> db"
  assumes committed: "tx i acts db = (Committed, db') \<Longrightarrow> batch_holds acts db \<and> db' = commit acts db"
    and cancelled: "tx i acts db = (Cancelled, db') \<Longrightarrow> db' = db"
    and failed: "tx i acts db = (Failed, db') \<Longrightarrow>
      db' = db \<or> (batch_holds acts db \<and> db' = commit acts db)"
begin

lemma all_or_nothing:
  "tx i acts db = (r, db') \<Longrightarrow> db' = db \<or> (batch_holds acts db \<and> db' = commit acts db)"
  using committed cancelled failed by (cases r) blast+

lemma batch_invariant:
  assumes "\<And>db. Inv db \<Longrightarrow> batch_holds acts db \<Longrightarrow> Inv (commit acts db)" "Inv db"
  shows "Inv (snd (tx i acts db))"
  using assms all_or_nothing [of i acts db] by (cases "tx i acts db") auto

end

definition ref_transact :: "nat \<Rightarrow> action list \<Rightarrow> db \<Rightarrow> outcome \<times> db" where
  "ref_transact i acts db = (if batch_holds acts db then (Committed, commit acts db) else (Cancelled, db))"

interpretation reference: transact_service ref_transact
  by unfold_locales (auto simp: ref_transact_def split: if_splits)

text \<open>A service whose every response is lost, although every batch that can commit does.\<close>

definition lossy_transact :: "nat \<Rightarrow> action list \<Rightarrow> db \<Rightarrow> outcome \<times> db" where
  "lossy_transact i acts db = (Failed, if batch_holds acts db then commit acts db else db)"

interpretation lossy: transact_service lossy_transact
  by unfold_locales (auto simp: lossy_transact_def)

end
