(* ===== verification/Effects.thy ===== *)
theory Effects
  imports Dynamo
begin

text \<open>
  Operations with effects. An operation is a function from a world to a result (an exception
  or a value) and a world; \<open>ebind\<close> sequences two of them, \<open>ecatch\<close> is \<open>try/except\<close>.
  \<open>env\<close> collects what the code calls and this development does not define: the clock, the
  database service, the keyed hash, the random source, and the other writers.

  \<open>keeps Inv m\<close> says that an operation preserves a property of the tables. The locale
  \<open>guarded_db\<close> gives one rule per way an operation is built, so that an invariant of a
  component is reduced to one obligation per batch it sends: a batch whose conditions hold
  preserves the invariant, whatever the handler had read before.
\<close>

named_theorems keeps_intros \<open>preservation of a table invariant, by the shape of the operation\<close>
named_theorems yields_elims \<open>what an operation can return\<close>

record env =
  clock :: "nat \<Rightarrow> int"
  wall_nanos :: "nat \<Rightarrow> int"   \<comment> \<open>the clock that freshness is judged by, in nanoseconds\<close>
  peers :: "nat \<Rightarrow> db \<Rightarrow> db"
  older :: "nat \<Rightarrow> db \<Rightarrow> db"   \<comment> \<open>the replica that a read without \<open>ConsistentRead\<close> sees\<close>
  read_fails :: "nat \<Rightarrow> bool"
  transact :: "nat \<Rightarrow> action list \<Rightarrow> db \<Rightarrow> outcome \<times> db"
  hmac_hex :: "string \<Rightarrow> string \<Rightarrow> string"
  sha256_hex :: "string \<Rightarrow> string"
  random_hex :: "nat \<Rightarrow> nat \<Rightarrow> string"
  time_left :: "nat \<Rightarrow> bool"   \<comment> \<open>\<open>can_continue()\<close>\<close>
  index_page :: "nat \<Rightarrow> string \<Rightarrow> string \<Rightarrow> string \<Rightarrow> nat \<Rightarrow> dict \<Rightarrow> dict list \<times> dict"
  index_query :: "nat \<Rightarrow> string \<Rightarrow> string \<Rightarrow> string \<Rightarrow> dict list"

record world =
  tables :: db
  tick :: nat

type_synonym 'a eff = "world \<Rightarrow> 'a result \<times> world"

definition eret :: "'a \<Rightarrow> 'a eff" where
  "eret x = (\<lambda>w. (Inr x, w))"

definition eraise :: "exc \<Rightarrow> 'a eff" where
  "eraise e = (\<lambda>w. (Inl e, w))"

definition elift :: "'a result \<Rightarrow> 'a eff" where
  "elift r = (\<lambda>w. (r, w))"

definition ebind :: "'a eff \<Rightarrow> ('a \<Rightarrow> 'b eff) \<Rightarrow> 'b eff" where
  "ebind m f = (\<lambda>w. case m w of (Inl e, w') \<Rightarrow> (Inl e, w') | (Inr x, w') \<Rightarrow> f x w')"

definition ecatch :: "'a eff \<Rightarrow> (exc \<Rightarrow> 'a eff) \<Rightarrow> 'a eff" where
  "ecatch m h = (\<lambda>w. case m w of (Inl e, w') \<Rightarrow> h e w' | (Inr x, w') \<Rightarrow> (Inr x, w'))"

definition eraise_if :: "bool \<Rightarrow> exc \<Rightarrow> unit eff" where
  "eraise_if b e = elift (raise_if b e)"

definition e_now :: "env \<Rightarrow> int eff" where
  "e_now E = (\<lambda>w. (Inr (clock E (tick w)), w\<lparr>tick := Suc (tick w)\<rparr>))"

definition e_wall :: "env \<Rightarrow> int eff" where
  "e_wall E = (\<lambda>w. (Inr (wall_nanos E (tick w)), w\<lparr>tick := Suc (tick w)\<rparr>))"

definition e_random :: "env \<Rightarrow> nat \<Rightarrow> string eff" where
  "e_random E n = (\<lambda>w. (Inr (random_hex E (tick w) n), w\<lparr>tick := Suc (tick w)\<rparr>))"

text \<open>\<open>get_item(Key=..., ConsistentRead=True).get('Item')\<close>\<close>

definition e_get :: "env \<Rightarrow> string \<Rightarrow> key \<Rightarrow> dict option eff" where
  "e_get E t k = (\<lambda>w.
     let db = peers E (tick w) (tables w); w' = w\<lparr>tables := db, tick := Suc (tick w)\<rparr>
     in if read_fails E (tick w) then (Inl SdkError, w') else (Inr (db t k), w'))"

text \<open>\<open>get_item(Key=...).get('Item')\<close>: eventually consistent, so an earlier state may answer.\<close>

definition e_read :: "env \<Rightarrow> string \<Rightarrow> key \<Rightarrow> dict option eff" where
  "e_read E t k = (\<lambda>w.
     let db = peers E (tick w) (tables w); w' = w\<lparr>tables := db, tick := Suc (tick w)\<rparr>
     in if read_fails E (tick w) then (Inl SdkError, w') else (Inr (older E (tick w) db t k), w'))"

text \<open>\<open>transact_write_items(TransactItems=...)\<close>; the caller sees how the call ended.\<close>

definition e_transact :: "env \<Rightarrow> action list \<Rightarrow> outcome eff" where
  "e_transact E acts = (\<lambda>w.
     let (r, db') = transact E (tick w) acts (peers E (tick w) (tables w))
     in (Inr r, w\<lparr>tables := db', tick := Suc (tick w)\<rparr>))"

text \<open>A query of a secondary index: eventually consistent, so any list of items may come back.\<close>

definition e_index_query :: "env \<Rightarrow> string \<Rightarrow> string \<Rightarrow> string \<Rightarrow> dict list eff" where
  "e_index_query E t ix k = (\<lambda>w. let w' = w\<lparr>tick := Suc (tick w)\<rparr> in
     if read_fails E (tick w) then (Inl SdkError, w') else (Inr (index_query E (tick w) t ix k), w'))"

text \<open>One page of a query (\<open>Items\<close> and \<open>LastEvaluatedKey\<close>, empty when there is none).\<close>

definition e_page :: "env \<Rightarrow> string \<Rightarrow> string \<Rightarrow> string \<Rightarrow> nat \<Rightarrow> dict \<Rightarrow> (dict list \<times> dict) eff" where
  "e_page E t k bound limit cursor = (\<lambda>w. let w' = w\<lparr>tick := Suc (tick w)\<rparr> in
     if read_fails E (tick w) then (Inl SdkError, w') else (Inr (index_page E (tick w) t k bound limit cursor), w'))"

definition e_continue :: "env \<Rightarrow> bool eff" where
  "e_continue E = (\<lambda>w. (Inr (time_left E (tick w)), w\<lparr>tick := Suc (tick w)\<rparr>))"

section \<open>Reading a run\<close>

lemma ebind_Inr:
  "ebind m f w = (Inr y, w') \<longleftrightarrow> (\<exists>x w1. m w = (Inr x, w1) \<and> f x w1 = (Inr y, w'))"
  by (auto simp: ebind_def split: prod.splits sum.splits)

lemma ebind_Inl:
  "ebind m f w = (Inl e, w') \<longleftrightarrow>
     m w = (Inl e, w') \<or> (\<exists>x w1. m w = (Inr x, w1) \<and> f x w1 = (Inl e, w'))"
  by (auto simp: ebind_def split: prod.splits sum.splits)

lemma eff_simps [simp]:
  "eret x w = (Inr x, w)" "eraise e w = (Inl e, w)" "elift r w = (r, w)"
  "ebind (eret x) f = f x" "ebind (eraise e) f = eraise e"
  "ebind (elift (Inr x)) f = f x" "ebind (elift (Inl e)) f = eraise e"
  "eraise_if True e = eraise e" "eraise_if False e = eret ()"
  by (auto simp: eret_def eraise_def elift_def ebind_def eraise_if_def fun_eq_iff)

lemma elift_Inr [simp]: "elift (Inr x) = eret x" "elift (Inl e) = eraise e"
  by (auto simp: eret_def eraise_def elift_def)

lemma eraise_if_Inr [simp]: "eraise_if b e w = (Inr u, w') \<longleftrightarrow> \<not> b \<and> w' = w"
  by (auto simp: eraise_if_def)

definition yields :: "'a eff \<Rightarrow> 'a \<Rightarrow> bool" where
  "yields m x = (\<exists>w w'. m w = (Inr x, w'))"

lemma yields_bind [yields_elims]: "yields (ebind m f) y \<Longrightarrow> \<exists>x. yields m x \<and> yields (f x) y"
  by (auto simp: yields_def ebind_Inr)

lemma yields_simps [simp]:
  "yields (eret x) y \<longleftrightarrow> y = x" "\<not> yields (eraise e) y" "yields (elift r) y \<longleftrightarrow> r = Inr y"
  "yields (eraise_if b e) u \<longleftrightarrow> \<not> b"
  by (auto simp: yields_def eraise_if_def)

lemma yields_catch [yields_elims]:
  "yields (ecatch m h) y \<Longrightarrow> yields m y \<or> (\<exists>e. yields (h e) y)"
proof -
  assume "yields (ecatch m h) y"
  then obtain w w' where run: "ecatch m h w = (Inr y, w')" by (auto simp: yields_def)
  show ?thesis
  proof (cases "m w")
    case (Pair r w1)
    with run show ?thesis by (cases r) (auto simp: ecatch_def yields_def)
  qed
qed

lemma yields_if [yields_elims]:
  "yields (if b then m else m') y \<Longrightarrow> b \<and> yields m y \<or> \<not> b \<and> yields m' y"
  by (auto split: if_splits)

definition keeps :: "(db \<Rightarrow> bool) \<Rightarrow> 'a eff \<Rightarrow> bool" where
  "keeps Inv m = (\<forall>w. Inv (tables w) \<longrightarrow> Inv (tables (snd (m w))))"

definition batch_keeps :: "(db \<Rightarrow> bool) \<Rightarrow> action list \<Rightarrow> bool" where
  "batch_keeps Inv acts = (\<forall>db. Inv db \<longrightarrow> batch_holds acts db \<longrightarrow> Inv (commit acts db))"

lemma keepsD: "keeps Inv m \<Longrightarrow> Inv (tables w) \<Longrightarrow> m w = (r, w') \<Longrightarrow> Inv (tables w')"
  by (force simp: keeps_def)

section \<open>Invariants of the tables under concurrent writers\<close>

locale guarded_db =
  fixes E :: env and Inv :: "db \<Rightarrow> bool"
  assumes service: "transact_service (transact E)"
    and peers_keep: "Inv db \<Longrightarrow> Inv (peers E i db)"
begin

lemma keeps_pure [keeps_intros]:
  "keeps Inv (eret x)" "keeps Inv (eraise e)" "keeps Inv (elift r)" "keeps Inv (eraise_if b e)"
  by (simp_all add: keeps_def eraise_if_def)

lemma keeps_now [keeps_intros]: "keeps Inv (e_now E)" "keeps Inv (e_wall E)" "keeps Inv (e_random E n)" "keeps Inv (e_index_query E t ix k)"
    "keeps Inv (e_page E t k bound limit cursor)" "keeps Inv (e_continue E)"
  by (simp_all add: keeps_def e_now_def e_wall_def e_random_def e_index_query_def e_page_def e_continue_def Let_def)

lemma keeps_get [keeps_intros]: "keeps Inv (e_get E t k)" "keeps Inv (e_read E t k)"
  using peers_keep by (auto simp: keeps_def e_get_def e_read_def Let_def)

lemma keeps_transact [keeps_intros]: "batch_keeps Inv acts \<Longrightarrow> keeps Inv (e_transact E acts)"
  using transact_service.batch_invariant [OF service, of Inv acts] peers_keep
  by (auto simp: keeps_def e_transact_def batch_keeps_def split: prod.splits) (metis snd_conv)

lemma keeps_bind [keeps_intros]:
  assumes "keeps Inv m" "\<And>x. yields m x \<Longrightarrow> keeps Inv (f x)"
  shows "keeps Inv (ebind m f)"
  unfolding keeps_def
proof (intro allI impI)
  fix w :: world
  assume "Inv (tables w)"
  with assms(1) have m: "Inv (tables (snd (m w)))" by (simp add: keeps_def)
  show "Inv (tables (snd (ebind m f w)))"
  proof (cases "m w")
    case (Pair r w1)
    show ?thesis
    proof (cases r)
      case (Inl e)
      with Pair m show ?thesis by (simp add: ebind_def)
    next
      case (Inr x)
      with Pair have "yields m x" by (auto simp: yields_def)
      then have "keeps Inv (f x)" by (rule assms(2))
      with Pair Inr m show ?thesis by (simp add: ebind_def keeps_def)
    qed
  qed
qed

lemma keeps_catch [keeps_intros]:
  assumes "keeps Inv m" "\<And>e. keeps Inv (h e)"
  shows "keeps Inv (ecatch m h)"
  unfolding keeps_def
proof (intro allI impI)
  fix w :: world
  assume "Inv (tables w)"
  with assms(1) have "Inv (tables (snd (m w)))" by (simp add: keeps_def)
  then show "Inv (tables (snd (ecatch m h w)))"
    using assms(2) by (cases "m w"; cases "fst (m w)") (simp_all add: ecatch_def keeps_def)
qed

lemma keeps_if [keeps_intros]:
  "(b \<Longrightarrow> keeps Inv m) \<Longrightarrow> (\<not> b \<Longrightarrow> keeps Inv m') \<Longrightarrow> keeps Inv (if b then m else m')"
  by simp

lemma keeps_option [keeps_intros]:
  "(x = None \<Longrightarrow> keeps Inv m) \<Longrightarrow> (\<And>y. x = Some y \<Longrightarrow> keeps Inv (f y)) \<Longrightarrow>
   keeps Inv (case x of None \<Rightarrow> m | Some y \<Rightarrow> f y)"
  by (cases x) auto

lemma keeps_outcome [keeps_intros]:
  "(x = Committed \<Longrightarrow> keeps Inv a) \<Longrightarrow> (x = Cancelled \<Longrightarrow> keeps Inv b) \<Longrightarrow> (x = Failed \<Longrightarrow> keeps Inv c) \<Longrightarrow>
   keeps Inv (case x of Committed \<Rightarrow> a | Cancelled \<Rightarrow> b | Failed \<Rightarrow> c)"
  by (cases x) auto

lemma keeps_prod [keeps_intros]:
  "(\<And>a b. x = (a, b) \<Longrightarrow> keeps Inv (f a b)) \<Longrightarrow> keeps Inv (case x of (a, b) \<Rightarrow> f a b)"
  by (cases x) auto

end

section \<open>Invariants of single items\<close>

text \<open>
  A property of every item of every table. An action is safe for it when it takes an item that has
  the property and meets the condition of the action to one that has it again; a batch of safe
  actions preserves the property, whatever the other items are.
\<close>

type_synonym item_prop = "string \<Rightarrow> key \<Rightarrow> dict option \<Rightarrow> bool"

definition all_items :: "item_prop \<Rightarrow> db \<Rightarrow> bool" where
  "all_items P db = (\<forall>t k. P t k (db t k))"

definition item_safe :: "item_prop \<Rightarrow> action \<Rightarrow> bool" where
  "item_safe P a = (\<forall>it. P (fst (target a)) (snd (target a)) it \<longrightarrow> cond_holds (guard a) (contents it) \<longrightarrow>
     list_all (\<lambda>u. addable u (contents it)) (updates a) \<longrightarrow> P (fst (target a)) (snd (target a)) (after a it))"

lemma item_safe_check [simp]: "item_safe P (ConditionCheck t k c)"
  by (simp add: item_safe_def)

lemma batch_keeps_items:
  assumes "list_all (item_safe P) acts"
  shows "batch_keeps (all_items P) acts"
  unfolding batch_keeps_def all_items_def
proof (intro allI impI)
  fix db t k
  assume P: "\<forall>t k. P t k (db t k)" and holds: "batch_holds acts db"
  from holds show "P t k (commit acts db t k)"
  proof (cases rule: commit_cases [of acts db t k])
    case 1
    from P have "P t k (db t k)" by blast
    with 1(1) show ?thesis by metis
  next
    case (2 a)
    from assms 2(1) have "item_safe P a" by (simp add: list_all_iff)
    moreover from P have "P t k (db t k)" by blast
    moreover from 2(2,3) have "cond_holds (guard a) (contents (db t k))"
        "list_all (\<lambda>u. addable u (contents (db t k))) (updates a)" by (simp_all add: holds_at_def Let_def)
    ultimately have "P t k (after a (db t k))" using 2(2) unfolding item_safe_def by (metis fst_conv snd_conv)
    with 2(4) show ?thesis by metis
  qed
qed

locale guarded_items =
  fixes E :: env and P :: item_prop
  assumes item_service: "transact_service (transact E)"
    and item_peers: "all_items P db \<Longrightarrow> all_items P (peers E i db)"
begin

sublocale guarded_db E "all_items P"
  by unfold_locales (use item_service item_peers in \<open>auto simp: transact_service_def\<close>)

lemma keeps_batch [keeps_intros]: "list_all (item_safe P) acts \<Longrightarrow> keeps (all_items P) (e_transact E acts)"
  by (intro keeps_transact batch_keeps_items)

end

text \<open>An undisturbed environment: no other writer, no failing read, the reference service.\<close>

definition quiet :: "env \<Rightarrow> bool" where
  "quiet E = (peers E = (\<lambda>_ db. db) \<and> older E = (\<lambda>_ db. db) \<and> read_fails E = (\<lambda>_. False) \<and> transact E = ref_transact)"

definition quiet_env :: "int \<Rightarrow> (string \<Rightarrow> string \<Rightarrow> string) \<Rightarrow> env" where
  "quiet_env now h = \<lparr>clock = (\<lambda>_. now), wall_nanos = (\<lambda>_. now * 10 ^ 9), peers = (\<lambda>_ db. db), older = (\<lambda>_ db. db), read_fails = (\<lambda>_. False),
     transact = ref_transact, hmac_hex = h, sha256_hex = (\<lambda>s. s),
     random_hex = (\<lambda>i n. replicate (2 * n) CHR ''0''), time_left = (\<lambda>_. True),
     index_page = (\<lambda>i t k b n c. ([], [])), index_query = (\<lambda>i t x k. [])\<rparr>"

lemma quiet_env: "quiet (quiet_env now h)" "transact_service (transact (quiet_env now h))"
  by (simp_all add: quiet_def quiet_env_def reference.transact_service_axioms)

lemma quiet_env_sel [simp]:
  "clock (quiet_env now h) i = now" "peers (quiet_env now h) i db = db"
  "read_fails (quiet_env now h) i = False" "transact (quiet_env now h) = ref_transact"
  "hmac_hex (quiet_env now h) = h"
  by (simp_all add: quiet_env_def)

lemma quiet_get: "quiet E \<Longrightarrow> e_get E t k w = (Inr (tables w t k), w\<lparr>tick := Suc (tick w)\<rparr>)"
  by (simp add: quiet_def e_get_def)

lemma quiet_read: "quiet E \<Longrightarrow> e_read E t k w = (Inr (tables w t k), w\<lparr>tick := Suc (tick w)\<rparr>)"
  by (simp add: quiet_def e_read_def)

lemma quiet_transact:
  "quiet E \<Longrightarrow> e_transact E acts w =
     (if batch_holds acts (tables w)
      then (Inr Committed, w\<lparr>tables := commit acts (tables w), tick := Suc (tick w)\<rparr>)
      else (Inr Cancelled, w\<lparr>tick := Suc (tick w)\<rparr>))"
  by (simp add: quiet_def e_transact_def ref_transact_def)

interpretation quiet_ref: guarded_db "quiet_env now h" "\<lambda>_. True"
  by unfold_locales (simp_all add: reference.committed reference.cancelled reference.failed)


interpretation quiet_items: guarded_items "quiet_env now h" P
  by unfold_locales (simp_all add: reference.committed reference.cancelled reference.failed)

end
