(* ===== verification/Json.thy ===== *)
theory Json
  imports PyText "HOL-Library.List_Lexorder"
begin

text \<open>
  \<open>json.dumps(value, sort_keys=..., separators=(',', ':'), ensure_ascii=False, allow_nan=False)\<close>,
  the canonical text that digests are taken of, and the comparison of digests. A value that JSON
  cannot carry (bytes, a \<open>Decimal\<close>) is a \<open>TypeError\<close>.
\<close>

definition json_char :: "char \<Rightarrow> string" where
  "json_char c =
     (if c = CHR 0x22 then [CHR 0x5C, CHR 0x22] else if c = CHR 0x5C then [CHR 0x5C, CHR 0x5C]
      else if code c = 10 then [CHR 0x5C, CHR ''n''] else if code c = 13 then [CHR 0x5C, CHR ''r'']
      else if code c = 9 then [CHR 0x5C, CHR ''t''] else if code c = 12 then [CHR 0x5C, CHR ''f'']
      else if code c = 8 then [CHR 0x5C, CHR ''b'']
      else if code c < 32 then CHR 0x5C # CHR ''u'' # fmt_x 4 (int (code c)) else [c])"

definition json_text :: "string \<Rightarrow> string" where
  "json_text s = CHR 0x22 # concat (map json_char s) @ [CHR 0x22]"

definition brackets :: "char \<Rightarrow> char \<Rightarrow> string list \<Rightarrow> string" where
  "brackets l r parts = l # join_on CHR '','' parts @ [r]"

fun json_dumps :: "bool \<Rightarrow> pyval \<Rightarrow> string option" where
  "json_dumps s PNone = Some ''null''"
| "json_dumps s (PBool b) = Some (if b then ''true'' else ''false'')"
| "json_dumps s (PInt n) = Some (show_int n)"
| "json_dumps s (PStr t) = Some (json_text t)"
| "json_dumps s (PList xs) = map_option (brackets CHR ''['' CHR '']'') (those (map (json_dumps s) xs))"
| "json_dumps s (PDict d) =
     map_option (\<lambda>kts. brackets CHR ''{'' CHR ''}''
         (map (\<lambda>kt. json_text (fst kt) @ CHR '':'' # snd kt) (if s then sort_key fst kts else kts)))
       (those (map (\<lambda>kv. map_option (Pair (fst kv)) (json_dumps s (snd kv))) d))"
| "json_dumps s (PDec m e) = None"
| "json_dumps s (PBytes b) = None"

definition dumps :: "bool \<Rightarrow> pyval \<Rightarrow> string result" where
  "dumps s v = (case json_dumps s v of None \<Rightarrow> Inl TypeError | Some t \<Rightarrow> Inr t)"

definition ascii_json :: "string \<Rightarrow> string" where   \<comment> \<open>\<open>ensure_ascii=True\<close>\<close>
  "ascii_json = (\<lambda>t. concat (map (\<lambda>c. if code c < 127 then [c] else CHR 0x5C # CHR ''u'' # fmt_x 4 (int (code c))) t))"

section \<open>Comparison of digests\<close>

definition is_ascii :: "string \<Rightarrow> bool" where
  "is_ascii s = list_all (\<lambda>c. code c < 128) s"

definition compare_digest :: "string \<Rightarrow> string \<Rightarrow> bool result" where
  \<comment> \<open>\<open>hmac.compare_digest(a, b)\<close> of two texts, which must be ASCII\<close>
  "compare_digest a b = (if is_ascii a \<and> is_ascii b then Inr (a = b) else Inl TypeError)"

fun repr_ascii :: "pyval \<Rightarrow> bool" where
  \<comment> \<open>\<open>str(v)\<close> is ASCII: \<open>repr\<close> escapes what is not printable, and the rest below 256 is printable\<close>
  "repr_ascii (PStr s) = list_all (\<lambda>c. code c \<le> 160 \<or> code c = 173) s"
| "repr_ascii (PList xs) = list_all repr_ascii xs"
| "repr_ascii (PDict d) = list_all (\<lambda>kv. list_all (\<lambda>c. code c \<le> 160 \<or> code c = 173) (fst kv) \<and> repr_ascii (snd kv)) d"
| "repr_ascii _ = True"

definition digest_equals :: "pyval \<Rightarrow> string \<Rightarrow> bool result" where
  \<comment> \<open>\<open>hmac.compare_digest(str(v), s)\<close> for a text \<open>s\<close> without quotes, brackets and spaces\<close>
  "digest_equals v s =
     (case v of
        PStr t \<Rightarrow> compare_digest t s
      | _ \<Rightarrow> if repr_ascii v \<and> is_ascii s then Inr (text_is v s) else Inl TypeError)"

lemma compare_digest_Inr: "compare_digest a b = Inr r \<longleftrightarrow> is_ascii a \<and> is_ascii b \<and> r = (a = b)"
  by (auto simp: compare_digest_def)

lemma digest_equals_PStr [simp]: "digest_equals (PStr t) s = compare_digest t s"
  by (simp add: digest_equals_def)

end
