(* ===== verification/PurchaseUsage.thy ===== *)
theory PurchaseUsage
  imports Effects Json
begin

text \<open>
  Accounting of a purchased period (\<open>shared_check_authority/purchase_usage.py\<close>). Two rows
  count the checks of a paid period: the account's \<open>PERIOD\<close> row and a row shared by every
  account that ever owned the purchase, addressed by digests only. The functions build the
  conditional actions that keep the two in step; every one is composed by its caller into one
  transaction.
\<close>

definition OWNER_POLICY :: string where "OWNER_POLICY = ''owner-2026-09-20-v1''"
definition PAID_COMPLETED_CHECKS :: int where "PAID_COMPLETED_CHECKS = 200"
definition TRIAL_COMPLETED_CHECKS :: int where "TRIAL_COMPLETED_CHECKS = 10"
definition TRIAL_SECONDS :: int where "TRIAL_SECONDS = 7 * 24 * 60 * 60"
definition RETENTION_SECONDS :: int where "RETENTION_SECONDS = 604800"

definition V1_FIELDS :: "string list" where
  "V1_FIELDS = [''PK'', ''SK'', ''recordType'', ''schemaVersion'', ''policyVersion'', ''startEpoch'',
    ''endEpoch'', ''limit'', ''usedChecks'', ''reservedChecks'', ''expiresAt'', ''GSI1PK'', ''GSI1SK'']"

definition FIELDS :: "string list" where
  "FIELDS = V1_FIELDS @ [''accessUntilEpoch'']"

abbreviation USAGE_INVALID :: exc where
  "USAGE_INVALID \<equiv> AuthorityError ''PURCHASE_USAGE_INVALID''"

text \<open>Keys of the shared row; a key is a \<open>dict\<close> of exactly \<open>PK\<close> and \<open>SK\<close> in the source.\<close>

definition usage_key :: "pyval \<Rightarrow> pyval \<Rightarrow> key result" where
  "usage_key root_digest order_digest =
     (case (as_str root_digest, as_str order_digest) of
        (Some r, Some d) \<Rightarrow>
          if fullmatch is_hex 64 64 r \<and> fullmatch is_hex 64 64 d
          then Inr (''V1#PURCHASE_USAGE#'' @ r, ''PERIOD#'' @ d) else Inl USAGE_INVALID
      | _ \<Rightarrow> Inl USAGE_INVALID)"

definition valid_key :: "pyval \<Rightarrow> key result" where
  "valid_key value =
     (case as_dict value of
        None \<Rightarrow> Inl USAGE_INVALID
      | Some d \<Rightarrow>
          (case (as_str (dget d ''PK''), as_str (dget d ''SK'')) of
             (Some pk, Some sk) \<Rightarrow>
               if has_keys d [''PK'', ''SK'']
                 \<and> prefixed ''V1#PURCHASE_USAGE#'' (fullmatch is_hex 64 64) pk
                 \<and> prefixed ''PERIOD#'' (fullmatch is_hex 64 64) sk
               then Inr (pk, sk) else Inl USAGE_INVALID
           | _ \<Rightarrow> Inl USAGE_INVALID))"

definition bounds :: "pyval \<Rightarrow> pyval \<Rightarrow> unit result" where
  "bounds start end =
     (case (integral start, integral end) of
        (Some s, Some e) \<Rightarrow> raise_if (\<not> (0 \<le> s \<and> s < e)) USAGE_INVALID
      | _ \<Rightarrow> Inl USAGE_INVALID)"

definition effective_access_end :: "pyval \<Rightarrow> int result" where
  "effective_access_end period =
     (case as_dict period of
        None \<Rightarrow> Inl USAGE_INVALID
      | Some d \<Rightarrow>
          (case (integral (dget d ''startEpoch''), integral (dget d ''endEpoch''),
                 integral (dget_or d ''accessUntilEpoch'' (dget d ''endEpoch''))) of
             (Some start, Some end, Some access) \<Rightarrow>
               if \<not> (0 \<le> start \<and> start < end) \<or> access < start then Inl USAGE_INVALID else Inr access
           | _ \<Rightarrow> Inl USAGE_INVALID))"

definition usage_deadline :: "pyval \<Rightarrow> int result" where
  "usage_deadline period = rbind (effective_access_end period) (\<lambda>a. Inr (a + RETENTION_SECONDS))"

definition expiry_sort :: "int \<Rightarrow> key \<Rightarrow> string" where
  \<comment> \<open>\<open>f'{deadline:012d}#{PK}#{SK}'\<close>, the sort key of the expiry index\<close>
  "expiry_sort deadline k = fmt_d 12 deadline @ ''#'' @ fst k @ ''#'' @ snd k"

definition new_period_usage :: "pyval \<Rightarrow> pyval \<Rightarrow> pyval \<Rightarrow> pyval \<Rightarrow> dict result" where
  "new_period_usage pointer start end access_until =
     rbind (valid_key pointer) (\<lambda>p.
     rbind (bounds start end) (\<lambda>_.
     let access = (if access_until = PNone then end else access_until) in
     rbind (effective_access_end (PDict [(''startEpoch'', start), (''endEpoch'', end), (''accessUntilEpoch'', access)])) (\<lambda>a.
     let deadline = a + RETENTION_SECONDS in
     Inr (key_item p @
       [(''recordType'', PStr ''V1_PURCHASE_USAGE''), (''schemaVersion'', PInt 2), (''policyVersion'', PStr OWNER_POLICY),
        (''startEpoch'', start), (''endEpoch'', end), (''accessUntilEpoch'', access), (''limit'', PInt PAID_COMPLETED_CHECKS),
        (''usedChecks'', PInt 0), (''reservedChecks'', PInt 0), (''expiresAt'', PInt deadline),
        (''GSI1PK'', PStr ''V1_EXPIRING''), (''GSI1SK'', PStr (expiry_sort deadline p))]))))"

definition validate :: "pyval \<Rightarrow> pyval \<Rightarrow> int \<Rightarrow> bool \<Rightarrow> dict result" where
  "validate row pointer now allow_expired =
     rbind (valid_key pointer) (\<lambda>p.
     case as_dict row of
       None \<Rightarrow> Inl USAGE_INVALID
     | Some d \<Rightarrow>
         let version = integral (dget d ''schemaVersion'');
             fields = (if version = Some 1 then V1_FIELDS else FIELDS) in
         rbind (raise_if ((version \<noteq> Some 1 \<and> version \<noteq> Some 2) \<or> \<not> has_keys d fields
             \<or> \<not> pyeq (dget d ''PK'') (PStr (fst p)) \<or> \<not> pyeq (dget d ''SK'') (PStr (snd p))
             \<or> \<not> pyeq (dget d ''recordType'') (PStr ''V1_PURCHASE_USAGE'')
             \<or> \<not> pyeq (dget d ''policyVersion'') (PStr OWNER_POLICY)
             \<or> integral (dget d ''limit'') \<noteq> Some PAID_COMPLETED_CHECKS
             \<or> list_ex (\<lambda>k. integral (dget d k) = None)
                 [''startEpoch'', ''endEpoch'', ''usedChecks'', ''reservedChecks'', ''expiresAt'']) USAGE_INVALID) (\<lambda>_.
         rbind (bounds (dget d ''startEpoch'') (dget d ''endEpoch'')) (\<lambda>_.
         rbind (usage_deadline row) (\<lambda>deadline.
         rbind (raise_if (inum d ''usedChecks'' < 0 \<or> inum d ''reservedChecks'' < 0
             \<or> inum d ''usedChecks'' + inum d ''reservedChecks'' > PAID_COMPLETED_CHECKS
             \<or> inum d ''expiresAt'' \<noteq> deadline
             \<or> \<not> pyeq (dget d ''GSI1PK'') (PStr ''V1_EXPIRING'')
             \<or> \<not> pyeq (dget d ''GSI1SK'') (PStr (expiry_sort (inum d ''expiresAt'') p))
             \<or> now < 0 \<or> (\<not> allow_expired \<and> now \<ge> inum d ''expiresAt'')) USAGE_INVALID) (\<lambda>_.
         Inr d)))))"

definition exact_condition :: "dict \<Rightarrow> cond" where
  \<comment> \<open>\<open>#f0 = :v0 AND #f1 = :v1 ...\<close> over the sorted fields of the row\<close>
  "exact_condition row = all_of (map (\<lambda>f. Cmp CEq f (dget row f)) (sort (map fst row)))"

definition access_window_actions :: "string \<Rightarrow> pyval \<Rightarrow> pyval \<Rightarrow> int \<Rightarrow> int \<Rightarrow> action list result" where
  "access_window_actions table pointer observed_global access_until now =
     rbind (validate observed_global pointer now True) (\<lambda>observed.
     rbind (new_period_usage pointer (dget observed ''startEpoch'') (dget observed ''endEpoch'') (PInt access_until)) (\<lambda>base.
     let proposed = dset ''reservedChecks'' (dget observed ''reservedChecks'')
                      (dset ''usedChecks'' (dget observed ''usedChecks'') base) in
     rbind (effective_access_end (PDict observed)) (\<lambda>old_access.
     rbind (raise_if (access_until > old_access \<and> now \<ge> inum observed ''expiresAt'')
              (AuthorityError ''PURCHASE_USAGE_RECONCILIATION_REQUIRED'')) (\<lambda>_.
     rbind (valid_key pointer) (\<lambda>p.
     let condition = exact_condition observed in
     if inum proposed ''expiresAt'' \<le> now then
       rbind (raise_if (inum observed ''reservedChecks'' \<noteq> 0)
                (AuthorityError ''PURCHASE_USAGE_RECONCILIATION_REQUIRED'')) (\<lambda>_.
       Inr [Delete table p condition])
     else if pyeq (PDict proposed) (PDict observed) then Inr [ConditionCheck table p condition]
     else Inr [Put table proposed condition])))))"

definition funding_actions ::
  "string \<Rightarrow> pyval \<Rightarrow> int \<Rightarrow> int \<Rightarrow> pyval \<Rightarrow> int \<Rightarrow> int option \<Rightarrow> (action list \<times> (pyval \<times> pyval)) result" where
  \<comment> \<open>the second component is the seed: \<open>usedChecks\<close> and \<open>reservedChecks\<close>\<close>
  "funding_actions table pointer start end observed_global now access_until =
     (let access = (case access_until of None \<Rightarrow> end | Some a \<Rightarrow> a) in
     rbind (new_period_usage pointer (PInt start) (PInt end) (PInt access)) (\<lambda>initial.
     rbind (raise_if (access < end \<or> \<not> (start \<le> now \<and> now < access)) USAGE_INVALID) (\<lambda>_.
     if observed_global = PNone then
       rbind (raise_if (access \<noteq> end) (AuthorityError ''PURCHASE_USAGE_RECONCILIATION_REQUIRED'')) (\<lambda>_.
       Inr ([Put table initial (NotExists ''PK'')], (PInt 0, PInt 0)))
     else
       rbind (validate observed_global pointer now False) (\<lambda>observed.
       rbind (raise_if (inum observed ''startEpoch'' \<noteq> start \<or> inum observed ''endEpoch'' \<noteq> end) USAGE_INVALID) (\<lambda>_.
       rbind (access_window_actions table pointer (PDict observed) access now) (\<lambda>acts.
       Inr (acts, (dget observed ''usedChecks'', dget observed ''reservedChecks''))))))))"

definition validate_period :: "pyval \<Rightarrow> key result" where
  "validate_period period =
     (case as_dict period of
        None \<Rightarrow> Inl USAGE_INVALID
      | Some d \<Rightarrow>
          rbind (raise_if (\<not> pyeq (dget d ''recordType'') (PStr ''V1_ALLOWANCE_PERIOD'')
              \<or> \<not> pyeq (dget d ''policyVersion'') (PStr OWNER_POLICY)
              \<or> integral (dget d ''limit'') \<noteq> Some PAID_COMPLETED_CHECKS
              \<or> integral (dget d ''grantRevision'') = None \<or> inum d ''grantRevision'' < 1
              \<or> list_ex (\<lambda>k. integral (dget d k) = None) [''startEpoch'', ''endEpoch'', ''usedChecks'', ''reservedChecks'']
              \<or> inum d ''usedChecks'' < 0 \<or> inum d ''reservedChecks'' < 0
              \<or> inum d ''usedChecks'' + inum d ''reservedChecks'' > PAID_COMPLETED_CHECKS) USAGE_INVALID) (\<lambda>_.
          rbind (bounds (dget d ''startEpoch'') (dget d ''endEpoch'')) (\<lambda>_.
          rbind (effective_access_end period) (\<lambda>_.
          valid_key (dget d ''purchaseUsageKey'')))))"

section \<open>Operations that read the tables\<close>

definition read_usage :: "env \<Rightarrow> string \<Rightarrow> key \<Rightarrow> int \<Rightarrow> dict eff" where
  "read_usage E table pointer now =
     ebind (elift (valid_key (PDict (key_item pointer)))) (\<lambda>p.
     ebind (e_get E table p) (\<lambda>row.
     case row of
       None \<Rightarrow> eraise (AuthorityError ''PURCHASE_USAGE_UNAVAILABLE'')
     | Some d \<Rightarrow> elift (validate (PDict d) (PDict (key_item p)) now False)))"

definition same_number :: "dict \<Rightarrow> dict \<Rightarrow> string \<Rightarrow> bool" where
  "same_number d e k = pyeq (dget d k) (dget e k)"

definition global_for_period :: "env \<Rightarrow> string \<Rightarrow> dict \<Rightarrow> int \<Rightarrow> bool \<Rightarrow> dict option eff" where
  "global_for_period E table period now allow_expired =
     ebind (elift (validate_period (PDict period))) (\<lambda>pointer.
     ebind (elift (usage_deadline (PDict period))) (\<lambda>deadline.
     if allow_expired \<and> now \<ge> deadline then eret None
     else
       ebind (read_usage E table pointer now) (\<lambda>observed.
       ebind (elift (effective_access_end (PDict observed))) (\<lambda>a.
       ebind (elift (effective_access_end (PDict period))) (\<lambda>b.
       ebind (eraise_if (list_ex (\<lambda>k. \<not> same_number observed period k)
                  [''startEpoch'', ''endEpoch'', ''limit'', ''usedChecks'', ''reservedChecks''] \<or> a \<noteq> b)
                (AuthorityError ''PURCHASE_USAGE_MISMATCH'')) (\<lambda>_.
       eret (Some observed)))))))"

definition local_counter_action :: "string \<Rightarrow> dict \<Rightarrow> int \<Rightarrow> int \<Rightarrow> action" where
  "local_counter_action table row reserved_delta used_delta =
     Update table (item_key row)
       [UAdd ''reservedChecks'' reserved_delta, UAdd ''usedChecks'' used_delta] (exact_condition row)"

definition counter_action :: "string \<Rightarrow> dict \<Rightarrow> int \<Rightarrow> int \<Rightarrow> int \<Rightarrow> action result" where
  "counter_action table observed reserved_delta used_delta now =
     rbind (valid_key (PDict [(''PK'', dget observed ''PK''), (''SK'', dget observed ''SK'')])) (\<lambda>pointer.
     rbind (validate (PDict observed) (PDict (key_item pointer)) now False) (\<lambda>_.
     rbind (effective_access_end (PDict observed)) (\<lambda>access.
     rbind (raise_if (used_delta < 0
         \<or> inum observed ''reservedChecks'' + reserved_delta < 0
         \<or> inum observed ''usedChecks'' + used_delta + inum observed ''reservedChecks'' + reserved_delta > PAID_COMPLETED_CHECKS
         \<or> (reserved_delta > 0 \<and> now \<ge> access)) USAGE_INVALID) (\<lambda>_.
     Inr (local_counter_action table observed reserved_delta used_delta)))))"

definition paired_counter_actions ::
  "env \<Rightarrow> string \<Rightarrow> dict \<Rightarrow> int \<Rightarrow> int \<Rightarrow> int \<Rightarrow> bool \<Rightarrow> action list eff" where
  "paired_counter_actions E table period reserved_delta used_delta now allow_expired =
     ebind (global_for_period E table period now allow_expired) (\<lambda>observed.
     ebind (eraise_if (observed = None \<and> used_delta \<noteq> 0) USAGE_INVALID) (\<lambda>_.
     ebind (eraise_if (inum period ''reservedChecks'' + reserved_delta < 0) USAGE_INVALID) (\<lambda>_.
     case observed of
       None \<Rightarrow> eret [local_counter_action table period reserved_delta used_delta]
     | Some g \<Rightarrow>
         ebind (elift (counter_action table g reserved_delta used_delta now)) (\<lambda>act.
         eret [local_counter_action table period reserved_delta used_delta, act]))))"

definition period_for_receipt :: "env \<Rightarrow> string \<Rightarrow> string \<Rightarrow> dict \<Rightarrow> dict eff" where
  "period_for_receipt E table part receipt =
     ebind (eraise_if (\<not> pyeq (dget receipt ''recordType'') (PStr ''V1_CHECK_RECEIPT'')
         \<or> \<not> pyeq (dget receipt ''policyVersion'') (PStr OWNER_POLICY)
         \<or> \<not> pyeq (dget receipt ''basis'') (PStr ''paid'') \<or> \<not> pyeq (dget receipt ''state'') (PStr ''ADMITTED'')
         \<or> \<not> str_matches (prefixed ''PERIOD#'' (fullmatch is_ident 1 64)) (dget receipt ''periodSK'')
         \<or> integral (dget receipt ''grantRevision'') = None) USAGE_INVALID) (\<lambda>_.
     ebind (elift (valid_key (dget receipt ''purchaseUsageKey''))) (\<lambda>pointer.
     case dget receipt ''periodSK'' of
       PStr sk \<Rightarrow>
         ebind (e_get E table (part, sk)) (\<lambda>row.
         let period = (case row of None \<Rightarrow> PNone | Some d \<Rightarrow> PDict d) in
         ebind (elift (validate_period period)) (\<lambda>found.
         let d = contents row in
         ebind (eraise_if (found \<noteq> pointer \<or> \<not> pyeq (dget d ''grantRevision'') (dget receipt ''grantRevision''))
                  (AuthorityError ''PURCHASE_USAGE_MISMATCH'')) (\<lambda>_.
         let admitted_access = integral (dget_or receipt ''accessUntilEpoch'' (dget d ''endEpoch'')) in
         ebind (eraise_if (case admitted_access of None \<Rightarrow> True | Some a \<Rightarrow> \<not> inum d ''startEpoch'' \<le> a)
                  (AuthorityError ''PURCHASE_USAGE_MISMATCH'')) (\<lambda>_.
         eret d))))
     | _ \<Rightarrow> eraise USAGE_INVALID))"

section \<open>What the checks establish\<close>

text \<open>A usage row as every function may rely on it after \<open>validate\<close>.\<close>

definition usage_ok :: "key \<Rightarrow> dict \<Rightarrow> bool" where
  "usage_ok p d =
     (dget d ''PK'' = PStr (fst p) \<and> dget d ''SK'' = PStr (snd p)
      \<and> integral (dget d ''limit'') = Some PAID_COMPLETED_CHECKS
      \<and> (\<exists>u r. integral (dget d ''usedChecks'') = Some u \<and> integral (dget d ''reservedChecks'') = Some r
           \<and> 0 \<le> u \<and> 0 \<le> r \<and> u + r \<le> PAID_COMPLETED_CHECKS)
      \<and> (\<exists>s e a. integral (dget d ''startEpoch'') = Some s \<and> integral (dget d ''endEpoch'') = Some e
           \<and> effective_access_end (PDict d) = Inr a \<and> 0 \<le> s \<and> s < e \<and> s \<le> a
           \<and> integral (dget d ''expiresAt'') = Some (a + RETENTION_SECONDS)))"

lemma bounds_Inr: "bounds s e = Inr u \<longleftrightarrow>
    (\<exists>a b. integral s = Some a \<and> integral e = Some b \<and> 0 \<le> a \<and> a < b)"
  by (auto simp: bounds_def split: option.splits)

lemma effective_access_end_Inr:
  "effective_access_end (PDict d) = Inr a \<Longrightarrow>
     \<exists>s e. integral (dget d ''startEpoch'') = Some s \<and> integral (dget d ''endEpoch'') = Some e
       \<and> 0 \<le> s \<and> s < e \<and> s \<le> a"
  by (auto simp: effective_access_end_def split: option.splits if_splits)

lemma usage_deadline_Inr:
  "usage_deadline v = Inr t \<longleftrightarrow> effective_access_end v = Inr (t - RETENTION_SECONDS)"
  by (auto simp: usage_deadline_def rbind_Inr_iff)

lemma validate_Inr:
  assumes "validate row pointer now ae = Inr d"
  shows "row = PDict d" "\<exists>p. valid_key pointer = Inr p \<and> usage_ok p d"
    "\<not> ae \<Longrightarrow> now < inum d ''expiresAt''" "0 \<le> now"
proof -
  from assms obtain p where p: "valid_key pointer = Inr p"
    unfolding validate_def rbind_Inr_iff by blast
  from assms p obtain d' where row': "row = PDict d'"
    by (cases "as_dict row") (simp_all add: validate_def)
  from assms p row' have d': "d' = d"
    by (simp add: validate_def rbind_Inr_iff Let_def del: veq_str)
  note row = row' [unfolded d']
  show "row = PDict d" by fact
  have f: "integral (dget d ''limit'') = Some PAID_COMPLETED_CHECKS"
      "dget d ''PK'' = PStr (fst p)" "dget d ''SK'' = PStr (snd p)"
      "integral (dget d k) = Some (inum d k)"
      if "k \<in> {''startEpoch'', ''endEpoch'', ''usedChecks'', ''reservedChecks'', ''expiresAt''}" for k
    using assms p row that
    by (auto simp: validate_def rbind_Inr_iff Let_def intro!: integral_inum)
  have g: "0 \<le> inum d ''usedChecks''" "0 \<le> inum d ''reservedChecks''"
      "inum d ''usedChecks'' + inum d ''reservedChecks'' \<le> PAID_COMPLETED_CHECKS"
      "usage_deadline row = Inr (inum d ''expiresAt'')" "\<not> ae \<longrightarrow> now < inum d ''expiresAt''" "0 \<le> now"
    using assms p row by (auto simp: validate_def rbind_Inr_iff Let_def)
  then show "\<not> ae \<Longrightarrow> now < inum d ''expiresAt''" "0 \<le> now" by simp_all
  from g row have a: "effective_access_end (PDict d) = Inr (inum d ''expiresAt'' - RETENTION_SECONDS)"
    by (simp add: usage_deadline_Inr)
  have "usage_ok p d"
    unfolding usage_ok_def using f g(1,2,3) a effective_access_end_Inr [OF a] by auto
  with p show "\<exists>p. valid_key pointer = Inr p \<and> usage_ok p d" by blast
qed

lemma usage_okD:
  assumes "usage_ok p d"
  shows "0 \<le> inum d ''usedChecks''" "0 \<le> inum d ''reservedChecks''"
    "inum d ''usedChecks'' + inum d ''reservedChecks'' \<le> PAID_COMPLETED_CHECKS"
    "integral (dget d ''usedChecks'') = Some (inum d ''usedChecks'')"
    "integral (dget d ''reservedChecks'') = Some (inum d ''reservedChecks'')"
  using assms by (auto simp: usage_ok_def inum_def)

text \<open>\<open>exact_condition\<close> holds exactly on items that agree with the row on its fields.\<close>

lemma cond_holds_all_of: "cond_holds (all_of cs) d \<longleftrightarrow> (\<forall>c \<in> set cs. cond_holds c d)"
  by (induction cs rule: all_of.induct) auto

lemma exact_condition_holds:
  "cond_holds (exact_condition row) d \<longleftrightarrow>
     (\<forall>f \<in> set (map fst row). \<exists>v. map_of d f = Some v \<and> aveq v (dget row f))"
  by (auto simp: exact_condition_def cond_holds_all_of split: option.splits)

lemma exact_condition_self: "wf_val (PDict row) \<Longrightarrow> cond_holds (exact_condition row) row"
  by (fastforce simp: exact_condition_holds list_all_iff dget_def intro: veq_refl)

lemma exact_integral:
  assumes "cond_holds (exact_condition row) d" "dhas row f"
  shows "integral (dget d f) = integral (dget row f)"
proof -
  from assms(2) have "f \<in> set (map fst row)" by (auto simp: dhas_def map_of_eq_None_iff)
  with assms(1) obtain v where "map_of d f = Some v" "aveq v (dget row f)"
    by (auto simp: exact_condition_holds)
  then show ?thesis by (auto simp: dget_def dest: aveq_integral)
qed

section \<open>Creating and moving the window of a usage row\<close>

lemma valid_key_Inr:
  assumes "valid_key v = Inr p"
  shows "\<exists>d. v = PDict d \<and> dget d ''PK'' = PStr (fst p) \<and> dget d ''SK'' = PStr (snd p)"
    "valid_key (PDict (key_item p)) = Inr p"
proof -
  from assms obtain d where v: "v = PDict d" by (cases "as_dict v") (simp_all add: valid_key_def)
  from assms v obtain pk sk where s: "dget d ''PK'' = PStr pk" "dget d ''SK'' = PStr sk"
    by (cases "as_str (dget d ''PK'')"; cases "as_str (dget d ''SK'')") (simp_all add: valid_key_def)
  from assms v s have p: "p = (pk, sk)"
    and ok: "prefixed ''V1#PURCHASE_USAGE#'' (fullmatch is_hex 64 64) pk" "prefixed ''PERIOD#'' (fullmatch is_hex 64 64) sk"
    by (simp_all add: valid_key_def split: if_splits)
  from v s p show "\<exists>d. v = PDict d \<and> dget d ''PK'' = PStr (fst p) \<and> dget d ''SK'' = PStr (snd p)" by simp
  from p ok show "valid_key (PDict (key_item p)) = Inr p"
    by (simp add: valid_key_def key_item_def has_keys_def)
qed

lemma valid_key_item: "valid_key (PDict (key_item k)) = Inr p \<Longrightarrow> p = k"
  by (auto simp: valid_key_def key_item_def split: if_splits)

lemma new_period_usage_Inr:
  assumes "new_period_usage pointer start end access_until = Inr d"
  defines "access \<equiv> (if access_until = PNone then end else access_until)"
  obtains p s e a where "valid_key pointer = Inr p" "integral start = Some s" "integral end = Some e"
    "integral access = Some a" "0 \<le> s" "s < e" "s \<le> a"
    "d = key_item p @
       [(''recordType'', PStr ''V1_PURCHASE_USAGE''), (''schemaVersion'', PInt 2), (''policyVersion'', PStr OWNER_POLICY),
        (''startEpoch'', start), (''endEpoch'', end), (''accessUntilEpoch'', access), (''limit'', PInt PAID_COMPLETED_CHECKS),
        (''usedChecks'', PInt 0), (''reservedChecks'', PInt 0), (''expiresAt'', PInt (a + RETENTION_SECONDS)),
        (''GSI1PK'', PStr ''V1_EXPIRING''), (''GSI1SK'', PStr (expiry_sort (a + RETENTION_SECONDS) p))]"
proof -
  from assms(1) obtain p a where p: "valid_key pointer = Inr p" "bounds start end = Inr ()"
      "effective_access_end (PDict [(''startEpoch'', start), (''endEpoch'', end), (''accessUntilEpoch'', access)]) = Inr a"
    and d: "d = key_item p @
       [(''recordType'', PStr ''V1_PURCHASE_USAGE''), (''schemaVersion'', PInt 2), (''policyVersion'', PStr OWNER_POLICY),
        (''startEpoch'', start), (''endEpoch'', end), (''accessUntilEpoch'', access), (''limit'', PInt PAID_COMPLETED_CHECKS),
        (''usedChecks'', PInt 0), (''reservedChecks'', PInt 0), (''expiresAt'', PInt (a + RETENTION_SECONDS)),
        (''GSI1PK'', PStr ''V1_EXPIRING''), (''GSI1SK'', PStr (expiry_sort (a + RETENTION_SECONDS) p))]"
    unfolding new_period_usage_def rbind_Inr_iff Let_def access_def by auto
  from p(2) obtain s e where "integral start = Some s" "integral end = Some e" "0 \<le> s" "s < e"
    by (auto simp: bounds_Inr)
  moreover from p(3) this have "integral access = Some a" "s \<le> a"
    by (auto simp: effective_access_end_def split: option.splits if_splits)
  ultimately show thesis by (intro that [OF p(1) _ _ _ _ _ _ d])
qed

text \<open>
  C17 (roundtrip). A freshly built usage row passes the strict validation of every later reader
  until its deadline: schema, key, bounds, deadline and index key are what \<open>validate\<close> recomputes.
\<close>

theorem new_usage_validates:
  assumes "new_period_usage pointer start end access_until = Inr d" "0 \<le> now" "now < inum d ''expiresAt''"
  shows "validate (PDict d) pointer now False = Inr d"
proof -
  obtain p s e a where f: "valid_key pointer = Inr p" "integral start = Some s" "integral end = Some e"
      "integral (if access_until = PNone then end else access_until) = Some a" "0 \<le> s" "s < e" "s \<le> a"
    and d: "d = key_item p @
       [(''recordType'', PStr ''V1_PURCHASE_USAGE''), (''schemaVersion'', PInt 2), (''policyVersion'', PStr OWNER_POLICY),
        (''startEpoch'', start), (''endEpoch'', end), (''accessUntilEpoch'', if access_until = PNone then end else access_until), (''limit'', PInt PAID_COMPLETED_CHECKS),
        (''usedChecks'', PInt 0), (''reservedChecks'', PInt 0), (''expiresAt'', PInt (a + RETENTION_SECONDS)),
        (''GSI1PK'', PStr ''V1_EXPIRING''), (''GSI1SK'', PStr (expiry_sort (a + RETENTION_SECONDS) p))]"
    by (rule new_period_usage_Inr [OF assms(1)])
  have keys: "has_keys d FIELDS"
    by (auto simp: d has_keys_def FIELDS_def V1_FIELDS_def key_item_def)
  have "usage_deadline (PDict d) = Inr (a + RETENTION_SECONDS)"
    using f by (auto simp: usage_deadline_def effective_access_end_def d key_item_def)
  with f keys assms(2,3) show ?thesis
    by (simp add: validate_def d [symmetric] Let_def)
      (simp add: d key_item_def bounds_def inum_def PAID_COMPLETED_CHECKS_def)
qed

lemma effective_access_end_fields:
  "integral (dget d ''startEpoch'') = Some s \<Longrightarrow> integral (dget d ''endEpoch'') = Some e \<Longrightarrow>
   dhas d ''accessUntilEpoch'' \<Longrightarrow> integral (dget d ''accessUntilEpoch'') = Some a \<Longrightarrow>
   0 \<le> s \<Longrightarrow> s < e \<Longrightarrow> s \<le> a \<Longrightarrow> effective_access_end (PDict d) = Inr a"
  by (auto simp: effective_access_end_def dget_or_def dget_def dhas_def split: option.splits)

lemma veq_dict_field:
  "veq st (PDict d) (PDict e) \<Longrightarrow> (k, x) \<in> set d \<Longrightarrow> \<exists>y. map_of e k = Some y \<and> veq st x y"
  by (auto simp: veq_dict)

text \<open>The row a window change proposes: the observed counters and dates, the new window.\<close>

definition moved_row :: "key \<Rightarrow> dict \<Rightarrow> int \<Rightarrow> dict" where
  "moved_row p d access =
     key_item p @
       [(''recordType'', PStr ''V1_PURCHASE_USAGE''), (''schemaVersion'', PInt 2), (''policyVersion'', PStr OWNER_POLICY),
        (''startEpoch'', dget d ''startEpoch''), (''endEpoch'', dget d ''endEpoch''), (''accessUntilEpoch'', PInt access),
        (''limit'', PInt PAID_COMPLETED_CHECKS),
        (''usedChecks'', dget d ''usedChecks''), (''reservedChecks'', dget d ''reservedChecks''),
        (''expiresAt'', PInt (access + RETENTION_SECONDS)),
        (''GSI1PK'', PStr ''V1_EXPIRING''), (''GSI1SK'', PStr (expiry_sort (access + RETENTION_SECONDS) p))]"

lemma access_window_Inr:
  assumes "access_window_actions t pointer observed access now = Inr acts"
  obtains p d old where "valid_key pointer = Inr p" "observed = PDict d" "usage_ok p d"
    "effective_access_end (PDict d) = Inr old" "inum d ''startEpoch'' \<le> access"
    "\<not> (old < access \<and> inum d ''expiresAt'' \<le> now)"
    "acts = (if access + RETENTION_SECONDS \<le> now then [Delete t p (exact_condition d)]
             else if pyeq (PDict (moved_row p d access)) (PDict d) then [ConditionCheck t p (exact_condition d)]
             else [Put t (moved_row p d access) (exact_condition d)])"
    "access + RETENTION_SECONDS \<le> now \<Longrightarrow> inum d ''reservedChecks'' = 0"
proof -
  from assms obtain d base old p where
      d: "validate observed pointer now True = Inr d"
    and base: "new_period_usage pointer (dget d ''startEpoch'') (dget d ''endEpoch'') (PInt access) = Inr base"
    and old: "effective_access_end (PDict d) = Inr old" "\<not> (old < access \<and> inum d ''expiresAt'' \<le> now)"
    and p: "valid_key pointer = Inr p"
    unfolding access_window_actions_def rbind_Inr_iff Let_def raise_if_simps by blast
  from validate_Inr(1,2) [OF d] p have row: "observed = PDict d" "usage_ok p d" by auto
  obtain s e where se: "integral (dget d ''startEpoch'') = Some s" "s \<le> access"
    and b: "base = key_item p @
       [(''recordType'', PStr ''V1_PURCHASE_USAGE''), (''schemaVersion'', PInt 2), (''policyVersion'', PStr OWNER_POLICY),
        (''startEpoch'', dget d ''startEpoch''), (''endEpoch'', dget d ''endEpoch''), (''accessUntilEpoch'', PInt access), (''limit'', PInt PAID_COMPLETED_CHECKS),
        (''usedChecks'', PInt 0), (''reservedChecks'', PInt 0), (''expiresAt'', PInt (access + RETENTION_SECONDS)),
        (''GSI1PK'', PStr ''V1_EXPIRING''), (''GSI1SK'', PStr (expiry_sort (access + RETENTION_SECONDS) p))]"
    using p by (rule_tac new_period_usage_Inr [OF base]) auto
  have moved: "dset ''reservedChecks'' (dget d ''reservedChecks'') (dset ''usedChecks'' (dget d ''usedChecks'') base) = moved_row p d access"
    by (simp add: b moved_row_def key_item_def)
  have exp: "inum base ''expiresAt'' = access + RETENTION_SECONDS"
    by (simp add: b key_item_def)
  have acts: "(if access + RETENTION_SECONDS \<le> now
       then rbind (raise_if (inum d ''reservedChecks'' \<noteq> 0) (AuthorityError ''PURCHASE_USAGE_RECONCILIATION_REQUIRED''))
              (\<lambda>_. Inr [Delete t p (exact_condition d)])
       else if pyeq (PDict (moved_row p d access)) (PDict d) then Inr [ConditionCheck t p (exact_condition d)]
       else Inr [Put t (moved_row p d access) (exact_condition d)]) = Inr acts"
    using assms d base old p by (simp add: access_window_actions_def Let_def moved exp cong: if_cong)
  have start: "inum d ''startEpoch'' \<le> access" using se by (simp add: inum_eqI)
  show thesis
    by (rule that [OF p row old(1) start old(2)]) (use acts in \<open>simp_all split: if_splits\<close>)
qed

lemma access_window_accounting:
  assumes "access_window_actions t pointer (PDict d) access now = Inr acts" "batch_holds acts db"
  shows "\<exists>p. valid_key pointer = Inr p \<and>
     (if access + RETENTION_SECONDS \<le> now
      then commit acts db t p = None \<and> inum d ''reservedChecks'' = 0
      else \<exists>d'. commit acts db t p = Some d' \<and> effective_access_end (PDict d') = Inr access
             \<and> inum d' ''expiresAt'' = access + RETENTION_SECONDS
             \<and> (\<forall>k \<in> {''startEpoch'', ''endEpoch'', ''usedChecks'', ''reservedChecks''}. inum d' k = inum d k))"
proof -
  obtain p d0 old where p: "valid_key pointer = Inr p" "PDict d = PDict d0" "usage_ok p d0"
      "inum d0 ''startEpoch'' \<le> access"
      "acts = (if access + RETENTION_SECONDS \<le> now then [Delete t p (exact_condition d0)]
             else if pyeq (PDict (moved_row p d0 access)) (PDict d0) then [ConditionCheck t p (exact_condition d0)]
             else [Put t (moved_row p d0 access) (exact_condition d0)])"
      "access + RETENTION_SECONDS \<le> now \<Longrightarrow> inum d0 ''reservedChecks'' = 0"
    by (rule access_window_Inr [OF assms(1)]) (rule that)
  from p(2) have d0: "d0 = d" by simp
  note p = p [unfolded d0]
  from p(3) obtain s e where se: "integral (dget d ''startEpoch'') = Some s" "integral (dget d ''endEpoch'') = Some e"
      "0 \<le> s" "s < e" by (auto simp: usage_ok_def)
  with p(4) have sa: "s \<le> access" by (simp add: inum_def)
  have moved_key: "item_key (moved_row p d access) = p"
    by (simp add: moved_row_def key_item_def item_key_def)
  show ?thesis
  proof (cases "access + RETENTION_SECONDS \<le> now")
    case True
    with p assms(2) have "commit acts db t p = None"
      by (simp add: commit_def)
    with True p(1,6) show ?thesis by auto
  next
    case late: False
    have fields: "effective_access_end (PDict (moved_row p d access)) = Inr access"
        "inum (moved_row p d access) ''expiresAt'' = access + RETENTION_SECONDS"
        "\<forall>k \<in> {''startEpoch'', ''endEpoch'', ''usedChecks'', ''reservedChecks''}. inum (moved_row p d access) k = inum d k"
      using se sa by (auto simp: moved_row_def key_item_def effective_access_end_def inum_def)
    show ?thesis
    proof (cases "pyeq (PDict (moved_row p d access)) (PDict d)")
      case same: True
      with p late have acts: "acts = [ConditionCheck t p (exact_condition d)]" by simp
      define D where "D = contents (db t p)"
      from assms(2) have c: "cond_holds (exact_condition d) D"
        by (simp add: acts D_def batch_holds_def holds_at_def Let_def)
      have has: "dhas D ''accessUntilEpoch''" "integral (dget d ''accessUntilEpoch'') = Some access" "dhas d ''accessUntilEpoch''"
        "integral (dget d ''expiresAt'') = Some (access + RETENTION_SECONDS)"
      proof -
        from veq_dict_field [OF same, of "''accessUntilEpoch''" "PInt access"]
        obtain y where y: "map_of d ''accessUntilEpoch'' = Some y" "pyeq (PInt access) y" by (auto simp: moved_row_def)
        from veq_dict_field [OF same, of "''expiresAt''" "PInt (access + RETENTION_SECONDS)"]
        obtain z where z: "map_of d ''expiresAt'' = Some z" "pyeq (PInt (access + RETENTION_SECONDS)) z" by (auto simp: moved_row_def)
        from y show d: "dhas d ''accessUntilEpoch''" by (simp add: dhas_def)
        then have "''accessUntilEpoch'' \<in> set (map fst d)" by (auto simp: dhas_def map_of_eq_None_iff)
        with c show "dhas D ''accessUntilEpoch''" by (auto simp: exact_condition_holds dhas_def)
        from p(3) obtain a x where ax: "effective_access_end (PDict d) = Inr a" "integral (dget d ''expiresAt'') = Some x"
          by (auto simp: usage_ok_def)
        have "integral z = Some (access + RETENTION_SECONDS)"
          using ax(2) z(1) veq_integral_both [OF z(2) _ ax(2) [unfolded dget_def z(1) option.case]]
          by (simp add: dget_def)
        with z(1) show "integral (dget d ''expiresAt'') = Some (access + RETENTION_SECONDS)"
          by (simp add: dget_def)
        from ax(1) y(1) have "integral y = Some a"
          by (auto simp: effective_access_end_def dget_or_def split: option.splits if_splits)
        with veq_integral_both [OF y(2) _ this] y(1) show "integral (dget d ''accessUntilEpoch'') = Some access"
          by (simp add: dget_def)
      qed
      have eq: "integral (dget D f) = integral (dget d f)" if "dhas d f" for f
        using exact_integral [OF c that] .
      have "commit acts db t p = db t p" by (simp add: acts commit_def)
      moreover from has(1) have "db t p = Some D" unfolding D_def by (cases "db t p") (auto simp: contents_def)
      moreover have "effective_access_end (PDict D) = Inr access"
        by (rule effective_access_end_fields [OF _ _ has(1) _ se(3,4) sa]) (use eq se has integral_has in metis)+
      moreover have "inum D ''expiresAt'' = access + RETENTION_SECONDS"
        using eq [OF integral_has [OF has(4)]] has(4) by (simp add: inum_def)
      moreover have "inum D k = inum d k" if "k \<in> {''startEpoch'', ''endEpoch'', ''usedChecks'', ''reservedChecks''}" for k
      proof -
        have "dhas d k" using that se p(3) by (auto simp: usage_ok_def intro: integral_has)
        then show ?thesis using eq by (simp add: inum_def)
      qed
      ultimately show ?thesis using late p(1) by simp
    next
      case False
      with p late have acts: "acts = [Put t (moved_row p d access) (exact_condition d)]" by simp
      then have "commit acts db t p = Some (moved_row p d access)" by (simp add: commit_def moved_key)
      with fields late p(1) show ?thesis by simp
    qed
  qed
qed

text \<open>
  C18 (functional). Moving the verified access window of a purchase never touches its accounting.
  When the transaction commits, either the row is deleted, which happens only past the new
  deadline and with nothing reserved, or the stored row has the observed dates, used and reserved
  checks, and exactly the new window and its deadline seven days later.
\<close>

theorem access_window_preserves_accounting:
  assumes "access_window_actions t pointer (PDict d) access now = Inr acts" "batch_holds acts db"
  shows "\<exists>p. valid_key pointer = Inr p \<and>
     (if access + RETENTION_SECONDS \<le> now
      then commit acts db t p = None \<and> inum d ''reservedChecks'' = 0
      else \<exists>d'. commit acts db t p = Some d' \<and> effective_access_end (PDict d') = Inr access
             \<and> inum d' ''expiresAt'' = access + RETENTION_SECONDS
             \<and> (\<forall>k \<in> {''startEpoch'', ''endEpoch'', ''usedChecks'', ''reservedChecks''}. inum d' k = inum d k))"
  using assms by (rule access_window_accounting)

text \<open>
  C19 (safety). Funding a period that was funded before never resets its usage: the counters that
  seed the account's row are the ones already stored for the purchase, so a restore on another
  account continues where the last one stopped. Only a purchase never seen before starts at zero,
  and then the row is created only if it is absent.
\<close>

theorem funding_never_resets_usage:
  assumes "funding_actions t pointer start end observed now access = Inr (acts, used, reserved)"
  shows "(observed = PNone \<and> integral used = Some 0 \<and> integral reserved = Some 0
            \<and> (\<exists>d. acts = [Put t d (NotExists ''PK'')] \<and> integral (dget d ''usedChecks'') = Some 0))
       \<or> (\<exists>d p. observed = PDict d \<and> valid_key pointer = Inr p
            \<and> used = dget d ''usedChecks'' \<and> reserved = dget d ''reservedChecks''
            \<and> (\<forall>db. batch_holds acts db \<longrightarrow>
                 (\<exists>d'. commit acts db t p = Some d' \<and> inum d' ''usedChecks'' = inum d ''usedChecks''
                       \<and> inum d' ''reservedChecks'' = inum d ''reservedChecks'')))"
proof (cases "observed = PNone")
  case True
  with assms obtain d where d: "new_period_usage pointer (PInt start) (PInt end) (PInt (case access of None \<Rightarrow> end | Some a \<Rightarrow> a)) = Inr d"
      and rest: "acts = [Put t d (NotExists ''PK'')]" "used = PInt 0" "reserved = PInt 0"
    by (auto simp: funding_actions_def Let_def rbind_Inr_iff)
  have "dget d ''usedChecks'' = PInt 0"
    by (rule new_period_usage_Inr [OF d]) (simp add: key_item_def)
  with True rest show ?thesis by simp
next
  case False
  define a where "a = (case access of None \<Rightarrow> end | Some a \<Rightarrow> a)"
  from assms False have run: "rbind (validate observed pointer now False) (\<lambda>observed.
       rbind (raise_if (inum observed ''startEpoch'' \<noteq> start \<or> inum observed ''endEpoch'' \<noteq> end) USAGE_INVALID) (\<lambda>_.
       rbind (access_window_actions t pointer (PDict observed) a now) (\<lambda>acts.
       Inr (acts, (dget observed ''usedChecks'', dget observed ''reservedChecks''))))) = Inr (acts, used, reserved)"
    and a: "now < a"
    by (auto simp: funding_actions_def Let_def rbind_Inr_iff a_def [symmetric])
  from run obtain d where d: "validate observed pointer now False = Inr d"
      "used = dget d ''usedChecks''" "reserved = dget d ''reservedChecks''"
      "access_window_actions t pointer (PDict d) a now = Inr acts"
    unfolding rbind_Inr_iff by blast
  have win: "\<not> a + RETENTION_SECONDS \<le> now" using a by (simp add: RETENTION_SECONDS_def)
  from validate_Inr(1,2) [OF d(1)] obtain p where p: "observed = PDict d" "valid_key pointer = Inr p" by blast
  have "\<exists>d'. commit acts db t p = Some d' \<and> inum d' ''usedChecks'' = inum d ''usedChecks''
          \<and> inum d' ''reservedChecks'' = inum d ''reservedChecks''" if "batch_holds acts db" for db
    using access_window_accounting [OF d(4) that] p(2) win by auto
  with p d(2,3) show ?thesis by auto
qed

section \<open>Counters\<close>

text \<open>The effect of one counter update that was committed under its exact condition.\<close>

lemma counter_commit:
  assumes "batch_holds acts db" "local_counter_action t row rd ud \<in> set acts"
    and "integral (dget row ''reservedChecks'') = Some r" "integral (dget row ''usedChecks'') = Some u"
  obtains d' where "commit acts db t (item_key row) = Some d'"
    "integral (dget d' ''reservedChecks'') = Some (r + rd)" "integral (dget d' ''usedChecks'') = Some (u + ud)"
    "\<And>f. f \<noteq> ''reservedChecks'' \<Longrightarrow> f \<noteq> ''usedChecks'' \<Longrightarrow> dget d' f = dget (contents (db t (item_key row))) f"
    "\<And>f. dhas row f \<Longrightarrow> f \<noteq> ''reservedChecks'' \<Longrightarrow> f \<noteq> ''usedChecks'' \<Longrightarrow> integral (dget d' f) = integral (dget row f)"
proof -
  let ?a = "local_counter_action t row rd ud" and ?k = "item_key row"
  from batch_holds_at [OF assms(1,2)]
  have c: "cond_holds (exact_condition row) (contents (db t ?k))" and dist: "distinct (map target acts)"
    by (auto simp: holds_at_def Let_def local_counter_action_def)
  define d where "d = contents (db t ?k)"
  have res: "integral (dget d ''reservedChecks'') = Some r" and used: "integral (dget d ''usedChecks'') = Some u"
    using exact_integral [OF c] assms(3,4) integral_has unfolding d_def by metis+
  then have "db t ?k = Some d" unfolding d_def by (cases "db t ?k") (auto simp: contents_def)
  then have cm: "commit acts db t ?k =
      Some (fold apply_update [UAdd ''reservedChecks'' rd, UAdd ''usedChecks'' ud] d)"
    using commit_at [OF assms(2) dist] by (simp add: local_counter_action_def)
  from res used obtain vr vu where v: "map_of d ''reservedChecks'' = Some vr" "integral vr = Some r"
      "map_of d ''usedChecks'' = Some vu" "integral vu = Some u"
    by (auto dest!: dget_integral_has)
  show thesis
  proof (rule that [OF cm])
    show "dget (fold apply_update [UAdd ''reservedChecks'' rd, UAdd ''usedChecks'' ud] d) f = dget (contents (db t ?k)) f"
      if "f \<noteq> ''reservedChecks''" "f \<noteq> ''usedChecks''" for f
      using that by (simp add: d_def)
    show "integral (dget (fold apply_update [UAdd ''reservedChecks'' rd, UAdd ''usedChecks'' ud] d) f) = integral (dget row f)"
      if "dhas row f" "f \<noteq> ''reservedChecks''" "f \<noteq> ''usedChecks''" for f
      using that exact_integral [OF c that(1)] by (simp add: d_def)
  qed (use v in \<open>simp_all add: update_conv' add_num_integral\<close>)
qed

lemma counter_action_Inr:
  assumes "counter_action t g rd ud now = Inr act"
  shows "act = local_counter_action t g rd ud"
    "\<exists>p. usage_ok p g \<and> item_key g = p" "0 \<le> ud" "0 \<le> inum g ''reservedChecks'' + rd"
    "inum g ''usedChecks'' + ud + (inum g ''reservedChecks'' + rd) \<le> PAID_COMPLETED_CHECKS"
    "now < inum g ''expiresAt''"
proof -
  from assms obtain ptr access d where
      ptr: "valid_key (PDict [(''PK'', dget g ''PK''), (''SK'', dget g ''SK'')]) = Inr ptr"
    and d: "validate (PDict g) (PDict (key_item ptr)) now False = Inr d"
    and rest: "0 \<le> ud" "0 \<le> inum g ''reservedChecks'' + rd"
      "inum g ''usedChecks'' + ud + inum g ''reservedChecks'' + rd \<le> PAID_COMPLETED_CHECKS"
      "act = local_counter_action t g rd ud"
    unfolding counter_action_def rbind_Inr_iff by fastforce
  from validate_Inr(1,2,3) [OF d] obtain p where "usage_ok p g" "now < inum g ''expiresAt''" by auto
  moreover from this(1) have "item_key g = p" by (auto simp: usage_ok_def item_key_def)
  ultimately show "\<exists>p. usage_ok p g \<and> item_key g = p" "now < inum g ''expiresAt''" by blast+
  show "act = local_counter_action t g rd ud" "0 \<le> ud" "0 \<le> inum g ''reservedChecks'' + rd"
    "inum g ''usedChecks'' + ud + (inum g ''reservedChecks'' + rd) \<le> PAID_COMPLETED_CHECKS"
    using rest by simp_all
qed

text \<open>C-lemma: a committed counter change keeps the shared row well formed, and moves it by the deltas.\<close>

lemma counter_action_commit:
  assumes "counter_action t g rd ud now = Inr act" "batch_holds acts db" "act \<in> set acts"
  obtains p d' where "item_key g = p" "commit acts db t p = Some d'"
    "integral (dget d' ''reservedChecks'') = Some (inum g ''reservedChecks'' + rd)"
    "integral (dget d' ''usedChecks'') = Some (inum g ''usedChecks'' + ud)"
    "inum d' ''usedChecks'' + inum d' ''reservedChecks'' \<le> PAID_COMPLETED_CHECKS"
    "0 \<le> inum d' ''usedChecks''" "0 \<le> inum d' ''reservedChecks''"
proof -
  note ci = counter_action_Inr [OF assms(1)]
  from ci(2) obtain p where p: "usage_ok p g" "item_key g = p" by blast
  note ok = usage_okD [OF p(1)]
  obtain d' where d': "commit acts db t (item_key g) = Some d'"
    "integral (dget d' ''reservedChecks'') = Some (inum g ''reservedChecks'' + rd)"
    "integral (dget d' ''usedChecks'') = Some (inum g ''usedChecks'' + ud)"
    by (rule counter_commit [OF assms(2) assms(3) [unfolded ci(1)] ok(5) ok(4)]) (rule that)
  note n = d'(2,3) [THEN inum_eqI]
  show thesis by (rule that [OF p(2) d'(1) [unfolded p(2)] d'(2,3)]) (use n ci ok in linarith)+
qed

lemma validate_period_Inr:
  assumes "validate_period (PDict d) = Inr p"
  shows "valid_key (dget d ''purchaseUsageKey'') = Inr p"
    "k \<in> {''startEpoch'', ''endEpoch'', ''usedChecks'', ''reservedChecks'', ''grantRevision''} \<Longrightarrow>
       integral (dget d k) = Some (inum d k)"
    "0 \<le> inum d ''usedChecks''" "0 \<le> inum d ''reservedChecks''"
    "inum d ''usedChecks'' + inum d ''reservedChecks'' \<le> PAID_COMPLETED_CHECKS"
  using assms by (auto simp: validate_period_def rbind_Inr_iff inum_def)

lemma global_for_period_yields:
  assumes "global_for_period E t period now ae w = (Inr r, w')"
  obtains (expired) dl where "r = None" "ae" "usage_deadline (PDict period) = Inr dl" "dl \<le> now"
  | (live) p g where "r = Some g" "validate_period (PDict period) = Inr p" "usage_ok p g"
      "inum g ''usedChecks'' = inum period ''usedChecks''" "inum g ''reservedChecks'' = inum period ''reservedChecks''"
proof -
  from assms obtain p dl w1 where p: "validate_period (PDict period) = Inr p"
    and dl: "usage_deadline (PDict period) = Inr dl"
    by (auto simp: global_for_period_def ebind_Inr)
  show thesis
  proof (cases "ae \<and> now \<ge> dl")
    case True
    with assms p dl show thesis by (auto simp: global_for_period_def intro: expired)
  next
    case False
    with assms p dl obtain g w1 where
        g: "read_usage E t p now w = (Inr g, w1)" "r = Some g"
      and same: "\<And>k. k \<in> {''usedChecks'', ''reservedChecks''} \<Longrightarrow> same_number g period k"
      by (auto simp: global_for_period_def ebind_Inr)
    from g(1) obtain p' row where v: "valid_key (PDict (key_item p)) = Inr p'"
        "validate (PDict row) (PDict (key_item p')) now False = Inr g"
      by (auto simp: read_usage_def ebind_Inr split: option.splits)
    from valid_key_item [OF v(1)] validate_Inr(2) [OF v(2)] have ok: "usage_ok p g"
      by (auto dest: valid_key_item)
    have "inum g k = inum period k" if "k \<in> {''usedChecks'', ''reservedChecks''}" for k
    proof -
      have "integral (dget g k) = Some (inum g k)" using that usage_okD(4,5) [OF ok] by auto
      moreover have "integral (dget period k) = Some (inum period k)"
        using that by (intro validate_period_Inr(2) [OF p]) auto
      ultimately show ?thesis
        using same [OF that] veq_integral_both unfolding same_number_def by blast
    qed
    then show thesis using live [OF g(2) p ok] by simp
  qed
qed

text \<open>
  C7 (safety). A reservation or charge on a purchased period moves the account's \<open>PERIOD\<close> row
  and the shared usage row together. Whatever the tables held when the two rows were read, if a
  batch that contains the actions built by \<open>paired_counter_actions\<close> commits, both rows end with
  the same \<open>usedChecks\<close> and \<open>reservedChecks\<close>, namely the observed ones plus the deltas, both
  non-negative and together at most the 200 checks of a period. The only other outcome is a
  release after the usage deadline, which touches the local row alone and charges nothing.
\<close>

theorem paired_counters_stay_equal:
  assumes "paired_counter_actions E t period rd ud now ae w = (Inr acts, w')"
    and "set acts \<subseteq> set batch" "batch_holds batch db"
  shows "(ae \<and> ud = 0 \<and> (\<exists>dl. usage_deadline (PDict period) = Inr dl \<and> dl \<le> now)
            \<and> acts = [local_counter_action t period rd ud])
       \<or> (\<exists>p l g. validate_period (PDict period) = Inr p
            \<and> commit batch db t (item_key period) = Some l \<and> commit batch db t p = Some g
            \<and> inum l ''usedChecks'' = inum period ''usedChecks'' + ud
            \<and> inum l ''reservedChecks'' = inum period ''reservedChecks'' + rd
            \<and> inum g ''usedChecks'' = inum l ''usedChecks'' \<and> inum g ''reservedChecks'' = inum l ''reservedChecks''
            \<and> 0 \<le> inum l ''usedChecks'' \<and> 0 \<le> inum l ''reservedChecks''
            \<and> inum l ''usedChecks'' + inum l ''reservedChecks'' \<le> PAID_COMPLETED_CHECKS)"
proof -
  from assms(1) obtain r w1 where r: "global_for_period E t period now ae w = (Inr r, w1)"
    by (auto simp: paired_counter_actions_def ebind_Inr)
  from r show ?thesis
  proof (cases rule: global_for_period_yields)
    case expired
    with assms(1) r show ?thesis by (auto simp: paired_counter_actions_def ebind_Inr)
  next
    case (live p g)
    with assms(1) r obtain act where act: "counter_action t g rd ud now = Inr act"
        "acts = [local_counter_action t period rd ud, act]"
      by (auto simp: paired_counter_actions_def ebind_Inr)
    from act assms(2) have mem: "local_counter_action t period rd ud \<in> set batch" "act \<in> set batch" by auto
    have per: "integral (dget period ''reservedChecks'') = Some (inum period ''reservedChecks'')"
        "integral (dget period ''usedChecks'') = Some (inum period ''usedChecks'')"
      by (rule validate_period_Inr(2) [OF live(2)]; simp)+
    obtain l where l: "commit batch db t (item_key period) = Some l"
        "integral (dget l ''reservedChecks'') = Some (inum period ''reservedChecks'' + rd)"
        "integral (dget l ''usedChecks'') = Some (inum period ''usedChecks'' + ud)"
      by (rule counter_commit [OF assms(3) mem(1) per]) (rule that)
    obtain q d' where g: "item_key g = q" "commit batch db t q = Some d'"
        "integral (dget d' ''reservedChecks'') = Some (inum g ''reservedChecks'' + rd)"
        "integral (dget d' ''usedChecks'') = Some (inum g ''usedChecks'' + ud)"
        "inum d' ''usedChecks'' + inum d' ''reservedChecks'' \<le> PAID_COMPLETED_CHECKS"
        "0 \<le> inum d' ''usedChecks''" "0 \<le> inum d' ''reservedChecks''"
      by (rule counter_action_commit [OF act(1) assms(3) mem(2)])
    from live(3) g(1) have "q = p" by (auto simp: usage_ok_def item_key_def)
    note n = l(2,3) [THEN inum_eqI] g(3,4) [THEN inum_eqI]
    have "inum l ''usedChecks'' = inum period ''usedChecks'' + ud"
      "inum l ''reservedChecks'' = inum period ''reservedChecks'' + rd"
      "inum d' ''usedChecks'' = inum l ''usedChecks''" "inum d' ''reservedChecks'' = inum l ''reservedChecks''"
      by (simp_all only: n live(4,5))
    moreover from this g(5-7) have "0 \<le> inum l ''usedChecks''" "0 \<le> inum l ''reservedChecks''"
      "inum l ''usedChecks'' + inum l ''reservedChecks'' \<le> PAID_COMPLETED_CHECKS" by linarith+
    ultimately show ?thesis
      using live(2) l(1) g(2) unfolding \<open>q = p\<close> by (intro disjI2 exI conjI)
  qed
qed

section \<open>Instances\<close>

text \<open>Concrete rows on which the hypotheses of the properties are met.\<close>

definition hexa :: string where "hexa = replicate 64 CHR ''a''"

lemma hexa [simp]: "fullmatch is_hex 64 64 hexa"
  by (simp add: hexa_def fullmatch_def is_hex_def code_def list_all_iff)

definition ex_pointer :: key where
  "ex_pointer = (''V1#PURCHASE_USAGE#'' @ hexa, ''PERIOD#'' @ hexa)"

lemma ex_pointer [simp]: "valid_key (PDict (key_item ex_pointer)) = Inr ex_pointer"
  by (simp add: valid_key_def key_item_def ex_pointer_def has_keys_def
      prefixed_append [of "''V1#PURCHASE_USAGE#''", simplified] prefixed_append [of "''PERIOD#''", simplified])

definition ex_usage :: dict where
  "ex_usage = moved_row ex_pointer [(''startEpoch'', PInt 100), (''endEpoch'', PInt 200),
     (''usedChecks'', PInt 0), (''reservedChecks'', PInt 0)] 200"

definition ex_period :: dict where
  "ex_period = [(''PK'', PStr ''V1#ACCOUNT#a''), (''SK'', PStr ''PERIOD#1''), (''recordType'', PStr ''V1_ALLOWANCE_PERIOD''),
     (''policyVersion'', PStr OWNER_POLICY), (''limit'', PInt PAID_COMPLETED_CHECKS), (''grantRevision'', PInt 1),
     (''startEpoch'', PInt 100), (''endEpoch'', PInt 200), (''usedChecks'', PInt 0), (''reservedChecks'', PInt 0),
     (''accessUntilEpoch'', PInt 200), (''purchaseUsageKey'', PDict (key_item ex_pointer))]"

definition ex_db :: db where
  "ex_db = (\<lambda>t k. if k = ex_pointer then Some ex_usage
                   else if k = item_key ex_period then Some ex_period else None)"

abbreviation ex_world :: world where "ex_world \<equiv> \<lparr>tables = ex_db, tick = 0\<rparr>"

lemma ex_usage_row: "ex_usage =
    [(''PK'', PStr (fst ex_pointer)), (''SK'', PStr (snd ex_pointer)), (''recordType'', PStr ''V1_PURCHASE_USAGE''),
     (''schemaVersion'', PInt 2), (''policyVersion'', PStr OWNER_POLICY), (''startEpoch'', PInt 100), (''endEpoch'', PInt 200),
     (''accessUntilEpoch'', PInt 200), (''limit'', PInt 200), (''usedChecks'', PInt 0), (''reservedChecks'', PInt 0),
     (''expiresAt'', PInt 605000), (''GSI1PK'', PStr ''V1_EXPIRING''), (''GSI1SK'', PStr (expiry_sort 605000 ex_pointer))]"
  by (simp add: ex_usage_def moved_row_def key_item_def RETENTION_SECONDS_def PAID_COMPLETED_CHECKS_def)

lemma ex_usage_fields [simp]:
  "dget ex_usage ''PK'' = PStr (fst ex_pointer)" "dget ex_usage ''SK'' = PStr (snd ex_pointer)"
  "dget ex_usage ''startEpoch'' = PInt 100" "dget ex_usage ''endEpoch'' = PInt 200" "dget ex_usage ''limit'' = PInt 200"
  "dget ex_usage ''usedChecks'' = PInt 0" "dget ex_usage ''reservedChecks'' = PInt 0"
  "dget_or ex_usage ''accessUntilEpoch'' v = PInt 200" "inum ex_usage ''expiresAt'' = 605000"
  "inum ex_usage ''startEpoch'' = 100" "inum ex_usage ''endEpoch'' = 200" "inum ex_usage ''usedChecks'' = 0" "inum ex_usage ''reservedChecks'' = 0"
  by (simp_all add: ex_usage_row)

lemma ex_new_usage: "new_period_usage (PDict (key_item ex_pointer)) (PInt 100) (PInt 200) PNone = Inr ex_usage"
  by (simp add: new_period_usage_def bounds_def effective_access_end_def ex_usage_def moved_row_def Let_def)

lemma ex_usage_validates [simp]: "validate (PDict ex_usage) (PDict (key_item ex_pointer)) 150 ae = Inr ex_usage"
  by (simp add: validate_def ex_usage_row has_keys_def V1_FIELDS_def FIELDS_def bounds_def
      effective_access_end_def usage_deadline_def RETENTION_SECONDS_def PAID_COMPLETED_CHECKS_def insert_commute)

lemma new_usage_validates_witness:
  "validate (PDict ex_usage) (PDict (key_item ex_pointer)) 150 False = Inr ex_usage"
  by (rule new_usage_validates [OF ex_new_usage])
    (simp_all add: ex_usage_def moved_row_def key_item_def RETENTION_SECONDS_def)

lemma ex_window: "access_window_actions t (PDict (key_item ex_pointer)) (PDict ex_usage) 180 150 =
    Inr [Put t (moved_row ex_pointer ex_usage 180) (exact_condition ex_usage)]"
proof -
  have "\<not> pyeq (PDict (moved_row ex_pointer ex_usage 180)) (PDict ex_usage)"
    by (simp add: veq_dict ex_usage_row moved_row_def key_item_def)
  moreover obtain B where "new_period_usage (PDict (key_item ex_pointer)) (PInt 100) (PInt 200) (PInt 180) = Inr B"
      "dset ''reservedChecks'' (PInt 0) (dset ''usedChecks'' (PInt 0) B) = moved_row ex_pointer ex_usage 180"
      "inum B ''expiresAt'' = 604980"
    by (simp add: new_period_usage_def bounds_def effective_access_end_def moved_row_def key_item_def RETENTION_SECONDS_def
        Let_def del: ex_pointer) (simp add: ex_pointer [unfolded key_item_def])
  moreover have "effective_access_end (PDict ex_usage) = Inr 200"
    by (simp add: effective_access_end_def)
  ultimately show ?thesis
    by (simp add: access_window_actions_def Let_def)
qed

lemma ex_exact [simp]: "cond_holds (exact_condition ex_usage) ex_usage"
  by (rule exact_condition_self) (simp add: ex_usage_row)

lemma access_window_preserves_accounting_witness:
  "\<exists>d'. commit [Put ''T'' (moved_row ex_pointer ex_usage 180) (exact_condition ex_usage)] ex_db ''T'' ex_pointer = Some d'
     \<and> effective_access_end (PDict d') = Inr 180 \<and> inum d' ''usedChecks'' = 0"
proof -
  have "item_key (moved_row ex_pointer ex_usage 180) = ex_pointer"
    by (simp add: moved_row_def key_item_def item_key_def)
  then have "batch_holds [Put ''T'' (moved_row ex_pointer ex_usage 180) (exact_condition ex_usage)] ex_db"
    by (simp add: batch_holds_def batch_wf_def holds_at_def ex_db_def contents_def)
  from access_window_preserves_accounting [OF ex_window this] show ?thesis
    by (auto simp: RETENTION_SECONDS_def)
qed

lemma ex_window_same: "access_window_actions t (PDict (key_item ex_pointer)) (PDict ex_usage) 200 150 =
    Inr [ConditionCheck t ex_pointer (exact_condition ex_usage)]"
proof -
  have "moved_row ex_pointer ex_usage 200 = ex_usage" by (simp add: ex_usage_def moved_row_def key_item_def)
  moreover have "pyeq (PDict ex_usage) (PDict ex_usage)" by (rule veq_refl) (simp add: ex_usage_row)
  moreover obtain B where "new_period_usage (PDict (key_item ex_pointer)) (PInt 100) (PInt 200) (PInt 200) = Inr B"
      "dset ''reservedChecks'' (PInt 0) (dset ''usedChecks'' (PInt 0) B) = moved_row ex_pointer ex_usage 200"
      "inum B ''expiresAt'' = 605000"
    by (simp add: new_period_usage_def bounds_def effective_access_end_def moved_row_def key_item_def RETENTION_SECONDS_def
        Let_def del: ex_pointer) (simp add: ex_pointer [unfolded key_item_def])
  moreover have "effective_access_end (PDict ex_usage) = Inr 200"
    by (simp add: effective_access_end_def)
  ultimately show ?thesis
    by (simp add: access_window_actions_def Let_def)
qed

lemma funding_never_resets_usage_witness:
  "\<exists>d'. commit [ConditionCheck ''T'' ex_pointer (exact_condition ex_usage)] ex_db ''T'' ex_pointer = Some d'
     \<and> inum d' ''usedChecks'' = 0"
proof -
  have "funding_actions ''T'' (PDict (key_item ex_pointer)) 100 200 (PDict ex_usage) 150 None =
    Inr ([ConditionCheck ''T'' ex_pointer (exact_condition ex_usage)], PInt 0, PInt 0)"
    using ex_window_same [of "''T''"]
    by (simp add: funding_actions_def new_period_usage_def bounds_def effective_access_end_def Let_def)
  moreover have "batch_holds [ConditionCheck ''T'' ex_pointer (exact_condition ex_usage)] ex_db"
    by (simp add: batch_holds_def batch_wf_def holds_at_def ex_db_def contents_def)
  ultimately show ?thesis
    using funding_never_resets_usage [of "''T''" "PDict (key_item ex_pointer)" 100 200 "PDict ex_usage" 150 None] by auto
qed

definition ex_actions :: "action list" where
  "ex_actions = [local_counter_action ''T'' ex_period 1 0, local_counter_action ''T'' ex_usage 1 0]"

lemma ex_validate_period [simp]: "validate_period (PDict ex_period) = Inr ex_pointer"
  by (simp add: validate_period_def ex_period_def bounds_def effective_access_end_def PAID_COMPLETED_CHECKS_def)

lemma ex_reserve:
  "paired_counter_actions (quiet_env 150 h) ''T'' ex_period 1 0 150 False ex_world =
     (Inr ex_actions, ex_world\<lparr>tick := 1\<rparr>)"
proof -
  have "usage_deadline (PDict ex_period) = Inr 605000" "effective_access_end (PDict ex_period) = Inr 200"
      "effective_access_end (PDict ex_usage) = Inr 200"
    by (simp_all add: usage_deadline_def effective_access_end_def ex_period_def RETENTION_SECONDS_def)
  moreover have "ex_db ''T'' ex_pointer = Some ex_usage" by (simp add: ex_db_def)
  moreover have "list_all (\<lambda>k. same_number ex_usage ex_period k)
       [''startEpoch'', ''endEpoch'', ''limit'', ''usedChecks'', ''reservedChecks'']"
    by (simp add: same_number_def ex_period_def PAID_COMPLETED_CHECKS_def)
  moreover have "inum ex_period ''reservedChecks'' = 0" by (simp add: ex_period_def)
  moreover have "counter_action ''T'' ex_usage 1 0 150 = Inr (local_counter_action ''T'' ex_usage 1 0)"
    using calculation(3)
    by (simp add: counter_action_def key_item_def [symmetric] PAID_COMPLETED_CHECKS_def)
  ultimately show ?thesis
    by (simp add: paired_counter_actions_def global_for_period_def read_usage_def quiet_get [OF quiet_env(1)] ebind_def ex_actions_def)
qed

lemma paired_counters_stay_equal_witness:
  "\<exists>l g. commit ex_actions ex_db ''T'' (item_key ex_period) = Some l \<and> commit ex_actions ex_db ''T'' ex_pointer = Some g
     \<and> inum l ''reservedChecks'' = 1 \<and> inum g ''reservedChecks'' = 1 \<and> inum g ''usedChecks'' = 0"
proof -
  have "cond_holds (exact_condition ex_period) ex_period"
    by (rule exact_condition_self) (simp add: ex_period_def key_item_def)
  moreover have "item_key ex_period = (''V1#ACCOUNT#a'', ''PERIOD#1'')" "item_key ex_usage = ex_pointer"
      "ex_pointer \<noteq> (''V1#ACCOUNT#a'', ''PERIOD#1'')"
    by (simp_all add: item_key_def ex_period_def) (simp add: ex_pointer_def)
  ultimately have "batch_holds ex_actions ex_db"
    by (simp add: batch_holds_def batch_wf_def holds_at_def ex_db_def contents_def ex_actions_def local_counter_action_def)
      (simp add: ex_usage_row ex_period_def)
  from paired_counters_stay_equal [OF ex_reserve [of "\<lambda>_ _. []"] subset_refl this] show ?thesis
    using ex_validate_period by (auto simp: ex_period_def)
qed

end
