(* ===== verification/Operations.thy ===== *)
theory Operations
  imports Effects
begin

text \<open>
  The operational receipt of a check (\<open>shared_operations/receipts.py\<close>, \<open>attempts.py\<close>,
  \<open>projection.py\<close>): content-free references minted once at admission, the events that may be
  projected from a stored receipt, the single internal attempt envelope, and the validation of a
  captured snapshot. Every rejection of these functions is the one fault
  \<open>OperationsReceiptFault\<close>.
\<close>

section \<open>Metadata (\<open>receipts.py\<close>)\<close>

definition OPERATIONS_RETENTION :: int where "OPERATIONS_RETENTION = 7 * 86400"

definition META_KEYS :: "string list" where
  "META_KEYS = [''schemaVersion'', ''logicalCheckRef'', ''acceptedEventId'', ''terminalEventId'',
    ''environment'', ''service'', ''inputKind'', ''accessClass'', ''acceptedAtEpoch'', ''expiresAtEpoch'']"

definition INPUTS :: "string \<Rightarrow> string list option" where
  "INPUTS = map_of [(''message_check'', [''pasted_text'', ''ocr'', ''mixed'']),
     (''url_check'', [''standalone_url'', ''message_url'', ''qr_url'']),
     (''recovery_clarification'', [''recovery_clarification''])]"

definition UNIQUE_REASON :: "string \<Rightarrow> string option" where
  "UNIQUE_REASON = map_of [(''complete'', ''NONE''), (''inconclusive'', ''RESULT_INCONCLUSIVE''),
     (''blocked'', ''RESULT_BLOCKED''), (''invalid_input'', ''RESULT_INVALID''), (''unsupported'', ''RESULT_UNSUPPORTED'')]"

definition PROVIDER_REASONS :: "string list" where
  "PROVIDER_REASONS = [''PROVIDER_UNAVAILABLE'', ''PROVIDER_AUTHORIZATION_FAILED'', ''PROVIDER_RATE_LIMITED'',
     ''PROVIDER_RESPONSE_INVALID'', ''TIME_BUDGET_EXHAUSTED'']"

definition REASONS :: "string \<Rightarrow> string list option" where
  "REASONS k = (case UNIQUE_REASON k of
      Some r \<Rightarrow> Some [r]
    | None \<Rightarrow> map_of [(''partial'', PROVIDER_REASONS @ [''COVERAGE_PARTIAL'']),
        (''failed'', [''SETTLED_FAILED'', ''OPERATION_EXPIRED'', ''SERVICE_UNAVAILABLE'']),
        (''unavailable'', PROVIDER_REASONS @ [''SERVICE_DISABLED'', ''SERVICE_UNAVAILABLE''])] k)"

abbreviation OP_FAIL :: exc where "OP_FAIL \<equiv> OperationsReceiptFault"

definition op_int :: "pyval \<Rightarrow> int result" where
  "op_int v = (case integral v of
      Some n \<Rightarrow> if 0 \<le> n \<and> n \<le> 10 ^ 13 then Inr n else Inl OP_FAIL
    | None \<Rightarrow> Inl OP_FAIL)"

definition reference_id :: "string \<Rightarrow> pyval \<Rightarrow> bool" where
  "reference_id p v = str_matches (prefixed p (fullmatch is_hex 32 32)) v"

definition service_inputs :: "pyval \<Rightarrow> string list" where
  "service_inputs v = (case as_str v of None \<Rightarrow> [] | Some s \<Rightarrow> (case INPUTS s of None \<Rightarrow> [] | Some is \<Rightarrow> is))"

definition metadata :: "pyval \<Rightarrow> dict result" where
  "metadata value =
     (case as_dict value of
        None \<Rightarrow> Inl OP_FAIL
      | Some v \<Rightarrow>
          rbind (raise_if (\<not> has_keys v META_KEYS) OP_FAIL) (\<lambda>_.
          rbind (op_int (dget v ''schemaVersion'')) (\<lambda>version.
          rbind (op_int (dget v ''acceptedAtEpoch'')) (\<lambda>accepted.
          rbind (op_int (dget v ''expiresAtEpoch'')) (\<lambda>expires.
          let m = dset ''expiresAtEpoch'' (PInt expires) (dset ''acceptedAtEpoch'' (PInt accepted)
                    (dset ''schemaVersion'' (PInt version) v)) in
          rbind (raise_if (version \<noteq> 1 \<or> \<not> reference_id ''lc1_'' (dget m ''logicalCheckRef'')
              \<or> \<not> reference_id ''op1_'' (dget m ''acceptedEventId'')
              \<or> \<not> reference_id ''op1_'' (dget m ''terminalEventId'')
              \<or> pyeq (dget m ''acceptedEventId'') (dget m ''terminalEventId'')
              \<or> \<not> one_of (dget m ''environment'') [''dev'', ''uat'', ''prod'']
              \<or> \<not> one_of (dget m ''inputKind'') (service_inputs (dget m ''service''))
              \<or> \<not> one_of (dget m ''accessClass'') [''trial'', ''paid'', ''complimentary'']
              \<or> \<not> (0 \<le> accepted \<and> accepted < expires \<and> expires \<le> accepted + OPERATIONS_RETENTION)) OP_FAIL) (\<lambda>_.
          Inr m))))))"

definition retirement_metadata :: "pyval \<Rightarrow> dict result" where
  "retirement_metadata row =
     (case as_dict row of None \<Rightarrow> Inl OP_FAIL | Some d \<Rightarrow> metadata (dget d ''operationsReceipt''))"

definition admission_kind :: "pyval \<Rightarrow> (string \<times> string) result" where
  \<comment> \<open>the service and input kind that the payload of an admission names\<close>
  "admission_kind payload =
     (case as_dict payload of
        None \<Rightarrow> Inl OP_FAIL
      | Some p \<Rightarrow>
          let entry = dget p ''entryPoint'' in
          if entry = PStr ''message'' then
            (case as_dict (dget p ''target'') of
               None \<Rightarrow> Inl OP_FAIL
             | Some tgt \<Rightarrow>
                 (case as_str (dget tgt ''sourceType'') of
                    None \<Rightarrow> Inl OP_FAIL
                  | Some kind \<Rightarrow> if kind \<in> set [''pasted_text'', ''ocr'', ''mixed'']
                                 then Inr (''message_check'', kind) else Inl OP_FAIL))
          else if entry = PStr ''recovery'' then Inr (''recovery_clarification'', ''recovery_clarification'')
          else if one_of entry [''standalone_url'', ''message_url'', ''qr_url'']
          then Inr (''url_check'', the (as_str entry))
          else Inl OP_FAIL)"

definition admission_fields ::
  "env \<Rightarrow> pyval \<Rightarrow> pyval \<Rightarrow> pyval \<Rightarrow> pyval \<Rightarrow> pyval \<Rightarrow> dict eff" where
  "admission_fields E payload accepted_at receipt_deadline access_class environment =
     ebind (elift (op_int accepted_at)) (\<lambda>accepted.
     ebind (elift (op_int receipt_deadline)) (\<lambda>deadline.
     ebind (elift (admission_kind payload)) (\<lambda>sk.
     ebind (e_random E 16) (\<lambda>r1. ebind (e_random E 16) (\<lambda>r2. ebind (e_random E 16) (\<lambda>r3.
     let m = [(''schemaVersion'', PInt 1), (''logicalCheckRef'', PStr (''lc1_'' @ r1)),
              (''acceptedEventId'', PStr (''op1_'' @ r2)), (''terminalEventId'', PStr (''op1_'' @ r3)),
              (''environment'', environment), (''service'', PStr (fst sk)), (''inputKind'', PStr (snd sk)),
              (''accessClass'', access_class), (''acceptedAtEpoch'', PInt accepted),
              (''expiresAtEpoch'', PInt (min deadline (accepted + OPERATIONS_RETENTION)))] in
     ebind (elift (metadata (PDict m))) (\<lambda>m'. eret [(''operationsReceipt'', PDict m')])))))))"

definition consumer_terminal_reason :: "pyval \<Rightarrow> pyval \<Rightarrow> string option" where
  "consumer_terminal_reason processing_outcome provider_codes =
     (if processing_outcome = PStr ''partial'' then Some ''COVERAGE_PARTIAL''
      else if processing_outcome = PStr ''failed'' then Some ''SETTLED_FAILED''
      else (case provider_codes of
              PList [PStr c] \<Rightarrow>
                if processing_outcome = PStr ''unavailable'' \<and> c \<in> set [''PROVIDER_UNAVAILABLE'', ''PROVIDER_RESPONSE_INVALID'']
                then Some c else None
            | _ \<Rightarrow> None))"

definition outcome_reasons :: "pyval \<Rightarrow> string list option" where
  \<comment> \<open>\<open>_REASONS[outcome]\<close>, \<open>None\<close> when the outcome is not a key\<close>
  "outcome_reasons v = (case as_str v of None \<Rightarrow> None | Some s \<Rightarrow> REASONS s)"

definition settlement_fields :: "pyval \<Rightarrow> pyval \<Rightarrow> pyval \<Rightarrow> bool \<Rightarrow> (dict \<times> pyval) result" where
  \<comment> \<open>\<open>capturedMetadata\<close> and \<open>terminalReasonCode\<close>\<close>
  "settlement_fields row processing_outcome reason_code expired_recovery =
     (case as_dict row of
        None \<Rightarrow> Inl OP_FAIL
      | Some d \<Rightarrow>
          rbind (metadata (dget d ''operationsReceipt'')) (\<lambda>m.
          case (as_str processing_outcome, outcome_reasons processing_outcome) of
            (Some outcome, Some reasons) \<Rightarrow>
              rbind (raise_if (expired_recovery \<and> (outcome \<noteq> ''failed''
                        \<or> \<not> (reason_code = PNone \<or> reason_code = PStr ''OPERATION_EXPIRED''))) OP_FAIL) (\<lambda>_.
              let given = (if expired_recovery then PStr ''OPERATION_EXPIRED'' else reason_code);
                  reason = (if given = PNone
                            then (case UNIQUE_REASON outcome of None \<Rightarrow> PNone | Some r \<Rightarrow> PStr r) else given) in
              rbind (raise_if (reason \<noteq> PNone \<and> \<not> one_of reason reasons) OP_FAIL) (\<lambda>_.
              Inr (m, reason)))
          | _ \<Rightarrow> Inl OP_FAIL))"

section \<open>The events of a receipt (\<open>receipt_events\<close>)\<close>

definition accepted_event :: "dict \<Rightarrow> dict" where
  "accepted_event m =
     [(''schemaVersion'', PStr ''1.0.0-operations-candidate.1''), (''eventType'', PStr ''check_accepted''),
      (''eventId'', dget m ''acceptedEventId''), (''eventTimeEpoch'', dget m ''acceptedAtEpoch''),
      (''environment'', dget m ''environment''), (''trafficClass'', PStr ''customer''), (''service'', dget m ''service''),
      (''inputKind'', dget m ''inputKind''), (''logicalCheckRef'', dget m ''logicalCheckRef''), (''lifecycleRevision'', PInt 1),
      (''processingOutcome'', PNone), (''accountingState'', PStr ''pending''), (''chargedChecks'', PNone),
      (''accessClass'', dget m ''accessClass''), (''reasonCode'', PStr ''NONE''), (''attemptRef'', PNone),
      (''attemptKind'', PNone), (''component'', PNone), (''attemptOrdinal'', PNone), (''providerFamily'', PNone),
      (''attemptOutcome'', PNone), (''durationBucket'', PNone), (''providerRequestUnits'', PNone), (''estimatedCostMicrousd'', PNone)]"

definition terminal_event :: "dict \<Rightarrow> int \<Rightarrow> pyval \<Rightarrow> int \<Rightarrow> pyval \<Rightarrow> dict" where
  "terminal_event m assessed outcome charge reason =
     dmerge (accepted_event m)
       [(''eventType'', PStr ''check_terminal''), (''eventId'', dget m ''terminalEventId''),
        (''eventTimeEpoch'', PInt assessed), (''lifecycleRevision'', PInt 2), (''processingOutcome'', outcome),
        (''accountingState'', PStr (if charge \<noteq> 0 then ''charged'' else ''not_charged'')), (''chargedChecks'', PInt charge),
        (''reasonCode'', reason)]"

definition complete_charge :: "pyval \<Rightarrow> dict \<Rightarrow> int" where
  "complete_charge outcome m =
     of_bool (outcome = PStr ''complete'' \<and> dget m ''accessClass'' \<noteq> PStr ''complimentary'')"

definition settled_events :: "dict \<Rightarrow> dict \<Rightarrow> int \<Rightarrow> (string \<times> dict list) result" where
  \<comment> \<open>the part of \<open>receipt_events\<close> for a settled row\<close>
  "settled_events d m now =
     (let outcome = dget d ''processingOutcome''; reason = dget d ''operationsTerminalReasonCode'';
          receipt = dget d ''receiptId'' in
      rbind (op_int (dget d ''chargedChecks'')) (\<lambda>charge.
      rbind (op_int (dget d ''assessmentEpoch'')) (\<lambda>assessed.
      case outcome_reasons outcome of
        None \<Rightarrow> Inl OP_FAIL
      | Some reasons \<Rightarrow>
          rbind (raise_if (charge \<noteq> complete_charge outcome m
              \<or> \<not> (str_matches (fullmatch is_hex 32 32) receipt
                    \<or> outcome = PStr ''failed'' \<and> reason = PStr ''OPERATION_EXPIRED'' \<and> reference_id ''expired_'' receipt)
              \<or> \<not> (inum m ''acceptedAtEpoch'' \<le> assessed \<and> assessed \<le> now) \<or> assessed \<ge> inum m ''expiresAtEpoch'') OP_FAIL) (\<lambda>_.
          if reason = PNone then Inr (''TERMINAL_REASON_NOT_RECORDED'', [accepted_event m])
          else rbind (raise_if (\<not> one_of reason reasons) OP_FAIL) (\<lambda>_.
            Inr (''CHECK_LIFECYCLE_RECORDED'', [accepted_event m, terminal_event m assessed outcome charge reason]))))))"

definition receipt_events :: "pyval \<Rightarrow> pyval \<Rightarrow> (string \<times> dict list) result" where
  \<comment> \<open>\<open>coverage\<close> and \<open>events\<close>\<close>
  "receipt_events row now_epoch =
     rbind (op_int now_epoch) (\<lambda>now.
     case as_dict row of
       None \<Rightarrow> Inl OP_FAIL
     | Some d \<Rightarrow>
         rbind (raise_if (dget d ''recordType'' \<noteq> PStr ''V1_CHECK_RECEIPT'' \<or> now < 0) OP_FAIL) (\<lambda>_.
         if \<not> dhas d ''operationsReceipt'' then Inr (''NOT_RECORDED'', [])
         else
           rbind (metadata (dget d ''operationsReceipt'')) (\<lambda>m.
           rbind (raise_if (now < inum m ''acceptedAtEpoch'') OP_FAIL) (\<lambda>_.
           if now \<ge> inum m ''expiresAtEpoch'' then Inr (''EXPIRED'', [])
           else
             rbind (raise_if (dget d ''basis'' \<noteq> dget m ''accessClass''
                      \<or> \<not> one_of (dget d ''state'') [''ADMITTED'', ''SETTLED'']) OP_FAIL) (\<lambda>_.
             if dget d ''state'' = PStr ''ADMITTED'' then
               rbind (raise_if (list_ex (\<lambda>k. dget d k \<noteq> PNone)
                        [''chargedChecks'', ''processingOutcome'', ''receiptId'', ''assessmentEpoch'']) OP_FAIL) (\<lambda>_.
               Inr (''ACCEPTED_ONLY'', [accepted_event m]))
             else settled_events d m now)))))"

section \<open>The attempt envelope (\<open>attempts.py\<close>)\<close>

definition COMPONENTS :: "string \<Rightarrow> string option" where
  "COMPONENTS = map_of [(''url_check'', ''url_assessment''), (''message_check'', ''message_evaluator''),
     (''recovery_clarification'', ''recovery_evaluator'')]"

definition BUCKETS :: "string list" where
  "BUCKETS = [''lt_250ms'', ''250_999ms'', ''1_4s'', ''5_14s'', ''15s_plus'']"

definition first_event :: "string \<times> dict list \<Rightarrow> dict result" where   \<comment> \<open>\<open>[...]['events'][0]\<close>\<close>
  "first_event ce = (case snd ce of [] \<Rightarrow> Inl IndexError | e # _ \<Rightarrow> Inr e)"

definition admitted_row :: "dict \<Rightarrow> dict" where
  "admitted_row m = [(''recordType'', PStr ''V1_CHECK_RECEIPT''), (''state'', PStr ''ADMITTED''),
     (''basis'', dget m ''accessClass''), (''operationsReceipt'', PDict m)]"

definition component_of :: "pyval \<Rightarrow> string result" where   \<comment> \<open>\<open>_COMPONENTS[...]\<close>\<close>
  "component_of v = (case as_str v of
      None \<Rightarrow> Inl TypeError
    | Some s \<Rightarrow> (case COMPONENTS s of None \<Rightarrow> Inl (KeyError s) | Some c \<Rightarrow> Inr c))"

definition attempt_base :: "pyval \<Rightarrow> dict result" where
  "attempt_base md =
     rbind (metadata md) (\<lambda>m.
     rbind (receipt_events (PDict (admitted_row m)) (dget m ''acceptedAtEpoch'')) (\<lambda>ce.
     rbind (first_event ce) (\<lambda>accepted.
     rbind (component_of (dget m ''service'')) (\<lambda>comp.
     Inr (dmerge accepted
       [(''lifecycleRevision'', PNone), (''accountingState'', PNone), (''chargedChecks'', PNone), (''accessClass'', PNone),
        (''attemptKind'', PStr ''internal_component''), (''component'', PStr comp), (''attemptOrdinal'', PInt 1)])))))"

definition finish_id :: "env \<Rightarrow> string \<Rightarrow> string" where
  "finish_id E attempt_ref = ''op1_'' @ take 32 (sha256_hex E (''operations-internal-finish:'' @ attempt_ref))"

definition duration_bucket :: "pyval \<Rightarrow> string result" where
  "duration_bucket duration_ms =
     (case duration_ms of
        PInt d \<Rightarrow>
          if \<not> (0 \<le> d \<and> d \<le> 10 ^ 13) then Inl OP_FAIL
          else if d < 250 then Inr ''lt_250ms'' else if d < 1000 then Inr ''250_999ms''
          else if d < 5000 then Inr ''1_4s'' else if d < 15000 then Inr ''5_14s'' else Inr ''15s_plus''
      | _ \<Rightarrow> Inl OP_FAIL)"

definition started_event :: "dict \<Rightarrow> pyval \<Rightarrow> int \<Rightarrow> string \<Rightarrow> dict" where
  "started_event base event_id epoch ref =
     dmerge base [(''eventType'', PStr ''attempt_started''), (''eventId'', event_id),
       (''eventTimeEpoch'', PInt epoch), (''attemptRef'', PStr ref)]"

definition finished_event :: "env \<Rightarrow> dict \<Rightarrow> string \<Rightarrow> int \<Rightarrow> string \<Rightarrow> string \<Rightarrow> dict" where
  "finished_event E started ref epoch outcome bucket =
     dmerge started [(''eventType'', PStr ''attempt_finished''), (''eventId'', PStr (finish_id E ref)),
       (''eventTimeEpoch'', PInt epoch), (''attemptOutcome'', PStr outcome), (''durationBucket'', PStr bucket),
       (''reasonCode'', PStr (if outcome = ''succeeded'' then ''NONE'' else ''SERVICE_UNAVAILABLE''))]"

definition as_fault :: "'a result \<Rightarrow> 'a result" where   \<comment> \<open>\<open>except ...: _fail()\<close>\<close>
  "as_fault r = (case r of Inl _ \<Rightarrow> Inl OP_FAIL | Inr x \<Rightarrow> Inr x)"

definition validate_started :: "env \<Rightarrow> dict \<Rightarrow> pyval \<Rightarrow> int option \<Rightarrow> dict result" where
  \<comment> \<open>the checks on \<open>events[0]\<close>, with the event they establish\<close>
  "validate_started E m start terminal_time =
     (case as_dict start of
        None \<Rightarrow> Inl OP_FAIL
      | Some s \<Rightarrow>
          rbind (didx s ''attemptRef'') (\<lambda>ref.
          rbind (didx s ''eventId'') (\<lambda>event_id.
          rbind (didx s ''eventTimeEpoch'') (\<lambda>time.
          rbind (op_int time) (\<lambda>epoch.
          rbind (op_int (dget s ''attemptOrdinal'')) (\<lambda>ordinal.
          rbind (raise_if (\<not> reference_id ''at1_'' ref \<or> \<not> reference_id ''op1_'' event_id \<or> ordinal \<noteq> 1) OP_FAIL) (\<lambda>_.
          let r = the (as_str ref); fin = PStr (finish_id E r) in
          rbind (raise_if (fin = dget m ''acceptedEventId'' \<or> fin = dget m ''terminalEventId''
              \<or> event_id = dget m ''acceptedEventId'' \<or> event_id = dget m ''terminalEventId'' \<or> event_id = fin
              \<or> \<not> (inum m ''acceptedAtEpoch'' \<le> epoch \<and> epoch < inum m ''expiresAtEpoch'')
              \<or> (case terminal_time of None \<Rightarrow> False | Some t \<Rightarrow> epoch > t)) OP_FAIL) (\<lambda>_.
          rbind (attempt_base (PDict m)) (\<lambda>base.
          let expected = started_event base event_id epoch r in
          rbind (raise_if (\<not> pyeq start (PDict expected)) OP_FAIL) (\<lambda>_.
          Inr expected))))))))))"

definition validate_finished :: "env \<Rightarrow> dict \<Rightarrow> dict \<Rightarrow> pyval \<Rightarrow> dict result" where
  \<comment> \<open>the checks on \<open>events[1]\<close>, after the started event \<open>expected\<close>\<close>
  "validate_finished E m expected finish =
     (case as_dict finish of
        None \<Rightarrow> Inl OP_FAIL
      | Some f \<Rightarrow>
          rbind (didx f ''eventTimeEpoch'') (\<lambda>time.
          rbind (op_int time) (\<lambda>fin.
          rbind (didx f ''attemptOutcome'') (\<lambda>outcome.
          rbind (didx f ''durationBucket'') (\<lambda>bucket.
          rbind (op_int (dget f ''attemptOrdinal'')) (\<lambda>ordinal.
          rbind (raise_if (\<not> one_of outcome [''succeeded'', ''failed''] \<or> ordinal \<noteq> 1 \<or> \<not> one_of bucket BUCKETS
              \<or> \<not> (inum expected ''eventTimeEpoch'' \<le> fin \<and> fin < inum m ''expiresAtEpoch'')) OP_FAIL) (\<lambda>_.
          let ev = finished_event E expected (the (as_str (dget expected ''attemptRef''))) fin
                     (the (as_str outcome)) (the (as_str bucket)) in
          rbind (raise_if (\<not> pyeq finish (PDict ev)) OP_FAIL) (\<lambda>_.
          Inr ev))))))))"

definition validate_attempt_events :: "env \<Rightarrow> pyval \<Rightarrow> pyval \<Rightarrow> int option \<Rightarrow> dict list result" where
  "validate_attempt_events E md events terminal_time =
     rbind (metadata md) (\<lambda>m.
     case events of
       PList [] \<Rightarrow> Inr []
     | PList [start] \<Rightarrow> as_fault (rbind (validate_started E m start terminal_time) (\<lambda>s. Inr [s]))
     | PList [start, finish] \<Rightarrow>
         as_fault (rbind (validate_started E m start terminal_time) (\<lambda>s.
           rbind (validate_finished E m s finish) (\<lambda>f. Inr [s, f])))
     | _ \<Rightarrow> Inl OP_FAIL)"

definition start_internal_attempt :: "env \<Rightarrow> pyval \<Rightarrow> pyval \<Rightarrow> dict eff" where
  "start_internal_attempt E md observed_at =
     ebind (elift (metadata md)) (\<lambda>m.
     ebind (elift (attempt_base (PDict m))) (\<lambda>base.
     ebind (e_random E 16) (\<lambda>r1.
     ebind (elift (op_int observed_at)) (\<lambda>epoch.
     ebind (e_random E 16) (\<lambda>r2.
     let event = started_event base (PStr (''op1_'' @ r1)) epoch (''at1_'' @ r2) in
     ebind (elift (validate_attempt_events E (PDict m) (PList [PDict event]) None)) (\<lambda>evs.
     eret (hd evs)))))))"

definition finish_internal_attempt :: "env \<Rightarrow> pyval \<Rightarrow> pyval \<Rightarrow> pyval \<Rightarrow> string \<Rightarrow> pyval \<Rightarrow> dict result" where
  "finish_internal_attempt E md start observed_at outcome duration_ms =
     rbind (validate_attempt_events E md (PList [start]) None) (\<lambda>firsts.
     let first = hd firsts in
     rbind (op_int observed_at) (\<lambda>epoch.
     rbind (duration_bucket duration_ms) (\<lambda>bucket.
     let value = finished_event E first (the (as_str (dget first ''attemptRef''))) epoch outcome bucket in
     rbind (validate_attempt_events E md (PList [PDict first, PDict value]) None) (\<lambda>evs.
     Inr (evs ! 1)))))"

section \<open>Captured snapshots (\<open>projection.py\<close>)\<close>

record capture =
  cap_version :: int
  cap_state :: string
  cap_reference :: dict
  cap_coverage :: string
  cap_events :: "dict list"

definition capture_value :: "capture \<Rightarrow> dict" where
  \<comment> \<open>the dictionary that \<open>validate_capture\<close> returns and a receipt stores\<close>
  "capture_value c =
     [(''schemaVersion'', PInt (cap_version c)), (''sourceState'', PStr (cap_state c)),
      (''reference'', PDict (cap_reference c)), (''coverage'', PStr (cap_coverage c)),
      (''events'', PList (map PDict (cap_events c)))]"

definition capture_lifecycle :: "string \<Rightarrow> pyval \<Rightarrow> dict \<Rightarrow> dict \<Rightarrow> dict list \<Rightarrow> unit result" where
  \<comment> \<open>the checks of the one or two lifecycle events of a snapshot against its coverage\<close>
  "capture_lifecycle state coverage m accepted evs =
     (case evs of
        [e] \<Rightarrow> raise_if (coverage \<noteq> PStr (if state = ''ADMITTED'' then ''ACCEPTED_ONLY'' else ''TERMINAL_REASON_NOT_RECORDED'')) OP_FAIL
      | [e, ev] \<Rightarrow>
          if state = ''ADMITTED'' then Inl OP_FAIL
          else
            (let outcome = dget ev ''processingOutcome''; reason = dget ev ''reasonCode'' in
             rbind (op_int (dget ev ''chargedChecks'')) (\<lambda>charge.
             rbind (op_int (dget ev ''eventTimeEpoch'')) (\<lambda>assessed.
             rbind (op_int (dget ev ''lifecycleRevision'')) (\<lambda>revision.
             rbind (raise_if (coverage \<noteq> PStr ''CHECK_LIFECYCLE_RECORDED''
                 \<or> \<not> one_of reason (case outcome_reasons outcome of None \<Rightarrow> [] | Some rs \<Rightarrow> rs) \<or> revision \<noteq> 2
                 \<or> charge \<noteq> complete_charge outcome m
                 \<or> \<not> (inum m ''acceptedAtEpoch'' \<le> assessed \<and> assessed < inum m ''expiresAtEpoch'')) OP_FAIL) (\<lambda>_.
             raise_if (\<not> pyeq (PDict ev)
               (PDict (dmerge accepted
                 [(''eventType'', PStr ''check_terminal''), (''eventId'', dget m ''terminalEventId''),
                  (''eventTimeEpoch'', PInt assessed), (''lifecycleRevision'', PInt 2), (''processingOutcome'', outcome),
                  (''accountingState'', PStr (if charge \<noteq> 0 then ''charged'' else ''not_charged'')),
                  (''chargedChecks'', PInt charge), (''reasonCode'', reason)]))) OP_FAIL)))))
      | _ \<Rightarrow> Inl OP_FAIL)"

definition lifecycle_count :: "dict list \<Rightarrow> nat" where
  "lifecycle_count events =
     (if 2 \<le> length events \<and> dget (events ! 1) ''eventType'' = PStr ''check_terminal'' then 2 else 1)"

definition capture_body :: "env \<Rightarrow> int \<Rightarrow> string \<Rightarrow> pyval \<Rightarrow> dict \<Rightarrow> dict list \<Rightarrow> capture result" where
  \<comment> \<open>\<open>validate_capture\<close> from the list of events on\<close>
  "capture_body E version state coverage m events =
     (let count = lifecycle_count events; attempts = drop count events; evs = take count events in
      rbind (raise_if (version = 1 \<and> attempts \<noteq> [] \<or> version = 2 \<and> attempts = []) OP_FAIL) (\<lambda>_.
      rbind (receipt_events (PDict (admitted_row m)) (dget m ''acceptedAtEpoch'')) (\<lambda>ce.
      rbind (first_event ce) (\<lambda>accepted.
      rbind (op_int (dget (hd evs) ''lifecycleRevision'')) (\<lambda>revision.
      rbind (raise_if (revision \<noteq> 1) OP_FAIL) (\<lambda>_.
      rbind (op_int (dget (hd evs) ''eventTimeEpoch'')) (\<lambda>time.
      rbind (raise_if (time \<noteq> inum m ''acceptedAtEpoch'' \<or> \<not> pyeq (PDict (hd evs)) (PDict accepted)) OP_FAIL) (\<lambda>_.
      rbind (capture_lifecycle state coverage m accepted evs) (\<lambda>_.
      rbind (validate_attempt_events E (PDict m) (PList (map PDict attempts))
               (if length evs = 2 then Some (inum (evs ! 1) ''eventTimeEpoch'') else None)) (\<lambda>normalized.
      Inr \<lparr>cap_version = version, cap_state = state, cap_reference = m,
           cap_coverage = the (as_str coverage), cap_events = evs @ normalized\<rparr>))))))))))"

definition validate_capture :: "env \<Rightarrow> pyval \<Rightarrow> capture result" where
  "validate_capture E value =
     (case as_dict value of
        None \<Rightarrow> Inl OP_FAIL
      | Some v \<Rightarrow>
          rbind (raise_if (\<not> has_keys v [''schemaVersion'', ''sourceState'', ''reference'', ''coverage'', ''events'']) OP_FAIL) (\<lambda>_.
          rbind (op_int (dget v ''schemaVersion'')) (\<lambda>version.
          rbind (raise_if (\<not> (version = 1 \<or> version = 2) \<or> \<not> one_of (dget v ''sourceState'') [''ADMITTED'', ''SETTLED'']) OP_FAIL) (\<lambda>_.
          rbind (metadata (dget v ''reference'')) (\<lambda>m.
          case dget v ''events'' of
            PList raw \<Rightarrow>
              rbind (raise_if (\<not> (1 \<le> length raw \<and> length raw \<le> 4) \<or> list_ex (\<lambda>e. as_dict e = None) raw) OP_FAIL) (\<lambda>_.
              capture_body E version (the (as_str (dget v ''sourceState''))) (dget v ''coverage'') m
                (map (\<lambda>e. the (as_dict e)) raw))
          | _ \<Rightarrow> Inl OP_FAIL)))))"

definition is_attempt :: "dict \<Rightarrow> bool" where   \<comment> \<open>\<open>event['eventType'].startswith('attempt_')\<close>\<close>
  "is_attempt e = str_matches (prefixed ''attempt_'' (\<lambda>_. True)) (dget e ''eventType'')"

definition prior_capture :: "env \<Rightarrow> dict \<Rightarrow> capture option result" where
  "prior_capture E d =
     (if dhas d ''operationsProjection''
      then rbind (validate_capture E (dget d ''operationsProjection'')) (\<lambda>c. Inr (Some c)) else Inr None)"

definition capture_projection :: "env \<Rightarrow> dict \<Rightarrow> pyval \<Rightarrow> capture result" where
  "capture_projection E d now_epoch =
     rbind (receipt_events (PDict d) now_epoch) (\<lambda>facts.
     rbind (raise_if (fst facts = ''NOT_RECORDED'' \<or> fst facts = ''EXPIRED'') OP_FAIL) (\<lambda>_.
     rbind (prior_capture E d) (\<lambda>prior.
     let attempts = (case prior of None \<Rightarrow> [] | Some c \<Rightarrow> filter is_attempt (cap_events c)) in
     rbind (metadata (dget d ''operationsReceipt'')) (\<lambda>m.
     rbind (raise_if (case prior of None \<Rightarrow> False | Some c \<Rightarrow> \<not> pyeq (PDict (cap_reference c)) (PDict m)) OP_FAIL) (\<lambda>_.
     rbind (if dget d ''state'' = PStr ''SETTLED''
            then rbind (didx d ''assessmentEpoch'') (\<lambda>v. rbind (op_int v) (\<lambda>n. Inr (Some n))) else Inr None) (\<lambda>terminal_time.
     rbind (validate_attempt_events E (PDict m) (PList (map PDict attempts)) terminal_time) (\<lambda>normal.
     rbind (op_int now_epoch) (\<lambda>now.
     rbind (raise_if (list_ex (\<lambda>e. inum e ''eventTimeEpoch'' > now) normal) OP_FAIL) (\<lambda>_.
     validate_capture E (PDict
       [(''schemaVersion'', PInt (if normal \<noteq> [] then 2 else 1)), (''sourceState'', dget d ''state''), (''reference'', PDict m),
        (''coverage'', PStr (fst facts)), (''events'', PList (map PDict (snd facts @ normal)))]))))))))))"

section \<open>What the functions establish\<close>

lemma op_int_Inr: "op_int v = Inr n \<longleftrightarrow> integral v = Some n \<and> 0 \<le> n \<and> n \<le> 10 ^ 13"
  by (auto simp: op_int_def split: option.splits)

definition metadata_ok :: "dict \<Rightarrow> bool" where
  "metadata_ok m =
     (has_keys m META_KEYS \<and> dget m ''schemaVersion'' = PInt 1
      \<and> reference_id ''lc1_'' (dget m ''logicalCheckRef'')
      \<and> reference_id ''op1_'' (dget m ''acceptedEventId'') \<and> reference_id ''op1_'' (dget m ''terminalEventId'')
      \<and> dget m ''acceptedEventId'' \<noteq> dget m ''terminalEventId''
      \<and> one_of (dget m ''environment'') [''dev'', ''uat'', ''prod'']
      \<and> one_of (dget m ''inputKind'') (service_inputs (dget m ''service''))
      \<and> one_of (dget m ''accessClass'') [''trial'', ''paid'', ''complimentary'']
      \<and> dget m ''acceptedAtEpoch'' = PInt (inum m ''acceptedAtEpoch'')
      \<and> dget m ''expiresAtEpoch'' = PInt (inum m ''expiresAtEpoch'')
      \<and> 0 \<le> inum m ''acceptedAtEpoch'' \<and> inum m ''acceptedAtEpoch'' < inum m ''expiresAtEpoch''
      \<and> inum m ''expiresAtEpoch'' \<le> inum m ''acceptedAtEpoch'' + OPERATIONS_RETENTION
      \<and> inum m ''expiresAtEpoch'' \<le> 10 ^ 13)"

lemma reference_id_iff: "reference_id p v \<longleftrightarrow> (\<exists>s. v = PStr s \<and> prefixed p (fullmatch is_hex 32 32) s)"
  by (simp add: reference_id_def str_matches_iff)

lemma metadata_dict: "metadata v = Inr m \<Longrightarrow> \<exists>d. v = PDict d"
  by (cases "as_dict v") (simp_all add: metadata_def)

lemma metadata_steps:
  assumes "metadata (PDict d) = Inr m"
  obtains sv a e where "has_keys d META_KEYS" "op_int (dget d ''schemaVersion'') = Inr sv"
    "op_int (dget d ''acceptedAtEpoch'') = Inr a" "op_int (dget d ''expiresAtEpoch'') = Inr e"
    "m = dset ''expiresAtEpoch'' (PInt e) (dset ''acceptedAtEpoch'' (PInt a) (dset ''schemaVersion'' (PInt sv) d))"
  using assms by (auto simp: metadata_def rbind_Inr_iff Let_def)

lemma metadata_Inr:
  assumes "metadata (PDict d) = Inr m"
  shows "metadata_ok m" "wf_val (PDict d) \<Longrightarrow> wf_val (PDict m)"
    "k \<notin> {''schemaVersion'', ''acceptedAtEpoch'', ''expiresAtEpoch''} \<Longrightarrow> dget m k = dget d k"
    "integral (dget d ''acceptedAtEpoch'') = Some (inum m ''acceptedAtEpoch'')"
    "integral (dget d ''expiresAtEpoch'') = Some (inum m ''expiresAtEpoch'')"
proof -
  obtain sv a e where
      k: "has_keys d META_KEYS" and i: "op_int (dget d ''schemaVersion'') = Inr sv" "op_int (dget d ''acceptedAtEpoch'') = Inr a"
        "op_int (dget d ''expiresAtEpoch'') = Inr e"
    and m: "m = dset ''expiresAtEpoch'' (PInt e) (dset ''acceptedAtEpoch'' (PInt a) (dset ''schemaVersion'' (PInt sv) d))"
    by (rule metadata_steps [OF assms])
  have "has_keys m META_KEYS" unfolding m by (intro has_keys_dset k) (simp_all add: META_KEYS_def)
  then show "metadata_ok m"
    using assms i by (simp add: metadata_def metadata_ok_def Let_def m op_int_Inr reference_id_iff) auto
  show "wf_val (PDict d) \<Longrightarrow> wf_val (PDict m)" unfolding m by (intro wf_dset) simp_all
  show "k \<notin> {''schemaVersion'', ''acceptedAtEpoch'', ''expiresAtEpoch''} \<Longrightarrow> dget m k = dget d k"
    by (auto simp: m)
  show "integral (dget d ''acceptedAtEpoch'') = Some (inum m ''acceptedAtEpoch'')"
    "integral (dget d ''expiresAtEpoch'') = Some (inum m ''expiresAtEpoch'')"
    using i by (simp_all add: m op_int_Inr)
qed

lemma metadata_idem: "metadata_ok m \<Longrightarrow> metadata (PDict m) = Inr m"
proof -
  assume ok: "metadata_ok m"
  then have k: "has_keys m META_KEYS" by (simp add: metadata_ok_def)
  have has: "dhas m ''schemaVersion''" "dhas m ''acceptedAtEpoch''" "dhas m ''expiresAtEpoch''"
    by (simp_all add: has_keys_dhas [OF k] META_KEYS_def)
  from ok have d: "dget m ''schemaVersion'' = PInt 1" "dget m ''acceptedAtEpoch'' = PInt (inum m ''acceptedAtEpoch'')"
      "dget m ''expiresAtEpoch'' = PInt (inum m ''expiresAtEpoch'')" by (simp_all add: metadata_ok_def)
  have "dset ''expiresAtEpoch'' (PInt (inum m ''expiresAtEpoch'')) (dset ''acceptedAtEpoch'' (PInt (inum m ''acceptedAtEpoch''))
      (dset ''schemaVersion'' (PInt 1) m)) = m"
    using dget_dset_same [OF d(1) has(1)] dget_dset_same [OF d(2) has(2)] dget_dset_same [OF d(3) has(3)] by simp
  with ok d show ?thesis
    by (simp add: metadata_def metadata_ok_def Let_def op_int_def reference_id_iff) auto
qed

text \<open>
  C20 (functional). An admission mints one operational reference: three fresh identifiers, the
  service and input kind that the payload names, and a deadline that is after the acceptance, at most
  seven days after it and never later than the receipt's own deadline. The result is a fixed point
  of the validation every later reader applies.
\<close>

theorem admission_mints_reference:
  assumes "admission_fields E payload (PInt accepted) (PInt deadline) access environment w = (Inr f, w')"
  shows "\<exists>m s k. f = [(''operationsReceipt'', PDict m)] \<and> retirement_metadata (PDict f) = Inr m
     \<and> admission_kind payload = Inr (s, k) \<and> dget m ''service'' = PStr s \<and> dget m ''inputKind'' = PStr k
     \<and> dget m ''accessClass'' = access \<and> inum m ''acceptedAtEpoch'' = accepted
     \<and> accepted < inum m ''expiresAtEpoch'' \<and> inum m ''expiresAtEpoch'' \<le> deadline
     \<and> inum m ''expiresAtEpoch'' \<le> accepted + OPERATIONS_RETENTION"
proof -
  from assms obtain s k r1 r2 r3 m where
      f: "f = [(''operationsReceipt'', PDict m)]" "admission_kind payload = Inr (s, k)"
    and m: "metadata (PDict [(''schemaVersion'', PInt 1), (''logicalCheckRef'', PStr (''lc1_'' @ r1)),
              (''acceptedEventId'', PStr (''op1_'' @ r2)), (''terminalEventId'', PStr (''op1_'' @ r3)),
              (''environment'', environment), (''service'', PStr s), (''inputKind'', PStr k),
              (''accessClass'', access), (''acceptedAtEpoch'', PInt accepted),
              (''expiresAtEpoch'', PInt (min deadline (accepted + OPERATIONS_RETENTION)))]) = Inr m"
    by (auto simp: admission_fields_def ebind_Inr Let_def op_int_Inr)
  note md = metadata_Inr [OF m]
  have "dget m ''service'' = PStr s" "dget m ''inputKind'' = PStr k" "dget m ''accessClass'' = access"
    by (subst md(3); simp)+
  moreover have "inum m ''acceptedAtEpoch'' = accepted"
      "inum m ''expiresAtEpoch'' = min deadline (accepted + OPERATIONS_RETENTION)"
    using md(4,5) by simp_all
  moreover have "accepted < inum m ''expiresAtEpoch''"
    using md(1) \<open>inum m ''acceptedAtEpoch'' = accepted\<close> by (simp add: metadata_ok_def)
  moreover note metadata_idem [OF md(1)]
  ultimately show ?thesis using f
    by (simp add: retirement_metadata_def)
qed

lemma settled_events_Inr:
  assumes "settled_events d m now = Inr (c, evs)"
  shows "\<exists>charge assessed. integral (dget d ''chargedChecks'') = Some charge \<and> integral (dget d ''assessmentEpoch'') = Some assessed
    \<and> charge = complete_charge (dget d ''processingOutcome'') m
    \<and> inum m ''acceptedAtEpoch'' \<le> assessed \<and> assessed \<le> now \<and> assessed < inum m ''expiresAtEpoch''
    \<and> (c = ''TERMINAL_REASON_NOT_RECORDED'' \<and> evs = [accepted_event m]
       \<or> c = ''CHECK_LIFECYCLE_RECORDED''
           \<and> evs = [accepted_event m, terminal_event m assessed (dget d ''processingOutcome'') charge (dget d ''operationsTerminalReasonCode'')]
           \<and> (\<exists>rs. outcome_reasons (dget d ''processingOutcome'') = Some rs \<and> one_of (dget d ''operationsTerminalReasonCode'') rs))"
proof -
  from assms obtain charge assessed where
      i: "op_int (dget d ''chargedChecks'') = Inr charge" "op_int (dget d ''assessmentEpoch'') = Inr assessed"
    unfolding settled_events_def Let_def rbind_Inr_iff by blast
  from assms i obtain rs where rs: "outcome_reasons (dget d ''processingOutcome'') = Some rs"
    by (cases "outcome_reasons (dget d ''processingOutcome'')") (simp_all add: settled_events_def Let_def)
  show ?thesis
    using assms i rs by (simp add: settled_events_def Let_def op_int_Inr [symmetric] split: if_splits) (auto simp: op_int_Inr)
qed

text \<open>
  C12 (safety). What is projected from a stored receipt: an accepted event that repeats the captured
  reference, and for a settled receipt with a recorded reason one terminal event, with the charge
  that the complete-only rule gives for the outcome and access class, a reason the outcome allows,
  and a time between acceptance and deadline. Nothing is projected once the deadline has passed.
\<close>

theorem receipt_events_sound:
  assumes "receipt_events (PDict d) (PInt now) = Inr (c, evs)"
  shows "(evs = [] \<longrightarrow> c = ''NOT_RECORDED'' \<and> \<not> dhas d ''operationsReceipt''
            \<or> c = ''EXPIRED'' \<and> (\<exists>m. metadata (dget d ''operationsReceipt'') = Inr m \<and> inum m ''expiresAtEpoch'' \<le> now))
     \<and> (evs \<noteq> [] \<longrightarrow> (\<exists>m. metadata (dget d ''operationsReceipt'') = Inr m \<and> hd evs = accepted_event m
            \<and> dget d ''basis'' = dget m ''accessClass''
            \<and> inum m ''acceptedAtEpoch'' \<le> now \<and> now < inum m ''expiresAtEpoch''
            \<and> (tl evs \<noteq> [] \<longrightarrow> (\<exists>t outcome rs. tl evs = [t] \<and> dget d ''state'' = PStr ''SETTLED''
                 \<and> dget t ''processingOutcome'' = PStr outcome \<and> REASONS outcome = Some rs \<and> one_of (dget t ''reasonCode'') rs
                 \<and> inum t ''chargedChecks'' = of_bool (outcome = ''complete'' \<and> dget d ''basis'' \<noteq> PStr ''complimentary'')
                 \<and> integral (dget d ''chargedChecks'') = Some (inum t ''chargedChecks'')
                 \<and> dget t ''accountingState'' = PStr (if inum t ''chargedChecks'' = 1 then ''charged'' else ''not_charged'')
                 \<and> inum m ''acceptedAtEpoch'' \<le> inum t ''eventTimeEpoch'' \<and> inum t ''eventTimeEpoch'' \<le> now))))"
proof (cases "dhas d ''operationsReceipt''")
  case False
  with assms show ?thesis by (auto simp: receipt_events_def rbind_Inr_iff op_int_Inr)
next
  case True
  with assms obtain m where m: "metadata (dget d ''operationsReceipt'') = Inr m" "\<not> now < inum m ''acceptedAtEpoch''"
    by (auto simp: receipt_events_def rbind_Inr_iff op_int_Inr)
  show ?thesis
  proof (cases "now \<ge> inum m ''expiresAtEpoch''")
    case late: True
    with True assms m show ?thesis by (auto simp: receipt_events_def rbind_Inr_iff op_int_Inr)
  next
    case False
    with True assms m have b: "dget d ''basis'' = dget m ''accessClass''" "one_of (dget d ''state'') [''ADMITTED'', ''SETTLED'']"
      by (auto simp: receipt_events_def rbind_Inr_iff op_int_Inr)
    show ?thesis
    proof (cases "dget d ''state'' = PStr ''ADMITTED''")
      case adm: True
      with True False assms m b show ?thesis by (auto simp: receipt_events_def rbind_Inr_iff op_int_Inr)
    next
      case settled: False
      with b have st: "dget d ''state'' = PStr ''SETTLED''" by (auto simp: one_of_iff)
      from True False settled assms m b have "settled_events d m now = Inr (c, evs)"
        by (auto simp: receipt_events_def rbind_Inr_iff op_int_Inr)
      from settled_events_Inr [OF this] obtain charge assessed where
          charge: "integral (dget d ''chargedChecks'') = Some charge" "charge = complete_charge (dget d ''processingOutcome'') m"
        and time: "inum m ''acceptedAtEpoch'' \<le> assessed" "assessed \<le> now"
        and evs: "evs = [accepted_event m] \<or>
            (evs = [accepted_event m, terminal_event m assessed (dget d ''processingOutcome'') charge (dget d ''operationsTerminalReasonCode'')]
             \<and> (\<exists>rs. outcome_reasons (dget d ''processingOutcome'') = Some rs \<and> one_of (dget d ''operationsTerminalReasonCode'') rs))"
        by blast
      from evs show ?thesis
      proof (elim disjE conjE exE)
        assume "evs = [accepted_event m]"
        with m b False show ?thesis by simp
      next
        fix rs
        let ?t = "terminal_event m assessed (dget d ''processingOutcome'') charge (dget d ''operationsTerminalReasonCode'')"
        assume e: "evs = [accepted_event m, ?t]" and r: "outcome_reasons (dget d ''processingOutcome'') = Some rs"
          "one_of (dget d ''operationsTerminalReasonCode'') rs"
        from r(1) obtain o' where o': "dget d ''processingOutcome'' = PStr o'" "REASONS o' = Some rs"
          by (auto simp: outcome_reasons_def split: option.splits)
        have "dget ?t ''processingOutcome'' = dget d ''processingOutcome''" "dget ?t ''reasonCode'' = dget d ''operationsTerminalReasonCode''"
          "inum ?t ''chargedChecks'' = charge" "inum ?t ''eventTimeEpoch'' = assessed"
          "dget ?t ''accountingState'' = PStr (if charge \<noteq> 0 then ''charged'' else ''not_charged'')"
          by (simp_all add: terminal_event_def dget_dmerge inum_def)
        with e r o' m b False st charge time show ?thesis
          by (auto simp: complete_charge_def)
      qed
    qed
  qed
qed


lemma metadata_ok_strings:
  assumes "metadata_ok m"
  obtains l a t e s i c where "dget m ''logicalCheckRef'' = PStr l" "dget m ''acceptedEventId'' = PStr a" "dget m ''terminalEventId'' = PStr t"
    "dget m ''environment'' = PStr e" "dget m ''service'' = PStr s" "dget m ''inputKind'' = PStr i" "dget m ''accessClass'' = PStr c"
    "s \<in> {''message_check'', ''url_check'', ''recovery_clarification''}" "c \<in> {''trial'', ''paid'', ''complimentary''}"
proof -
  from assms obtain i where i: "dget m ''inputKind'' = PStr i" "i \<in> set (service_inputs (dget m ''service''))"
    by (auto simp: metadata_ok_def one_of_iff)
  from i(2) obtain s where s: "dget m ''service'' = PStr s"
    by (cases "as_str (dget m ''service'')") (auto simp: service_inputs_def)
  with i(2) have "INPUTS s \<noteq> None" by (cases "INPUTS s") (auto simp: service_inputs_def)
  then have "s \<in> {''message_check'', ''url_check'', ''recovery_clarification''}"
    by (auto simp: INPUTS_def split: if_splits)
  with assms i s show thesis
    by (auto simp: metadata_ok_def one_of_iff reference_id_iff intro: that)
qed

lemma wf_accepted_event: "metadata_ok m \<Longrightarrow> wf_val (PDict (accepted_event m))"
  by (rule metadata_ok_strings, assumption) (simp add: accepted_event_def metadata_ok_def)

lemma admitted_row_events:
  assumes "metadata_ok m"
  shows "receipt_events (PDict (admitted_row m)) (dget m ''acceptedAtEpoch'') = Inr (''ACCEPTED_ONLY'', [accepted_event m])"
proof -
  have "op_int (dget m ''acceptedAtEpoch'') = Inr (inum m ''acceptedAtEpoch'')"
    using assms by (simp add: metadata_ok_def op_int_Inr)
  moreover have "\<not> inum m ''acceptedAtEpoch'' < 0" "\<not> inum m ''expiresAtEpoch'' \<le> inum m ''acceptedAtEpoch''"
    using assms by (simp_all add: metadata_ok_def)
  ultimately show ?thesis
    by (simp add: receipt_events_def admitted_row_def metadata_idem [OF assms])
qed

definition base_event :: "dict \<Rightarrow> dict" where
  "base_event m = dmerge (accepted_event m)
     [(''lifecycleRevision'', PNone), (''accountingState'', PNone), (''chargedChecks'', PNone), (''accessClass'', PNone),
      (''attemptKind'', PStr ''internal_component''),
      (''component'', PStr (the (COMPONENTS (the (as_str (dget m ''service'')))))), (''attemptOrdinal'', PInt 1)]"

lemma attempt_base_ok: "metadata_ok m \<Longrightarrow> attempt_base (PDict m) = Inr (base_event m)"
proof -
  assume ok: "metadata_ok m"
  obtain s where s: "dget m ''service'' = PStr s" "s \<in> {''message_check'', ''url_check'', ''recovery_clarification''}"
    by (rule metadata_ok_strings [OF ok])
  then have "component_of (dget m ''service'') = Inr (the (COMPONENTS s))"
    by (auto simp: component_of_def COMPONENTS_def)
  with s(1) show ?thesis
    by (simp add: attempt_base_def metadata_idem [OF ok] admitted_row_events [OF ok] first_event_def base_event_def)
qed

lemma wf_base_event: "metadata_ok m \<Longrightarrow> wf_val (PDict (base_event m))"
  unfolding base_event_def by (rule wf_dmerge [OF wf_accepted_event]) simp_all

lemma base_event_fields: "dget (base_event m) ''attemptOrdinal'' = PInt 1"
  by (simp add: base_event_def dget_dmerge)

lemma started_event_fields [simp]:
  "didx (started_event b i t r) ''attemptRef'' = Inr (PStr r)" "didx (started_event b i t r) ''eventId'' = Inr i"
  "didx (started_event b i t r) ''eventTimeEpoch'' = Inr (PInt t)"
  "dget (started_event b i t r) ''attemptRef'' = PStr r" "dget (started_event b i t r) ''eventId'' = i"
  "dget (started_event b i t r) ''eventType'' = PStr ''attempt_started''"
  "inum (started_event b i t r) ''eventTimeEpoch'' = t"
  "dget (started_event b i t r) ''attemptOrdinal'' = dget b ''attemptOrdinal''"
  by (simp_all add: started_event_def didx_dmerge dget_dmerge inum_def)

lemma finished_event_fields [simp]:
  "didx (finished_event E s r t out bu) ''eventTimeEpoch'' = Inr (PInt t)"
  "didx (finished_event E s r t out bu) ''attemptOutcome'' = Inr (PStr out)"
  "didx (finished_event E s r t out bu) ''durationBucket'' = Inr (PStr bu)"
  "dget (finished_event E s r t out bu) ''attemptOrdinal'' = dget s ''attemptOrdinal''"
  "dget (finished_event E s r t out bu) ''attemptRef'' = dget s ''attemptRef''"
  "dget (finished_event E s r t out bu) ''durationBucket'' = PStr bu"
  "dget (finished_event E s r t out bu) ''reasonCode'' = PStr (if out = ''succeeded'' then ''NONE'' else ''SERVICE_UNAVAILABLE'')"
  "dget (finished_event E s r t out bu) ''eventType'' = PStr ''attempt_finished''"
  by (simp_all add: finished_event_def didx_dmerge dget_dmerge)

definition started_ok :: "env \<Rightarrow> dict \<Rightarrow> int option \<Rightarrow> pyval \<Rightarrow> int \<Rightarrow> string \<Rightarrow> bool" where
  "started_ok E m terminal_time event_id epoch r =
     (reference_id ''at1_'' (PStr r) \<and> reference_id ''op1_'' event_id
      \<and> PStr (finish_id E r) \<noteq> dget m ''acceptedEventId'' \<and> PStr (finish_id E r) \<noteq> dget m ''terminalEventId''
      \<and> event_id \<noteq> dget m ''acceptedEventId'' \<and> event_id \<noteq> dget m ''terminalEventId'' \<and> event_id \<noteq> PStr (finish_id E r)
      \<and> 0 \<le> epoch \<and> epoch \<le> 10 ^ 13
      \<and> inum m ''acceptedAtEpoch'' \<le> epoch \<and> epoch < inum m ''expiresAtEpoch''
      \<and> (case terminal_time of None \<Rightarrow> True | Some t \<Rightarrow> epoch \<le> t))"

lemma validate_started_Inr:
  assumes "validate_started E m start tt = Inr e" "metadata_ok m"
  shows "\<exists>event_id epoch r. e = started_event (base_event m) event_id epoch r \<and> started_ok E m tt event_id epoch r"
proof -
  from assms(1) obtain s where s: "start = PDict s"
    by (cases "as_dict start") (simp_all add: validate_started_def)
  from assms(1) s obtain ref ei t epoch ord where i: "didx s ''attemptRef'' = Inr ref" "didx s ''eventId'' = Inr ei"
      "didx s ''eventTimeEpoch'' = Inr t" "op_int t = Inr epoch" "op_int (dget s ''attemptOrdinal'') = Inr ord"
      "reference_id ''at1_'' ref"
    by (auto simp: validate_started_def rbind_Inr_iff)
  from i(6) obtain r where r: "ref = PStr r" by (auto simp: reference_id_iff)
  have "e = started_event (base_event m) ei epoch r \<and> started_ok E m tt ei epoch r"
    using assms(1) i s r
    by (simp add: validate_started_def attempt_base_ok [OF assms(2)] Let_def started_ok_def op_int_Inr split: option.splits)
  then show ?thesis by blast
qed

lemma validate_started_self:
  assumes "started_ok E m tt event_id epoch r" "metadata_ok m"
  shows "validate_started E m (PDict (started_event (base_event m) event_id epoch r)) tt
    = Inr (started_event (base_event m) event_id epoch r)"
proof -
  let ?s = "started_event (base_event m) event_id epoch r"
  from assms(1) obtain i where "event_id = PStr i" by (auto simp: started_ok_def reference_id_iff)
  then have "wf_val (PDict ?s)"
    unfolding started_event_def by (intro wf_dmerge wf_base_event assms) simp_all
  then have "pyeq (PDict ?s) (PDict ?s)" by (rule veq_refl)
  moreover have "op_int (PInt epoch) = Inr epoch" "op_int (PInt 1) = Inr 1"
    using assms(1) by (simp_all add: op_int_Inr started_ok_def)
  ultimately show ?thesis
    using assms(1)
    by (simp add: validate_started_def attempt_base_ok [OF assms(2)] base_event_fields Let_def started_ok_def split: option.splits)
qed


definition finished_ok :: "dict \<Rightarrow> int \<Rightarrow> int \<Rightarrow> string \<Rightarrow> string \<Rightarrow> bool" where
  "finished_ok m epoch fin outcome bucket =
     (0 \<le> fin \<and> fin \<le> 10 ^ 13 \<and> outcome \<in> {''succeeded'', ''failed''} \<and> bucket \<in> set BUCKETS
      \<and> epoch \<le> fin \<and> fin < inum m ''expiresAtEpoch'')"

lemma validate_finished_Inr:
  assumes "validate_finished E m s finish = Inr f"
  shows "\<exists>fin outcome bucket. f = finished_event E s (the (as_str (dget s ''attemptRef''))) fin outcome bucket
    \<and> finished_ok m (inum s ''eventTimeEpoch'') fin outcome bucket"
proof -
  from assms obtain d where d: "finish = PDict d"
    by (cases "as_dict finish") (simp_all add: validate_finished_def)
  from assms d obtain t fin out bu ord where i: "didx d ''eventTimeEpoch'' = Inr t" "op_int t = Inr fin"
      "didx d ''attemptOutcome'' = Inr out" "didx d ''durationBucket'' = Inr bu" "op_int (dget d ''attemptOrdinal'') = Inr ord"
      "one_of out [''succeeded'', ''failed'']" "one_of bu BUCKETS"
    by (auto simp: validate_finished_def rbind_Inr_iff)
  from i(6,7) obtain o' b where "out = PStr o'" "bu = PStr b" by (auto simp: one_of_iff)
  with assms d i have "f = finished_event E s (the (as_str (dget s ''attemptRef''))) fin o' b
    \<and> finished_ok m (inum s ''eventTimeEpoch'') fin o' b"
    by (simp add: validate_finished_def Let_def finished_ok_def op_int_Inr) auto
  then show ?thesis by blast
qed

lemma validate_finished_self:
  assumes "wf_val (PDict s)" "dget s ''attemptOrdinal'' = PInt 1" "dget s ''attemptRef'' = PStr r"
    "finished_ok m (inum s ''eventTimeEpoch'') fin outcome bucket"
  shows "validate_finished E m s (PDict (finished_event E s r fin outcome bucket)) = Inr (finished_event E s r fin outcome bucket)"
proof -
  have "wf_val (PDict (finished_event E s r fin outcome bucket))"
    unfolding finished_event_def by (intro wf_dmerge assms(1)) simp
  then have "pyeq (PDict (finished_event E s r fin outcome bucket)) (PDict (finished_event E s r fin outcome bucket))"
    by (rule veq_refl)
  moreover have "op_int (PInt fin) = Inr fin" "op_int (PInt 1) = Inr 1"
    using assms(4) by (simp_all add: op_int_Inr finished_ok_def)
  ultimately show ?thesis
    using assms(2-4) by (simp add: validate_finished_def Let_def finished_ok_def)
qed

lemma wf_started: "metadata_ok m \<Longrightarrow> started_ok E m tt i t r \<Longrightarrow> wf_val (PDict (started_event (base_event m) i t r))"
  unfolding started_event_def
  by (intro wf_dmerge wf_base_event) (auto simp: started_ok_def reference_id_iff)

text \<open>A validated attempt list is its own validation, and starts with the started event.\<close>

lemma validate_attempt_events_Inr:
  assumes "validate_attempt_events E (PDict m) raw tt = Inr evs" "metadata_ok m"
  shows "validate_attempt_events E (PDict m) (PList (map PDict evs)) tt = Inr evs"
    "\<exists>xs. raw = PList xs \<and> length xs = length evs \<and> length evs \<le> 2"
    "evs \<noteq> [] \<Longrightarrow> dget (hd evs) ''eventType'' = PStr ''attempt_started''"
proof -
  note id = metadata_idem [OF assms(2)]
  from assms(1) obtain xs where raw: "raw = PList xs" by (cases raw) (simp_all add: validate_attempt_events_def id)
  consider "xs = []" | a where "xs = [a]" | a b where "xs = [a, b]" | a b c d where "xs = a # b # c # d"
    by (cases xs; cases "tl xs"; cases "tl (tl xs)") auto
  then have "validate_attempt_events E (PDict m) (PList (map PDict evs)) tt = Inr evs
    \<and> length xs = length evs \<and> length evs \<le> 2 \<and> (evs \<noteq> [] \<longrightarrow> dget (hd evs) ''eventType'' = PStr ''attempt_started'')"
  proof cases
    case 1
    with assms raw id show ?thesis by (auto simp: validate_attempt_events_def)
  next
    case (2 a)
    with assms raw id obtain s where s: "validate_started E m a tt = Inr s" "evs = [s]"
      by (auto simp: validate_attempt_events_def as_fault_def rbind_Inr_iff split: sum.splits)
    from validate_started_Inr [OF s(1) assms(2)] obtain i t r where
      e: "s = started_event (base_event m) i t r" "started_ok E m tt i t r" by blast
    from validate_started_self [OF e(2) assms(2)] 2 s(2) e(1) id show ?thesis
      by (simp add: validate_attempt_events_def as_fault_def)
  next
    case (3 a b)
    with assms raw id obtain s f where s: "validate_started E m a tt = Inr s" "validate_finished E m s b = Inr f" "evs = [s, f]"
      by (auto simp: validate_attempt_events_def as_fault_def rbind_Inr_iff split: sum.splits)
    from validate_started_Inr [OF s(1) assms(2)] obtain i t r where
      e: "s = started_event (base_event m) i t r" "started_ok E m tt i t r" by blast
    from validate_finished_Inr [OF s(2)] e(1) obtain fin out bu where
      f: "f = finished_event E s r fin out bu" "finished_ok m (inum s ''eventTimeEpoch'') fin out bu" by auto
    have ff: "validate_finished E m s (PDict f) = Inr f"
      unfolding f(1) by (rule validate_finished_self [OF wf_started [OF assms(2) e(2), folded e(1)] _ _ f(2)])
        (simp_all add: e(1) base_event_fields)
    from validate_started_self [OF e(2) assms(2), folded e(1)] ff 3 s(3) id show ?thesis
      by (simp add: validate_attempt_events_def as_fault_def) (simp add: e(1))
  next
    case 4
    with assms raw id show ?thesis by (simp add: validate_attempt_events_def)
  qed
  with raw show "validate_attempt_events E (PDict m) (PList (map PDict evs)) tt = Inr evs"
    "\<exists>xs. raw = PList xs \<and> length xs = length evs \<and> length evs \<le> 2"
    "evs \<noteq> [] \<Longrightarrow> dget (hd evs) ''eventType'' = PStr ''attempt_started''" by auto
qed

lemma duration_bucket_Inr: "0 \<le> d \<Longrightarrow> d \<le> 10 ^ 13 \<Longrightarrow> \<exists>b. duration_bucket (PInt d) = Inr b \<and> b \<in> set BUCKETS"
  by (simp add: duration_bucket_def BUCKETS_def)

text \<open>
  C21 (roundtrip). The two halves of the attempt envelope fit: a started event can be finished once
  at any later time before the deadline, with either outcome and any admissible duration, and the
  pair is exactly what validating the stored pair returns.
\<close>

theorem attempt_roundtrip:
  assumes "start_internal_attempt E md observed w = (Inr s, w')"
    and "inum s ''eventTimeEpoch'' \<le> t" "metadata md = Inr m" "t < inum m ''expiresAtEpoch''"
    and "outcome \<in> {''succeeded'', ''failed''}" "0 \<le> d" "d \<le> 10 ^ 13"
  shows "\<exists>f. finish_internal_attempt E md (PDict s) (PInt t) outcome (PInt d) = Inr f
     \<and> validate_attempt_events E md (PList [PDict s, PDict f]) None = Inr [s, f]
     \<and> dget f ''attemptRef'' = dget s ''attemptRef'' \<and> dget f ''eventType'' = PStr ''attempt_finished''
     \<and> dget f ''reasonCode'' = PStr (if outcome = ''succeeded'' then ''NONE'' else ''SERVICE_UNAVAILABLE'')"
proof -
  obtain dm where "md = PDict dm" using metadata_dict [OF assms(3)] by blast
  with assms(3) have ok: "metadata_ok m" using metadata_Inr(1) by blast
  note id = metadata_idem [OF ok]
  have md: "validate_attempt_events E md evs tt = validate_attempt_events E (PDict m) evs tt" for evs tt
    by (simp add: validate_attempt_events_def assms(3) id)
  from assms(1,3) obtain r1 r2 evs epoch where v: "validate_attempt_events E (PDict m)
      (PList [PDict (started_event (base_event m) (PStr (''op1_'' @ r1)) epoch (''at1_'' @ r2))]) None = Inr evs" "s = hd evs"
    by (auto simp: start_internal_attempt_def ebind_Inr Let_def attempt_base_ok [OF ok])
  from v(1) obtain s' where s': "validate_started E m (PDict (started_event (base_event m) (PStr (''op1_'' @ r1)) epoch (''at1_'' @ r2))) None = Inr s'"
      "evs = [s']"
    by (auto simp: validate_attempt_events_def id as_fault_def rbind_Inr_iff split: sum.splits)
  from v(2) s'(2) have "s' = s" by simp
  with validate_started_Inr [OF s'(1) ok] obtain i e r where
      s: "s = started_event (base_event m) i e r" "started_ok E m None i e r" by blast
  note self = validate_started_self [OF s(2) ok, folded s(1)]
  obtain b where b: "duration_bucket (PInt d) = Inr b" "b \<in> set BUCKETS" using duration_bucket_Inr [OF assms(6,7)] by blast
  let ?f = "finished_event E s r t outcome b"
  have bounds: "0 \<le> t" "t \<le> 10 ^ 13"
    using assms(2,4) s ok by (auto simp: started_ok_def metadata_ok_def)
  have fok: "finished_ok m (inum s ''eventTimeEpoch'') t outcome b"
    using assms(2,4,5) bounds b(2) by (simp add: finished_ok_def)
  have ref: "dget s ''attemptRef'' = PStr r" by (simp add: s(1))
  have fin: "validate_finished E m s (PDict ?f) = Inr ?f"
    by (rule validate_finished_self [OF wf_started [OF ok s(2), folded s(1)] _ ref fok]) (simp add: s(1) base_event_fields)
  have pair: "validate_attempt_events E md (PList [PDict s, PDict ?f]) None = Inr [s, ?f]"
    unfolding md using self fin by (simp add: validate_attempt_events_def id as_fault_def)
  have one: "validate_attempt_events E md (PList [PDict s]) None = Inr [s]"
    unfolding md using self by (simp add: validate_attempt_events_def id as_fault_def)
  have "finish_internal_attempt E md (PDict s) (PInt t) outcome (PInt d) = Inr ?f"
    using one pair b(1) bounds ref by (simp add: finish_internal_attempt_def op_int_def)
  with pair show ?thesis by auto
qed


lemma capture_lifecycle_Inr:
  assumes "capture_lifecycle st cov m acc evs = Inr u"
  shows "length evs = 1 \<or> length evs = 2" "\<exists>c. cov = PStr c"
    "length evs = 2 \<Longrightarrow> st \<noteq> ''ADMITTED'' \<and> pyeq (PDict (evs ! 1)) (PDict (dmerge acc
        [(''eventType'', PStr ''check_terminal''), (''eventId'', dget m ''terminalEventId''),
         (''eventTimeEpoch'', PInt (inum (evs ! 1) ''eventTimeEpoch'')), (''lifecycleRevision'', PInt 2),
         (''processingOutcome'', dget (evs ! 1) ''processingOutcome''),
         (''accountingState'', PStr (if inum (evs ! 1) ''chargedChecks'' \<noteq> 0 then ''charged'' else ''not_charged'')),
         (''chargedChecks'', PInt (inum (evs ! 1) ''chargedChecks'')), (''reasonCode'', dget (evs ! 1) ''reasonCode'')]))
      \<and> inum (evs ! 1) ''chargedChecks'' = complete_charge (dget (evs ! 1) ''processingOutcome'') m"
proof -
  consider "evs = []" | a where "evs = [a]" | a b where "evs = [a, b]" | a b c d where "evs = a # b # c # d"
    by (cases evs; cases "tl evs"; cases "tl (tl evs)") auto
  then have "(length evs = 1 \<or> length evs = 2) \<and> (\<exists>c. cov = PStr c) \<and> (length evs = 2 \<longrightarrow>
      st \<noteq> ''ADMITTED'' \<and> pyeq (PDict (evs ! 1)) (PDict (dmerge acc
        [(''eventType'', PStr ''check_terminal''), (''eventId'', dget m ''terminalEventId''),
         (''eventTimeEpoch'', PInt (inum (evs ! 1) ''eventTimeEpoch'')), (''lifecycleRevision'', PInt 2),
         (''processingOutcome'', dget (evs ! 1) ''processingOutcome''),
         (''accountingState'', PStr (if inum (evs ! 1) ''chargedChecks'' \<noteq> 0 then ''charged'' else ''not_charged'')),
         (''chargedChecks'', PInt (inum (evs ! 1) ''chargedChecks'')), (''reasonCode'', dget (evs ! 1) ''reasonCode'')]))
      \<and> inum (evs ! 1) ''chargedChecks'' = complete_charge (dget (evs ! 1) ''processingOutcome'') m)"
  proof cases
    case (3 a b)
    with assms obtain charge assessed rev where i: "op_int (dget b ''chargedChecks'') = Inr charge"
        "op_int (dget b ''eventTimeEpoch'') = Inr assessed" "op_int (dget b ''lifecycleRevision'') = Inr rev"
      by (auto simp: capture_lifecycle_def Let_def rbind_Inr_iff split: if_splits)
    then have "inum b ''chargedChecks'' = charge" "inum b ''eventTimeEpoch'' = assessed"
      by (simp_all add: op_int_Inr inum_def)
    with assms 3 i show ?thesis by (simp add: capture_lifecycle_def Let_def split: if_splits) auto
  qed (use assms in \<open>simp_all add: capture_lifecycle_def\<close>)
  then show "length evs = 1 \<or> length evs = 2" "\<exists>c. cov = PStr c"
    "length evs = 2 \<Longrightarrow> st \<noteq> ''ADMITTED'' \<and> pyeq (PDict (evs ! 1)) (PDict (dmerge acc
        [(''eventType'', PStr ''check_terminal''), (''eventId'', dget m ''terminalEventId''),
         (''eventTimeEpoch'', PInt (inum (evs ! 1) ''eventTimeEpoch'')), (''lifecycleRevision'', PInt 2),
         (''processingOutcome'', dget (evs ! 1) ''processingOutcome''),
         (''accountingState'', PStr (if inum (evs ! 1) ''chargedChecks'' \<noteq> 0 then ''charged'' else ''not_charged'')),
         (''chargedChecks'', PInt (inum (evs ! 1) ''chargedChecks'')), (''reasonCode'', dget (evs ! 1) ''reasonCode'')]))
      \<and> inum (evs ! 1) ''chargedChecks'' = complete_charge (dget (evs ! 1) ''processingOutcome'') m"
    by blast+
qed

lemma capture_body_Inr:
  assumes "capture_body E version st cov m events = Inr c" "metadata_ok m" "events \<noteq> []" "length events \<le> 4"
  shows "capture_body E version st (PStr (cap_coverage c)) m (cap_events c) = Inr c"
    "1 \<le> length (cap_events c)" "length (cap_events c) \<le> 4"
    "cap_version c = version" "cap_state c = st" "cap_reference c = m"
proof -
  define n where "n = lifecycle_count events"
  define evs where "evs = take n events"
  from assms(1) obtain normal where
      v: "version = 1 \<longrightarrow> drop n events = []" "version = 2 \<longrightarrow> drop n events \<noteq> []"
    and e: "op_int (dget (hd evs) ''lifecycleRevision'') = Inr 1"
      "op_int (dget (hd evs) ''eventTimeEpoch'') = Inr (inum m ''acceptedAtEpoch'')"
      "pyeq (PDict (hd evs)) (PDict (accepted_event m))"
      "capture_lifecycle st cov m (accepted_event m) evs = Inr ()"
      "validate_attempt_events E (PDict m) (PList (map PDict (drop n events)))
        (if length evs = 2 then Some (inum (evs ! 1) ''eventTimeEpoch'') else None) = Inr normal"
    and c: "c = \<lparr>cap_version = version, cap_state = st, cap_reference = m,
        cap_coverage = the (as_str cov), cap_events = evs @ normal\<rparr>"
    unfolding capture_body_def Let_def n_def [symmetric] evs_def [symmetric] admitted_row_events [OF assms(2)]
    by (auto simp: first_event_def rbind_Inr_iff)
  note w = validate_attempt_events_Inr [OF e(5) assms(2)]
  from w(2) have len: "length normal = length (drop n events)" "length normal \<le> 2" by auto
  obtain cv where cv: "cov = PStr cv" using capture_lifecycle_Inr(2) [OF e(4)] by blast
  from capture_lifecycle_Inr(1) [OF e(4)] have one: "length evs = 1 \<or> length evs = 2" .
  have total: "length evs + length normal = length events" by (simp add: len(1) evs_def)
  have count: "lifecycle_count (evs @ normal) = length evs"
  proof (cases "length evs = 2")
    case True
    then have "dget (evs ! 1) ''eventType'' = PStr ''check_terminal''"
      by (auto simp: evs_def n_def lifecycle_count_def split: if_splits)
    with True show ?thesis by (simp add: lifecycle_count_def nth_append)
  next
    case False
    with one have "length evs = 1" by simp
    with w(3) show ?thesis by (cases normal) (auto simp: lifecycle_count_def nth_append)
  qed
  from one have "evs \<noteq> []" by auto
  moreover have "drop n events = [] \<longleftrightarrow> normal = []" using len(1) by (metis length_0_conv)
  ultimately show "capture_body E version st (PStr (cap_coverage c)) m (cap_events c) = Inr c"
    using v e(1-4) w(1) c cv
    by (simp add: capture_body_def count admitted_row_events [OF assms(2)] first_event_def)
  show "1 \<le> length (cap_events c)" "length (cap_events c) \<le> 4" "cap_version c = version" "cap_state c = st" "cap_reference c = m"
    using c total assms(3,4) by (simp_all add: Suc_le_eq)
qed

text \<open>
  C22 (roundtrip). A snapshot that validated is stored as the value that validation returned; reading
  it back validates to the same snapshot, so a stored projection never drifts.
\<close>

theorem capture_fixpoint:
  assumes "validate_capture E v = Inr c"
  shows "validate_capture E (PDict (capture_value c)) = Inr c"
proof -
  from assms obtain d where v: "v = PDict d" by (cases "as_dict v") (simp_all add: validate_capture_def)
  from assms v obtain version m where f: "op_int (dget d ''schemaVersion'') = Inr version" "version = 1 \<or> version = 2"
      "one_of (dget d ''sourceState'') [''ADMITTED'', ''SETTLED'']" "metadata (dget d ''reference'') = Inr m"
    by (simp add: validate_capture_def rbind_Inr_iff) blast
  from f(3) obtain st where st: "dget d ''sourceState'' = PStr st" "st = ''ADMITTED'' \<or> st = ''SETTLED''" by (auto simp: one_of_iff)
  from assms v f obtain raw where raw: "dget d ''events'' = PList raw"
    by (cases "dget d ''events''") (auto simp: validate_capture_def rbind_Inr_iff)
  obtain dm where "dget d ''reference'' = PDict dm" using metadata_dict [OF f(4)] by blast
  with f(4) have ok: "metadata_ok m" using metadata_Inr(1) by simp
  from assms v f st raw have "1 \<le> length raw" "length raw \<le> 4"
    "capture_body E version st (dget d ''coverage'') m (map (\<lambda>e. the (as_dict e)) raw) = Inr c"
    by (auto simp: validate_capture_def)
  then have body: "capture_body E version st (PStr (cap_coverage c)) m (cap_events c) = Inr c"
    "1 \<le> length (cap_events c)" "length (cap_events c) \<le> 4" "cap_version c = version" "cap_state c = st" "cap_reference c = m"
    using capture_body_Inr [OF _ ok] by fastforce+
  have "op_int (PInt version) = Inr version" using f(2) by (auto simp: op_int_Inr)
  moreover have "list_ex (\<lambda>e. as_dict e = None) (map PDict (cap_events c)) \<longleftrightarrow> False" by (auto simp: list_ex_iff)
  moreover have "map (\<lambda>e. the (as_dict e)) (map PDict (cap_events c)) = cap_events c" by (simp add: comp_def)
  ultimately show ?thesis
    using f(2) st(2) body
    by (simp add: validate_capture_def capture_value_def has_keys_def metadata_idem [OF ok] insert_commute) auto
qed

section \<open>Instances\<close>

definition ex_ref :: "nat \<Rightarrow> string" where "ex_ref i = replicate 31 CHR ''a'' @ [digit_char i]"

lemma ex_ref [simp]: "i < 16 \<Longrightarrow> fullmatch is_hex 32 32 (ex_ref i)"
  by (simp add: ex_ref_def fullmatch_def is_hex_digit_char) (simp add: is_hex_def code_def list_all_iff)

lemma ex_ref_eq [simp]: "i < 16 \<Longrightarrow> j < 16 \<Longrightarrow> ex_ref i = ex_ref j \<longleftrightarrow> i = j"
  by (auto simp: ex_ref_def) (metis digit_val_char)

definition op_env :: env where
  "op_env = quiet_env 150 (\<lambda>_ s. s)\<lparr>random_hex := (\<lambda>i n. ex_ref i), sha256_hex := (\<lambda>_. ex_ref 15)\<rparr>"

abbreviation op_world :: world where "op_world \<equiv> \<lparr>tables = (\<lambda>_ _. None), tick = 0\<rparr>"

definition ex_meta :: dict where
  "ex_meta = [(''schemaVersion'', PInt 1), (''logicalCheckRef'', PStr (''lc1_'' @ ex_ref 0)),
     (''acceptedEventId'', PStr (''op1_'' @ ex_ref (Suc 0))), (''terminalEventId'', PStr (''op1_'' @ ex_ref (Suc (Suc 0)))),
     (''environment'', PStr ''dev''), (''service'', PStr ''url_check''), (''inputKind'', PStr ''qr_url''),
     (''accessClass'', PStr ''paid''), (''acceptedAtEpoch'', PInt 100), (''expiresAtEpoch'', PInt 500)]"

lemma reference_id_ex: "i < 16 \<Longrightarrow> reference_id p (PStr (p @ ex_ref i))"
  by (simp add: reference_id_def)

lemma ex_meta_ok: "metadata_ok ex_meta"
  using reference_id_ex [of 0 "''lc1_''"] reference_id_ex [of "Suc 0" "''op1_''"] reference_id_ex [of "Suc (Suc 0)" "''op1_''"]
  by (simp add: metadata_ok_def ex_meta_def has_keys_def META_KEYS_def service_inputs_def INPUTS_def OPERATIONS_RETENTION_def)

lemmas ex_metadata = metadata_idem [OF ex_meta_ok]

lemma ex_admission: "admission_fields op_env (PDict [(''entryPoint'', PStr ''qr_url'')]) (PInt 100) (PInt 500) (PStr ''paid'') (PStr ''dev'')
    op_world = (Inr [(''operationsReceipt'', PDict ex_meta)], op_world\<lparr>tick := Suc (Suc (Suc 0))\<rparr>)"
proof -
  have "op_int (PInt 100) = Inr 100" "op_int (PInt 500) = Inr 500" by (simp_all add: op_int_Inr)
  then show ?thesis
    using ex_metadata
    by (simp add: admission_fields_def admission_kind_def ebind_def e_random_def op_env_def ex_meta_def Let_def
        OPERATIONS_RETENTION_def)
qed

lemma admission_mints_reference_witness:
  "\<exists>m. [(''operationsReceipt'', PDict ex_meta)] = [(''operationsReceipt'', PDict m)] \<and> inum m ''expiresAtEpoch'' \<le> 500
     \<and> dget m ''service'' = PStr ''url_check''"
  using admission_mints_reference [OF ex_admission] by (auto simp: admission_kind_def)

definition ex_settled :: dict where
  "ex_settled = [(''recordType'', PStr ''V1_CHECK_RECEIPT''), (''state'', PStr ''SETTLED''), (''basis'', PStr ''paid''),
     (''operationsReceipt'', PDict ex_meta), (''processingOutcome'', PStr ''complete''), (''chargedChecks'', PInt 1),
     (''assessmentEpoch'', PInt 120), (''receiptId'', PStr (ex_ref 3)), (''operationsTerminalReasonCode'', PStr ''NONE'')]"

lemma ex_meta_fields [simp]: "inum ex_meta ''acceptedAtEpoch'' = 100" "inum ex_meta ''expiresAtEpoch'' = 500"
  "dget ex_meta ''accessClass'' = PStr ''paid''"
  by (simp_all add: ex_meta_def)

lemma ex_settled_events: "receipt_events (PDict ex_settled) (PInt 130) = Inr (''CHECK_LIFECYCLE_RECORDED'',
    [accepted_event ex_meta, terminal_event ex_meta 120 (PStr ''complete'') 1 (PStr ''NONE'')])"
proof -
  have "op_int (PInt 130) = Inr 130" "op_int (PInt 1) = Inr 1" "op_int (PInt 120) = Inr 120" by (simp_all add: op_int_Inr)
  then show ?thesis
    using ex_metadata
    by (simp add: receipt_events_def ex_settled_def settled_events_def complete_charge_def outcome_reasons_def REASONS_def UNIQUE_REASON_def)
qed

lemma receipt_events_sound_witness:
  "\<exists>t. [terminal_event ex_meta 120 (PStr ''complete'') 1 (PStr ''NONE'')] = [t] \<and> inum t ''chargedChecks'' = 1 \<and> inum t ''eventTimeEpoch'' \<le> 130"
  using receipt_events_sound [OF ex_settled_events] by (auto simp: ex_settled_def)

lemma ex_start: "start_internal_attempt op_env (PDict ex_meta) (PInt 150) op_world =
    (Inr (started_event (base_event ex_meta) (PStr (''op1_'' @ ex_ref 0)) 150 (''at1_'' @ ex_ref (Suc 0))), op_world\<lparr>tick := Suc (Suc 0)\<rparr>)"
proof -
  have fid: "finish_id op_env r = ''op1_'' @ ex_ref 15" for r
    by (simp add: finish_id_def op_env_def) (simp add: ex_ref_def)
  have "started_ok op_env ex_meta None (PStr (''op1_'' @ ex_ref 0)) 150 (''at1_'' @ ex_ref (Suc 0))"
    using reference_id_ex [of "Suc 0" "''at1_''"] reference_id_ex [of 0 "''op1_''"]
    by (simp add: started_ok_def fid) (simp add: ex_meta_def)
  from validate_started_self [OF this ex_meta_ok] ex_metadata attempt_base_ok [OF ex_meta_ok]
  show ?thesis
    by (simp add: start_internal_attempt_def ebind_def e_random_def validate_attempt_events_def as_fault_def op_int_def)
      (simp add: op_env_def)
qed

lemma attempt_roundtrip_witness:
  "\<exists>s f. finish_internal_attempt op_env (PDict ex_meta) (PDict s) (PInt 160) ''failed'' (PInt 9000) = Inr f
     \<and> dget f ''reasonCode'' = PStr ''SERVICE_UNAVAILABLE''"
  using attempt_roundtrip [OF ex_start _ ex_metadata, of 160 "''failed''" 9000] by auto

definition ex_capture :: capture where
  "ex_capture = \<lparr>cap_version = 1, cap_state = ''ADMITTED'', cap_reference = ex_meta, cap_coverage = ''ACCEPTED_ONLY'',
     cap_events = [accepted_event ex_meta]\<rparr>"

lemma ex_captured: "capture_projection op_env (admitted_row ex_meta) (PInt 100) = Inr ex_capture"
proof -
  have i: "op_int (PInt 1) = Inr 1" "op_int (PInt 100) = Inr 100" by (simp_all add: op_int_Inr)
  have self: "pyeq (PDict (accepted_event ex_meta)) (PDict (accepted_event ex_meta))"
    by (rule veq_refl [OF wf_accepted_event [OF ex_meta_ok]])
  have ev: "receipt_events (PDict (admitted_row ex_meta)) (PInt 100) = Inr (''ACCEPTED_ONLY'', [accepted_event ex_meta])"
    using admitted_row_events [OF ex_meta_ok] by (simp add: ex_meta_def)
  have flds: "dget (accepted_event ex_meta) ''lifecycleRevision'' = PInt 1" "dget (accepted_event ex_meta) ''eventTimeEpoch'' = PInt 100"
    "dget ex_meta ''acceptedAtEpoch'' = PInt 100"
    by (simp_all add: accepted_event_def) (simp_all add: ex_meta_def)
  have "capture_body op_env 1 ''ADMITTED'' (PStr ''ACCEPTED_ONLY'') ex_meta [accepted_event ex_meta] = Inr ex_capture"
    by (simp add: capture_body_def lifecycle_count_def ev flds i self first_event_def capture_lifecycle_def
        validate_attempt_events_def ex_metadata ex_capture_def)
  then show ?thesis
    using ev i
    by (simp add: capture_projection_def prior_capture_def admitted_row_def ex_metadata validate_attempt_events_def
        validate_capture_def has_keys_def insert_commute)
qed

lemma capture_fixpoint_witness: "validate_capture op_env (PDict (capture_value ex_capture)) = Inr ex_capture"
proof -
  from ex_captured obtain v where "validate_capture op_env v = Inr ex_capture"
    by (auto simp: capture_projection_def rbind_Inr_iff Let_def)
  then show ?thesis by (rule capture_fixpoint)
qed


end
