(* ===== verification/Identity.thy ===== *)
theory Identity
  imports Effects Json
begin

text \<open>
  Who is calling (\<open>shared_history/security.py\<close>): the subject of a verified access token, the
  authoritative state of the account, and the active device binding. The event of a request is a
  dictionary; a value of the wrong shape leads to the exception the source leads to.
\<close>

definition SUBJECT_PATTERN :: "string \<Rightarrow> bool" where
  "SUBJECT_PATTERN = first_then is_alnum (\<lambda>c. is_alnum c \<or> c \<in> set ''._:@-'') 199"

definition FINGERPRINT_PATTERN :: "string \<Rightarrow> bool" where
  "FINGERPRINT_PATTERN = first_then is_alnum (\<lambda>c. is_alnum c \<or> c \<in> set ''._:-'') 255"

record token_settings =
  cognito_issuer :: string
  cognito_app_client_id :: string
  cognito_required_scope :: string

definition attr_get :: "pyval \<Rightarrow> string \<Rightarrow> pyval result" where   \<comment> \<open>\<open>v.get(k)\<close>\<close>
  "attr_get v k = (case as_dict v of None \<Rightarrow> Inl AttributeError | Some d \<Rightarrow> Inr (dget d k))"

definition or_empty :: "pyval \<Rightarrow> pyval" where   \<comment> \<open>\<open>v or {}\<close>\<close>
  "or_empty v = (if truthy v then v else PDict [])"

definition jwt_rejection :: "string \<Rightarrow> exc" where
  "jwt_rejection predicate = HistoryError ''UNAUTHORIZED'' predicate"

definition exact_epoch :: "pyval \<Rightarrow> int option result" where
  "exact_epoch value =
     rbind (case value of
              PStr s \<Rightarrow> if s \<noteq> [] \<and> list_all is_digit_like s then rbind (parse_int s) (\<lambda>n. Inr (PInt n)) else Inr value
            | _ \<Rightarrow> Inr value) (\<lambda>v.
     Inr (case v of PInt n \<Rightarrow> if n < 1 then None else Some n | _ \<Rightarrow> None))"

definition token_claims :: "dict \<Rightarrow> dict result" where
  "token_claims event =
     rbind (attr_get (or_empty (dget event ''requestContext'')) ''authorizer'') (\<lambda>authorizer.
     rbind (attr_get (or_empty authorizer) ''jwt'') (\<lambda>jwt.
     rbind (attr_get (or_empty jwt) ''claims'') (\<lambda>claims.
     case as_dict claims of None \<Rightarrow> Inl (jwt_rejection ''CLAIMS_UNAVAILABLE'') | Some d \<Rightarrow> Inr d)))"

definition jwt_subject :: "env \<Rightarrow> dict \<Rightarrow> token_settings \<Rightarrow> string eff" where
  "jwt_subject E event S =
     ebind (elift (token_claims event)) (\<lambda>claims.
     ebind (elift (exact_epoch (dget claims ''exp''))) (\<lambda>expiration.
     let scopes = (case as_str (dget_or claims ''scope'' (PStr [])) of None \<Rightarrow> [] | Some s \<Rightarrow> split_ws s) in
     case as_str (dget claims ''sub'') of
       None \<Rightarrow> eraise (jwt_rejection ''SUBJECT_INVALID'')
     | Some subject \<Rightarrow>
         ebind (eraise_if (\<not> SUBJECT_PATTERN (strip subject)) (jwt_rejection ''SUBJECT_INVALID'')) (\<lambda>_.
         ebind (eraise_if (dget claims ''iss'' \<noteq> PStr (cognito_issuer S)) (jwt_rejection ''ISSUER_MISMATCH'')) (\<lambda>_.
         ebind (eraise_if (dget claims ''client_id'' \<noteq> PStr (cognito_app_client_id S)) (jwt_rejection ''CLIENT_MISMATCH'')) (\<lambda>_.
         ebind (eraise_if (dget claims ''token_use'' \<noteq> PStr ''access'') (jwt_rejection ''TOKEN_USE_MISMATCH'')) (\<lambda>_.
         case expiration of
           None \<Rightarrow> eraise (jwt_rejection ''EXPIRY_INVALID'')
         | Some expiry \<Rightarrow>
             ebind (e_now E) (\<lambda>now.
             ebind (eraise_if (expiry \<le> now) (jwt_rejection ''EXPIRY_NOT_FUTURE'')) (\<lambda>_.
             ebind (eraise_if (cognito_required_scope S \<notin> set scopes) (jwt_rejection ''SCOPE_MISSING'')) (\<lambda>_.
             eret (strip subject))))))))))"

definition profile_active :: "string \<Rightarrow> dict option \<Rightarrow> dict option \<Rightarrow> bool" where
  \<comment> \<open>the rows of an account that may act: verified, active and without a deletion row\<close>
  "profile_active account profile deletion =
     (deletion = None \<and>
      (case profile of
         None \<Rightarrow> False
       | Some p \<Rightarrow> p \<noteq> [] \<and> dget p ''sub'' = PStr account \<and> dget p ''status'' = PStr ''ACTIVE''
           \<and> dget p ''ageVerified'' = PBool True))"

definition assert_authoritative_account_active :: "env \<Rightarrow> string \<Rightarrow> string \<Rightarrow> string \<Rightarrow> unit eff" where
  "assert_authoritative_account_active E account users_table deletion_ledger_table =
     ebind (e_get E users_table (''USER#'' @ account, ''PROFILE'')) (\<lambda>profile.
     ebind (e_get E deletion_ledger_table (''ACCOUNT#'' @ account, ''ACCOUNT_DELETION'')) (\<lambda>deletion.
     eraise_if (\<not> profile_active account profile deletion) (HistoryError ''FORBIDDEN'' [])))"

definition device_binding_fingerprint :: "dict \<Rightarrow> string result" where
  "device_binding_fingerprint event =
     (let value = (case as_dict (or_empty (dget event ''headers'')) of
                     None \<Rightarrow> PNone
                   | Some headers \<Rightarrow>
                       (case find (\<lambda>kv. lower (fst kv) = ''x-device-binding-fingerprint'') headers of
                          None \<Rightarrow> PNone | Some kv \<Rightarrow> snd kv)) in
      case as_str value of
        None \<Rightarrow> Inl (HistoryError ''DEVICE_BINDING_REQUIRED'' [])
      | Some s \<Rightarrow> if FINGERPRINT_PATTERN (strip s) then Inr (strip s) else Inl (HistoryError ''DEVICE_BINDING_REQUIRED'' []))"

definition positive_integral_int :: "pyval \<Rightarrow> int option" where
  "positive_integral_int v = (case integral v of None \<Rightarrow> None | Some n \<Rightarrow> if n \<ge> 1 then Some n else None)"

definition binding_matches :: "string \<Rightarrow> string \<Rightarrow> dict option \<Rightarrow> bool result" where
  \<comment> \<open>the binding row of the pointer: present, of the account, active and under the same fingerprint\<close>
  "binding_matches account fingerprint binding =
     (case binding of
        None \<Rightarrow> Inr False
      | Some b \<Rightarrow>
          if b = [] \<or> dget b ''accountId'' \<noteq> PStr account \<or> dget b ''status'' \<noteq> PStr ''ACTIVE'' then Inr False else
          (case as_str (dget b ''bindingFingerprint'') of None \<Rightarrow> Inr False | Some t \<Rightarrow> compare_digest t fingerprint))"

definition assert_active_device_binding :: "env \<Rightarrow> dict \<Rightarrow> string \<Rightarrow> string \<Rightarrow> unit eff" where
  "assert_active_device_binding E event account table =
     ebind (elift (device_binding_fingerprint event)) (\<lambda>value.
     ebind (e_get E table (''USER#'' @ account, ''ACTIVE_BINDING'')) (\<lambda>row.
     case row of
       Some pointer \<Rightarrow>
         (case as_str (dget pointer ''bindingFingerprint'') of
            None \<Rightarrow> eraise (HistoryError ''SERVER_UNAVAILABLE'' [])
          | Some fingerprint \<Rightarrow>
              ebind (eraise_if (dget pointer ''recordType'' \<noteq> PStr ''ACTIVE_BINDING_POINTER''
                  \<or> positive_integral_int (dget pointer ''stateVersion'') = None) (HistoryError ''SERVER_UNAVAILABLE'' [])) (\<lambda>_.
              ebind (if fingerprint = ''NONE'' then eret False else elift (compare_digest fingerprint value)) (\<lambda>same.
              ebind (eraise_if (\<not> same) (HistoryError ''DEVICE_BINDING_MISMATCH'' [])) (\<lambda>_.
              ebind (e_get E table (''USER#'' @ account, ''DEVICE#'' @ fingerprint)) (\<lambda>binding.
              ebind (elift (binding_matches account fingerprint binding)) (\<lambda>ok.
              eraise_if (\<not> ok) (HistoryError ''SERVER_UNAVAILABLE'' [])))))))
     | None \<Rightarrow>
         ebind (e_index_query E table ''GSI1'' (''USER#'' @ account @ ''#ACTIVE'')) (\<lambda>found.
         case take 2 found of
           [b] \<Rightarrow> ebind (elift (digest_equals (dget_or b ''bindingFingerprint'' (PStr [])) value)) (\<lambda>same.
                  eraise_if (\<not> same) (HistoryError ''DEVICE_BINDING_MISMATCH'' []))
         | _ \<Rightarrow> eraise (HistoryError ''DEVICE_BINDING_MISMATCH'' []))))"

section \<open>What an accepted caller has shown\<close>

text \<open>
  C23 (safety). A subject is returned only for a token that the verified authorizer context carries:
  issued by the configured issuer for the configured client, an access token with the required scope,
  whose expiry lies after the clock reading taken during the check. The subject is normalised: it
  matches the subject pattern and has no surrounding white space.
\<close>

theorem jwt_subject_sound:
  assumes "jwt_subject E event S w = (Inr subject, w')"
  shows "\<exists>claims e. token_claims event = Inr claims \<and> exact_epoch (dget claims ''exp'') = Inr (Some e)
     \<and> clock E (tick w) < e \<and> SUBJECT_PATTERN subject \<and> strip subject = subject
     \<and> (\<exists>raw. dget claims ''sub'' = PStr raw \<and> subject = strip raw)
     \<and> dget claims ''iss'' = PStr (cognito_issuer S) \<and> dget claims ''client_id'' = PStr (cognito_app_client_id S)
     \<and> dget claims ''token_use'' = PStr ''access''
     \<and> (\<exists>scope. dget claims ''scope'' = PStr scope \<and> cognito_required_scope S \<in> set (split_ws scope))"
proof -
  from assms obtain claims ex where c: "token_claims event = Inr claims" "exact_epoch (dget claims ''exp'') = Inr ex"
    by (auto simp: jwt_subject_def ebind_Inr)
  define scopes where "scopes = (case as_str (dget_or claims ''scope'' (PStr [])) of None \<Rightarrow> [] | Some s \<Rightarrow> split_ws s)"
  have run: "(case as_str (dget claims ''sub'') of
       None \<Rightarrow> eraise (jwt_rejection ''SUBJECT_INVALID'')
     | Some subject \<Rightarrow>
         ebind (eraise_if (\<not> SUBJECT_PATTERN (strip subject)) (jwt_rejection ''SUBJECT_INVALID'')) (\<lambda>_.
         ebind (eraise_if (dget claims ''iss'' \<noteq> PStr (cognito_issuer S)) (jwt_rejection ''ISSUER_MISMATCH'')) (\<lambda>_.
         ebind (eraise_if (dget claims ''client_id'' \<noteq> PStr (cognito_app_client_id S)) (jwt_rejection ''CLIENT_MISMATCH'')) (\<lambda>_.
         ebind (eraise_if (dget claims ''token_use'' \<noteq> PStr ''access'') (jwt_rejection ''TOKEN_USE_MISMATCH'')) (\<lambda>_.
         case ex of
           None \<Rightarrow> eraise (jwt_rejection ''EXPIRY_INVALID'')
         | Some expiry \<Rightarrow>
             ebind (e_now E) (\<lambda>now.
             ebind (eraise_if (expiry \<le> now) (jwt_rejection ''EXPIRY_NOT_FUTURE'')) (\<lambda>_.
             ebind (eraise_if (cognito_required_scope S \<notin> set scopes) (jwt_rejection ''SCOPE_MISSING'')) (\<lambda>_.
             eret (strip subject))))))))) w = (Inr subject, w')"
    using assms c unfolding scopes_def by (simp add: jwt_subject_def)
  from run obtain raw where raw: "dget claims ''sub'' = PStr raw"
    by (cases "as_str (dget claims ''sub'')") simp_all
  from run raw obtain e where e: "ex = Some e"
    by (cases ex) (simp_all add: ebind_Inr)
  from run raw e have facts: "SUBJECT_PATTERN (strip raw)" "subject = strip raw" "clock E (tick w) < e"
      "dget claims ''iss'' = PStr (cognito_issuer S)" "dget claims ''client_id'' = PStr (cognito_app_client_id S)"
      "dget claims ''token_use'' = PStr ''access''" "cognito_required_scope S \<in> set scopes"
    by (auto simp: ebind_Inr e_now_def)
  from facts(7) obtain scope where "dget_or claims ''scope'' (PStr []) = PStr scope" "cognito_required_scope S \<in> set (split_ws scope)"
    by (cases "as_str (dget_or claims ''scope'' (PStr []))") (auto simp: scopes_def)
  moreover from this have "dget claims ''scope'' = PStr scope"
    by (auto simp: dget_or_def dget_def split: option.splits)
  ultimately show ?thesis using c e facts raw by (auto simp: strip_idem)
qed

lemma fingerprint_char: "is_alnum c \<or> c \<in> set ''._:-'' \<Longrightarrow> code c < 128"
  by (auto simp: is_alnum_def is_digit_def code_def)

lemma fingerprint_ascii:
  assumes "device_binding_fingerprint event = Inr f"
  shows "is_ascii f"
proof -
  from assms have "FINGERPRINT_PATTERN f" by (auto simp: device_binding_fingerprint_def Let_def split: option.splits if_splits)
  then have "list_all (\<lambda>c. is_alnum c \<or> c \<in> set ''._:-'') f"
    by (cases f) (simp_all add: FINGERPRINT_PATTERN_def first_then_def fullmatch_def del: set_simps)
  then show ?thesis unfolding is_ascii_def by (rule list.pred_mono_strong) (rule fingerprint_char)
qed

lemma binding_matches_True:
  "binding_matches account f it = Inr True \<Longrightarrow>
     \<exists>b. it = Some b \<and> dget b ''accountId'' = PStr account \<and> dget b ''status'' = PStr ''ACTIVE'' \<and> dget b ''bindingFingerprint'' = PStr f"
  by (auto simp: binding_matches_def compare_digest_Inr split: option.splits if_splits)

lemma digest_equals_text: "digest_equals v s = Inr True \<Longrightarrow> text_is v s"
  by (cases v) (auto simp: digest_equals_def compare_digest_Inr split: if_splits)

text \<open>
  C24 (safety). What an accepted device check has read, for any interference by other writers between
  its two reads. Either the account had a pointer that is well formed, names the fingerprint of the
  request, and not the placeholder \<open>NONE\<close>, and the binding row of that fingerprint was then an active
  row of this account; or the account had no pointer and the discovery index answered with exactly one
  row, which carries the fingerprint of the request. The index is no evidence that the row is active or
  that it is the only one, and the second way claims neither.
\<close>

theorem device_binding_sound:
  assumes "assert_active_device_binding E event account table w = (Inr u, w')"
  shows "\<exists>f. device_binding_fingerprint event = Inr f \<and>
    (let db1 = peers E (tick w) (tables w); db2 = peers E (Suc (tick w)) db1 in
      (\<exists>p b. db1 table (''USER#'' @ account, ''ACTIVE_BINDING'') = Some p
         \<and> dget p ''recordType'' = PStr ''ACTIVE_BINDING_POINTER'' \<and> positive_integral_int (dget p ''stateVersion'') \<noteq> None
         \<and> dget p ''bindingFingerprint'' = PStr f \<and> f \<noteq> ''NONE''
         \<and> db2 table (''USER#'' @ account, ''DEVICE#'' @ f) = Some b \<and> dget b ''accountId'' = PStr account
         \<and> dget b ''status'' = PStr ''ACTIVE'' \<and> dget b ''bindingFingerprint'' = PStr f)
      \<or> (db1 table (''USER#'' @ account, ''ACTIVE_BINDING'') = None
         \<and> (\<exists>b. take 2 (index_query E (Suc (tick w)) table ''GSI1'' (''USER#'' @ account @ ''#ACTIVE'')) = [b]
              \<and> text_is (dget_or b ''bindingFingerprint'' (PStr [])) f)))"
proof -
  define db1 where "db1 = peers E (tick w) (tables w)"
  let ?k = "(''USER#'' @ account, ''ACTIVE_BINDING'')"
  from assms obtain f where v: "device_binding_fingerprint event = Inr f"
    by (auto simp: assert_active_device_binding_def ebind_Inr)
  show ?thesis
  proof (cases "db1 table ?k")
    case None
    with assms v obtain b where "take 2 (index_query E (Suc (tick w)) table ''GSI1'' (''USER#'' @ account @ ''#ACTIVE'')) = [b]"
        "digest_equals (dget_or b ''bindingFingerprint'' (PStr [])) f = Inr True"
      by (auto simp: assert_active_device_binding_def ebind_Inr e_get_def e_index_query_def db1_def Let_def elift_def
          split: if_splits list.splits)
    with v None show ?thesis by (auto simp: db1_def Let_def intro: digest_equals_text)
  next
    case (Some p)
    with assms v obtain g where g: "dget p ''bindingFingerprint'' = PStr g"
      by (cases "as_str (dget p ''bindingFingerprint'')")
        (auto simp: assert_active_device_binding_def ebind_Inr e_get_def db1_def Let_def split: if_splits)
    with assms v Some have facts: "dget p ''recordType'' = PStr ''ACTIVE_BINDING_POINTER''" "positive_integral_int (dget p ''stateVersion'') \<noteq> None"
        "g \<noteq> ''NONE''" "compare_digest g f = Inr True" "binding_matches account g (peers E (Suc (tick w)) db1 table (''USER#'' @ account, ''DEVICE#'' @ g)) = Inr True"
      by (auto simp: assert_active_device_binding_def ebind_Inr e_get_def db1_def Let_def elift_def split: if_splits)
    from facts(4) have "g = f" by (simp add: compare_digest_Inr)
    with v Some g facts binding_matches_True [OF facts(5)] show ?thesis by (auto simp: db1_def Let_def)
  qed
qed

section \<open>Instances\<close>

definition ex_token :: token_settings where
  "ex_token = \<lparr>cognito_issuer = ''i'', cognito_app_client_id = ''c'', cognito_required_scope = ''s''\<rparr>"

definition ex_claims :: dict where
  "ex_claims = [(''sub'', PStr '' alice ''), (''exp'', PStr ''900''), (''iss'', PStr ''i''), (''client_id'', PStr ''c''),
     (''token_use'', PStr ''access''), (''scope'', PStr ''r s'')]"

definition ex_event :: dict where
  "ex_event = [(''requestContext'', PDict [(''authorizer'', PDict [(''jwt'', PDict [(''claims'', PDict ex_claims)])])]),
     (''headers'', PDict [(''x-device-binding-fingerprint'', PStr ''f1'')])]"

lemma ex_subject: "jwt_subject (quiet_env 150 h) ex_event ex_token \<lparr>tables = db, tick = n\<rparr> = (Inr ''alice'', \<lparr>tables = db, tick = Suc n\<rparr>)"
proof -
  have "token_claims ex_event = Inr ex_claims"
    by (simp add: token_claims_def ex_event_def attr_get_def or_empty_def)
  moreover have "exact_epoch (dget ex_claims ''exp'') = Inr (Some 900)"
    by (simp add: exact_epoch_def ex_claims_def parse_int_def is_digit_like_def is_digit_def code_def of_base_def digit_val_def)
  moreover have "strip '' alice '' = ''alice''" "SUBJECT_PATTERN ''alice''" "split_ws ''r s'' = [''r'', ''s'']"
    by (simp_all add: strip_def is_space_def code_def SUBJECT_PATTERN_def first_then_def fullmatch_def is_alnum_def is_digit_def)
  ultimately show ?thesis
    by (simp add: jwt_subject_def ebind_def e_now_def ex_token_def) (simp add: ex_claims_def ebind_def e_now_def)
qed

lemma jwt_subject_sound_witness: "SUBJECT_PATTERN ''alice'' \<and> strip ''alice'' = ''alice''"
  using jwt_subject_sound [OF ex_subject] by auto

definition ex_devices :: db where
  "ex_devices = (\<lambda>t k. if k = (''USER#alice'', ''ACTIVE_BINDING'')
      then Some [(''recordType'', PStr ''ACTIVE_BINDING_POINTER''), (''bindingFingerprint'', PStr ''f1''), (''stateVersion'', PInt 3)]
      else if k = (''USER#alice'', ''DEVICE#f1'')
      then Some [(''accountId'', PStr ''alice''), (''status'', PStr ''ACTIVE''), (''bindingFingerprint'', PStr ''f1'')]
      else None)"

lemma ex_fingerprint: "device_binding_fingerprint ex_event = Inr ''f1''"
  by (simp add: device_binding_fingerprint_def ex_event_def or_empty_def lower_def code_def strip_def is_space_def
      FINGERPRINT_PATTERN_def first_then_def fullmatch_def is_alnum_def is_digit_def)

lemma ex_binding: "assert_active_device_binding (quiet_env 150 (\<lambda>_ s. s)) ex_event ''alice'' ''devices'' \<lparr>tables = ex_devices, tick = 0\<rparr>
    = (Inr (), \<lparr>tables = ex_devices, tick = 2\<rparr>)"
  by (simp add: assert_active_device_binding_def ex_fingerprint ebind_def quiet_get [OF quiet_env(1)])
    (simp add: ex_devices_def positive_integral_int_def ebind_def quiet_get [OF quiet_env(1)] eraise_if_def
      binding_matches_def compare_digest_def is_ascii_def code_def elift_def)

lemma device_binding_sound_witness:
  "device_binding_fingerprint ex_event = Inr ''f1''
   \<and> (\<exists>p. ex_devices ''devices'' (''USER#alice'', ''ACTIVE_BINDING'') = Some p \<and> dget p ''bindingFingerprint'' = PStr ''f1'')
   \<and> (\<exists>b. ex_devices ''devices'' (''USER#alice'', ''DEVICE#f1'') = Some b \<and> dget b ''status'' = PStr ''ACTIVE'')"
  using device_binding_sound [OF ex_binding] ex_fingerprint by (auto simp: Let_def ex_devices_def)

end
