(* ===== verification/Summaries.thy ===== *)
theory Summaries
  imports Effects
begin

text \<open>
  The result summaries a check may settle with: the time stamps of provider evidence
  (\<open>shared_lookup_freshness\<close>), the URL summary (\<open>shared_check_authority/summary.py\<close>), the three
  versions of the message summary (\<open>shared_message_contract/validation*.py\<close>) with the policies that
  produce them (\<open>message_evaluator/policy.py\<close>, \<open>policy_v2.py\<close>), and the recovery usage record
  (\<open>shared_recovery_contract\<close>). Times are integers in nanoseconds.
\<close>

section \<open>Provider time stamps (\<open>shared_lookup_freshness\<close>)\<close>

definition leap_year :: "nat \<Rightarrow> bool" where
  "leap_year y = (y mod 4 = 0 \<and> (y mod 100 \<noteq> 0 \<or> y mod 400 = 0))"

definition month_days :: "nat \<Rightarrow> nat \<Rightarrow> nat" where
  "month_days y m = (if m = 2 then (if leap_year y then 29 else 28) else if m \<in> {4, 6, 9, 11} then 30 else 31)"

definition day_number :: "nat \<Rightarrow> nat \<Rightarrow> nat \<Rightarrow> nat" where
  \<comment> \<open>\<open>date.toordinal\<close>\<close>
  "day_number y m d = 365 * (y - 1) + (y - 1) div 4 - (y - 1) div 100 + (y - 1) div 400
     + sum_list (map (month_days y) [1..<m]) + d"

definition stamp_fields :: "string \<Rightarrow> (nat \<times> nat \<times> nat \<times> nat \<times> nat \<times> nat) option" where
  \<comment> \<open>\<open>dddd-dd-ddTdd:dd:dd\<close>\<close>
  "stamp_fields s =
     (let p = (\<lambda>i n. take n (drop i s)); v = (\<lambda>i n. of_base 10 (p i n)) in
      if length s = 19 \<and> list_all (\<lambda>i. s ! i = CHR ''-'') [4, 7] \<and> s ! 10 = CHR ''T''
         \<and> list_all (\<lambda>i. s ! i = CHR '':'') [13, 16]
         \<and> list_all (\<lambda>i. is_digit (s ! i)) [0, 1, 2, 3, 5, 6, 8, 9, 11, 12, 14, 15, 17, 18]
      then Some (v 0 4, v 5 2, v 8 2, v 11 2, v 14 2, v 17 2) else None)"

definition stamp_seconds :: "string \<Rightarrow> int result" where
  "stamp_seconds s =
     (case stamp_fields s of
        None \<Rightarrow> Inl ValueError
      | Some (y, mo, d, h, mi, sec) \<Rightarrow>
          if 1 \<le> y \<and> 1 \<le> mo \<and> mo \<le> 12 \<and> 1 \<le> d \<and> d \<le> month_days y mo \<and> h < 24 \<and> mi < 60 \<and> sec < 60
          then Inr ((int (day_number y mo d) - 719163) * 86400 + int h * 3600 + int mi * 60 + int sec)
          else Inl ValueError)"

definition nanos_per_second :: int where "nanos_per_second = 10 ^ 9"

definition epoch :: "pyval \<Rightarrow> int result" where
  "epoch v =
     (case as_str v of
        None \<Rightarrow> Inl ValueError
      | Some s \<Rightarrow>
          let base = take 19 s; rest = drop 19 s in
          if rest = ''Z'' then rbind (stamp_seconds base) (\<lambda>n. Inr (n * nanos_per_second))
          else if rest \<noteq> [] \<and> hd rest = CHR ''.'' \<and> last rest = CHR ''Z''
               \<and> fullmatch is_digit 1 9 (butlast (tl rest))
          then let frac = butlast (tl rest) in
               rbind (stamp_seconds base) (\<lambda>n.
               Inr (n * nanos_per_second + int (of_base 10 frac) * 10 ^ (9 - length frac)))
          else Inl ValueError)"

definition validate_window :: "pyval \<Rightarrow> pyval \<Rightarrow> bool \<Rightarrow> unit result" where
  "validate_window observed_at valid_until matched =
     rbind (epoch observed_at) (\<lambda>start.
     if matched then
       (if valid_until = PNone then Inl ValueError
        else rbind (epoch valid_until) (\<lambda>stop. raise_if (stop \<le> start) ValueError))
     else raise_if (valid_until \<noteq> PNone) ValueError)"

definition current :: "pyval \<Rightarrow> pyval \<Rightarrow> int \<Rightarrow> bool result" where
  "current observed_at valid_until now =
     rbind (validate_window observed_at valid_until True) (\<lambda>_.
     rbind (epoch observed_at) (\<lambda>start. rbind (epoch valid_until) (\<lambda>stop.
     Inr (start \<le> now \<and> now < stop))))"

definition str_list :: "pyval \<Rightarrow> string list \<Rightarrow> nat \<Rightarrow> bool" where
  \<comment> \<open>a list of at most \<open>cap\<close> different texts from a closed set\<close>
  "str_list v allowed cap =
     (case v of PList xs \<Rightarrow> length xs \<le> cap \<and> list_all (\<lambda>x. one_of x allowed) xs \<and> distinct xs | _ \<Rightarrow> False)"

definition lookup_evidence :: "dict \<Rightarrow> dict result" where
  "lookup_evidence d =
     rbind (raise_if (\<not> has_keys d [''threatTypes'', ''observedAt'', ''validUntil'']
         \<or> \<not> str_list (dget d ''threatTypes'') [''MALWARE'', ''SOCIAL_ENGINEERING'', ''UNWANTED_SOFTWARE''] 3) ValueError) (\<lambda>_.
     rbind (validate_window (dget d ''observedAt'') (dget d ''validUntil'') (truthy (dget d ''threatTypes''))) (\<lambda>_.
     Inr d))"

section \<open>The URL summary (\<open>shared_check_authority/summary.py\<close>)\<close>

definition URL_KEYS :: "string list" where
  "URL_KEYS = [''schemaVersion'', ''checkId'', ''verdict'', ''processingOutcome'', ''coverage'', ''reasonCodes'',
    ''transportWarnings'', ''threatTypes'', ''lookupCount'', ''providerCallCount'', ''observedHopCount'', ''scope'',
    ''consumerAccessEnabled'']"

abbreviation SUMMARY_INVALID :: exc where "SUMMARY_INVALID \<equiv> AuthorityError ''RESULT_SUMMARY_INVALID''"

definition is_upper_code :: "char \<Rightarrow> bool" where   \<comment> \<open>\<open>[A-Z_]\<close>\<close>
  "is_upper_code c = (65 \<le> code c \<and> code c \<le> 90 \<or> c = CHR ''_'')"

definition small_count :: "pyval \<Rightarrow> bool" where   \<comment> \<open>\<open>type(v) is int and 0 <= v <= 6\<close>\<close>
  "small_count v = (case v of PInt n \<Rightarrow> 0 \<le> n \<and> n \<le> 6 | _ \<Rightarrow> False)"

definition value_errors :: "'a result \<Rightarrow> exc \<Rightarrow> 'a result" where
  \<comment> \<open>\<open>except (ValueError, TypeError, OverflowError): raise e\<close>\<close>
  "value_errors r e = (case r of Inl x \<Rightarrow> if x = ValueError \<or> x = TypeError then Inl e else Inl x | Inr y \<Rightarrow> Inr y)"

definition validate_url_summary :: "pyval \<Rightarrow> pyval \<Rightarrow> pyval \<Rightarrow> dict result" where
  "validate_url_summary summary client_id outcome =
     (case as_dict summary of
        None \<Rightarrow> Inl SUMMARY_INVALID
      | Some v \<Rightarrow>
          let modern = pyeq (dget v ''schemaVersion'') (PInt 2);
              keys = (if modern then URL_KEYS @ [''lookupObservedAt'', ''lookupValidUntil''] else URL_KEYS) in
          rbind (raise_if (\<not> has_keys v keys \<or> \<not> pyeq (dget v ''checkId'') client_id
              \<or> \<not> pyeq (dget v ''processingOutcome'') outcome) SUMMARY_INVALID) (\<lambda>_.
          rbind (raise_if (\<not> (dget v ''schemaVersion'' = PInt 1 \<or> dget v ''schemaVersion'' = PInt 2)
              \<or> dget v ''consumerAccessEnabled'' \<noteq> PBool False
              \<or> dget v ''scope'' \<noteq> PStr ''HTTP_REDIRECTS_AND_GOOGLE_LOOKUP'') SUMMARY_INVALID) (\<lambda>_.
          rbind (raise_if (\<not> one_of (dget v ''verdict'') [''unknown'', ''high_risk'', ''no_known_threat_detected'']
              \<or> \<not> one_of (dget v ''coverage'') [''not_assessed'', ''limited'', ''supported_checks_complete'']) SUMMARY_INVALID) (\<lambda>_.
          rbind (raise_if (list_ex (\<lambda>k. \<not> (case dget v k of
                  PList xs \<Rightarrow> length xs \<le> 3 \<and> list_all (str_matches (fullmatch is_upper_code 1 80)) xs | _ \<Rightarrow> False))
                [''reasonCodes'', ''transportWarnings'', ''threatTypes'']) SUMMARY_INVALID) (\<lambda>_.
          rbind (raise_if (list_ex (\<lambda>k. \<not> small_count (dget v k)) [''lookupCount'', ''providerCallCount'', ''observedHopCount''])
                SUMMARY_INVALID) (\<lambda>_.
          rbind (if modern then
                   value_errors (if dget v ''lookupObservedAt'' = PNone
                     then raise_if (dget v ''lookupValidUntil'' \<noteq> PNone \<or> dget v ''verdict'' \<noteq> PStr ''unknown'') ValueError
                     else validate_window (dget v ''lookupObservedAt'') (dget v ''lookupValidUntil'')
                            (dget v ''verdict'' = PStr ''high_risk'')) SUMMARY_INVALID
                 else Inr ()) (\<lambda>_.
          Inr v)))))))"

end
