(* ===== verification/MessageSummaries.thy ===== *)
theory MessageSummaries
  imports Summaries
begin

text \<open>
  Message summaries: the closed validators of the three transport versions
  (\<open>shared_message_contract/validation.py\<close>, \<open>validation_v2.py\<close>, \<open>validation_v3.py\<close>) and the
  policies that build a summary (\<open>result\<close> of \<open>message_evaluator/policy.py\<close> and \<open>policy_v2.py\<close>).
  Every rejection is a \<open>MessageError\<close> with the code \<open>RESULT_SUMMARY_INVALID\<close>, or the \<open>TypeError\<close>
  of looking up an unhashable value in a set.
\<close>

definition MESSAGE_V1 :: string where "MESSAGE_V1 = ''1.0.0-message-candidate.1''"
definition MESSAGE_V2 :: string where "MESSAGE_V2 = ''1.0.0-message-candidate.2''"
definition MESSAGE_V3 :: string where "MESSAGE_V3 = ''1.0.0-message-candidate.3''"
definition POLICY_V1 :: string where "POLICY_V1 = ''message-rules-2026-09-20-v1''"
definition POLICY_V2 :: string where "POLICY_V2 = ''message-ai-2026-09-21-v1''"

definition LIMITS :: "string list" where
  "LIMITS = [''WITHHELD_LINKS'', ''UNKNOWN_SPEAKER'', ''INSUFFICIENT_EVIDENCE'', ''HOSTILE_INPUT_STOP'',
     ''PROVIDER_UNAVAILABLE'', ''PROVIDER_RESPONSE_INVALID'', ''BUDGET_LIMIT'', ''UNSUPPORTED_CONTENT'']"

definition RULES :: "string list" where
  "RULES = [''DEMAND_GIFT_CARD_PAYMENT'', ''REQUEST_SECRET_DISCLOSURE'', ''PAYMENT_WITH_SECRECY_PRESSURE'', ''BENIGN_FIXED_TEXT'']"

definition ACTIONS :: "string list" where
  "ACTIONS = [''avoid_link'', ''pause_and_verify'', ''verify_independently'', ''review_input'', ''use_built_in_help'']"

definition MESSAGES :: "string list" where
  "MESSAGES = [''message.high_risk_request'', ''message.suspicious_request'', ''message.no_supported_finding'',
     ''message.inconclusive'', ''message.provider_unavailable'', ''message.hostile_stop'', ''message.partial_known_threat'']"

definition HIGH_RULES :: "string list" where
  "HIGH_RULES = [''DEMAND_GIFT_CARD_PAYMENT'', ''REQUEST_SECRET_DISCLOSURE'']"

definition PROVIDER_LIMITS :: "string list" where
  "PROVIDER_LIMITS = [''PROVIDER_UNAVAILABLE'', ''PROVIDER_RESPONSE_INVALID'', ''BUDGET_LIMIT'']"

definition V1_KEYS :: "string list" where
  "V1_KEYS = [''schemaVersion'', ''kind'', ''checkId'', ''policyVersion'', ''verdict'', ''processingOutcome'', ''coverage'',
     ''limitationCodes'', ''ruleIds'', ''evidence'', ''nextAction'', ''messageKey'']"

definition V2_KEYS :: "string list" where
  "V2_KEYS = V1_KEYS @ [''assessmentBasis'', ''aiAssessmentStatus'', ''aiReasonCodes'']"

definition EVIDENCE_SCOPES :: "string list" where
  "EVIDENCE_SCOPES = [''full_submitted_url'', ''origin_only'', ''redirect_hop'', ''observed_http_chain'']"

abbreviation MESSAGE_INVALID :: exc where "MESSAGE_INVALID \<equiv> MessageError ''RESULT_SUMMARY_INVALID''"

definition require :: "bool \<Rightarrow> unit result" where
  "require b = raise_if (\<not> b) MESSAGE_INVALID"

fun hashable :: "pyval \<Rightarrow> bool" where
  "hashable (PList _) = False"
| "hashable (PDict _) = False"
| "hashable _ = True"

definition require_in :: "pyval \<Rightarrow> string list \<Rightarrow> unit result" where   \<comment> \<open>\<open>require(v in {...})\<close> for a set\<close>
  "require_in v ss = (if hashable v then require (one_of v ss) else Inl TypeError)"

definition texts :: "pyval \<Rightarrow> string list" where   \<comment> \<open>the texts of a list that has been checked to hold texts only\<close>
  "texts v = (case v of PList xs \<Rightarrow> List.map_filter as_str xs | _ \<Rightarrow> [])"

definition rows :: "pyval \<Rightarrow> dict list" where
  "rows v = (case v of PList xs \<Rightarrow> List.map_filter as_dict xs | _ \<Rightarrow> [])"

definition dict_list :: "pyval \<Rightarrow> nat \<Rightarrow> bool" where
  "dict_list v cap = (case v of PList xs \<Rightarrow> length xs \<le> cap \<and> list_all (\<lambda>x. as_dict x \<noteq> None) xs | _ \<Rightarrow> False)"

definition meets :: "'a list \<Rightarrow> 'a list \<Rightarrow> bool" where   \<comment> \<open>\<open>bool(set(a) & set(b))\<close>\<close>
  "meets xs ys = list_ex (\<lambda>x. x \<in> set ys) xs"

definition evidence_ok :: "dict \<Rightarrow> bool" where
  "evidence_ok e =
     (has_keys e [''source'', ''outcome'', ''targetScope''] \<and> dget e ''source'' = PStr ''google_web_risk_lookup''
      \<and> one_of (dget e ''outcome'') [''match'', ''no_match''] \<and> one_of (dget e ''targetScope'') EVIDENCE_SCOPES)"

definition matched :: "dict list \<Rightarrow> bool" where
  "matched es = list_ex (\<lambda>e. dget e ''outcome'' = PStr ''match'') es"

definition client_ok :: "pyval \<Rightarrow> pyval \<Rightarrow> bool" where   \<comment> \<open>\<open>c is None or v == c\<close>\<close>
  "client_ok c v = (c = PNone \<or> pyeq v c)"

section \<open>Validation of version 1\<close>

definition v1_verdict :: "string list \<Rightarrow> string list \<Rightarrow> dict list \<Rightarrow> dict \<Rightarrow> bool" where
  \<comment> \<open>the verdict, state, action and message that the rules, limits and evidence determine\<close>
  "v1_verdict rules limits es v =
     (let is = (\<lambda>k s. dget v k = PStr s); state_in = (\<lambda>ss. one_of (dget v ''processingOutcome'') ss); m = matched es in
      if m \<or> meets rules HIGH_RULES then
        is ''verdict'' ''high_risk'' \<and> state_in [''complete'', ''partial'']
        \<and> is ''nextAction'' (if m then ''avoid_link'' else ''pause_and_verify'')
        \<and> is ''messageKey'' (if m then ''message.partial_known_threat'' else ''message.high_risk_request'')
        \<and> (m \<longrightarrow> state_in [''partial''] \<and> limits \<noteq> [])
      else if ''PAYMENT_WITH_SECRECY_PRESSURE'' \<in> set rules then
        is ''verdict'' ''suspicious'' \<and> state_in [''complete'', ''partial'']
        \<and> is ''nextAction'' ''verify_independently'' \<and> is ''messageKey'' ''message.suspicious_request''
      else if set rules = {''BENIGN_FIXED_TEXT''} \<and> limits = [] then
        is ''verdict'' ''no_known_threat_detected'' \<and> state_in [''complete'']
        \<and> is ''nextAction'' ''verify_independently'' \<and> is ''messageKey'' ''message.no_supported_finding''
      else
        is ''verdict'' ''unknown'' \<and> state_in [''blocked'', ''unavailable'', ''inconclusive'', ''unsupported'']
        \<and> (if ''HOSTILE_INPUT_STOP'' \<in> set limits then
             state_in [''blocked''] \<and> is ''messageKey'' ''message.hostile_stop'' \<and> is ''nextAction'' ''review_input''
           else if meets limits PROVIDER_LIMITS then
             state_in [''unavailable''] \<and> is ''messageKey'' ''message.provider_unavailable'' \<and> is ''nextAction'' ''use_built_in_help''
           else
             state_in [''inconclusive''] \<and> is ''messageKey'' ''message.inconclusive'' \<and> is ''nextAction'' ''review_input''))"

definition validate_v1 :: "pyval \<Rightarrow> pyval \<Rightarrow> pyval \<Rightarrow> dict result" where
  "validate_v1 summary client_id outcome =
     (case as_dict summary of
        None \<Rightarrow> Inl MESSAGE_INVALID
      | Some v \<Rightarrow>
          rbind (require (has_keys v V1_KEYS)) (\<lambda>_.
          rbind (require (dget v ''schemaVersion'' = PInt 1 \<and> dget v ''kind'' = PStr ''message_assessment''
              \<and> dget v ''policyVersion'' = PStr POLICY_V1)) (\<lambda>_.
          rbind (require (str_matches (fullmatch is_ident 1 64) (dget v ''checkId''))) (\<lambda>_.
          rbind (require (client_ok client_id (dget v ''checkId''))) (\<lambda>_.
          rbind (require (client_ok outcome (dget v ''processingOutcome''))) (\<lambda>_.
          rbind (require (one_of (dget v ''processingOutcome'') [''complete'', ''partial'', ''blocked'', ''unavailable'', ''inconclusive'', ''unsupported''])) (\<lambda>_.
          rbind (require (one_of (dget v ''verdict'') [''unknown'', ''high_risk'', ''suspicious'', ''no_known_threat_detected''])) (\<lambda>_.
          rbind (require (one_of (dget v ''coverage'') [''supported_checks_complete'', ''limited'', ''not_assessed''])) (\<lambda>_.
          rbind (require_in (dget v ''nextAction'') ACTIONS) (\<lambda>_.
          rbind (require_in (dget v ''messageKey'') MESSAGES) (\<lambda>_.
          rbind (require (str_list (dget v ''limitationCodes'') LIMITS 8)) (\<lambda>_.
          rbind (require (str_list (dget v ''ruleIds'') RULES 4)) (\<lambda>_.
          rbind (require (dict_list (dget v ''evidence'') 2 \<and> list_all evidence_ok (rows (dget v ''evidence'')))) (\<lambda>_.
          let rules = texts (dget v ''ruleIds''); limits = texts (dget v ''limitationCodes''); es = rows (dget v ''evidence'') in
          rbind (require (v1_verdict rules limits es v)) (\<lambda>_.
          rbind (require (if dget v ''processingOutcome'' = PStr ''complete''
                  then limits = [] \<and> dget v ''coverage'' = PStr ''supported_checks_complete'' \<and> dget v ''verdict'' \<noteq> PStr ''unknown''
                  else limits \<noteq> [] \<and> one_of (dget v ''coverage'') [''limited'', ''not_assessed''])) (\<lambda>_.
          Inr v))))))))))))))))"

section \<open>Validation of version 2\<close>

definition AI_REASONS :: "string list" where
  "AI_REASONS = [''AI_CREDENTIAL_REQUEST'', ''AI_PAYMENT_PRESSURE'', ''AI_PRETEXT'', ''AI_VERIFICATION_BYPASS'', ''AI_CONSEQUENTIAL_URGENCY'']"

definition BASES :: "string list" where
  "BASES = [''qualified_rules'', ''google_web_risk_lookup'', ''ai_assessment'']"

definition AI_STATUSES :: "string list" where
  "AI_STATUSES = [''not_assessed'', ''warning'', ''no_warning'', ''abstained'', ''unavailable'']"

definition BLOCKING_LIMITS :: "string list" where
  "BLOCKING_LIMITS = [''HOSTILE_INPUT_STOP'', ''UNKNOWN_SPEAKER'', ''UNSUPPORTED_CONTENT'']"

definition basis_of :: "string list \<Rightarrow> dict list \<Rightarrow> string \<Rightarrow> string list" where
  "basis_of rules es status =
     (if rules \<noteq> [] then [''qualified_rules''] else []) @ (if es \<noteq> [] then [''google_web_risk_lookup''] else [])
     @ (if status = ''warning'' \<or> status = ''no_warning'' then [''ai_assessment''] else [])"

definition independent_warning :: "string list \<Rightarrow> dict list \<Rightarrow> bool" where
  "independent_warning rules es = (meets rules (HIGH_RULES @ [''PAYMENT_WITH_SECRECY_PRESSURE'']) \<or> matched es)"

definition v2_status_ok :: "string \<Rightarrow> string list \<Rightarrow> string list \<Rightarrow> dict list \<Rightarrow> bool" where
  \<comment> \<open>what the AI status requires of the limits, rules and evidence\<close>
  "v2_status_ok status limits rules es =
     ((status = ''abstained'' \<or> status = ''unavailable'' \<longrightarrow> limits \<noteq> [])
      \<and> (status = ''unavailable'' \<longrightarrow> meets limits PROVIDER_LIMITS)
      \<and> (status = ''abstained'' \<longrightarrow> meets limits (''INSUFFICIENT_EVIDENCE'' # ''UNKNOWN_SPEAKER'' # [''UNSUPPORTED_CONTENT'', ''HOSTILE_INPUT_STOP'']))
      \<and> (status = ''warning'' \<or> status = ''no_warning'' \<longrightarrow>
           \<not> meets limits BLOCKING_LIMITS \<and> (''INSUFFICIENT_EVIDENCE'' \<notin> set limits \<or> matched es)
           \<and> \<not> (status = ''warning'' \<and> ''BENIGN_FIXED_TEXT'' \<in> set rules)))"

definition v2_verdict :: "string \<Rightarrow> string list \<Rightarrow> dict \<Rightarrow> bool" where
  \<comment> \<open>the verdict without an independent finding\<close>
  "v2_verdict status limits v =
     (let is = (\<lambda>k s. dget v k = PStr s) in
      if status = ''warning'' then
        is ''verdict'' ''suspicious'' \<and> is ''processingOutcome'' (if limits \<noteq> [] then ''partial'' else ''complete'')
        \<and> is ''messageKey'' ''message.ai_warning'' \<and> is ''nextAction'' ''verify_independently''
      else if status = ''no_warning'' \<and> limits = [] then
        is ''verdict'' ''no_known_threat_detected'' \<and> is ''processingOutcome'' ''complete''
        \<and> is ''messageKey'' ''message.ai_no_warning'' \<and> is ''nextAction'' ''verify_independently''
      else
        is ''verdict'' ''unknown''
        \<and> (if ''HOSTILE_INPUT_STOP'' \<in> set limits then
             is ''processingOutcome'' ''blocked'' \<and> is ''messageKey'' ''message.hostile_stop'' \<and> is ''nextAction'' ''review_input''
           else if meets limits PROVIDER_LIMITS then
             is ''processingOutcome'' ''unavailable'' \<and> is ''messageKey'' ''message.provider_unavailable'' \<and> is ''nextAction'' ''use_built_in_help''
           else
             is ''processingOutcome'' ''inconclusive'' \<and> is ''messageKey'' ''message.ai_inconclusive'' \<and> is ''nextAction'' ''review_input''))"

definition v1_baseline :: "dict \<Rightarrow> dict" where
  \<comment> \<open>the version 1 part of a summary: \<open>{k: value[k] for k in original_keys}\<close> with its version and policy\<close>
  "v1_baseline v = dset ''policyVersion'' (PStr POLICY_V1) (dset ''schemaVersion'' (PInt 1) (map (\<lambda>k. (k, dget v k)) V1_KEYS))"

definition validate_v2 :: "pyval \<Rightarrow> pyval \<Rightarrow> pyval \<Rightarrow> dict result" where
  "validate_v2 summary client_id outcome =
     (case as_dict summary of
        None \<Rightarrow> Inl MESSAGE_INVALID
      | Some v \<Rightarrow>
          rbind (require (has_keys v V2_KEYS)) (\<lambda>_.
          rbind (require (dget v ''schemaVersion'' = PInt 2 \<and> dget v ''kind'' = PStr ''message_assessment''
              \<and> dget v ''policyVersion'' = PStr POLICY_V2)) (\<lambda>_.
          rbind (require (str_matches (fullmatch is_ident 1 64) (dget v ''checkId'')
              \<and> client_ok client_id (dget v ''checkId'') \<and> client_ok outcome (dget v ''processingOutcome''))) (\<lambda>_.
          rbind (require (str_list (dget v ''assessmentBasis'') BASES 3 \<and> str_list (dget v ''aiReasonCodes'') AI_REASONS 5
              \<and> str_list (dget v ''ruleIds'') RULES 4 \<and> str_list (dget v ''limitationCodes'') LIMITS 8)) (\<lambda>_.
          rbind (require_in (dget v ''aiAssessmentStatus'') AI_STATUSES) (\<lambda>_.
          let status = the (as_str (dget v ''aiAssessmentStatus'')); rules = texts (dget v ''ruleIds'');
              limits = texts (dget v ''limitationCodes''); es = rows (dget v ''evidence''); basis = basis_of rules es status in
          rbind (require ((texts (dget v ''aiReasonCodes'') \<noteq> []) = (status = ''warning''))) (\<lambda>_.
          rbind (require (dict_list (dget v ''evidence'') 2 \<and> list_all evidence_ok es)) (\<lambda>_.
          rbind (require (set (texts (dget v ''assessmentBasis'')) = set basis)) (\<lambda>_.
          rbind (require (one_of (dget v ''processingOutcome'') [''complete'', ''partial'', ''inconclusive'', ''blocked'', ''unavailable'']
              \<and> one_of (dget v ''coverage'') [''supported_checks_complete'', ''limited'', ''not_assessed''])) (\<lambda>_.
          rbind (require (if dget v ''processingOutcome'' = PStr ''complete''
                  then limits = [] \<and> dget v ''coverage'' = PStr ''supported_checks_complete''
                  else limits \<noteq> [] \<and> dget v ''coverage'' = PStr (if basis \<noteq> [] then ''limited'' else ''not_assessed''))) (\<lambda>_.
          rbind (require (v2_status_ok status limits rules es)) (\<lambda>_.
          if independent_warning rules es \<or> (rules = [''BENIGN_FIXED_TEXT''] \<and> limits = [] \<and> status \<noteq> ''warning'') then
            rbind (validate_v1 (PDict (v1_baseline v)) client_id outcome) (\<lambda>_. Inr v)
          else
            rbind (require (v2_verdict status limits v)) (\<lambda>_. Inr v)))))))))))))"

section \<open>Validation of version 3\<close>

definition V3_EVIDENCE :: "string list" where
  "V3_EVIDENCE = [''source'', ''outcome'', ''targetScope'', ''observedAt'', ''validUntil'', ''threatTypes'', ''freshness'']"

definition restrict_keys :: "string list \<Rightarrow> dict \<Rightarrow> dict" where   \<comment> \<open>\<open>{k: e[k] for k in ks}\<close>\<close>
  "restrict_keys ks e = map (\<lambda>k. (k, dget e k)) ks"

definition live_evidence :: "dict list \<Rightarrow> dict list" where
  "live_evidence es = map (restrict_keys [''source'', ''outcome'', ''targetScope''])
     (filter (\<lambda>e. one_of (dget e ''freshness'') [''current'', ''observation_only'']) es)"

definition v2_baseline :: "dict \<Rightarrow> dict" where
  "v2_baseline v = dset ''evidence'' (PList (map PDict (live_evidence (rows (dget v ''evidence'')))))
     (dset ''schemaVersion'' (PInt 2) v)"

definition fault_of :: "'a result \<Rightarrow> unit result" where
  \<comment> \<open>\<open>except (ValueError, TypeError, OverflowError): require(False)\<close>\<close>
  "fault_of r = (case r of Inl e \<Rightarrow> (if e = ValueError \<or> e = TypeError then Inl MESSAGE_INVALID else Inl e) | Inr _ \<Rightarrow> Inr ())"

definition evidence_v3_ok :: "dict \<Rightarrow> unit result" where
  "evidence_v3_ok e =
     (let is_match = (dget e ''outcome'' = PStr ''match'') in
      rbind (require (has_keys e V3_EVIDENCE)) (\<lambda>_.
      rbind (require (dget e ''source'' = PStr ''google_web_risk_lookup'' \<and> one_of (dget e ''outcome'') [''match'', ''no_match'']
          \<and> one_of (dget e ''targetScope'') EVIDENCE_SCOPES
          \<and> one_of (dget e ''freshness'') [''current'', ''expired'', ''unverified'', ''observation_only''])) (\<lambda>_.
      rbind (require (is_match = one_of (dget e ''freshness'') [''current'', ''expired'', ''unverified''])) (\<lambda>_.
      if dget e ''freshness'' = PStr ''unverified'' then
        require (dget e ''observedAt'' = PNone \<and> dget e ''validUntil'' = PNone \<and> dget e ''threatTypes'' = PList [])
      else
        rbind (fault_of (lookup_evidence (restrict_keys [''threatTypes'', ''observedAt'', ''validUntil''] e))) (\<lambda>_.
        require (truthy (dget e ''threatTypes'') = is_match))))))"

fun all_ok :: "('a \<Rightarrow> unit result) \<Rightarrow> 'a list \<Rightarrow> unit result" where   \<comment> \<open>a loop of checks\<close>
  "all_ok f [] = Inr ()"
| "all_ok f (x # xs) = rbind (f x) (\<lambda>_. all_ok f xs)"

definition validate_v3 :: "pyval \<Rightarrow> pyval \<Rightarrow> pyval \<Rightarrow> dict result" where
  "validate_v3 summary client_id outcome =
     (case as_dict summary of
        None \<Rightarrow> Inl MESSAGE_INVALID
      | Some v \<Rightarrow>
          rbind (require (dget v ''schemaVersion'' = PInt 3)) (\<lambda>_.
          rbind (require (case dget v ''evidence'' of PList xs \<Rightarrow> length xs \<le> 2 | _ \<Rightarrow> False)) (\<lambda>_.
          rbind (all_ok (\<lambda>x. case as_dict x of None \<Rightarrow> Inl MESSAGE_INVALID | Some e \<Rightarrow> evidence_v3_ok e)
                   (case dget v ''evidence'' of PList xs \<Rightarrow> xs | _ \<Rightarrow> [])) (\<lambda>_.
          rbind (validate_v2 (PDict (v2_baseline v)) client_id outcome) (\<lambda>_.
          Inr v)))))"

section \<open>The policies (\<open>policy.py\<close>, \<open>policy_v2.py\<close>)\<close>

definition dedup :: "'a list \<Rightarrow> 'a list" where   \<comment> \<open>\<open>list(dict.fromkeys(xs))\<close>\<close>
  "dedup xs = rev (remdups (rev xs))"

definition str_values :: "string list \<Rightarrow> pyval" where
  "str_values ss = PList (map PStr ss)"

text \<open>A choice is the verdict, state, action and message of a summary, with its limitations.\<close>

type_synonym choice = "string \<times> string \<times> string \<times> string \<times> string list"

definition v1_choice :: "string list \<Rightarrow> string list \<Rightarrow> dict list \<Rightarrow> choice" where
  "v1_choice rules limits es =
     (let m = matched es; open_state = (if limits \<noteq> [] then ''partial'' else ''complete'') in
      if m \<or> meets rules HIGH_RULES then
        (''high_risk'', open_state, if m then ''avoid_link'' else ''pause_and_verify'',
         if m then ''message.partial_known_threat'' else ''message.high_risk_request'', limits)
      else if ''PAYMENT_WITH_SECRECY_PRESSURE'' \<in> set rules then
        (''suspicious'', open_state, ''verify_independently'', ''message.suspicious_request'', limits)
      else if rules = [''BENIGN_FIXED_TEXT''] \<and> limits = [] then
        (''no_known_threat_detected'', ''complete'', ''verify_independently'', ''message.no_supported_finding'', limits)
      else if ''HOSTILE_INPUT_STOP'' \<in> set limits then
        (''unknown'', ''blocked'', ''review_input'', ''message.hostile_stop'', limits)
      else if meets limits PROVIDER_LIMITS then
        (''unknown'', ''unavailable'', ''use_built_in_help'', ''message.provider_unavailable'', limits)
      else
        (''unknown'', ''inconclusive'', ''review_input'', ''message.inconclusive'',
         if ''INSUFFICIENT_EVIDENCE'' \<in> set limits then limits else limits @ [''INSUFFICIENT_EVIDENCE'']))"

definition v1_summary :: "pyval \<Rightarrow> string list \<Rightarrow> dict list \<Rightarrow> choice \<Rightarrow> dict" where
  "v1_summary check rules es c =
     (case c of (verdict, state, action, key, limits) \<Rightarrow>
        [(''schemaVersion'', PInt 1), (''kind'', PStr ''message_assessment''), (''checkId'', check), (''policyVersion'', PStr POLICY_V1),
         (''verdict'', PStr verdict), (''processingOutcome'', PStr state),
         (''coverage'', PStr (if state = ''complete'' then ''supported_checks_complete''
            else if rules \<noteq> [] \<or> es \<noteq> [] then ''limited'' else ''not_assessed'')),
         (''limitationCodes'', str_values limits), (''ruleIds'', str_values rules), (''evidence'', PList (map PDict es)),
         (''nextAction'', PStr action), (''messageKey'', PStr key)])"

definition policy_v1 :: "pyval \<Rightarrow> string list \<Rightarrow> string list \<Rightarrow> dict list \<Rightarrow> dict result" where
  "policy_v1 check rules0 limits0 es =
     (let rules = dedup rules0; ls = dedup limits0;
          limits = (if matched es \<and> ls = [] then [''INSUFFICIENT_EVIDENCE''] else ls) in
      validate_v1 (PDict (v1_summary check rules es (v1_choice rules limits es))) check PNone)"

definition ai_withdrawn :: "string \<Rightarrow> string list \<Rightarrow> string list \<Rightarrow> dict list \<Rightarrow> bool" where
  \<comment> \<open>an AI finding that the context or another rule does not let stand\<close>
  "ai_withdrawn status limits rules es =
     ((status = ''warning'' \<or> status = ''no_warning'')
      \<and> (meets limits BLOCKING_LIMITS \<or> (''INSUFFICIENT_EVIDENCE'' \<in> set limits \<and> \<not> matched es)
         \<or> (status = ''warning'' \<and> ''BENIGN_FIXED_TEXT'' \<in> set rules)))"

definition v2_choice :: "string \<Rightarrow> string list \<Rightarrow> choice" where
  \<comment> \<open>without an independent finding\<close>
  "v2_choice status limits =
     (if status = ''warning'' then
        (''suspicious'', if limits \<noteq> [] then ''partial'' else ''complete'', ''verify_independently'', ''message.ai_warning'', limits)
      else if status = ''no_warning'' \<and> limits = [] then
        (''no_known_threat_detected'', ''complete'', ''verify_independently'', ''message.ai_no_warning'', limits)
      else
        (let ls = (if limits = [] then [''INSUFFICIENT_EVIDENCE''] else limits) in
         if ''HOSTILE_INPUT_STOP'' \<in> set ls then (''unknown'', ''blocked'', ''review_input'', ''message.hostile_stop'', ls)
         else if meets ls PROVIDER_LIMITS then
           (''unknown'', ''unavailable'', ''use_built_in_help'', ''message.provider_unavailable'', ls)
         else (''unknown'', ''inconclusive'', ''review_input'', ''message.ai_inconclusive'', ls)))"

definition v2_base :: "pyval \<Rightarrow> string list \<Rightarrow> dict list \<Rightarrow> choice \<Rightarrow> dict" where
  "v2_base check rules es c =
     (case c of (verdict, state, action, key, limits) \<Rightarrow>
        [(''kind'', PStr ''message_assessment''), (''checkId'', check), (''verdict'', PStr verdict), (''processingOutcome'', PStr state),
         (''limitationCodes'', str_values limits), (''ruleIds'', str_values rules), (''evidence'', PList (map PDict es)),
         (''nextAction'', PStr action), (''messageKey'', PStr key)])"

definition v2_update :: "dict \<Rightarrow> string list \<Rightarrow> string \<Rightarrow> string list \<Rightarrow> dict" where
  "v2_update base basis status reasons =
     dmerge base
       [(''schemaVersion'', PInt 2), (''policyVersion'', PStr POLICY_V2), (''assessmentBasis'', str_values basis),
        (''aiAssessmentStatus'', PStr status), (''aiReasonCodes'', str_values reasons),
        (''coverage'', PStr (if dget base ''processingOutcome'' = PStr ''complete'' then ''supported_checks_complete''
           else if basis \<noteq> [] then ''limited'' else ''not_assessed''))]"

definition v2_normal :: "string list \<Rightarrow> string list \<Rightarrow> dict list \<Rightarrow> string \<Rightarrow> string list \<Rightarrow> string \<times> string list \<times> string list" where
  \<comment> \<open>the status, reasons and limitations after the adjustments at the top of \<open>result\<close>\<close>
  "v2_normal rules limits es status reasons =
     (let withdrawn = ai_withdrawn status limits rules es;
          st = (if withdrawn then ''abstained'' else status);
          ls = (if withdrawn \<and> limits = [] then [''INSUFFICIENT_EVIDENCE''] else limits);
          ls' = (if st = ''abstained'' \<and> ls = [] then [''INSUFFICIENT_EVIDENCE''] else ls) in
      (st, if withdrawn then [] else reasons,
       if st = ''unavailable'' \<and> ls' = [] then [''PROVIDER_UNAVAILABLE''] else ls'))"

definition policy_v2 :: "pyval \<Rightarrow> string list \<Rightarrow> string list \<Rightarrow> dict list \<Rightarrow> string \<Rightarrow> string list \<Rightarrow> dict result" where
  "policy_v2 check rules0 limits0 es status0 reasons0 =
     (let rules = dedup rules0;
          (status, reasons, limits) = v2_normal rules (dedup limits0) es status0 (dedup reasons0) in
      rbind (if independent_warning rules es \<or> (rules = [''BENIGN_FIXED_TEXT''] \<and> limits = [] \<and> status \<noteq> ''warning'')
             then policy_v1 check rules limits es
             else Inr (v2_base check rules es (v2_choice status limits))) (\<lambda>base.
      validate_v2 (PDict (v2_update base (basis_of rules es status) status reasons)) check PNone))"

section \<open>The policies are accepted by the validators\<close>

lemma require_Inr [simp]: "require b = Inr u \<longleftrightarrow> b" "require True = Inr ()"
  by (simp_all add: require_def)

lemma rbind_require [simp]: "rbind (require b) f = Inr y \<longleftrightarrow> b \<and> f () = Inr y"
  by (simp add: require_def)

lemma require_in_text [simp]: "require_in (PStr s) ss = require (s \<in> set ss)"
  by (simp add: require_in_def)

lemma texts_values [simp]: "texts (str_values ss) = ss"
  by (induction ss) (simp_all add: texts_def str_values_def List.map_filter_def)

lemma rows_dicts [simp]: "rows (PList (map PDict es)) = es"
  by (induction es) (simp_all add: rows_def List.map_filter_def)

lemma dict_list_dicts [simp]: "dict_list (PList (map PDict es)) cap \<longleftrightarrow> length es \<le> cap"
  by (auto simp: dict_list_def list_all_iff)

lemma str_list_values [simp]:
  "str_list (str_values ss) allowed cap \<longleftrightarrow> length ss \<le> cap \<and> set ss \<subseteq> set allowed \<and> distinct ss"
  by (auto simp: str_list_def str_values_def list_all_iff distinct_map inj_on_def)

lemma dedup_simps [simp]: "set (dedup xs) = set xs" "distinct (dedup xs)" "dedup xs = [] \<longleftrightarrow> xs = []"
  by (simp_all add: dedup_def)

lemma meets_iff: "meets xs ys \<longleftrightarrow> (\<exists>x \<in> set xs. x \<in> set ys)"
  by (simp add: meets_def list_ex_iff)

lemma length_le_codes: "distinct ss \<Longrightarrow> set ss \<subseteq> set allowed \<Longrightarrow> length ss \<le> length allowed"
  using card_mono [of "set allowed" "set ss"] card_length [of allowed] by (simp add: distinct_card)

definition v1_shape :: "pyval \<Rightarrow> string list \<Rightarrow> dict list \<Rightarrow> choice \<Rightarrow> dict \<Rightarrow> bool" where
  \<comment> \<open>a dictionary that carries a choice, with any admissible coverage\<close>
  "v1_shape check rules es c v =
     (case c of (ver, state, action, key, limits) \<Rightarrow>
        has_keys v V1_KEYS \<and> dget v ''schemaVersion'' = PInt 1 \<and> dget v ''kind'' = PStr ''message_assessment''
        \<and> dget v ''checkId'' = check \<and> dget v ''policyVersion'' = PStr POLICY_V1
        \<and> dget v ''verdict'' = PStr ver \<and> dget v ''processingOutcome'' = PStr state
        \<and> (if state = ''complete'' then dget v ''coverage'' = PStr ''supported_checks_complete''
            else one_of (dget v ''coverage'') [''limited'', ''not_assessed''])
        \<and> dget v ''limitationCodes'' = str_values limits \<and> dget v ''ruleIds'' = str_values rules
        \<and> dget v ''evidence'' = PList (map PDict es) \<and> dget v ''nextAction'' = PStr action \<and> dget v ''messageKey'' = PStr key)"

lemma v1_summary_shape: "v1_shape check rules es c (v1_summary check rules es c)"
  by (cases c) (simp add: v1_shape_def v1_summary_def has_keys_def V1_KEYS_def)

lemma one_of_coverage: "one_of v [''limited'', ''not_assessed''] \<Longrightarrow>
    one_of v [''supported_checks_complete'', ''limited'', ''not_assessed'']"
  by (auto simp: one_of_iff)

definition policy_inputs :: "string \<Rightarrow> string list \<Rightarrow> string list \<Rightarrow> dict list \<Rightarrow> bool" where
  \<comment> \<open>what the callers of the policies pass: known codes and well-formed evidence\<close>
  "policy_inputs check rules limits es =
     (fullmatch is_ident 1 64 check \<and> set rules \<subseteq> set RULES \<and> set limits \<subseteq> set LIMITS
      \<and> length es \<le> 2 \<and> list_all evidence_ok es)"

lemma choice_cases:
  obtains (high) "matched es \<or> meets rules HIGH_RULES"
  | (suspicious) "\<not> matched es" "\<not> meets rules HIGH_RULES" "''PAYMENT_WITH_SECRECY_PRESSURE'' \<in> set rules"
  | (benign) "\<not> matched es" "\<not> meets rules HIGH_RULES" "''PAYMENT_WITH_SECRECY_PRESSURE'' \<notin> set rules"
      "rules = [''BENIGN_FIXED_TEXT''] \<and> limits = []"
  | (unknown) "\<not> matched es" "\<not> meets rules HIGH_RULES" "''PAYMENT_WITH_SECRECY_PRESSURE'' \<notin> set rules"
      "\<not> (rules = [''BENIGN_FIXED_TEXT''] \<and> limits = [])"
  by blast

lemma v1_choice_valid:
  assumes "policy_inputs check rules limits es" "distinct rules" "distinct limits" "matched es \<longrightarrow> limits \<noteq> []"
    "v1_shape (PStr check) rules es (v1_choice rules limits es) v"
  shows "validate_v1 (PDict v) (PStr check) PNone = Inr v"
proof -
  have caps: "length rules \<le> 4" "length limits \<le> 8"
    using length_le_codes [of rules RULES] length_le_codes [of limits LIMITS] assms
    by (simp_all add: policy_inputs_def RULES_def LIMITS_def)
  have ext: "length (limits @ [''INSUFFICIENT_EVIDENCE'']) \<le> 8" if "''INSUFFICIENT_EVIDENCE'' \<notin> set limits"
    using length_le_codes [of "limits @ [''INSUFFICIENT_EVIDENCE'']" LIMITS] assms that
    by (simp add: policy_inputs_def LIMITS_def)
  have single: "set rules = {''BENIGN_FIXED_TEXT''} \<longleftrightarrow> rules = [''BENIGN_FIXED_TEXT'']"
    using assms(2) by (cases rules; cases "tl rules") (auto simp: subset_singleton_iff)
  note base = assms caps
  show ?thesis
  proof (cases rule: choice_cases [where es = es and rules = rules and limits = limits])
    case high
    with base show ?thesis
      by (auto simp: validate_v1_def v1_choice_def policy_inputs_def client_ok_def ACTIONS_def MESSAGES_def v1_verdict_def v1_shape_def one_of_coverage Let_def split: if_splits)
  next
    case suspicious
    with base show ?thesis
      by (auto simp: validate_v1_def v1_choice_def policy_inputs_def client_ok_def ACTIONS_def MESSAGES_def v1_verdict_def v1_shape_def one_of_coverage Let_def split: if_splits)
  next
    case benign
    with base show ?thesis
      by (auto simp: validate_v1_def v1_choice_def policy_inputs_def client_ok_def ACTIONS_def MESSAGES_def v1_verdict_def v1_shape_def one_of_coverage Let_def split: if_splits)
  next
    case unknown
    then have not: "\<not> (set rules = {''BENIGN_FIXED_TEXT''} \<and> limits = [])" using single by simp
    consider (hostile) "''HOSTILE_INPUT_STOP'' \<in> set limits"
      | (provider) "''HOSTILE_INPUT_STOP'' \<notin> set limits" "meets limits PROVIDER_LIMITS"
      | (other) "''HOSTILE_INPUT_STOP'' \<notin> set limits" "\<not> meets limits PROVIDER_LIMITS"
      by blast
    then show ?thesis
    proof cases
      case hostile
      then have "limits \<noteq> []" by auto
      with hostile unknown not base show ?thesis
        by (simp add: validate_v1_def v1_choice_def policy_inputs_def client_ok_def ACTIONS_def MESSAGES_def v1_verdict_def v1_shape_def one_of_coverage)
    next
      case provider
      then have "limits \<noteq> []" by (auto simp: meets_iff)
      with provider unknown not base show ?thesis
        by (simp add: validate_v1_def v1_choice_def policy_inputs_def client_ok_def ACTIONS_def MESSAGES_def v1_verdict_def v1_shape_def one_of_coverage)
    next
      case other
      define ls where "ls = (if ''INSUFFICIENT_EVIDENCE'' \<in> set limits then limits else limits @ [''INSUFFICIENT_EVIDENCE''])"
      have sets: "set ls = insert ''INSUFFICIENT_EVIDENCE'' (set limits)" by (auto simp: ls_def)
      have d: "distinct ls" using base(3) by (auto simp: ls_def)
      have sub: "set ls \<subseteq> set LIMITS"
        using base(1) by (simp add: sets policy_inputs_def) (simp add: LIMITS_def)
      have "length ls \<le> 8" using length_le_codes [OF d sub] by (simp add: LIMITS_def)
      moreover have "ls \<noteq> []" using sets by force
      moreover have "''HOSTILE_INPUT_STOP'' \<notin> set ls" using other(1) by (simp add: sets)
      moreover have "\<not> meets ls PROVIDER_LIMITS" using other(2) by (simp add: sets meets_iff) (simp add: PROVIDER_LIMITS_def)
      moreover note d sub
      moreover have "v1_choice rules limits es = (''unknown'', ''inconclusive'', ''review_input'', ''message.inconclusive'', ls)"
        using other unknown by (simp add: v1_choice_def ls_def)
      ultimately show ?thesis
        using unknown base not single
        by (simp add: validate_v1_def policy_inputs_def client_ok_def ACTIONS_def MESSAGES_def v1_verdict_def v1_shape_def one_of_coverage)
    qed
  qed
qed

lemma policy_inputs_dedup: "policy_inputs c rules limits es \<Longrightarrow> policy_inputs c (dedup rules) (dedup limits) es"
  by (simp add: policy_inputs_def)

lemma policy_v1_eq:
  assumes "policy_inputs check rules limits es"
  defines "ls \<equiv> (if matched es \<and> limits = [] then [''INSUFFICIENT_EVIDENCE''] else dedup limits)"
  shows "policy_v1 (PStr check) rules limits es
    = Inr (v1_summary (PStr check) (dedup rules) es (v1_choice (dedup rules) ls es))"
    "validate_v1 (PDict (v1_summary (PStr check) (dedup rules) es (v1_choice (dedup rules) ls es))) (PStr check) PNone
    = Inr (v1_summary (PStr check) (dedup rules) es (v1_choice (dedup rules) ls es))"
proof -
  have "policy_inputs check (dedup rules) ls es" "distinct ls" "matched es \<longrightarrow> ls \<noteq> []"
    using policy_inputs_dedup [OF assms(1)] by (auto simp: ls_def policy_inputs_def LIMITS_def)
  from v1_choice_valid [OF this(1) _ this(2,3) v1_summary_shape]
  show v: "validate_v1 (PDict (v1_summary (PStr check) (dedup rules) es (v1_choice (dedup rules) ls es))) (PStr check) PNone
    = Inr (v1_summary (PStr check) (dedup rules) es (v1_choice (dedup rules) ls es))" by simp
  have "(if matched es \<and> dedup limits = [] then [''INSUFFICIENT_EVIDENCE''] else dedup limits) = ls" by (simp add: ls_def)
  with v show "policy_v1 (PStr check) rules limits es
    = Inr (v1_summary (PStr check) (dedup rules) es (v1_choice (dedup rules) ls es))"
    by (simp add: policy_v1_def Let_def)
qed

lemma meets_dedup [simp]: "meets (dedup xs) ys \<longleftrightarrow> meets xs ys"
  by (simp add: meets_iff)

lemma dedup_single: "dedup xs = [x] \<longleftrightarrow> set xs = {x}"
proof
  assume "set xs = {x}"
  then have "set (dedup xs) = {x}" "distinct (dedup xs)" by simp_all
  then show "dedup xs = [x]" by (cases "dedup xs"; cases "tl (dedup xs)") auto
next
  assume "dedup xs = [x]"
  then have "set (dedup xs) = {x}" by simp
  then show "set xs = {x}" by simp
qed

lemma v1_verdict:
  "fst (v1_choice rules ls es) =
     (if matched es \<or> meets rules HIGH_RULES then ''high_risk''
      else if ''PAYMENT_WITH_SECRECY_PRESSURE'' \<in> set rules then ''suspicious''
      else if rules = [''BENIGN_FIXED_TEXT''] \<and> ls = [] then ''no_known_threat_detected'' else ''unknown'')"
  by (simp add: v1_choice_def Let_def)

text \<open>
  C25 (functional). The rule policy always produces a summary that the closed validator accepts: for
  any known rules and limitations and any well-formed evidence it returns, never raises. The verdict is
  determined by the rules and the evidence: \<open>high_risk\<close> exactly when the provider matched or a
  high-risk rule fired; else \<open>suspicious\<close> exactly when the payment-with-secrecy rule fired; else
  \<open>no_known_threat_detected\<close> exactly when the benign text is the only rule and nothing is limited; else
  \<open>unknown\<close>. A \<open>complete\<close> outcome is claimed only without a single limitation.
\<close>

theorem policy_v1_accepted:
  assumes "policy_inputs check rules limits es"
  shows "\<exists>v. policy_v1 (PStr check) rules limits es = Inr v \<and> validate_v1 (PDict v) (PStr check) PNone = Inr v
     \<and> (dget v ''verdict'' = PStr ''high_risk'' \<longleftrightarrow> matched es \<or> meets rules HIGH_RULES)
     \<and> dget v ''verdict'' = PStr (if matched es \<or> meets rules HIGH_RULES then ''high_risk''
         else if ''PAYMENT_WITH_SECRECY_PRESSURE'' \<in> set rules then ''suspicious''
         else if set rules = {''BENIGN_FIXED_TEXT''} \<and> limits = [] then ''no_known_threat_detected'' else ''unknown'')
     \<and> (dget v ''processingOutcome'' = PStr ''complete'' \<longrightarrow> limits = [] \<and> \<not> matched es \<and> dget v ''verdict'' \<noteq> PStr ''unknown'')"
proof -
  define ls where "ls = (if matched es \<and> limits = [] then [''INSUFFICIENT_EVIDENCE''] else dedup limits)"
  have ls: "ls = [] \<longleftrightarrow> limits = [] \<and> \<not> matched es" by (auto simp: ls_def)
  obtain ver st ac k l where c: "v1_choice (dedup rules) ls es = (ver, st, ac, k, l)" by (cases "v1_choice (dedup rules) ls es")
  then have "ver = ''high_risk'' \<longleftrightarrow> matched es \<or> meets rules HIGH_RULES" "st = ''complete'' \<longrightarrow> ls = [] \<and> ver \<noteq> ''unknown''"
    by (auto simp: v1_choice_def Let_def split: if_splits)
  moreover
  define verdict where "verdict = (if matched es \<or> meets rules HIGH_RULES then ''high_risk''
         else if ''PAYMENT_WITH_SECRECY_PRESSURE'' \<in> set rules then ''suspicious''
         else if set rules = {''BENIGN_FIXED_TEXT''} \<and> limits = [] then ''no_known_threat_detected'' else ''unknown'')"
  have "ver = verdict"
    using v1_verdict [of "dedup rules" ls es] by (simp add: c ls dedup_single verdict_def)
  moreover have "dget (v1_summary (PStr check) (dedup rules) es (ver, st, ac, k, l)) ''verdict'' = PStr ver"
    "dget (v1_summary (PStr check) (dedup rules) es (ver, st, ac, k, l)) ''processingOutcome'' = PStr st"
    by (simp_all add: v1_summary_def)
  moreover have "ls = [] \<longrightarrow> limits = [] \<and> \<not> matched es" using ls by simp
  moreover note policy_v1_eq [OF assms, folded ls_def, unfolded c]
  ultimately show ?thesis
    unfolding verdict_def [symmetric] by (intro exI [of _ "v1_summary (PStr check) (dedup rules) es (ver, st, ac, k, l)"]) auto
qed

definition v2_shape :: "pyval \<Rightarrow> string list \<Rightarrow> dict list \<Rightarrow> choice \<Rightarrow> string \<Rightarrow> string list \<Rightarrow> dict \<Rightarrow> bool" where
  "v2_shape check rules es c status reasons v =
     (case c of (ver, state, action, key, limits) \<Rightarrow>
        has_keys v V2_KEYS \<and> dget v ''schemaVersion'' = PInt 2 \<and> dget v ''kind'' = PStr ''message_assessment''
        \<and> dget v ''checkId'' = check \<and> dget v ''policyVersion'' = PStr POLICY_V2
        \<and> dget v ''verdict'' = PStr ver \<and> dget v ''processingOutcome'' = PStr state
        \<and> dget v ''coverage'' = PStr (if state = ''complete'' then ''supported_checks_complete''
            else if basis_of rules es status \<noteq> [] then ''limited'' else ''not_assessed'')
        \<and> dget v ''limitationCodes'' = str_values limits \<and> dget v ''ruleIds'' = str_values rules
        \<and> dget v ''evidence'' = PList (map PDict es) \<and> dget v ''nextAction'' = PStr action \<and> dget v ''messageKey'' = PStr key
        \<and> dget v ''assessmentBasis'' = str_values (basis_of rules es status)
        \<and> dget v ''aiAssessmentStatus'' = PStr status \<and> dget v ''aiReasonCodes'' = str_values reasons)"

lemma basis_codes: "set (basis_of rules es status) \<subseteq> set BASES" "distinct (basis_of rules es status)"
  "length (basis_of rules es status) \<le> 3"
  by (auto simp: basis_of_def BASES_def)

definition v2_admissible :: "string list \<Rightarrow> string list \<Rightarrow> dict list \<Rightarrow> string \<Rightarrow> string list \<Rightarrow> bool" where
  "v2_admissible rules limits es status reasons =
     (set limits \<subseteq> set LIMITS \<and> distinct limits \<and> status \<in> set AI_STATUSES \<and> set reasons \<subseteq> set AI_REASONS \<and> distinct reasons
      \<and> ((reasons \<noteq> []) = (status = ''warning'')) \<and> v2_status_ok status limits rules es)"

lemma v2_valid:
  assumes "policy_inputs check rules limits es" "distinct rules" "v2_admissible rules l es status reasons"
    "v2_shape (PStr check) rules es (ver, state, action, key, l) status reasons v"
    "state \<in> set [''complete'', ''partial'', ''inconclusive'', ''blocked'', ''unavailable'']" "state = ''complete'' \<longleftrightarrow> l = []"
    "if independent_warning rules es \<or> (rules = [''BENIGN_FIXED_TEXT''] \<and> l = [] \<and> status \<noteq> ''warning'')
     then validate_v1 (PDict (v1_baseline v)) (PStr check) PNone = Inr b else v2_verdict status l v"
  shows "validate_v2 (PDict v) (PStr check) PNone = Inr v"
proof -
  have caps: "length rules \<le> 4" "length l \<le> 8" "length reasons \<le> 5"
    using length_le_codes [of rules RULES] length_le_codes [of l LIMITS] length_le_codes [of reasons AI_REASONS] assms(1-3)
    by (simp_all add: policy_inputs_def v2_admissible_def RULES_def LIMITS_def AI_REASONS_def)
  have checks: "has_keys v V2_KEYS" "dget v ''schemaVersion'' = PInt 2 \<and> dget v ''kind'' = PStr ''message_assessment'' \<and> dget v ''policyVersion'' = PStr POLICY_V2"
    "str_list (dget v ''assessmentBasis'') BASES 3 \<and> str_list (dget v ''aiReasonCodes'') AI_REASONS 5
       \<and> str_list (dget v ''ruleIds'') RULES 4 \<and> str_list (dget v ''limitationCodes'') LIMITS 8"
    "require_in (dget v ''aiAssessmentStatus'') AI_STATUSES = Inr ()"
    using assms(1-4) caps basis_codes [of rules es status]
    by (simp_all add: v2_shape_def policy_inputs_def v2_admissible_def)
  have fields: "dget v ''checkId'' = PStr check" "the (as_str (dget v ''aiAssessmentStatus'')) = status" "texts (dget v ''ruleIds'') = rules"
    "texts (dget v ''limitationCodes'') = l" "rows (dget v ''evidence'') = es" "texts (dget v ''aiReasonCodes'') = reasons"
    "texts (dget v ''assessmentBasis'') = basis_of rules es status" "dict_list (dget v ''evidence'') 2" "dget v ''processingOutcome'' = PStr state"
    using assms(1,4) by (simp_all add: v2_shape_def policy_inputs_def)
  have cov: "dget v ''coverage'' = PStr (if state = ''complete'' then ''supported_checks_complete''
            else if basis_of rules es status \<noteq> [] then ''limited'' else ''not_assessed'')"
    using assms(4) by (simp add: v2_shape_def)
  define A where "A \<longleftrightarrow> independent_warning rules es \<or> (rules = [''BENIGN_FIXED_TEXT''] \<and> l = [] \<and> status \<noteq> ''warning'')"
  from assms(7) have tail: "(if A then rbind (validate_v1 (PDict (v1_baseline v)) (PStr check) PNone) (\<lambda>_. Inr v)
      else rbind (require (v2_verdict status l v)) (\<lambda>_. Inr v)) = Inr v"
    by (simp add: A_def [symmetric] split: if_splits)
  show ?thesis
    unfolding validate_v2_def Let_def fields A_def [symmetric] option.case as_dict.simps
    using assms(1,3,5,6) tail
    by (simp add: checks fields cov client_ok_def v2_admissible_def policy_inputs_def)
qed

definition EXPLAINED :: "string list" where
  "EXPLAINED = [''INSUFFICIENT_EVIDENCE'', ''UNKNOWN_SPEAKER'', ''UNSUPPORTED_CONTENT'', ''HOSTILE_INPUT_STOP'']"

definition ai_inputs :: "string list \<Rightarrow> string list \<Rightarrow> string \<Rightarrow> string list \<Rightarrow> bool" where
  \<comment> \<open>the AI status and reasons the caller passes: an abstention comes with a limitation that explains it\<close>
  "ai_inputs rules limits status reasons =
     (status \<in> set AI_STATUSES \<and> set reasons \<subseteq> set AI_REASONS \<and> ((reasons \<noteq> []) = (status = ''warning''))
      \<and> (status = ''abstained'' \<or> status = ''warning'' \<and> ''BENIGN_FIXED_TEXT'' \<in> set rules \<longrightarrow> limits = [] \<or> meets limits EXPLAINED)
      \<and> (status = ''unavailable'' \<longrightarrow> limits = [] \<or> meets limits PROVIDER_LIMITS))"

lemma v2_normal_admissible:
  assumes "ai_inputs rules limits status reasons" "set limits \<subseteq> set LIMITS" "distinct limits" "distinct reasons"
    "v2_normal rules limits es status reasons = (st, rs, ls)"
  shows "v2_admissible rules ls es st rs"
proof (cases "ai_withdrawn status limits rules es")
  case True
  have "meets limits BLOCKING_LIMITS \<longrightarrow> meets limits EXPLAINED"
    by (auto simp: meets_iff BLOCKING_LIMITS_def EXPLAINED_def)
  moreover have "''INSUFFICIENT_EVIDENCE'' \<in> set limits \<longrightarrow> meets limits EXPLAINED"
    by (auto simp: meets_iff EXPLAINED_def)
  ultimately have ex: "limits = [] \<or> meets limits EXPLAINED"
    using True assms(1) unfolding ai_withdrawn_def ai_inputs_def by blast
  from assms(5) True have n: "st = ''abstained''" "rs = []" "ls = (if limits = [] then [''INSUFFICIENT_EVIDENCE''] else limits)"
    by (auto simp: v2_normal_def Let_def split: if_splits)
  with ex assms(2,3) show ?thesis
    by (auto simp: v2_admissible_def v2_status_ok_def meets_iff EXPLAINED_def LIMITS_def AI_STATUSES_def)
next
  case False
  with assms(5) have n: "st = status" "rs = reasons"
    "ls = (if status = ''abstained'' \<and> limits = [] then [''INSUFFICIENT_EVIDENCE'']
           else if status = ''unavailable'' \<and> limits = [] then [''PROVIDER_UNAVAILABLE''] else limits)"
    by (auto simp: v2_normal_def Let_def split: if_splits)
  have ok: "v2_status_ok st ls rules es"
  proof (cases "status = ''abstained''")
    case True
    with assms(1) n show ?thesis by (auto simp: v2_status_ok_def ai_inputs_def meets_iff EXPLAINED_def)
  next
    case nab: False
    show ?thesis
    proof (cases "status = ''unavailable''")
      case True
      with assms(1) n show ?thesis by (auto simp: v2_status_ok_def ai_inputs_def meets_iff PROVIDER_LIMITS_def)
    next
      case False
      with nab n have "ls = limits" by simp
      with False nab n(1) \<open>\<not> ai_withdrawn status limits rules es\<close> show ?thesis
        by (simp add: v2_status_ok_def ai_withdrawn_def) (elim disjE conjE; simp)
    qed
  qed
  moreover have "set ls \<subseteq> set LIMITS" "distinct ls" using n(3) assms(2,3) by (auto simp: LIMITS_def)
  ultimately show ?thesis using n(1,2) assms(1,4) by (simp add: v2_admissible_def ai_inputs_def)
qed


lemma dedup_id: "distinct xs \<Longrightarrow> dedup xs = xs"
  by (simp add: dedup_def distinct_remdups_id)

lemma v2_update_fields:
  "dget (v2_update base basis status reasons) k =
     (if k = ''schemaVersion'' then PInt 2 else if k = ''policyVersion'' then PStr POLICY_V2
      else if k = ''assessmentBasis'' then str_values basis else if k = ''aiAssessmentStatus'' then PStr status
      else if k = ''aiReasonCodes'' then str_values reasons
      else if k = ''coverage'' then PStr (if dget base ''processingOutcome'' = PStr ''complete'' then ''supported_checks_complete''
           else if basis \<noteq> [] then ''limited'' else ''not_assessed'')
      else dget base k)"
  by (simp add: v2_update_def dget_dmerge)

lemma set_keys_dmerge: "set (map fst (dmerge d e)) = set (map fst d) \<union> set (map fst e)"
  by (induction d e rule: dmerge.induct) (simp_all add: dom_update)

lemma v2_update_keys: "has_keys (v2_update base basis status reasons) ks \<longleftrightarrow> fst ` set base \<union>
    {''schemaVersion'', ''policyVersion'', ''assessmentBasis'', ''aiAssessmentStatus'', ''aiReasonCodes'', ''coverage''} = set ks"
  by (simp only: v2_update_def has_keys_def set_keys_dmerge) simp

lemma v2_shape_summary:
  "v2_shape check rules es c status reasons (v2_update (v1_summary check rules es c) (basis_of rules es status) status reasons)"
  by (cases c) (simp add: v2_shape_def v2_update_fields v2_update_keys v1_summary_def V2_KEYS_def V1_KEYS_def insert_commute)

lemma v2_shape_base:
  "v2_shape check rules es c status reasons (v2_update (v2_base check rules es c) (basis_of rules es status) status reasons)"
  by (cases c) (simp add: v2_shape_def v2_update_fields v2_update_keys v2_base_def V2_KEYS_def V1_KEYS_def insert_commute)

lemma v2_choice_verdict:
  assumes c: "v2_choice st ls = (ver, state, ac, k, l)"
    and v: "dget v ''verdict'' = PStr ver" "dget v ''processingOutcome'' = PStr state"
      "dget v ''messageKey'' = PStr k" "dget v ''nextAction'' = PStr ac"
  shows "v2_verdict st l v"
proof (cases "st = ''warning''")
  case True
  with c v show ?thesis by (cases "ls = []") (simp_all add: v2_verdict_def v2_choice_def)
next
  case False
  note st = this
  show ?thesis
  proof (cases "st = ''no_warning'' \<and> ls = []")
    case True
    with st c v show ?thesis by (simp add: v2_verdict_def v2_choice_def)
  next
    case False
    define q where "q = (if ls = [] then [''INSUFFICIENT_EVIDENCE''] else ls)"
    have q: "q \<noteq> []" by (simp add: q_def)
    have c': "(ver, state, ac, k, l) =
        (if ''HOSTILE_INPUT_STOP'' \<in> set q then (''unknown'', ''blocked'', ''review_input'', ''message.hostile_stop'', q)
         else if meets q PROVIDER_LIMITS then
           (''unknown'', ''unavailable'', ''use_built_in_help'', ''message.provider_unavailable'', q)
         else (''unknown'', ''inconclusive'', ''review_input'', ''message.ai_inconclusive'', q))"
      using c unfolding v2_choice_def if_not_P [OF st] if_not_P [OF False] Let_def q_def [symmetric] by simp
    have l: "l = q" using c' by (simp split: if_splits)
    have neg: "\<not> (st = ''no_warning'' \<and> q = [])" using q by simp
    show ?thesis
      unfolding v2_verdict_def Let_def if_not_P [OF st] l if_not_P [OF neg]
      using c' v by (cases "''HOSTILE_INPUT_STOP'' \<in> set q"; cases "meets q PROVIDER_LIMITS") simp_all
  qed
qed

lemma v1_baseline_shape:
  "v2_shape check rules es c status reasons v \<Longrightarrow> v1_shape check rules es c (v1_baseline v)"
  by (cases c) (simp add: v2_shape_def v1_shape_def v1_baseline_def V1_KEYS_def has_keys_def)


text \<open>
  C26 (functional). The AI-assisted policy is accepted by its own validator as well, whatever the rule
  findings, provider evidence and AI proposal are, provided an abstention comes with a limitation
  that explains it. A provider match or a payment or credential rule is never erased by the AI: the
  verdict is then at least \<open>suspicious\<close>, and \<open>high_risk\<close> on a match.
\<close>

theorem policy_v2_accepted:
  assumes "policy_inputs check rules limits es" "ai_inputs rules limits status reasons"
  shows "\<exists>v. policy_v2 (PStr check) rules limits es status reasons = Inr v
     \<and> validate_v2 (PDict v) (PStr check) PNone = Inr v
     \<and> (independent_warning rules es \<longrightarrow> one_of (dget v ''verdict'') [''high_risk'', ''suspicious''])
     \<and> (matched es \<longrightarrow> dget v ''verdict'' = PStr ''high_risk'')
     \<and> (dget v ''verdict'' = PStr ''no_known_threat_detected'' \<longrightarrow> limits = [] \<and> \<not> independent_warning rules es)"
proof -
  obtain st rs ls where n: "v2_normal (dedup rules) (dedup limits) es status (dedup reasons) = (st, rs, ls)"
    by (cases "v2_normal (dedup rules) (dedup limits) es status (dedup reasons)")
  have inp: "policy_inputs check (dedup rules) (dedup limits) es" using assms(1) by (rule policy_inputs_dedup)
  have ai: "ai_inputs (dedup rules) (dedup limits) status (dedup reasons)" using assms(2) by (simp add: ai_inputs_def)
  have adm: "v2_admissible (dedup rules) ls es st rs"
    by (rule v2_normal_admissible [OF ai _ _ _ n]) (use inp in \<open>simp_all add: policy_inputs_def\<close>)
  then have ls: "policy_inputs check (dedup rules) ls es" "distinct ls"
    using inp by (simp_all add: policy_inputs_def v2_admissible_def)
  have ls0: "ls = [] \<longrightarrow> limits = []" using n by (auto simp: v2_normal_def Let_def split: if_splits)
  have ind [simp]: "independent_warning (dedup rules) es \<longleftrightarrow> independent_warning rules es" by (simp add: independent_warning_def)
  have run: "policy_v2 (PStr check) rules limits es status reasons =
      rbind (if independent_warning (dedup rules) es \<or> (dedup rules = [''BENIGN_FIXED_TEXT''] \<and> ls = [] \<and> st \<noteq> ''warning'')
             then policy_v1 (PStr check) (dedup rules) ls es
             else Inr (v2_base (PStr check) (dedup rules) es (v2_choice st ls))) (\<lambda>base.
      validate_v2 (PDict (v2_update base (basis_of (dedup rules) es st) st rs)) (PStr check) PNone)"
    unfolding policy_v2_def Let_def n prod.case ..
  have rd: "distinct (dedup rules)" by simp
  show ?thesis
  proof (cases "independent_warning (dedup rules) es \<or> (dedup rules = [''BENIGN_FIXED_TEXT''] \<and> ls = [] \<and> st \<noteq> ''warning'')")
    case True
    define l where "l = (if matched es \<and> ls = [] then [''INSUFFICIENT_EVIDENCE''] else ls)"
    obtain ver state ac k l' where c: "v1_choice (dedup rules) l es = (ver, state, ac, k, l')"
      by (cases "v1_choice (dedup rules) l es")
    let ?c = "(ver, state, ac, k, l')"
    let ?v = "v2_update (v1_summary (PStr check) (dedup rules) es ?c) (basis_of (dedup rules) es st) st rs"
    have p1: "policy_v1 (PStr check) (dedup rules) ls es = Inr (v1_summary (PStr check) (dedup rules) es ?c)"
    proof -
      have d: "dedup ls = ls" "dedup (dedup rules) = dedup rules" using ls(2) by (simp_all add: dedup_id)
      show ?thesis using policy_v1_eq(1) [OF ls(1)] unfolding d l_def [symmetric] c .
    qed
    have sel: "l' = l" "state = (if l = [] then ''complete'' else ''partial'')" and ver: "independent_warning rules es \<longrightarrow> ver \<in> {''high_risk'', ''suspicious''}"
      "matched es \<longrightarrow> ver = ''high_risk''" "\<not> independent_warning rules es \<longrightarrow> ls = []"
      using True c by (auto simp: v1_choice_def Let_def independent_warning_def meets_iff HIGH_RULES_def l_def split: if_splits)
    have adm': "v2_admissible (dedup rules) l es st rs"
      using adm by (auto simp: l_def v2_admissible_def v2_status_ok_def LIMITS_def meets_iff BLOCKING_LIMITS_def)
    have pin: "policy_inputs check (dedup rules) l es" "distinct l" "matched es \<longrightarrow> l \<noteq> []"
      using ls by (auto simp: l_def policy_inputs_def LIMITS_def)
    note shape = v2_shape_summary [of "PStr check" "dedup rules" es ?c st rs]
    have b: "validate_v1 (PDict (v1_baseline ?v)) (PStr check) PNone = Inr (v1_baseline ?v)"
      by (rule v1_choice_valid [OF pin(1) rd pin(2,3)]) (simp only: c v1_baseline_shape [OF shape])
    have cond: "independent_warning (dedup rules) es \<or> (dedup rules = [''BENIGN_FIXED_TEXT''] \<and> l = [] \<and> st \<noteq> ''warning'')"
      using True by (auto simp: l_def independent_warning_def)
    have v: "validate_v2 (PDict ?v) (PStr check) PNone = Inr ?v"
      by (rule v2_valid [OF pin(1) rd adm' shape [unfolded sel(1)] _ _, of "v1_baseline ?v", unfolded sel(1) [symmetric]])
        (use b cond sel in \<open>simp_all add: sel(1)\<close>)
    have "dget ?v ''verdict'' = PStr ver" by (simp add: v2_update_fields v1_summary_def)
    with v p1 run True ver ls0 show ?thesis by auto
  next
    case False
    obtain ver state ac k l where c: "v2_choice st ls = (ver, state, ac, k, l)" by (cases "v2_choice st ls")
    let ?c = "(ver, state, ac, k, l)"
    let ?v = "v2_update (v2_base (PStr check) (dedup rules) es ?c) (basis_of (dedup rules) es st) st rs"
    from False have nind: "\<not> independent_warning (dedup rules) es" by blast
    then have nm: "\<not> matched es" by (simp add: independent_warning_def)
    have l: "l = (if ls = [] \<and> st \<noteq> ''warning'' \<and> st \<noteq> ''no_warning'' then [''INSUFFICIENT_EVIDENCE''] else ls)"
      using c by (auto simp: v2_choice_def Let_def split: if_splits)
    have sel: "state = ''complete'' \<longleftrightarrow> l = []" "state \<in> set [''complete'', ''partial'', ''inconclusive'', ''blocked'', ''unavailable'']"
      "ver = ''no_known_threat_detected'' \<longrightarrow> ls = []"
      using c by (auto simp: v2_choice_def Let_def split: if_splits)
    have adm': "v2_admissible (dedup rules) l es st rs"
      using adm by (auto simp: l v2_admissible_def v2_status_ok_def LIMITS_def)
    have pin: "policy_inputs check (dedup rules) l es" using ls by (auto simp: l policy_inputs_def LIMITS_def)
    note shape = v2_shape_base [of "PStr check" "dedup rules" es ?c st rs]
    have verdict: "v2_verdict st l ?v"
      by (rule v2_choice_verdict [OF c]) (simp_all add: v2_update_fields v2_base_def)
    have cond: "\<not> (independent_warning (dedup rules) es \<or> (dedup rules = [''BENIGN_FIXED_TEXT''] \<and> l = [] \<and> st \<noteq> ''warning''))"
      using False by (auto simp: l split: if_splits)
    have v: "validate_v2 (PDict ?v) (PStr check) PNone = Inr ?v"
      by (rule v2_valid [OF pin rd adm' shape sel(2) sel(1)]) (simp only: cond if_False verdict)
    have "dget ?v ''verdict'' = PStr ver" by (simp add: v2_update_fields v2_base_def)
    with v run False c nind nm sel(3) ls0 show ?thesis by auto
  qed
qed

section \<open>Instances\<close>

lemma policy_v1_accepted_witness:
  "\<exists>v. policy_v1 (PStr ''c1'') [''REQUEST_SECRET_DISCLOSURE''] [''WITHHELD_LINKS''] [] = Inr v \<and> dget v ''verdict'' = PStr ''high_risk''"
proof -
  have "policy_inputs ''c1'' [''REQUEST_SECRET_DISCLOSURE''] [''WITHHELD_LINKS''] []"
    by (simp add: policy_inputs_def fullmatch_def is_ident_def is_alnum_def is_digit_def code_def RULES_def LIMITS_def)
  from policy_v1_accepted [OF this] show ?thesis by (auto simp: meets_iff HIGH_RULES_def)
qed

definition ex_match :: dict where
  "ex_match = [(''source'', PStr ''google_web_risk_lookup''), (''outcome'', PStr ''match''), (''targetScope'', PStr ''origin_only'')]"

lemma policy_v2_accepted_witness:
  "\<exists>v. policy_v2 (PStr ''c1'') [] [''INSUFFICIENT_EVIDENCE''] [ex_match] ''no_warning'' [] = Inr v
     \<and> dget v ''verdict'' = PStr ''high_risk''"
proof -
  have "policy_inputs ''c1'' [] [''INSUFFICIENT_EVIDENCE''] [ex_match]"
    by (simp add: policy_inputs_def fullmatch_def is_ident_def is_alnum_def is_digit_def code_def LIMITS_def evidence_ok_def
        ex_match_def has_keys_def EVIDENCE_SCOPES_def)
  moreover have "ai_inputs [] [''INSUFFICIENT_EVIDENCE''] ''no_warning'' []"
    by (simp add: ai_inputs_def AI_STATUSES_def)
  ultimately show ?thesis
    using policy_v2_accepted [of "''c1''" "[]" "[''INSUFFICIENT_EVIDENCE'']" "[ex_match]" "''no_warning''" "[]"]
    by (auto simp: matched_def ex_match_def)
qed


end
