(* ===== verification/Recovery.thy ===== *)
theory Recovery
  imports MessageSummaries "HOL-Library.Product_Lexorder"
begin

text \<open>
  The recovery contract (\<open>shared_recovery_contract\<close>): the actions a playbook grounds a set of
  exposures in, the outcome a recovery check may settle with, and the content-free usage record
  that is kept of it. The playbook is the reviewed file
  \<open>contracts/recovery-playbook/1.0/bundle.json\<close>; its integrity check (a digest of the file) is not
  part of the model.
\<close>

definition RECOVERY_VERSION :: string where "RECOVERY_VERSION = ''1.0.0-recovery-candidate.1''"
definition RECOVERY_POLICY :: string where "RECOVERY_POLICY = ''recovery-clarification-2026-09-21-v1''"
definition PLAYBOOK :: string where "PLAYBOOK = ''recovery-playbook-1.0''"

definition EXPOSURES :: "string list" where
  "EXPOSURES = [''clicked_link'', ''credentials_or_mfa'', ''financial_or_identity'', ''sent_payment'', ''software_or_remote_access'']"

definition RECOVERY_OUTCOMES :: "string list" where
  "RECOVERY_OUTCOMES = [''complete'', ''inconclusive'', ''partial'', ''failed'', ''blocked'', ''invalid_input'', ''unsupported'', ''unavailable'']"

record playbook_action =
  act_id :: string
  exposureId :: string
  phase :: string
  rank :: nat

definition play :: "string \<Rightarrow> string \<Rightarrow> string \<Rightarrow> nat \<Rightarrow> playbook_action" where
  "play i e p r = \<lparr>act_id = i, exposureId = e, phase = p, rank = r\<rparr>"

definition bundle_actions :: "playbook_action list" where   \<comment> \<open>\<open>bundle()['actions']\<close>\<close>
  "bundle_actions =
     [play ''payment_contact'' ''sent_payment'' ''now'' 10, play ''account_secure'' ''credentials_or_mfa'' ''now'' 20,
      play ''financial_contact'' ''financial_or_identity'' ''now'' 30, play ''link_stop'' ''clicked_link'' ''now'' 40,
      play ''device_secure'' ''software_or_remote_access'' ''now'' 50,
      play ''payment_receipts'' ''sent_payment'' ''follow_up'' 10,
      play ''identity_steps'' ''financial_or_identity'' ''follow_up'' 30,
      play ''link_verify'' ''clicked_link'' ''follow_up'' 40,
      play ''device_support'' ''software_or_remote_access'' ''follow_up'' 50]"

abbreviation RECOVERY_INVALID :: exc where "RECOVERY_INVALID \<equiv> RecoveryError ''RESULT_SUMMARY_INVALID''"

definition recovery_require :: "bool \<Rightarrow> string \<Rightarrow> unit result" where
  "recovery_require b c = raise_if (\<not> b) (RecoveryError c)"

definition grounded :: "string list \<Rightarrow> playbook_action list" where
  \<comment> \<open>the selected actions, immediate ones first and by rank\<close>
  "grounded exposures =
     (let selected = (if ''clicked_link'' \<in> set exposures then ''software_or_remote_access'' # exposures else exposures)
      in sort_key (\<lambda>a. (phase a \<noteq> ''now'', rank a)) (filter (\<lambda>a. exposureId a \<in> set selected) bundle_actions))"

definition ordered_actions :: "pyval \<Rightarrow> string list result" where
  "ordered_actions exposures =
     rbind (recovery_require (case exposures of
         PList xs \<Rightarrow> 1 \<le> length xs \<and> length xs \<le> 5 \<and> list_all (\<lambda>x. one_of x EXPOSURES) xs \<and> distinct xs
       | _ \<Rightarrow> False) ''PROVIDER_RESPONSE_INVALID'') (\<lambda>_.
     Inr (map act_id (grounded (texts exposures))))"

definition recovery_reasons :: "string \<Rightarrow> string list" where
  "recovery_reasons state =
     (case map_of [(''inconclusive'', [''INSUFFICIENT_EVIDENCE'']), (''partial'', [''INCOMPLETE_RESPONSE'']),
        (''failed'', [''PROVIDER_UNAVAILABLE'']), (''blocked'', [''HOSTILE_INPUT_STOP'']),
        (''invalid_input'', [''INPUT_REJECTED'']), (''unsupported'', [''UNSUPPORTED_CONTENT'']),
        (''unavailable'', [''PROVIDER_UNAVAILABLE'', ''PROVIDER_RESPONSE_INVALID'', ''BUDGET_LIMIT'', ''SERVICE_NOT_ENABLED''])]
        state of None \<Rightarrow> [] | Some rs \<Rightarrow> rs)"

definition OUTCOME_KEYS :: "string list" where
  "OUTCOME_KEYS = [''schemaVersion'', ''kind'', ''checkId'', ''policyVersion'', ''playbookVersion'', ''processingOutcome'',
    ''reasonCode'', ''exposureIds'', ''actionIds'', ''applyRequiresConfirmation'']"

definition validate_outcome :: "pyval \<Rightarrow> pyval \<Rightarrow> pyval \<Rightarrow> dict result" where
  "validate_outcome val check state =
     (case as_dict val of
        None \<Rightarrow> Inl RECOVERY_INVALID
      | Some v \<Rightarrow>
          rbind (recovery_require (has_keys v OUTCOME_KEYS) ''RESULT_SUMMARY_INVALID'') (\<lambda>_.
          rbind (recovery_require (dget v ''schemaVersion'' = PInt 1 \<and> dget v ''kind'' = PStr ''recovery_clarification''
              \<and> dget v ''policyVersion'' = PStr RECOVERY_POLICY \<and> dget v ''playbookVersion'' = PStr PLAYBOOK
              \<and> str_matches (fullmatch is_ident 1 64) (dget v ''checkId'')
              \<and> client_ok check (dget v ''checkId'') \<and> client_ok state (dget v ''processingOutcome'')
              \<and> one_of (dget v ''processingOutcome'') RECOVERY_OUTCOMES
              \<and> dget v ''applyRequiresConfirmation'' = PBool True) ''RESULT_SUMMARY_INVALID'') (\<lambda>_.
          if dget v ''processingOutcome'' = PStr ''complete'' then
            rbind (recovery_require (dget v ''reasonCode'' = PNone) ''RESULT_SUMMARY_INVALID'') (\<lambda>_.
            rbind (ordered_actions (dget v ''exposureIds'')) (\<lambda>acts.
            rbind (recovery_require (dget v ''actionIds'' = str_values acts) ''RESULT_SUMMARY_INVALID'') (\<lambda>_.
            Inr v)))
          else
            rbind (recovery_require (dget v ''exposureIds'' = PList [] \<and> dget v ''actionIds'' = PList []) ''RESULT_SUMMARY_INVALID'') (\<lambda>_.
            rbind (raise_if (\<not> hashable (dget v ''reasonCode'')) TypeError) (\<lambda>_.
            rbind (recovery_require (one_of (dget v ''reasonCode'')
                (case as_str (dget v ''processingOutcome'') of None \<Rightarrow> [] | Some s \<Rightarrow> recovery_reasons s)) ''RESULT_SUMMARY_INVALID'') (\<lambda>_.
            Inr v))))))"

definition recovery_outcome :: "pyval \<Rightarrow> pyval \<Rightarrow> pyval \<Rightarrow> string list \<Rightarrow> dict result" where   \<comment> \<open>\<open>outcome\<close>\<close>
  "recovery_outcome check state reason exposures =
     rbind (if exposures = [] then Inr [] else ordered_actions (str_values exposures)) (\<lambda>acts.
     validate_outcome (PDict [(''schemaVersion'', PInt 1), (''kind'', PStr ''recovery_clarification''), (''checkId'', check),
        (''policyVersion'', PStr RECOVERY_POLICY), (''playbookVersion'', PStr PLAYBOOK), (''processingOutcome'', state),
        (''reasonCode'', reason), (''exposureIds'', str_values exposures), (''actionIds'', str_values acts),
        (''applyRequiresConfirmation'', PBool True)]) check PNone)"

definition USAGE_KEYS :: "string list" where
  "USAGE_KEYS = [''schemaVersion'', ''kind'', ''checkId'', ''policyVersion'', ''playbookVersion'', ''processingOutcome'', ''contentDisposition'']"

definition validate_usage :: "pyval \<Rightarrow> pyval \<Rightarrow> pyval \<Rightarrow> dict result" where
  "validate_usage val check state =
     (case as_dict val of
        None \<Rightarrow> Inl RECOVERY_INVALID
      | Some v \<Rightarrow>
          rbind (recovery_require (has_keys v USAGE_KEYS) ''RESULT_SUMMARY_INVALID'') (\<lambda>_.
          rbind (recovery_require (dget v ''schemaVersion'' = PInt 1 \<and> dget v ''kind'' = PStr ''recovery_usage''
              \<and> dget v ''policyVersion'' = PStr RECOVERY_POLICY \<and> dget v ''playbookVersion'' = PStr PLAYBOOK
              \<and> one_of (dget v ''processingOutcome'') RECOVERY_OUTCOMES \<and> dget v ''contentDisposition'' = PStr ''not_retained''
              \<and> str_matches (fullmatch is_ident 1 64) (dget v ''checkId'')
              \<and> client_ok check (dget v ''checkId'') \<and> client_ok state (dget v ''processingOutcome'')) ''RESULT_SUMMARY_INVALID'') (\<lambda>_.
          Inr v)))"

definition recovery_usage :: "pyval \<Rightarrow> pyval \<Rightarrow> dict result" where   \<comment> \<open>\<open>usage\<close>\<close>
  "recovery_usage check state =
     validate_usage (PDict [(''schemaVersion'', PInt 1), (''kind'', PStr ''recovery_usage''), (''checkId'', check),
       (''policyVersion'', PStr RECOVERY_POLICY), (''playbookVersion'', PStr PLAYBOOK), (''processingOutcome'', state),
       (''contentDisposition'', PStr ''not_retained'')]) PNone PNone"

section \<open>Grounding of actions\<close>

lemma texts_str_values [simp]: "texts (str_values xs) = xs"
  by (induction xs) (simp_all add: texts_def str_values_def List.map_filter_def)

lemma ordered_actions_Inr:
  "ordered_actions (str_values es) = Inr acts \<longleftrightarrow>
     es \<noteq> [] \<and> length es \<le> 5 \<and> set es \<subseteq> set EXPOSURES \<and> distinct es \<and> acts = map act_id (grounded es)"
proof -
  have "list_all (\<lambda>x. one_of x EXPOSURES) (map PStr es) \<longleftrightarrow> set es \<subseteq> set EXPOSURES"
    by (auto simp: list_all_iff one_of_def)
  moreover have "distinct (map PStr es) \<longleftrightarrow> distinct es" by (simp add: distinct_map inj_on_def)
  moreover have "Suc 0 \<le> length es \<longleftrightarrow> es \<noteq> []" by (cases es) auto
  ultimately show ?thesis
    by (auto simp: ordered_actions_def recovery_require_def rbind_Inr_iff str_values_def [symmetric])
      (simp_all add: str_values_def)
qed

lemma bundle_ids: "distinct (map act_id bundle_actions)"
  by (simp add: bundle_actions_def play_def)

lemma grounded_set_only: "set es = set es' \<Longrightarrow> grounded es = grounded es'"
  by (simp add: grounded_def Let_def)

lemma grounded_ids: "distinct (map act_id (grounded es))"
proof -
  have "distinct (map act_id (filter Q bundle_actions))" for Q
    using bundle_ids by (simp add: distinct_map inj_on_def)
  then show ?thesis unfolding grounded_def Let_def by (simp add: distinct_map)
qed

text \<open>
  C27 (functional). The actions shown for reported exposures: exactly the reviewed actions of the
  reported exposures (a clicked link counts as a possibly exposed device too), each once, the
  immediate ones before the follow-ups and each group by rank; the order in which the exposures
  were reported does not matter.
\<close>

theorem actions_are_grounded:
  assumes "ordered_actions (str_values es) = Inr acts"
  shows "\<exists>as. acts = map act_id as \<and> distinct acts
    \<and> set as = {a \<in> set bundle_actions. exposureId a \<in> set es \<or> ''clicked_link'' \<in> set es \<and> exposureId a = ''software_or_remote_access''}
    \<and> sorted_wrt (\<lambda>a b. (phase a \<noteq> ''now'', rank a) \<le> (phase b \<noteq> ''now'', rank b)) as
    \<and> (\<forall>es'. set es' = set es \<and> distinct es' \<longrightarrow> ordered_actions (str_values es') = Inr acts)"
proof (intro exI conjI allI impI)
  note ok = assms [unfolded ordered_actions_Inr]
  show "acts = map act_id (grounded es)" "distinct acts" using ok grounded_ids by simp_all
  show "set (grounded es) = {a \<in> set bundle_actions. exposureId a \<in> set es \<or> ''clicked_link'' \<in> set es \<and> exposureId a = ''software_or_remote_access''}"
    unfolding grounded_def Let_def by auto
  show "sorted_wrt (\<lambda>a b. (phase a \<noteq> ''now'', rank a) \<le> (phase b \<noteq> ''now'', rank b)) (grounded es)"
    unfolding grounded_def Let_def by (rule sorted_sort_key [unfolded sorted_map])
  fix es' assume e: "set es' = set es \<and> distinct es'"
  then have "length es' = length es" using ok by (metis distinct_card)
  with e ok grounded_set_only [of es' es] show "ordered_actions (str_values es') = Inr acts"
    by (auto simp: ordered_actions_Inr)
qed

lemma ex_grounded: "map act_id (grounded [''clicked_link'', ''sent_payment''])
    = [''payment_contact'', ''link_stop'', ''device_secure'', ''payment_receipts'', ''link_verify'', ''device_support'']"
  by (simp add: grounded_def bundle_actions_def play_def)

lemma actions_are_grounded_witness:
  "ordered_actions (str_values [''sent_payment'', ''clicked_link''])
    = Inr [''payment_contact'', ''link_stop'', ''device_secure'', ''payment_receipts'', ''link_verify'', ''device_support'']"
proof -
  have "ordered_actions (str_values [''clicked_link'', ''sent_payment'']) = Inr (map act_id (grounded [''clicked_link'', ''sent_payment'']))"
    by (simp only: ordered_actions_Inr) (simp add: EXPOSURES_def)
  from actions_are_grounded [OF this [unfolded ex_grounded]] have order:
    "set es' = set [''clicked_link'', ''sent_payment''] \<and> distinct es' \<Longrightarrow> ordered_actions (str_values es')
      = Inr [''payment_contact'', ''link_stop'', ''device_secure'', ''payment_receipts'', ''link_verify'', ''device_support'']" for es'
    by blast
  show ?thesis by (rule order) (simp add: insert_commute)
qed

end
