(* ===== verification/GovernedHistory.thy ===== *)
theory GovernedHistory
  imports MessageSummaries Json
begin

text \<open>
  The governed history of a check (\<open>shared_governed_history/projection.py\<close>): what an admission
  records, the projection a settlement stores beside the receipt with its digest and index keys,
  the validation of a stored receipt, and the presentation of a projection at a later time. The
  version of the module's own \<open>plain\<close> removes \<open>Decimal\<close>s.
\<close>

definition HISTORY_VERSION :: string where "HISTORY_VERSION = ''1.0.0-governed-history-candidate.1''"
definition HISTORY_RETENTION :: int where "HISTORY_RETENTION = 7 * 24 * 60 * 60"
definition URL_VERSION :: string where "URL_VERSION = ''1.0.0-candidate.2''"

definition SOURCE_TYPES :: "string list" where
  "SOURCE_TYPES = [''pasted_text'', ''ocr'', ''mixed'', ''standalone_url'', ''message_url'', ''qr_url'']"

definition FRESHNESS_STATUSES :: "string list" where
  "FRESHNESS_STATUSES = [''current'', ''historical'', ''not_applicable'']"

fun sequence :: "'a result list \<Rightarrow> 'a list result" where   \<comment> \<open>a comprehension whose body may raise\<close>
  "sequence [] = Inr []"
| "sequence (r # rs) = rbind r (\<lambda>x. rbind (sequence rs) (\<lambda>xs. Inr (x # xs)))"

fun plain :: "pyval \<Rightarrow> pyval result" where
  "plain (PDec m e) = (case integral (PDec m e) of None \<Rightarrow> Inl ValueError | Some n \<Rightarrow> Inr (PInt n))"
| "plain (PDict d) = rbind (sequence (map (\<lambda>kv. rbind (plain (snd kv)) (\<lambda>v. Inr (fst kv, v))) d)) (\<lambda>d'. Inr (PDict d'))"
| "plain (PList xs) = rbind (sequence (map plain xs)) (\<lambda>ys. Inr (PList ys))"
| "plain v = Inr v"

definition canonical :: "pyval \<Rightarrow> string result" where
  "canonical v = dumps True v"

definition in_set :: "pyval \<Rightarrow> string list \<Rightarrow> bool result" where   \<comment> \<open>\<open>v in {...}\<close> for a set of texts\<close>
  "in_set v ss = (if hashable v then Inr (one_of v ss) else Inl TypeError)"

definition exact_nat :: "pyval \<Rightarrow> bool" where   \<comment> \<open>\<open>type(v) is int and v >= 0\<close>\<close>
  "exact_nat v = (case v of PInt n \<Rightarrow> 0 \<le> n | _ \<Rightarrow> False)"

definition admission_metadata :: "pyval \<Rightarrow> pyval \<Rightarrow> dict result" where
  "admission_metadata payload accepted_at =
     (case as_dict payload of
        None \<Rightarrow> Inl ValueError
      | Some p \<Rightarrow>
          rbind (raise_if (\<not> exact_nat accepted_at) ValueError) (\<lambda>_.
          let stored = (\<lambda>source kind. rbind (in_set source SOURCE_TYPES) (\<lambda>ok. if \<not> ok then Inl ValueError else
                Inr [(''governedHistoryAcceptedAtEpoch'', accepted_at), (''governedHistorySourceType'', source),
                     (''governedHistoryResultType'', PStr kind)])) in
          if dget p ''messageTransportVersion'' = PStr MESSAGE_V3 then
            stored (case as_dict (dget p ''target'') of None \<Rightarrow> PNone | Some t \<Rightarrow> dget t ''sourceType'') ''message''
          else if dget p ''urlTransportVersion'' = PStr URL_VERSION then stored (dget p ''entryPoint'') ''url''
          else Inr []))"

definition result_id :: "pyval \<Rightarrow> (int \<times> string) option" where
  \<comment> \<open>\<open>RESULT.fullmatch\<close>, with the number and the receipt it names\<close>
  "result_id v =
     (case as_str v of
        None \<Rightarrow> None
      | Some s \<Rightarrow>
          (case split_on CHR ''_'' s of
             [g, t, r] \<Rightarrow> if g = ''gh1'' \<and> fullmatch is_digit 1 12 t \<and> fullmatch is_hex 32 32 r
                           then Some (int (of_base 10 t), r) else None
           | _ \<Rightarrow> None))"

definition PROJECTION_KEYS :: "string list" where
  "PROJECTION_KEYS = [''schemaVersion'', ''transportVersion'', ''resultId'', ''resultType'', ''sourceType'',
    ''acceptedAtEpoch'', ''settledAtEpoch'', ''assessmentTransportVersion'', ''processingOutcome'',
    ''accounting'', ''outcome'', ''expiresAtEpoch'']"

definition projection_head :: "dict \<Rightarrow> (int \<times> string) result" where
  \<comment> \<open>version, identity, times, source and type of a projection\<close>
  "projection_head v =
     (case (result_id (dget v ''resultId''), dget v ''acceptedAtEpoch'', dget v ''settledAtEpoch'', dget v ''expiresAtEpoch'') of
        (Some (t, r), PInt accepted, PInt settled, PInt expiry) \<Rightarrow>
          rbind (raise_if (dget v ''schemaVersion'' \<noteq> PInt 1 \<or> dget v ''transportVersion'' \<noteq> PStr HISTORY_VERSION
              \<or> accepted < 0 \<or> settled < accepted \<or> expiry \<noteq> settled + HISTORY_RETENTION \<or> t \<noteq> settled) ValueError) (\<lambda>_.
          rbind (in_set (dget v ''sourceType'') SOURCE_TYPES) (\<lambda>ok.
          rbind (raise_if (\<not> ok \<or> \<not> one_of (dget v ''resultType'') [''message'', ''url'']) ValueError) (\<lambda>_.
          Inr (settled, r))))
      | _ \<Rightarrow> Inl ValueError)"

definition accounting_ok :: "pyval \<Rightarrow> string \<Rightarrow> bool" where
  "accounting_ok v receipt =
     (case as_dict v of
        None \<Rightarrow> False
      | Some a \<Rightarrow> has_keys a [''state'', ''chargedChecks'', ''receiptId''] \<and> dget a ''receiptId'' = PStr receipt
          \<and> (dget a ''chargedChecks'' = PInt 0 \<and> dget a ''state'' = PStr ''not_charged''
             \<or> dget a ''chargedChecks'' = PInt 1 \<and> dget a ''state'' = PStr ''charged''))"

definition projection_outcome :: "dict \<Rightarrow> unit result" where
  \<comment> \<open>the last part of \<open>validate_projection\<close>: the outcome is a valid summary of its type\<close>
  "projection_outcome v =
     (case as_dict (dget v ''outcome'') of
        None \<Rightarrow> Inl ValueError
      | Some outcome \<Rightarrow>
          let named = PDict (dset ''checkId'' (PStr ''history'') outcome) in
          rbind (raise_if (dhas outcome ''checkId''
              \<or> \<not> pyeq (dget outcome ''processingOutcome'') (dget v ''processingOutcome'')) ValueError) (\<lambda>_.
          if dget v ''resultType'' = PStr ''message'' then
            rbind (raise_if (dget v ''assessmentTransportVersion'' \<noteq> PStr MESSAGE_V3
                \<or> \<not> one_of (dget v ''sourceType'') [''pasted_text'', ''ocr'', ''mixed'']) ValueError) (\<lambda>_.
            rbind (validate_v3 named (PStr ''history'') (dget v ''processingOutcome'')) (\<lambda>_. Inr ()))
          else
            rbind (raise_if (dget v ''assessmentTransportVersion'' \<noteq> PStr URL_VERSION
                \<or> \<not> one_of (dget v ''sourceType'') [''standalone_url'', ''message_url'', ''qr_url'']) ValueError) (\<lambda>_.
            rbind (validate_url_summary named (PStr ''history'') (dget v ''processingOutcome'')) (\<lambda>_. Inr ()))))"

definition validate_projection :: "pyval \<Rightarrow> dict result" where
  "validate_projection value =
     rbind (plain value) (\<lambda>pv.
     case as_dict pv of
       None \<Rightarrow> Inl ValueError
     | Some v \<Rightarrow>
         rbind (raise_if (\<not> has_keys v PROJECTION_KEYS) ValueError) (\<lambda>_.
         rbind (projection_head v) (\<lambda>sr.
         rbind (raise_if (\<not> accounting_ok (dget v ''accounting'') (snd sr)) ValueError) (\<lambda>_.
         rbind (projection_outcome v) (\<lambda>_.
         Inr v)))))"

definition history_sort :: "int \<Rightarrow> string \<Rightarrow> string" where
  "history_sort settled receipt = ''GOVERNED#'' @ fmt_d 12 settled @ ''#'' @ receipt"

definition history_projection :: "bool \<Rightarrow> pyval \<Rightarrow> int \<Rightarrow> int \<Rightarrow> string \<Rightarrow> int \<Rightarrow> pyval \<Rightarrow> dict \<Rightarrow> dict" where
  "history_projection message source accepted settled_at receipt_id charged processing_outcome outcome =
     [(''schemaVersion'', PInt 1), (''transportVersion'', PStr HISTORY_VERSION),
      (''resultId'', PStr (''gh1_'' @ show_int settled_at @ ''_'' @ receipt_id)),
      (''resultType'', PStr (if message then ''message'' else ''url'')), (''sourceType'', source),
      (''acceptedAtEpoch'', PInt accepted), (''settledAtEpoch'', PInt settled_at),
      (''assessmentTransportVersion'', PStr (if message then MESSAGE_V3 else URL_VERSION)),
      (''processingOutcome'', processing_outcome),
      (''accounting'', PDict [(''state'', PStr (if charged \<noteq> 0 then ''charged'' else ''not_charged'')),
          (''chargedChecks'', PInt charged), (''receiptId'', PStr receipt_id)]),
      (''outcome'', PDict outcome), (''expiresAtEpoch'', PInt (settled_at + HISTORY_RETENTION))]"

definition history_settlement ::
  "env \<Rightarrow> dict \<Rightarrow> pyval \<Rightarrow> string \<Rightarrow> int \<Rightarrow> pyval \<Rightarrow> int \<Rightarrow> int \<Rightarrow> dict result" where
  \<comment> \<open>\<open>settlement_fields\<close>\<close>
  "history_settlement E item result_summary receipt_id charged processing_outcome settled_at retention =
     rbind (plain (PDict item)) (\<lambda>pv.
     let row = (case as_dict pv of None \<Rightarrow> [] | Some d \<Rightarrow> d);
         message = (dget row ''messageTransportVersion'' = PStr MESSAGE_V3);
         url = (dget row ''urlTransportVersion'' = PStr URL_VERSION);
         source = dget row ''governedHistorySourceType'' in
     if result_summary = PNone \<or> \<not> (message \<or> url) then Inr [] else
     (case dget row ''governedHistoryAcceptedAtEpoch'' of
        PInt accepted \<Rightarrow>
          rbind (raise_if (accepted < 0 \<or> settled_at < accepted \<or> retention \<noteq> HISTORY_RETENTION) ValueError) (\<lambda>_.
          rbind (in_set source SOURCE_TYPES) (\<lambda>ok.
          rbind (raise_if (\<not> ok \<or> dget row ''governedHistoryResultType'' \<noteq> PStr (if message then ''message'' else ''url'')
              \<or> \<not> fullmatch is_hex 32 32 receipt_id \<or> charged \<notin> {0, 1}) ValueError) (\<lambda>_.
          rbind (plain result_summary) (\<lambda>ov.
          case as_dict ov of
            None \<Rightarrow> Inl ValueError
          | Some outcome \<Rightarrow>
              rbind (raise_if (\<not> pyeq (dget outcome ''processingOutcome'') processing_outcome) ValueError) (\<lambda>_.
              let projection = history_projection message source accepted settled_at receipt_id charged
                    processing_outcome (ddel ''checkId'' outcome) in
              rbind (validate_projection (PDict projection)) (\<lambda>_.
              rbind (canonical (PDict projection)) (\<lambda>text.
              rbind (didx row ''PK'') (\<lambda>pk.
              Inr [(''governedHistory'', PDict projection), (''governedHistoryDigest'', PStr (sha256_hex E text)),
                   (''GSI2PK'', pk), (''GSI2SK'', PStr (history_sort settled_at receipt_id)),
                   (''expiresAt'', PInt (settled_at + HISTORY_RETENTION)),
                   (''retentionDeadlineEpoch'', PInt (settled_at + HISTORY_RETENTION))]))))))))
      | _ \<Rightarrow> Inl ValueError))"

definition validate_stored_receipt :: "env \<Rightarrow> dict \<Rightarrow> int \<Rightarrow> dict result" where
  "validate_stored_receipt E item now =
     rbind (plain (PDict item)) (\<lambda>pv.
     let row = (case as_dict pv of None \<Rightarrow> [] | Some d \<Rightarrow> d) in
     (case dget row ''expiresAt'' of
        PInt expires \<Rightarrow>
          rbind (raise_if (\<not> list_all (dhas row) [''PK'', ''SK'', ''recordType'', ''state'', ''governedHistory'',
                ''governedHistoryDigest'', ''GSI2PK'', ''GSI2SK'', ''expiresAt'', ''retentionDeadlineEpoch'']
              \<or> dget row ''recordType'' \<noteq> PStr ''V1_CHECK_RECEIPT'' \<or> dget row ''state'' \<noteq> PStr ''SETTLED''
              \<or> \<not> pyeq (dget row ''GSI2PK'') (dget row ''PK'') \<or> expires \<le> now
              \<or> \<not> pyeq (dget row ''retentionDeadlineEpoch'') (PInt expires)) ValueError) (\<lambda>_.
          rbind (validate_projection (dget row ''governedHistory'')) (\<lambda>projection.
          rbind (projection_head projection) (\<lambda>sr.
          let sort = history_sort (fst sr) (snd sr) in
          rbind (raise_if (dget row ''GSI2SK'' \<noteq> PStr sort \<or> \<not> fullmatch is_digit 12 12 (fmt_d 12 (fst sr))
              \<or> \<not> pyeq (PInt expires) (dget projection ''expiresAtEpoch'')
              \<or> \<not> str_matches (fullmatch is_hex 64 64) (dget row ''governedHistoryDigest'')) ValueError) (\<lambda>_.
          rbind (canonical (PDict projection)) (\<lambda>text.
          rbind (raise_if (dget row ''governedHistoryDigest'' \<noteq> PStr (sha256_hex E text)) ValueError) (\<lambda>_.
          Inr projection))))))
      | _ \<Rightarrow> Inl ValueError))"

section \<open>A stored receipt validates\<close>

lemma plain_dict_fix: "plain (PDict d) = Inr (PDict d) \<longleftrightarrow> (\<forall>kv \<in> set d. plain (snd kv) = Inr (snd kv))"
  by (induction d) (auto simp: rbind_Inr_iff)

lemma plain_list_fix: "plain (PList xs) = Inr (PList xs) \<longleftrightarrow> (\<forall>x \<in> set xs. plain x = Inr x)"
  by (induction xs) (auto simp: rbind_Inr_iff)

lemma sequence_all: "sequence rs = Inr ys \<Longrightarrow> (\<And>r y. r \<in> set rs \<Longrightarrow> r = Inr y \<Longrightarrow> Q y) \<Longrightarrow> \<forall>y \<in> set ys. Q y"
  by (induction rs arbitrary: ys) (auto simp: rbind_Inr_iff)

lemma plain_idem: "plain v = Inr w \<Longrightarrow> plain w = Inr w"
proof (induction v arbitrary: w rule: plain.induct)
  case (2 d)
  then obtain d' where s: "sequence (map (\<lambda>kv. rbind (plain (snd kv)) (\<lambda>v. Inr (fst kv, v))) d) = Inr d'" and w: "w = PDict d'"
    by (auto simp: rbind_Inr_iff)
  have "\<forall>kv \<in> set d'. plain (snd kv) = Inr (snd kv)"
  proof (rule sequence_all [OF s])
    fix r y assume "r \<in> set (map (\<lambda>kv. rbind (plain (snd kv)) (\<lambda>v. Inr (fst kv, v))) d)" "r = Inr y"
    then obtain kv where kv: "kv \<in> set d" "rbind (plain (snd kv)) (\<lambda>v. Inr (fst kv, v)) = Inr y" by auto
    then obtain v where v: "plain (snd kv) = Inr v" "y = (fst kv, v)" unfolding rbind_Inr_iff by blast
    with 2(1) [OF kv(1) v(1)] v(2) show "plain (snd y) = Inr (snd y)" by simp
  qed
  with w plain_dict_fix show ?case by blast
next
  case (3 xs)
  then obtain ys where s: "sequence (map plain xs) = Inr ys" and w: "w = PList ys"
    by (auto simp: rbind_Inr_iff)
  have "\<forall>y \<in> set ys. plain y = Inr y"
    by (rule sequence_all [OF s]) (use 3 in auto)
  with w plain_list_fix show ?case by blast
qed (auto split: option.splits)

lemma projection_head_Inr:
  assumes "projection_head v = Inr (settled, r)"
  shows "dget v ''settledAtEpoch'' = PInt settled" "dget v ''expiresAtEpoch'' = PInt (settled + HISTORY_RETENTION)"
    "result_id (dget v ''resultId'') = Some (settled, r)" "0 \<le> settled"
  using assms by (auto simp: projection_head_def rbind_Inr_iff split: option.splits pyval.splits prod.splits)

lemma result_id_bound: "result_id v = Some (t, r) \<Longrightarrow> t < 10 ^ 12"
proof -
  assume "result_id v = Some (t, r)"
  then obtain ds where d: "fullmatch is_digit 1 12 ds" "t = int (of_base 10 ds)"
    by (auto simp: result_id_def split: option.splits list.splits if_splits)
  then have "of_base 10 ds < 10 ^ length ds" using of_base_digits by (simp add: fullmatch_def)
  also have "\<dots> \<le> 10 ^ 12" using d by (intro power_increasing) (simp_all add: fullmatch_def)
  finally show ?thesis using d by simp
qed

lemma plain_dict: "plain (PDict d) = Inr pv \<Longrightarrow> \<exists>d'. pv = PDict d'"
  by (auto simp: rbind_Inr_iff)

lemma in_set_Inr [simp]: "in_set v ss = Inr ok \<longleftrightarrow> hashable v \<and> ok = one_of v ss"
  by (auto simp: in_set_def)

lemma history_settlement_Inr:
  assumes "history_settlement E item sm receipt charged out settled ret = Inr fs" "fs \<noteq> []"
  obtains row m source accepted outcome tx p where "plain (PDict item) = Inr (PDict row)"
    "0 \<le> accepted" "accepted \<le> settled" "one_of source SOURCE_TYPES" "plain sm = Inr (PDict outcome)"
    "p = history_projection m source accepted settled receipt charged out (ddel ''checkId'' outcome)"
    "\<exists>v. validate_projection (PDict p) = Inr v" "canonical (PDict p) = Inr tx" "dhas row ''PK''"
    "fs = [(''governedHistory'', PDict p), (''governedHistoryDigest'', PStr (sha256_hex E tx)),
      (''GSI2PK'', dget row ''PK''), (''GSI2SK'', PStr (history_sort settled receipt)),
      (''expiresAt'', PInt (settled + HISTORY_RETENTION)), (''retentionDeadlineEpoch'', PInt (settled + HISTORY_RETENTION))]"
proof -
  note run = assms(1) [unfolded history_settlement_def Let_def]
  from run obtain pv where pv: "plain (PDict item) = Inr pv" unfolding rbind_Inr_iff by blast
  then obtain row where row: "pv = PDict row" using plain_dict by blast
  define m where "m \<longleftrightarrow> dget row ''messageTransportVersion'' = PStr MESSAGE_V3"
  define source where "source = dget row ''governedHistorySourceType''"
  note run = run [unfolded pv row rbind_simps as_dict.simps option.case m_def [symmetric] source_def [symmetric]]
  from run assms(2) obtain accepted where "dget row ''governedHistoryAcceptedAtEpoch'' = PInt accepted"
    by (cases "dget row ''governedHistoryAcceptedAtEpoch''") (auto split: if_splits)
  with run assms(2) obtain ov outcome where "0 \<le> accepted" "accepted \<le> settled" "one_of source SOURCE_TYPES" "plain sm = Inr (PDict outcome)"
     and rest: "rbind (validate_projection (PDict (history_projection m source accepted settled receipt charged out (ddel ''checkId'' outcome)))) (\<lambda>_.
              rbind (canonical (PDict (history_projection m source accepted settled receipt charged out (ddel ''checkId'' outcome)))) (\<lambda>text.
              rbind (didx row ''PK'') (\<lambda>pk.
              Inr [(''governedHistory'', PDict (history_projection m source accepted settled receipt charged out (ddel ''checkId'' outcome))),
                   (''governedHistoryDigest'', PStr (sha256_hex E text)),
                   (''GSI2PK'', pk), (''GSI2SK'', PStr (history_sort settled receipt)),
                   (''expiresAt'', PInt (settled + HISTORY_RETENTION)),
                   (''retentionDeadlineEpoch'', PInt (settled + HISTORY_RETENTION))]))) = Inr fs"
    by (auto simp: rbind_Inr_iff [of "in_set source SOURCE_TYPES"] rbind_Inr_iff [of "plain sm"] split: if_splits option.splits)
  from rest obtain v tx pk where v: "validate_projection (PDict (history_projection m source accepted settled receipt charged out (ddel ''checkId'' outcome))) = Inr v"
      "canonical (PDict (history_projection m source accepted settled receipt charged out (ddel ''checkId'' outcome))) = Inr tx"
      "map_of row ''PK'' = Some pk"
    and fs: "fs = [(''governedHistory'', PDict (history_projection m source accepted settled receipt charged out (ddel ''checkId'' outcome))),
                   (''governedHistoryDigest'', PStr (sha256_hex E tx)),
                   (''GSI2PK'', pk), (''GSI2SK'', PStr (history_sort settled receipt)),
                   (''expiresAt'', PInt (settled + HISTORY_RETENTION)),
                   (''retentionDeadlineEpoch'', PInt (settled + HISTORY_RETENTION))]"
    unfolding rbind_Inr_iff didx_Inr_iff by auto
  from v(3) have pk: "dhas row ''PK''" "pk = dget row ''PK''" by (simp_all add: dhas_def dget_def)
  from v(1) have ex: "\<exists>v'. validate_projection (PDict (history_projection m source accepted settled receipt charged out (ddel ''checkId'' outcome))) = Inr v'"
    by blast
  show thesis
    by (rule that [OF pv [unfolded row] \<open>0 \<le> accepted\<close> \<open>accepted \<le> settled\<close> \<open>one_of source SOURCE_TYPES\<close> \<open>plain sm = Inr (PDict outcome)\<close>
          refl ex v(2) pk(1) fs [unfolded pk(2)]])
qed

lemma plain_projection:
  assumes "one_of source SOURCE_TYPES" "plain sm = Inr (PDict outcome)"
  shows "plain (PDict (history_projection m source accepted settled receipt charged (PStr out) (ddel ''checkId'' outcome)))
    = Inr (PDict (history_projection m source accepted settled receipt charged (PStr out) (ddel ''checkId'' outcome)))"
proof -
  obtain t where t: "source = PStr t" using assms(1) by (cases source) (auto simp: one_of_def str_matches_def)
  from plain_idem [OF assms(2)] have "plain (PDict (ddel ''checkId'' outcome)) = Inr (PDict (ddel ''checkId'' outcome))"
    unfolding plain_dict_fix by (auto simp: AList.delete_eq)
  then show ?thesis unfolding plain_dict_fix [of "history_projection m source accepted settled receipt charged (PStr out) (ddel ''checkId'' outcome)"]
    by (simp add: history_projection_def t rbind_Inr_iff del: plain.simps(2)) (simp add: t rbind_Inr_iff)
qed

lemma accounting_receipt:
  "accounting_ok (dget (history_projection m source accepted settled receipt charged out d) ''accounting'') r \<Longrightarrow> r = receipt"
  by (auto simp: accounting_ok_def history_projection_def)

text \<open>
  C28 (roundtrip). What a settlement stores for the history of a check is what the history services
  accept: as long as the receipt has not expired, the stored receipt (read back with whatever
  numeric types the table returns) validates, with the digest and the index place that were written,
  and yields exactly the projection that was stored.
\<close>

theorem stored_history_roundtrip:
  assumes "history_settlement E item sm receipt charged (PStr out) settled ret = Inr fs" "fs \<noteq> []"
    and "plain (PDict stored) = Inr (PDict q)" "\<And>k v. (k, v) \<in> set fs \<Longrightarrow> dget q k = v"
    and "dget q ''PK'' = dget fs ''GSI2PK''" "dget q ''PK'' = PStr part" "dhas q ''SK''"
    and "dget q ''recordType'' = PStr ''V1_CHECK_RECEIPT''" "dget q ''state'' = PStr ''SETTLED''"
    and "now < settled + HISTORY_RETENTION" "\<And>t. fullmatch is_hex 64 64 (sha256_hex E t)"
  shows "\<exists>p. dget fs ''governedHistory'' = PDict p \<and> validate_stored_receipt E stored now = Inr p"
proof -
  from assms(1,2) obtain row m source accepted outcome tx p where
      src: "one_of source SOURCE_TYPES" "plain sm = Inr (PDict outcome)"
    and p: "p = history_projection m source accepted settled receipt charged (PStr out) (ddel ''checkId'' outcome)"
    and v: "\<exists>v. validate_projection (PDict p) = Inr v" "canonical (PDict p) = Inr tx"
    and fs: "fs = [(''governedHistory'', PDict p), (''governedHistoryDigest'', PStr (sha256_hex E tx)),
      (''GSI2PK'', dget row ''PK''), (''GSI2SK'', PStr (history_sort settled receipt)),
      (''expiresAt'', PInt (settled + HISTORY_RETENTION)), (''retentionDeadlineEpoch'', PInt (settled + HISTORY_RETENTION))]"
    by (rule history_settlement_Inr)
  have pp: "plain (PDict p) = Inr (PDict p)" unfolding p by (rule plain_projection [OF src])
  from v(1) pp have vp: "validate_projection (PDict p) = Inr p"
    unfolding validate_projection_def by (auto simp: rbind_Inr_iff)
  from vp pp obtain st r where head: "projection_head p = Inr (st, r)" and acc: "accounting_ok (dget p ''accounting'') r"
    unfolding validate_projection_def by (auto simp: rbind_Inr_iff)
  from projection_head_Inr(1,2,4) [OF head] have st: "st = settled" "0 \<le> settled" "dget p ''expiresAtEpoch'' = PInt (settled + HISTORY_RETENTION)"
    unfolding p by (simp_all add: history_projection_def)
  have r: "r = receipt" by (rule accounting_receipt [OF acc [unfolded p]])
  have "settled < 10 ^ 12" using result_id_bound [OF projection_head_Inr(3) [OF head]] st by simp
  then have digits: "fullmatch is_digit 12 12 (fmt_d 12 settled)" using st(2) by (intro fmt_d_fullmatch) simp_all
  have q: "dget q ''governedHistory'' = PDict p" "dget q ''governedHistoryDigest'' = PStr (sha256_hex E tx)"
      "dget q ''GSI2PK'' = dget row ''PK''" "dget q ''GSI2SK'' = PStr (history_sort settled receipt)"
      "dget q ''expiresAt'' = PInt (settled + HISTORY_RETENTION)" "dget q ''retentionDeadlineEpoch'' = PInt (settled + HISTORY_RETENTION)"
    by (rule assms(4); simp add: fs)+
  have has: "dget q k \<noteq> PNone \<Longrightarrow> dhas q k" for k by (auto simp: dget_def dhas_def split: option.splits)
  have pk: "dget q ''GSI2PK'' = PStr part" using q(3) assms(5,6) by (simp add: fs)
  have keys: "list_all (dhas q) [''PK'', ''SK'', ''recordType'', ''state'', ''governedHistory'',
                ''governedHistoryDigest'', ''GSI2PK'', ''GSI2SK'', ''expiresAt'', ''retentionDeadlineEpoch'']"
    by (simp add: has assms(6-9) pk q(1,2,4-6))
  have "validate_stored_receipt E stored now = Inr p"
    unfolding validate_stored_receipt_def assms(3) rbind_simps as_dict.simps option.case Let_def
    by (simp only: q(1,2,4-6) keys pk assms(6,8,9) pyval.case vp head fst_conv snd_conv st(1,3) r v(2) rbind_simps)
      (use assms(10,11) digits in simp)
  then show ?thesis by (simp add: fs)
qed

definition ex_env :: env where "ex_env = (quiet_env 5 (\<lambda>_ _. []))\<lparr>sha256_hex := \<lambda>_. replicate 64 CHR ''a''\<rparr>"

definition ex_id :: string where "ex_id = replicate 32 CHR ''a''"

definition ex_outcome :: dict where
  "ex_outcome = [(''schemaVersion'', PInt 1), (''checkId'', PStr ''c1''), (''verdict'', PStr ''unknown''), (''processingOutcome'', PStr ''partial''),
     (''coverage'', PStr ''limited''), (''reasonCodes'', PList []), (''transportWarnings'', PList []), (''threatTypes'', PList []),
     (''lookupCount'', PInt 1), (''providerCallCount'', PInt 1), (''observedHopCount'', PInt 0),
     (''scope'', PStr ''HTTP_REDIRECTS_AND_GOOGLE_LOOKUP''), (''consumerAccessEnabled'', PBool False)]"

definition ex_receipt :: dict where
  "ex_receipt = [(''PK'', PStr ''p''), (''urlTransportVersion'', PStr URL_VERSION), (''governedHistoryAcceptedAtEpoch'', PDec 90 0),
     (''governedHistorySourceType'', PStr ''qr_url''), (''governedHistoryResultType'', PStr ''url'')]"

definition ex_projection :: dict where
  "ex_projection = history_projection False (PStr ''qr_url'') 90 100 ex_id 0 (PStr ''partial'') (ddel ''checkId'' ex_outcome)"

definition ex_fields :: dict where
  "ex_fields = [(''governedHistory'', PDict ex_projection), (''governedHistoryDigest'', PStr (replicate 64 CHR ''a'')),
      (''GSI2PK'', PStr ''p''), (''GSI2SK'', PStr (history_sort 100 ex_id)),
      (''expiresAt'', PInt (100 + HISTORY_RETENTION)), (''retentionDeadlineEpoch'', PInt (100 + HISTORY_RETENTION))]"

definition ex_stored :: dict where   \<comment> \<open>as read from the table, with decimal numbers\<close>
  "ex_stored = [(''PK'', PStr ''p''), (''SK'', PStr ''CHECK#c''), (''recordType'', PStr ''V1_CHECK_RECEIPT''), (''state'', PStr ''SETTLED''),
      (''governedHistory'', PDict ex_projection), (''governedHistoryDigest'', PStr (replicate 64 CHR ''a'')),
      (''GSI2PK'', PStr ''p''), (''GSI2SK'', PStr (history_sort 100 ex_id)),
      (''expiresAt'', PDec (100 + HISTORY_RETENTION) 0), (''retentionDeadlineEpoch'', PDec (100 + HISTORY_RETENTION) 0)]"

definition ex_plain :: dict where
  "ex_plain = map (\<lambda>kv. case snd kv of PDec m e \<Rightarrow> (fst kv, PInt m) | _ \<Rightarrow> kv) ex_stored"

lemma ex_id: "fullmatch is_hex 32 32 ex_id" "CHR ''_'' \<notin> set ex_id"
  by (simp_all add: ex_id_def fullmatch_def is_hex_def code_def list_all_iff)

lemma ex_result_id: "result_id (PStr (''gh1_'' @ show_int 100 @ ''_'' @ ex_id)) = Some (100, ex_id)"
proof -
  have "show_int 100 = ''100''" by code_simp
  moreover have "fullmatch is_digit 1 12 ''100''" "of_base 10 ''100'' = 100"
    by (simp_all add: fullmatch_def is_digit_def code_def of_base_def digit_val_def)
  ultimately show ?thesis using split_on_free [OF ex_id(2)] by (simp add: result_id_def ex_id(1))
qed

lemma ex_plain: "plain (PDict ex_stored) = Inr (PDict ex_plain)" "plain (PDict ex_projection) = Inr (PDict ex_projection)"
    "plain (PDict ex_receipt) = Inr (PDict (map (\<lambda>kv. case snd kv of PDec m e \<Rightarrow> (fst kv, PInt m) | _ \<Rightarrow> kv) ex_receipt))"
    "plain (PDict ex_outcome) = Inr (PDict ex_outcome)"
  by (simp_all add: ex_stored_def ex_plain_def ex_projection_def history_projection_def ex_outcome_def ex_receipt_def)

lemma ex_projection: "validate_projection (PDict ex_projection) = Inr ex_projection"
proof -
  have "has_keys ex_projection PROJECTION_KEYS"
    by (simp add: ex_projection_def history_projection_def PROJECTION_KEYS_def has_keys_def)
  moreover have "projection_head ex_projection = Inr (100, ex_id)"
    using ex_result_id by (simp add: projection_head_def ex_projection_def history_projection_def SOURCE_TYPES_def in_set_def)
  moreover have "accounting_ok (dget ex_projection ''accounting'') ex_id" "projection_outcome ex_projection = Inr ()"
    by code_simp+
  ultimately show ?thesis by (simp add: validate_projection_def ex_plain(2) del: plain.simps)
qed

lemma ex_canonical: "\<exists>tx. canonical (PDict ex_projection) = Inr tx"
  by (simp add: ex_projection_def history_projection_def ex_outcome_def canonical_def dumps_def)

lemma ex_fields: "history_settlement ex_env ex_receipt (PDict ex_outcome) ex_id 0 (PStr ''partial'') 100 HISTORY_RETENTION
    = Inr ex_fields"
proof -
  obtain tx where tx: "canonical (PDict ex_projection) = Inr tx" using ex_canonical by blast
  have o': "dget ex_outcome ''processingOutcome'' = PStr ''partial''" by (simp add: ex_outcome_def)
  show ?thesis
    unfolding history_settlement_def ex_plain rbind_simps as_dict.simps option.case Let_def
    by (simp add: ex_receipt_def URL_VERSION_def MESSAGE_V3_def SOURCE_TYPES_def ex_id(1) in_set_def o' ex_projection_def [symmetric]
        ex_projection tx ex_fields_def ex_env_def del: plain.simps)
qed

lemma stored_history_roundtrip_witness:
  "validate_stored_receipt ex_env ex_stored 200 = Inr ex_projection"
proof -
  have "\<exists>p. dget ex_fields ''governedHistory'' = PDict p \<and> validate_stored_receipt ex_env ex_stored 200 = Inr p"
  proof (rule stored_history_roundtrip [OF ex_fields _ ex_plain(1)])
    show "fullmatch is_hex 64 64 (sha256_hex ex_env t)" for t
      by (simp add: ex_env_def fullmatch_def is_hex_def code_def list_all_iff)
    have "list_all (\<lambda>kv. dget ex_plain (fst kv) = snd kv) ex_fields"
      by (simp add: ex_fields_def ex_plain_def ex_stored_def)
    then show "dget ex_plain k = v" if "(k, v) \<in> set ex_fields" for k v
      using that by (force simp: list_all_iff)
  qed (simp_all add: ex_fields_def ex_plain_def ex_stored_def HISTORY_RETENTION_def)
  then show ?thesis by (simp add: ex_fields_def)
qed

end
