(* ===== verification/Authority.thy ===== *)
theory Authority
  imports PurchaseUsage Operations Identity Recovery GovernedHistory
begin

text \<open>
  The authority of a check (\<open>shared_check_authority/core.py\<close>, with \<open>inventory.py\<close>): preparation,
  admission, reconciliation and settlement. A check is prepared (a signed identifier, nothing
  reserved), admitted (one check of the period is reserved, one execution token is issued) and
  settled (the reservation is returned, a complete check is charged, the receipt becomes final).
  Every write is one transaction that repeats what was read as conditions.

  The validators of message and recovery intents are arguments (\<open>intents\<close>): they are text
  classifiers built on regular expressions over Unicode and are not translated.
\<close>

section \<open>Settings\<close>

record settings =
  users_table :: string
  devices_table :: string
  deletion_table :: string
  authority_table :: string
  token_policy :: token_settings
  policy_version :: string
  active_key_id :: string
  hmac_keys :: "(string \<times> string) list"
  operation_validity_seconds :: int
  worker_settlement_seconds :: int
  reconciliation_seconds :: int
  receipt_retention_seconds :: int
  counter_retention_seconds :: int
  attempt_window_seconds :: int
  attempts_per_window :: int
  max_inflight :: int
  enabled :: bool
  governed_history_settlement_enabled :: bool
  operations_producer_enabled :: bool
  operations_environment :: string

definition OUTCOMES :: "string list" where
  "OUTCOMES = [''inconclusive'', ''complete'', ''partial'', ''failed'', ''blocked'', ''invalid_input'', ''unsupported'', ''unavailable'']"

definition CHARGEABLE_OUTCOMES :: "string list" where "CHARGEABLE_OUTCOMES = [''complete'']"

definition validate_settings :: "settings \<Rightarrow> bool" where
  \<comment> \<open>\<open>Settings.validate\<close>: otherwise \<open>POLICY_CONFIGURATION_UNAVAILABLE\<close>\<close>
  "validate_settings s =
     (enabled s
      \<and> list_all (\<lambda>t. strip t \<noteq> []) [users_table s, devices_table s, deletion_table s, authority_table s,
           cognito_issuer (token_policy s), cognito_app_client_id (token_policy s), cognito_required_scope (token_policy s)]
      \<and> policy_version s = OWNER_POLICY
      \<and> operations_environment s \<in> set [''dev'', ''uat'', ''prod'']
      \<and> list_all (\<lambda>n. n > 0) [operation_validity_seconds s, worker_settlement_seconds s, reconciliation_seconds s,
           receipt_retention_seconds s, counter_retention_seconds s, attempt_window_seconds s,
           attempts_per_window s, max_inflight s]
      \<and> receipt_retention_seconds s \<ge> operation_validity_seconds s + worker_settlement_seconds s + reconciliation_seconds s
      \<and> counter_retention_seconds s \<ge> receipt_retention_seconds s
      \<and> counter_retention_seconds s \<ge> attempt_window_seconds s
      \<and> hmac_keys s \<noteq> [] \<and> map_of (hmac_keys s) (active_key_id s) \<noteq> None
      \<and> list_all (\<lambda>kv. fullmatch is_alnum 1 8 (fst kv) \<and> length (snd kv) \<ge> 32) (hmac_keys s))"

record intents =
  message_intent_ok :: "dict \<Rightarrow> bool"
  recovery_intent_ok :: "dict \<Rightarrow> bool"

section \<open>Keys, digests and tokens\<close>

definition mac :: "env \<Rightarrow> settings \<Rightarrow> string \<Rightarrow> string \<Rightarrow> string \<Rightarrow> string result" where
  "mac E s key_id purpose val =
     (case map_of (hmac_keys s) key_id of
        None \<Rightarrow> Inl (AuthorityError ''KEY_VERSION_UNAVAILABLE'')
      | Some k \<Rightarrow> Inr (hmac_hex E k (purpose @ CHR 0x00 # val)))"

definition account_partition :: "env \<Rightarrow> settings \<Rightarrow> string \<Rightarrow> string \<Rightarrow> string result" where
  "account_partition E s account key_id =
     rbind (mac E s key_id ''account'' account) (\<lambda>m. Inr (''V1#'' @ key_id @ ''#'' @ m))"

definition deletion_partitions :: "env \<Rightarrow> settings \<Rightarrow> pyval \<Rightarrow> string list result" where
  "deletion_partitions E s account =
     (case as_str account of
        None \<Rightarrow> Inl (AuthorityError ''INVALID_ACCOUNT'')
      | Some a \<Rightarrow> if SUBJECT_PATTERN a then sequence (map (account_partition E s a) (sort (map fst (hmac_keys s))))
                   else Inl (AuthorityError ''INVALID_ACCOUNT''))"

definition rejected :: "'a result \<Rightarrow> exc \<Rightarrow> 'a result" where   \<comment> \<open>\<open>except Exception: raise e\<close>\<close>
  "rejected r e = (case r of Inl _ \<Rightarrow> Inl e | Inr x \<Rightarrow> Inr x)"

abbreviation INPUT_REJECTED :: exc where "INPUT_REJECTED \<equiv> AuthorityError ''INPUT_REJECTED''"

definition without :: "string \<Rightarrow> dict \<Rightarrow> dict" where   \<comment> \<open>\<open>{k: v for k, v in d.items() if k != name}\<close>\<close>
  "without name d = filter (\<lambda>kv. fst kv \<noteq> name) d"

definition client_id_ok :: "pyval \<Rightarrow> bool" where
  "client_id_ok v = str_matches (fullmatch is_ident 1 64) v"

definition recovery_payload :: "env \<Rightarrow> settings \<Rightarrow> intents \<Rightarrow> string \<Rightarrow> dict \<Rightarrow> string \<Rightarrow> pyval \<Rightarrow> string result" where
  "recovery_payload E s I account p key_id client_check_id =
     (let intent = without ''recoveryTransportVersion'' p in
      rbind (raise_if (dget p ''recoveryTransportVersion'' \<noteq> PStr RECOVERY_VERSION \<or> \<not> recovery_intent_ok I intent
          \<or> \<not> client_id_ok client_check_id) INPUT_REJECTED) (\<lambda>_.
      rejected (rbind (dumps True (PDict [(''version'', PStr RECOVERY_VERSION), (''policyVersion'', PStr RECOVERY_POLICY),
            (''playbookVersion'', PStr PLAYBOOK), (''clientCheckId'', client_check_id), (''intent'', PDict intent)])) (\<lambda>encoded.
          mac E s key_id ''recovery-payload-v1'' (account @ CHR 0x00 # encoded))) INPUT_REJECTED))"

definition message_payload :: "env \<Rightarrow> settings \<Rightarrow> intents \<Rightarrow> string \<Rightarrow> dict \<Rightarrow> string \<Rightarrow> pyval \<Rightarrow> string result" where
  "message_payload E s I account p key_id client_check_id =
     (let version = dget_or p ''messageTransportVersion'' (PStr MESSAGE_V1);
          intent = without ''messageTransportVersion'' p;
          later = one_of version [MESSAGE_V2, MESSAGE_V3];
          bound = [(''version'', version), (''clientCheckId'', client_check_id), (''intent'', PDict intent)] in
      rbind (raise_if (\<not> one_of version [MESSAGE_V1, MESSAGE_V2, MESSAGE_V3]
          \<or> (dhas p ''messageTransportVersion'' \<and> \<not> later)
          \<or> \<not> message_intent_ok I intent \<or> \<not> client_id_ok client_check_id) INPUT_REJECTED) (\<lambda>_.
      rejected (rbind (dumps True (PDict (if later then bound @ [(''policyVersion'', PStr POLICY_V2)] else bound))) (\<lambda>encoded.
          mac E s key_id (if version = PStr MESSAGE_V3 then ''message-payload-v3''
                          else if version = PStr MESSAGE_V2 then ''message-payload-v2'' else ''message-payload-v1'')
            (account @ CHR 0x00 # encoded))) INPUT_REJECTED))"

definition utf8_length :: "string \<Rightarrow> nat" where
  "utf8_length t = sum_list (map (\<lambda>c. if code c < 128 then 1 else 2) t)"

definition target_ok :: "pyval \<Rightarrow> bool" where
  "target_ok v =
     (case as_dict v of
        None \<Rightarrow> False
      | Some t \<Rightarrow> has_keys t [''url'', ''scope'', ''withheldComponents'']
          \<and> str_matches (\<lambda>u. 1 \<le> utf8_length u \<and> utf8_length u \<le> 2048) (dget t ''url'')
          \<and> one_of (dget t ''scope'') [''full_url'', ''origin_only'']
          \<and> (case dget t ''withheldComponents'' of
               PList xs \<Rightarrow> list_all (\<lambda>x. one_of x [''path'', ''query'', ''fragment'']) xs | _ \<Rightarrow> False))"

definition url_payload :: "env \<Rightarrow> settings \<Rightarrow> string \<Rightarrow> pyval \<Rightarrow> string \<Rightarrow> pyval \<Rightarrow> string result" where
  "url_payload E s account payload key_id client_check_id =
     (case as_dict payload of
        None \<Rightarrow> Inl INPUT_REJECTED
      | Some p \<Rightarrow>
          rbind (raise_if (\<not> (has_keys p [''entryPoint'', ''language'', ''target'']
                \<or> has_keys p [''entryPoint'', ''language'', ''target'', ''urlTransportVersion''])
              \<or> (dhas p ''urlTransportVersion'' \<and> dget p ''urlTransportVersion'' \<noteq> PStr URL_VERSION)
              \<or> \<not> one_of (dget p ''entryPoint'') [''standalone_url'', ''message_url'', ''qr_url'']
              \<or> \<not> one_of (dget p ''language'') [''en'', ''es'']
              \<or> \<not> target_ok (dget p ''target'')) INPUT_REJECTED) (\<lambda>_.
          rbind (rejected (dumps True payload) INPUT_REJECTED) (\<lambda>encoded.
          rbind (raise_if (client_check_id \<noteq> PNone \<and> \<not> client_id_ok client_check_id) INPUT_REJECTED) (\<lambda>_.
          rbind (dumps False (PDict [(''clientCheckId'', client_check_id), (''intent'', PStr encoded)])) (\<lambda>bound.
          mac E s key_id ''payload'' (account @ CHR 0x00 # bound))))))"

definition payload_digest :: "env \<Rightarrow> settings \<Rightarrow> intents \<Rightarrow> string \<Rightarrow> pyval \<Rightarrow> string \<Rightarrow> pyval \<Rightarrow> string result" where
  \<comment> \<open>\<open>_payload\<close>\<close>
  "payload_digest E s I account payload key_id client_check_id =
     (case as_dict payload of
        Some p \<Rightarrow>
          if dget p ''entryPoint'' = PStr ''recovery'' then recovery_payload E s I account p key_id client_check_id
          else if dget p ''entryPoint'' = PStr ''message'' then message_payload E s I account p key_id client_check_id
          else url_payload E s account payload key_id client_check_id
      | None \<Rightarrow> url_payload E s account payload key_id client_check_id)"

record token =
  tok_key :: string
  tok_expiry :: int
  tok_nonce :: string
  tok_tag :: string

definition parse_token :: "string \<Rightarrow> token option" where
  \<comment> \<open>\<open>v1_[A-Za-z0-9]{1,8}_[0-9a-f]{8}_[0-9a-f]{16}_[0-9a-f]{24}\<close>\<close>
  "parse_token t =
     (case split_on CHR ''_'' t of
        [v, k, e, n, g] \<Rightarrow>
          if v = ''v1'' \<and> fullmatch is_alnum 1 8 k \<and> fullmatch is_hex 8 8 e \<and> fullmatch is_hex 16 16 n \<and> fullmatch is_hex 24 24 g
          then Some \<lparr>tok_key = k, tok_expiry = int (of_base 16 e), tok_nonce = n, tok_tag = g\<rparr> else None
      | _ \<Rightarrow> None)"

definition print_token :: "string \<Rightarrow> int \<Rightarrow> string \<Rightarrow> string \<Rightarrow> string" where
  "print_token key_id expiry nonce tag = ''v1_'' @ key_id @ ''_'' @ fmt_x 8 expiry @ ''_'' @ nonce @ ''_'' @ tag"

definition token_parts :: "settings \<Rightarrow> pyval \<Rightarrow> token result" where
  "token_parts s check_id =
     (case as_str check_id of
        None \<Rightarrow> Inl (AuthorityError ''OPERATION_PROOF_REQUIRED'')
      | Some t \<Rightarrow>
          (case parse_token t of
             None \<Rightarrow> Inl (AuthorityError ''OPERATION_PROOF_REQUIRED'')
           | Some k \<Rightarrow> if map_of (hmac_keys s) (tok_key k) = None then Inl (AuthorityError ''KEY_VERSION_UNAVAILABLE'') else Inr k))"

definition operation_tag :: "env \<Rightarrow> settings \<Rightarrow> string \<Rightarrow> string \<Rightarrow> string \<Rightarrow> int \<Rightarrow> string \<Rightarrow> string result" where
  "operation_tag E s key_id account digest expiry nonce =
     rbind (mac E s key_id ''operation'' (account @ CHR 0x00 # digest @ CHR 0x00 # fmt_x 8 expiry @ CHR 0x00 # nonce)) (\<lambda>m.
     Inr (take 24 m))"

definition verify_token :: "env \<Rightarrow> settings \<Rightarrow> string \<Rightarrow> pyval \<Rightarrow> pyval \<Rightarrow> bool \<Rightarrow> string eff" where
  "verify_token E s account check_id digest allow_expired =
     ebind (elift (token_parts s check_id)) (\<lambda>k.
     case as_str digest of
       None \<Rightarrow> eraise TypeError
     | Some d \<Rightarrow>
         ebind (elift (operation_tag E s (tok_key k) account d (tok_expiry k) (tok_nonce k))) (\<lambda>expected.
         ebind (eraise_if (tok_tag k \<noteq> expected) (AuthorityError ''CHECK_ID_CONFLICT'')) (\<lambda>_.
         if allow_expired then eret (tok_key k) else
         ebind (e_now E) (\<lambda>now.
         ebind (eraise_if (tok_expiry k \<le> now) (AuthorityError ''OPERATION_EXPIRED'')) (\<lambda>_.
         eret (tok_key k))))))"

section \<open>Reads that establish authority\<close>

definition row_of :: "dict option \<Rightarrow> dict option" where   \<comment> \<open>the truth of \<open>if row:\<close>\<close>
  "row_of it = (case it of None \<Rightarrow> None | Some d \<Rightarrow> if d = [] then None else Some d)"

definition profile_key :: "string \<Rightarrow> key" where "profile_key account = (''USER#'' @ account, ''PROFILE'')"
definition deletion_key :: "string \<Rightarrow> key" where "deletion_key account = (''ACCOUNT#'' @ account, ''ACCOUNT_DELETION'')"
definition pointer_key :: "string \<Rightarrow> key" where "pointer_key account = (''USER#'' @ account, ''ACTIVE_BINDING'')"
definition binding_key :: "string \<Rightarrow> string \<Rightarrow> key" where "binding_key account f = (''USER#'' @ account, ''DEVICE#'' @ f)"
definition INVENTORY_KEY :: key where "INVENTORY_KEY = (''V1#CONTROL'', ''HMAC_KEY_INVENTORY'')"

definition assert_account :: "env \<Rightarrow> settings \<Rightarrow> pyval \<Rightarrow> string eff" where
  "assert_account E s account =
     (case as_str account of
        None \<Rightarrow> eraise (AuthorityError ''INVALID_ACCOUNT'')
      | Some a \<Rightarrow>
          ebind (eraise_if (\<not> SUBJECT_PATTERN a) (AuthorityError ''INVALID_ACCOUNT'')) (\<lambda>_.
          ebind (e_get E (users_table s) (profile_key a)) (\<lambda>profile.
          ebind (e_get E (deletion_table s) (deletion_key a)) (\<lambda>deletion.
          ebind (eraise_if (\<not> profile_active a profile deletion) (AuthorityError ''ACCOUNT_UNAVAILABLE'')) (\<lambda>_.
          eret a)))))"

definition authority_account :: "env \<Rightarrow> settings \<Rightarrow> dict \<Rightarrow> string eff" where   \<comment> \<open>\<open>_account\<close>\<close>
  "authority_account E s event =
     ebind (ecatch (jwt_subject E event (token_policy s)) (\<lambda>e.
        case e of
          HistoryError c m \<Rightarrow> eraise (AuthorityError ''AUTHENTICATION_REQUIRED'')
        | TypeError \<Rightarrow> eraise (AuthorityError ''AUTHENTICATION_REQUIRED'')
        | ValueError \<Rightarrow> eraise (AuthorityError ''AUTHENTICATION_REQUIRED'')
        | AttributeError \<Rightarrow> eraise (AuthorityError ''AUTHENTICATION_REQUIRED'')
        | _ \<Rightarrow> eraise e)) (\<lambda>account.
     assert_account E s (PStr account))"

definition header_values :: "dict \<Rightarrow> pyval list" where
  "header_values event =
     (case as_dict (dget event ''headers'') of
        None \<Rightarrow> []
      | Some h \<Rightarrow> map snd (filter (\<lambda>kv. lower (fst kv) = ''x-device-binding-fingerprint'') h))"

abbreviation DEVICE_REQUIRED :: exc where "DEVICE_REQUIRED \<equiv> AuthorityError ''ACTIVE_DEVICE_REQUIRED''"

definition authority_device :: "env \<Rightarrow> settings \<Rightarrow> dict \<Rightarrow> string \<Rightarrow> (string \<times> int) eff" where   \<comment> \<open>\<open>_device\<close>\<close>
  "authority_device E s event account =
     (case header_values event of
        [PStr fingerprint] \<Rightarrow>
          ebind (eraise_if (\<not> FINGERPRINT_PATTERN fingerprint) DEVICE_REQUIRED) (\<lambda>_.
          ebind (e_get E (devices_table s) (pointer_key account)) (\<lambda>it.
          let pointer = contents it in
          case integral (dget pointer ''stateVersion'') of
            None \<Rightarrow> eraise DEVICE_REQUIRED
          | Some version \<Rightarrow>
              ebind (eraise_if (dget pointer ''recordType'' \<noteq> PStr ''ACTIVE_BINDING_POINTER'' \<or> version < 1) DEVICE_REQUIRED) (\<lambda>_.
              case as_str (dget pointer ''bindingFingerprint'') of
                None \<Rightarrow> eraise DEVICE_REQUIRED
              | Some bound \<Rightarrow>
                  ebind (elift (compare_digest bound fingerprint)) (\<lambda>same.
                  ebind (eraise_if (\<not> same) DEVICE_REQUIRED) (\<lambda>_.
                  ebind (e_get E (devices_table s) (binding_key account fingerprint)) (\<lambda>b.
                  ebind (eraise_if (row_of b = None \<or> dget (contents b) ''accountId'' \<noteq> PStr account
                      \<or> dget (contents b) ''status'' \<noteq> PStr ''ACTIVE''
                      \<or> dget (contents b) ''bindingFingerprint'' \<noteq> PStr fingerprint) DEVICE_REQUIRED) (\<lambda>_.
                  eret (fingerprint, version))))))))
      | _ \<Rightarrow> eraise DEVICE_REQUIRED)"

definition grant_active :: "dict \<Rightarrow> int \<Rightarrow> bool" where
  "grant_active grant now =
     (dget grant ''recordType'' = PStr ''V1_ACCESS_AUTHORITY'' \<and> integral (dget grant ''schemaVersion'') = Some 1
      \<and> dget grant ''state'' = PStr ''ACTIVE'' \<and> dget grant ''policyVersion'' = PStr OWNER_POLICY
      \<and> one_of (dget grant ''basis'') [''paid'', ''trial'', ''complimentary'']
      \<and> integral (dget grant ''revision'') \<noteq> None \<and> 1 \<le> inum grant ''revision''
      \<and> integral (dget grant ''validFromEpoch'') \<noteq> None \<and> inum grant ''validFromEpoch'' \<le> now
      \<and> ((dget grant ''basis'' = PStr ''complimentary'' \<and> dhas grant ''validUntilEpoch'' \<and> dget grant ''validUntilEpoch'' = PNone)
         \<or> integral (dget grant ''validUntilEpoch'') \<noteq> None \<and> now < inum grant ''validUntilEpoch''))"

definition period_limit :: "dict \<Rightarrow> int" where
  "period_limit grant = (if dget grant ''basis'' = PStr ''paid'' then PAID_COMPLETED_CHECKS else TRIAL_COMPLETED_CHECKS)"

definition period_ok :: "dict \<Rightarrow> dict \<Rightarrow> int \<Rightarrow> bool" where
  "period_ok grant period now =
     (dget period ''recordType'' = PStr ''V1_ALLOWANCE_PERIOD'' \<and> dget period ''policyVersion'' = PStr OWNER_POLICY
      \<and> pyeq (dget period ''grantRevision'') (PInt (inum grant ''periodRevision''))
      \<and> pyeq (dget period ''limit'') (PInt (period_limit grant))
      \<and> integral (dget period ''usedChecks'') \<noteq> None \<and> integral (dget period ''reservedChecks'') \<noteq> None
      \<and> 0 \<le> inum period ''usedChecks'' \<and> 0 \<le> inum period ''reservedChecks''
      \<and> inum period ''usedChecks'' + inum period ''reservedChecks'' \<le> period_limit grant
      \<and> integral (dget period ''startEpoch'') \<noteq> None \<and> integral (dget period ''endEpoch'') \<noteq> None
      \<and> inum period ''startEpoch'' \<le> now)"

definition trial_ok :: "dict \<Rightarrow> bool" where
  "trial_ok grant =
     (dget grant ''activationKind'' = PStr ''explicit'' \<and> integral (dget grant ''activatedAtEpoch'') \<noteq> None
      \<and> inum grant ''validFromEpoch'' = inum grant ''activatedAtEpoch''
      \<and> inum grant ''validUntilEpoch'' = inum grant ''activatedAtEpoch'' + TRIAL_SECONDS)"

abbreviation STATE_INVALID :: exc where "STATE_INVALID \<equiv> AuthorityError ''AUTHORITY_STATE_INVALID''"

definition authority_grant :: "env \<Rightarrow> settings \<Rightarrow> string \<Rightarrow> bool \<Rightarrow> (dict \<times> dict option) eff" where   \<comment> \<open>\<open>_grant\<close>\<close>
  "authority_grant E s part allow_exhausted =
     ebind (e_get E (authority_table s) (part, ''ACCESS'')) (\<lambda>it.
     ebind (e_now E) (\<lambda>now.
     let grant = contents it in
     ebind (eraise_if (\<not> grant_active grant now) (AuthorityError ''EXTERNAL_ACCESS_UNAVAILABLE'')) (\<lambda>_.
     if dget grant ''basis'' = PStr ''complimentary'' then eret (grant, None) else
     ebind (eraise_if (integral (dget grant ''periodRevision'') = None \<or> inum grant ''periodRevision'' < 1) STATE_INVALID) (\<lambda>_.
     case as_str (dget grant ''periodId'') of
       None \<Rightarrow> eraise STATE_INVALID
     | Some period_id \<Rightarrow>
         ebind (eraise_if (\<not> fullmatch is_ident 1 64 period_id) STATE_INVALID) (\<lambda>_.
         ebind (e_get E (authority_table s) (part, ''PERIOD#'' @ period_id)) (\<lambda>pit.
         let period = contents pit in
         ebind (eraise_if (\<not> period_ok grant period now) STATE_INVALID) (\<lambda>_.
         ebind (eraise_if (dget grant ''basis'' = PStr ''trial'' \<and> \<not> trial_ok grant) STATE_INVALID) (\<lambda>_.
         ebind (if dget grant ''basis'' = PStr ''paid'' then
                  ebind (elift (effective_access_end (PDict period))) (\<lambda>access.
                  ebind (eraise_if (access \<le> now) STATE_INVALID) (\<lambda>_.
                  ebind (global_for_period E (authority_table s) period now False) (\<lambda>_. eret ())))
                else eraise_if (dhas period ''purchaseUsageKey'' \<or> dhas period ''accessUntilEpoch''
                       \<or> inum period ''endEpoch'' \<le> now) STATE_INVALID) (\<lambda>_.
         ebind (eraise_if (\<not> allow_exhausted \<and> period_limit grant \<le> inum period ''usedChecks'' + inum period ''reservedChecks'')
                  (AuthorityError ''ALLOWANCE_EXHAUSTED'')) (\<lambda>_.
         eret (grant, Some period)))))))))))"

section \<open>Conditions a transaction repeats\<close>

definition expected_keys :: "env \<Rightarrow> settings \<Rightarrow> dict" where
  "expected_keys E s = map (\<lambda>kv. (fst kv, PStr (sha256_hex E (snd kv)))) (hmac_keys s)"

definition verified_inventory :: "env \<Rightarrow> settings \<Rightarrow> dict eff" where
  "verified_inventory E s =
     ebind (e_get E (authority_table s) INVENTORY_KEY) (\<lambda>it.
     let row = contents it in
     ebind (eraise_if (\<not> has_keys row [''PK'', ''SK'', ''recordType'', ''schemaVersion'', ''revision'', ''coverage'', ''issuedKeys'']
         \<or> dget row ''recordType'' \<noteq> PStr ''V1_HMAC_KEY_INVENTORY'' \<or> integral (dget row ''schemaVersion'') \<noteq> Some 1
         \<or> integral (dget row ''revision'') = None \<or> inum row ''revision'' < 1
         \<or> dget row ''coverage'' \<noteq> PStr ''VERIFIED_COMPLETE''
         \<or> \<not> pyeq (dget row ''issuedKeys'') (PDict (expected_keys E s))) (AuthorityError ''KEY_INVENTORY_UNAVAILABLE'')) (\<lambda>_.
     eret row))"

definition equals :: "string \<Rightarrow> pyval \<Rightarrow> cond" where "equals k v = Cmp CEq k v"

definition inventory_condition :: "string \<Rightarrow> dict \<Rightarrow> action" where
  "inventory_condition table row =
     ConditionCheck table INVENTORY_KEY
       (all_of [equals ''revision'' (dget row ''revision''), equals ''coverage'' (PStr ''VERIFIED_COMPLETE''),
          equals ''issuedKeys'' (dget row ''issuedKeys''), equals ''recordType'' (PStr ''V1_HMAC_KEY_INVENTORY''),
          equals ''schemaVersion'' (PInt 1)])"

definition account_conditions :: "env \<Rightarrow> settings \<Rightarrow> string \<Rightarrow> action list eff" where
  "account_conditions E s account =
     ebind (verified_inventory E s) (\<lambda>inventory.
     eret [inventory_condition (authority_table s) inventory,
       ConditionCheck (users_table s) (profile_key account)
         (all_of [equals ''status'' (PStr ''ACTIVE''), equals ''ageVerified'' (PBool True), equals ''sub'' (PStr account)]),
       ConditionCheck (deletion_table s) (deletion_key account) (NotExists ''PK'')])"

definition grant_condition :: "dict \<Rightarrow> int \<Rightarrow> cond" where
  "grant_condition grant now =
     all_of ([equals ''recordType'' (PStr ''V1_ACCESS_AUTHORITY''), equals ''schemaVersion'' (PInt 1),
        equals ''revision'' (dget grant ''revision''), equals ''state'' (PStr ''ACTIVE''), equals ''basis'' (dget grant ''basis''),
        equals ''policyVersion'' (PStr OWNER_POLICY), equals ''validFromEpoch'' (dget grant ''validFromEpoch''),
        Cmp CLe ''validFromEpoch'' (PInt now), equals ''validUntilEpoch'' (dget grant ''validUntilEpoch'')]
       @ (if dget grant ''validUntilEpoch'' \<noteq> PNone then [Cmp CGt ''validUntilEpoch'' (PInt now)] else [])
       @ (if dget grant ''basis'' \<noteq> PStr ''complimentary''
          then [equals ''periodId'' (dget grant ''periodId''), equals ''periodRevision'' (dget grant ''periodRevision'')] else []))"

definition authority_conditions ::
  "env \<Rightarrow> settings \<Rightarrow> string \<Rightarrow> string \<Rightarrow> string \<times> int \<Rightarrow> dict \<Rightarrow> action list eff" where
  "authority_conditions E s account part device grant =
     ebind (account_conditions E s account) (\<lambda>conds.
     ebind (e_now E) (\<lambda>now.
     eret (conds @
       [ConditionCheck (devices_table s) (pointer_key account)
          (all_of [equals ''recordType'' (PStr ''ACTIVE_BINDING_POINTER''), equals ''stateVersion'' (PInt (snd device)),
             equals ''bindingFingerprint'' (PStr (fst device))]),
        ConditionCheck (devices_table s) (binding_key account (fst device))
          (all_of [equals ''status'' (PStr ''ACTIVE''), equals ''accountId'' (PStr account),
             equals ''bindingFingerprint'' (PStr (fst device))]),
        ConditionCheck (authority_table s) (part, ''ACCESS'') (grant_condition grant now)])))"

definition transact_or_fail :: "env \<Rightarrow> action list \<Rightarrow> unit eff" where   \<comment> \<open>\<open>_transact\<close>\<close>
  "transact_or_fail E items =
     ebind (e_transact E items) (\<lambda>r. eraise_if (r \<noteq> Committed) (AuthorityError ''TRANSACTION_UNCERTAIN''))"

definition on_authority_error :: "'a eff \<Rightarrow> (exc \<Rightarrow> 'a eff) \<Rightarrow> 'a eff" where   \<comment> \<open>\<open>except AuthorityError\<close>\<close>
  "on_authority_error m h = ecatch m (\<lambda>e. case e of AuthorityError c \<Rightarrow> h e | _ \<Rightarrow> eraise e)"

definition at_least :: "pyval \<Rightarrow> int \<Rightarrow> bool result" where   \<comment> \<open>\<open>v >= n\<close>, a \<open>TypeError\<close> for what is not a number\<close>
  "at_least v n = (case pynum v of None \<Rightarrow> Inl TypeError | Some x \<Rightarrow> Inr (\<not> num_less x (n, 0)))"

definition above :: "pyval \<Rightarrow> int \<Rightarrow> bool result" where   \<comment> \<open>\<open>v > n\<close>\<close>
  "above v n = (case pynum v of None \<Rightarrow> Inl TypeError | Some x \<Rightarrow> Inr (num_less (n, 0) x))"

section \<open>The attempt counter\<close>

definition attempt_action :: "settings \<Rightarrow> string \<Rightarrow> int \<Rightarrow> action" where
  "attempt_action s part window =
     (let sk = ''ATTEMPT#'' @ show_int window; expires = window + counter_retention_seconds s in
      Update (authority_table s) (part, sk)
        [USet ''expiresAt'' (PInt expires), USet ''recordType'' (PStr ''V1_ATTEMPT_COUNTER''), USet ''GSI1PK'' (PStr ''V1_EXPIRING''),
         USet ''GSI1SK'' (PStr (expiry_sort expires (part, sk))), UAdd ''attempts'' 1]
        (Or (NotExists ''attempts'') (Cmp CLt ''attempts'' (PInt (attempts_per_window s)))))"

definition count_attempt :: "env \<Rightarrow> settings \<Rightarrow> string \<Rightarrow> string \<Rightarrow> unit eff" where   \<comment> \<open>\<open>_attempt\<close>\<close>
  "count_attempt E s account part =
     ebind (e_now E) (\<lambda>t1. ebind (e_now E) (\<lambda>t2.
     let window = t1 - t2 mod attempt_window_seconds s; act = attempt_action s part window in
     on_authority_error
       (ebind (account_conditions E s account) (\<lambda>conds. transact_or_fail E (conds @ [act])))
       (\<lambda>e. ebind (e_get E (authority_table s) (part, ''ATTEMPT#'' @ show_int window)) (\<lambda>it.
            case row_of it of
              None \<Rightarrow> eraise e
            | Some d \<Rightarrow>
                ebind (elift (at_least (dget_or d ''attempts'' (PInt 0)) (attempts_per_window s))) (\<lambda>full.
                if full then eraise (AuthorityError ''RATE_LIMITED'') else eraise e)))))"

end
