(* ===== verification/Checks.thy ===== *)
theory Checks
  imports Authority
begin

text \<open>
  The life of a check under the authority: \<open>prepare\<close>, \<open>admit\<close>, \<open>reconcile\<close> and the closing of a
  preparation that was never admitted (methods of \<open>Authority\<close> in
  \<open>shared_check_authority/core.py\<close>). Settlement is in its own theory.
\<close>

definition copied_versions :: "dict \<Rightarrow> dict" where
  \<comment> \<open>the transport versions that a payload names\<close>
  "copied_versions p = filter (\<lambda>kv. truthy (snd kv))
     [(''urlTransportVersion'', dget p ''urlTransportVersion''), (''messageTransportVersion'', dget p ''messageTransportVersion''),
      (''recoveryTransportVersion'', dget p ''recoveryTransportVersion'')]"

definition payload_fields :: "pyval \<Rightarrow> dict" where
  "payload_fields payload = (case as_dict payload of None \<Rightarrow> [] | Some p \<Rightarrow> p)"

definition receipt_public :: "dict \<Rightarrow> dict" where
  "receipt_public row =
     filter (\<lambda>kv. dhas row (fst kv)) [(''urlTransportVersion'', dget row ''urlTransportVersion''),
       (''recoveryTransportVersion'', dget row ''recoveryTransportVersion''),
       (''messageTransportVersion'', dget row ''messageTransportVersion'')]
     @ map (\<lambda>k. (k, dget row k)) [''checkId'', ''clientCheckId'', ''projectionScope'', ''state'', ''chargedChecks'',
         ''receiptId'', ''processingOutcome'', ''resultSummary'', ''assessmentEpoch'']
     @ [(''expiresAt'', dget_or row ''retentionDeadlineEpoch'' (dget row ''expiresAt''))]"

section \<open>Preparation\<close>

definition verified_prior :: "env \<Rightarrow> settings \<Rightarrow> string \<Rightarrow> dict \<Rightarrow> string \<Rightarrow> pyval eff" where
  \<comment> \<open>\<open>self._verify_token(account, prior['checkId'], digest); return prior['checkId']\<close>\<close>
  "verified_prior E s account prior digest =
     ebind (elift (didx prior ''checkId'')) (\<lambda>check_id.
     ebind (verify_token E s account check_id (PStr digest) False) (\<lambda>_. eret check_id))"

definition preparation_row :: "settings \<Rightarrow> key \<Rightarrow> string \<Rightarrow> string \<Rightarrow> pyval \<Rightarrow> dict \<Rightarrow> int \<Rightarrow> int \<Rightarrow> dict" where
  "preparation_row s k digest check_id client_check_id p now1 now2 =
     key_item k @
     [(''recordType'', PStr ''V1_PREPARATION''), (''payloadHmac'', PStr digest), (''checkId'', PStr check_id),
      (''admissionState'', PStr ''OPEN''), (''clientCheckId'', client_check_id),
      (''expiresAt'', PInt (now1 + receipt_retention_seconds s)), (''GSI1PK'', PStr ''V1_EXPIRING''),
      (''GSI1SK'', PStr (expiry_sort (now2 + receipt_retention_seconds s) k))]
     @ (if dget p ''entryPoint'' = PStr ''message'' then [(''projectionScope'', PStr ''sanitized_message'')] else [])
     @ (if dget p ''entryPoint'' = PStr ''recovery'' then [(''projectionScope'', PStr ''recovery_clarification'')] else [])
     @ copied_versions p"

definition prepare_key :: "string \<Rightarrow> pyval \<Rightarrow> string \<Rightarrow> key" where
  "prepare_key part client_check_id preparation_id =
     (part, ''PREPARE#'' @ (case as_str client_check_id of None \<Rightarrow> preparation_id
                             | Some c \<Rightarrow> if c = [] then preparation_id else c))"

definition mint_preparation ::
  "env \<Rightarrow> settings \<Rightarrow> string \<Rightarrow> key \<Rightarrow> string \<times> int \<Rightarrow> dict \<Rightarrow> string \<Rightarrow> pyval \<Rightarrow> dict \<Rightarrow> pyval eff" where
  \<comment> \<open>the part of \<open>prepare\<close> after it found no earlier preparation\<close>
  "mint_preparation E s account k device grant digest client_check_id p =
     ebind (e_now E) (\<lambda>now0.
     ebind (e_random E 8) (\<lambda>nonce.
     let expiry = now0 + operation_validity_seconds s; key_id = active_key_id s in
     ebind (eraise_if (\<not> fullmatch is_hex 16 16 nonce \<or> expiry > 0xffffffff) (AuthorityError ''POLICY_CONFIGURATION_UNAVAILABLE'')) (\<lambda>_.
     ebind (elift (operation_tag E s key_id account digest expiry nonce)) (\<lambda>tag.
     let check_id = print_token key_id expiry nonce tag in
     ebind (e_now E) (\<lambda>now1. ebind (e_now E) (\<lambda>now2.
     let row = preparation_row s k digest check_id client_check_id p now1 now2 in
     on_authority_error
       (ebind (authority_conditions E s account (fst k) device grant) (\<lambda>conds.
        ebind (transact_or_fail E (conds @ [Put (authority_table s) row (NotExists ''PK'')])) (\<lambda>_.
        eret (PStr check_id))))
       (\<lambda>e. ebind (e_get E (authority_table s) k) (\<lambda>it.
            case row_of it of
              None \<Rightarrow> eraise e
            | Some prior \<Rightarrow>
                ebind (elift (digest_equals (dget_or prior ''payloadHmac'' (PStr [])) digest)) (\<lambda>same.
                if same then verified_prior E s account prior digest else eraise e)))))))))"

definition prepare :: "env \<Rightarrow> settings \<Rightarrow> intents \<Rightarrow> dict \<Rightarrow> pyval \<Rightarrow> pyval \<Rightarrow> pyval \<Rightarrow> bool \<Rightarrow> pyval eff" where
  "prepare E s I event payload preparation_id client_check_id counted =
     ebind (authority_account E s event) (\<lambda>account.
     let key_id = active_key_id s in
     ebind (elift (account_partition E s account key_id)) (\<lambda>part.
     ebind (if counted then count_attempt E s account part else eret ()) (\<lambda>_.
     ebind (authority_device E s event account) (\<lambda>device.
     ebind (authority_grant E s part False) (\<lambda>gp.
     ebind (elift (payload_digest E s I account payload key_id client_check_id)) (\<lambda>digest.
     case as_str preparation_id of
       None \<Rightarrow> eraise INPUT_REJECTED
     | Some pid \<Rightarrow>
         ebind (eraise_if (\<not> fullmatch is_ident 1 64 pid) INPUT_REJECTED) (\<lambda>_.
         let k = prepare_key part client_check_id pid in
         ebind (e_get E (authority_table s) k) (\<lambda>it.
         case row_of it of
           Some prior \<Rightarrow>
             ebind (elift (digest_equals (dget_or prior ''payloadHmac'' (PStr [])) digest)) (\<lambda>same.
             ebind (eraise_if (\<not> same) (AuthorityError ''CHECK_ID_CONFLICT'')) (\<lambda>_.
             verified_prior E s account prior digest))
         | None \<Rightarrow> mint_preparation E s account k device (fst gp) digest client_check_id (payload_fields payload)))))))))"

section \<open>Admission\<close>

definition check_key :: "string \<Rightarrow> string \<Rightarrow> key" where "check_key part check_id = (part, ''CHECK#'' @ check_id)"
definition inflight_key :: "string \<Rightarrow> key" where "inflight_key part = (part, ''INFLIGHT'')"

definition projection_scope :: "dict \<Rightarrow> pyval result" where   \<comment> \<open>\<open>payload['target']['scope']\<close>\<close>
  "projection_scope p =
     rbind (didx p ''target'') (\<lambda>t. case as_dict t of None \<Rightarrow> Inl TypeError | Some d \<Rightarrow> didx d ''scope'')"

definition admission_row ::
  "settings \<Rightarrow> key \<Rightarrow> string \<Rightarrow> string \<Rightarrow> pyval \<Rightarrow> pyval \<Rightarrow> dict \<Rightarrow> dict option \<Rightarrow> pyval \<Rightarrow> string \<Rightarrow> int \<Rightarrow> int \<Rightarrow> int \<Rightarrow> dict" where
  "admission_row s k check_id digest client_check_id scope grant period sk token settle_by index_time accepted =
     key_item k @
     [(''recordType'', PStr ''V1_CHECK_RECEIPT''), (''checkId'', PStr check_id), (''payloadHmac'', PStr digest),
      (''clientCheckId'', client_check_id), (''projectionScope'', scope), (''state'', PStr ''ADMITTED''),
      (''chargedChecks'', PNone), (''receiptId'', PNone), (''processingOutcome'', PNone), (''basis'', dget grant ''basis''),
      (''grantRevision'', (case period of None \<Rightarrow> PNone | Some q \<Rightarrow> dget q ''grantRevision'')),
      (''authorityRevision'', dget grant ''revision''), (''policyVersion'', PStr OWNER_POLICY), (''periodSK'', sk),
      (''executionToken'', PStr token), (''settleByEpoch'', PInt (settle_by + worker_settlement_seconds s)),
      (''GSI1PK'', PStr ''V1_PENDING''),
      (''GSI1SK'', PStr (fmt_d 12 (index_time + worker_settlement_seconds s) @ ''#'' @ fst k @ ''#'' @ check_id)),
      (''retentionDeadlineEpoch'', PInt (accepted + receipt_retention_seconds s))]"

definition faults_as :: "'a eff \<Rightarrow> exc \<Rightarrow> 'a eff" where   \<comment> \<open>\<open>except Exception: raise e\<close>\<close>
  "faults_as m e = ecatch m (\<lambda>_. eraise e)"

definition preparation_check :: "settings \<Rightarrow> string \<Rightarrow> string \<Rightarrow> string \<Rightarrow> string \<Rightarrow> int \<Rightarrow> action" where
  "preparation_check s part check_id digest client now =
     ConditionCheck (authority_table s) (part, ''PREPARE#'' @ client)
       (all_of [equals ''recordType'' (PStr ''V1_PREPARATION''), equals ''admissionState'' (PStr ''OPEN''),
          equals ''checkId'' (PStr check_id), equals ''payloadHmac'' (PStr digest), equals ''clientCheckId'' (PStr client),
          Cmp CGt ''expiresAt'' (PInt now)])"

definition trial_reservation :: "settings \<Rightarrow> string \<Rightarrow> string \<Rightarrow> dict \<Rightarrow> int \<Rightarrow> action" where
  "trial_reservation s part sk period now =
     Update (authority_table s) (part, sk) [UAdd ''reservedChecks'' 1]
       (all_of [equals ''usedChecks'' (dget period ''usedChecks''), equals ''reservedChecks'' (dget period ''reservedChecks''),
          equals ''grantRevision'' (dget period ''grantRevision''), equals ''policyVersion'' (PStr OWNER_POLICY),
          Cmp CGt ''endEpoch'' (PInt now)])"

definition inflight_enter :: "settings \<Rightarrow> string \<Rightarrow> action" where
  "inflight_enter s part =
     Update (authority_table s) (inflight_key part) [URemove ''expiresAt'', UAdd ''activeCount'' 1]
       (Or (NotExists ''activeCount'') (Cmp CLt ''activeCount'' (PInt (max_inflight s))))"

definition reservation_actions :: "env \<Rightarrow> settings \<Rightarrow> string \<Rightarrow> dict \<Rightarrow> dict option \<Rightarrow> pyval \<Rightarrow> action list eff" where
  "reservation_actions E s part grant period sk =
     (case period of
        None \<Rightarrow> eret []
      | Some q \<Rightarrow>
          ebind (e_now E) (\<lambda>now.
          if dget grant ''basis'' = PStr ''paid'' then
            paired_counter_actions E (authority_table s) q 1 0 now False
          else (case as_str sk of
                  None \<Rightarrow> eraise (AuthorityError ''TRANSACTION_UNCERTAIN'')
                | Some t \<Rightarrow> eret [trial_reservation s part t q now])))"

definition paid_fields :: "dict \<Rightarrow> dict option \<Rightarrow> dict result" where
  "paid_fields grant period =
     (if dget grant ''basis'' \<noteq> PStr ''paid'' then Inr [] else
      (case period of
         None \<Rightarrow> Inl TypeError
       | Some q \<Rightarrow>
           rbind (didx q ''purchaseUsageKey'') (\<lambda>uk.
           rbind (raise_if (as_dict uk = None) TypeError) (\<lambda>_.
           rbind (effective_access_end (PDict q)) (\<lambda>access.
           Inr [(''purchaseUsageKey'', uk), (''accessUntilEpoch'', PInt access)])))))"

definition admission_extras :: "env \<Rightarrow> settings \<Rightarrow> pyval \<Rightarrow> dict \<Rightarrow> dict option \<Rightarrow> int \<Rightarrow> int \<Rightarrow> dict eff" where
  \<comment> \<open>what \<open>admit\<close> adds to the row by \<open>update\<close>, in its order\<close>
  "admission_extras E s payload grant period accepted deadline =
     ebind (elift (if governed_history_settlement_enabled s
                   then rejected (admission_metadata payload (PInt accepted)) INPUT_REJECTED else Inr [])) (\<lambda>h.
     ebind (if operations_producer_enabled s
            then faults_as (admission_fields E payload (PInt accepted) (PInt deadline) (dget grant ''basis'')
                              (PStr (operations_environment s))) (AuthorityError ''OPERATIONS_RECEIPT_INVALID'')
            else eret []) (\<lambda>o'.
     ebind (elift (paid_fields grant period)) (\<lambda>q.
     eret (h @ o' @ q @ copied_versions (payload_fields payload)))))"

definition admitted_value :: "string \<Rightarrow> dict \<Rightarrow> dict" where
  "admitted_value token row =
     [(''admitted'', PBool True), (''executionToken'', PStr token), (''receipt'', PDict (receipt_public row))]"

definition replayed_value :: "dict \<Rightarrow> dict" where
  "replayed_value row = [(''admitted'', PBool False), (''receipt'', PDict (receipt_public row))]"

definition admission_recovery :: "env \<Rightarrow> settings \<Rightarrow> string \<Rightarrow> key \<Rightarrow> string \<Rightarrow> exc \<Rightarrow> dict eff" where
  \<comment> \<open>the \<open>except AuthorityError\<close> of the admission transaction\<close>
  "admission_recovery E s part k digest e =
     ebind (e_get E (authority_table s) k) (\<lambda>it.
     ebind (elift (case row_of it of None \<Rightarrow> Inr False
                   | Some prior \<Rightarrow> digest_equals (dget_or prior ''payloadHmac'' (PStr [])) digest)) (\<lambda>same.
     if same then eret (replayed_value (contents it)) else
     ebind (e_get E (authority_table s) (inflight_key part)) (\<lambda>fit.
     case row_of fit of
       None \<Rightarrow> eraise e
     | Some d \<Rightarrow>
         ebind (elift (at_least (dget_or d ''activeCount'' (PInt 0)) (max_inflight s))) (\<lambda>full.
         if full then eraise (AuthorityError ''RATE_LIMITED'') else eraise e))))"

definition client_check_action :: "env \<Rightarrow> settings \<Rightarrow> string \<Rightarrow> string \<Rightarrow> string \<Rightarrow> pyval \<Rightarrow> action list eff" where
  "client_check_action E s part check_id digest client_check_id =
     (case as_str client_check_id of
        None \<Rightarrow> eret []
      | Some c \<Rightarrow> ebind (e_now E) (\<lambda>now. eret [preparation_check s part check_id digest c now]))"

definition admit_new ::
  "env \<Rightarrow> settings \<Rightarrow> string \<Rightarrow> string \<Rightarrow> string \<times> int \<Rightarrow> dict \<Rightarrow> dict option \<Rightarrow> pyval \<Rightarrow> string \<Rightarrow> string \<Rightarrow> pyval \<Rightarrow> dict eff" where
  \<comment> \<open>the part of \<open>admit\<close> after authority was established\<close>
  "admit_new E s account part device grant period payload check_id digest client_check_id =
     ebind (e_random E 16) (\<lambda>token.
     ebind (if governed_history_settlement_enabled s \<or> operations_producer_enabled s
            then ebind (e_now E) (\<lambda>t. eret (Some t)) else eret None) (\<lambda>accepted_at.
     let k = check_key part check_id in
     ebind (elift (projection_scope (payload_fields payload))) (\<lambda>scope.
     ebind (elift (case period of None \<Rightarrow> Inr PNone | Some q \<Rightarrow> didx q ''SK'')) (\<lambda>sk.
     ebind (e_now E) (\<lambda>t1. ebind (e_now E) (\<lambda>t2.
     ebind (case accepted_at of None \<Rightarrow> e_now E | Some t \<Rightarrow> eret t) (\<lambda>accepted.
     ebind (admission_extras E s payload grant period accepted (accepted + receipt_retention_seconds s)) (\<lambda>extras.
     let row = dmerge (admission_row s k check_id digest client_check_id scope grant period sk token t1 t2 accepted) extras in
     ebind (authority_conditions E s account part device grant) (\<lambda>conds.
     ebind (client_check_action E s part check_id digest client_check_id) (\<lambda>prep.
     ebind (reservation_actions E s part grant period sk) (\<lambda>res.
     let items = conds @ prep @ res @ [inflight_enter s part, Put (authority_table s) row (NotExists ''PK'')] in
     on_authority_error
       (ebind (transact_or_fail E items) (\<lambda>_. eret (admitted_value token row)))
       (admission_recovery E s part k digest))))))))))))"

definition admit :: "env \<Rightarrow> settings \<Rightarrow> intents \<Rightarrow> dict \<Rightarrow> pyval \<Rightarrow> pyval \<Rightarrow> pyval \<Rightarrow> bool \<Rightarrow> dict eff" where
  "admit E s I event payload check_id client_check_id counted =
     ebind (authority_account E s event) (\<lambda>account.
     ebind (elift (token_parts s check_id)) (\<lambda>tok.
     let key_id = tok_key tok in
     ebind (elift (account_partition E s account key_id)) (\<lambda>part.
     ebind (if counted then count_attempt E s account part else eret ()) (\<lambda>_.
     ebind (elift (payload_digest E s I account payload key_id client_check_id)) (\<lambda>digest.
     ebind (verify_token E s account check_id (PStr digest) False) (\<lambda>_.
     case as_str check_id of
       None \<Rightarrow> eraise (AuthorityError ''OPERATION_PROOF_REQUIRED'')
     | Some cid \<Rightarrow>
         ebind (e_get E (authority_table s) (check_key part cid)) (\<lambda>it.
         case row_of it of
           Some prior \<Rightarrow>
             ebind (elift (digest_equals (dget_or prior ''payloadHmac'' (PStr [])) digest)) (\<lambda>same.
             ebind (eraise_if (\<not> same) (AuthorityError ''CHECK_ID_CONFLICT'')) (\<lambda>_.
             eret (replayed_value prior)))
         | None \<Rightarrow>
             ebind (eraise_if (key_id \<noteq> active_key_id s) (AuthorityError ''KEY_ROTATION_PENDING'')) (\<lambda>_.
             ebind (authority_device E s event account) (\<lambda>device.
             ebind (authority_grant E s part False) (\<lambda>gp.
             admit_new E s account part device (fst gp) (snd gp) payload cid digest client_check_id))))))))))"

section \<open>Reconciliation\<close>

definition unknown_state :: dict where
  "unknown_state = [(''state'', PStr ''UNKNOWN''), (''chargedChecks'', PNone)]"

definition closed_preparation :: "settings \<Rightarrow> key \<Rightarrow> dict \<Rightarrow> string \<Rightarrow> pyval \<Rightarrow> int \<Rightarrow> action" where
  "closed_preparation s k preparation proof_id client now =
     Update (authority_table s) k [USet ''admissionState'' (PStr ''CLOSED'')]
       (all_of [equals ''recordType'' (PStr ''V1_PREPARATION''), equals ''admissionState'' (dget preparation ''admissionState''),
          equals ''checkId'' (PStr proof_id), equals ''payloadHmac'' (dget preparation ''payloadHmac''),
          equals ''clientCheckId'' client, equals ''expiresAt'' (dget preparation ''expiresAt''),
          Cmp CGt ''expiresAt'' (PInt now)])"

definition preparation_closable :: "dict \<Rightarrow> string \<Rightarrow> string \<Rightarrow> int \<Rightarrow> bool" where
  "preparation_closable p client proof_id now =
     (dget p ''recordType'' = PStr ''V1_PREPARATION'' \<and> dget p ''clientCheckId'' = PStr client \<and> dget p ''checkId'' = PStr proof_id
      \<and> integral (dget p ''expiresAt'') \<noteq> None \<and> now < inum p ''expiresAt''
      \<and> one_of (dget p ''admissionState'') [''OPEN'', ''CLOSED''])"

definition close_unadmitted :: "env \<Rightarrow> settings \<Rightarrow> string \<Rightarrow> string \<Rightarrow> pyval \<Rightarrow> dict eff" where
  "close_unadmitted E s account proof_id client_check_id =
     (if \<not> client_id_ok client_check_id then eret unknown_state else
      ebind (elift (token_parts s (PStr proof_id))) (\<lambda>tok.
      ebind (e_now E) (\<lambda>now1.
      if tok_expiry tok > now1 then eret unknown_state else
      ebind (elift (account_partition E s account (tok_key tok))) (\<lambda>part.
      let client = (case as_str client_check_id of None \<Rightarrow> [] | Some c \<Rightarrow> c); k = (part, ''PREPARE#'' @ client) in
      ebind (e_get E (authority_table s) k) (\<lambda>it.
      ebind (e_now E) (\<lambda>now2.
      let p = contents it in
      if \<not> preparation_closable p client proof_id now2 then eret unknown_state else
      ebind (elift (didx p ''payloadHmac'')) (\<lambda>stored.
      ebind (verify_token E s account (PStr proof_id) stored True) (\<lambda>_.
      ebind (account_conditions E s account) (\<lambda>conds.
      ebind (e_now E) (\<lambda>now3.
      let items = conds @ [ConditionCheck (authority_table s) (check_key part proof_id) (NotExists ''PK''),
                           closed_preparation s k p proof_id client_check_id now3] in
      on_authority_error
        (ebind (transact_or_fail E items) (\<lambda>_.
         eret [(''state'', PStr ''NOT_STARTED''), (''chargedChecks'', PInt 0), (''clientCheckId'', client_check_id),
               (''expiresAt'', dget p ''expiresAt'')]))
        (\<lambda>e. ebind (e_get E (authority_table s) (check_key part proof_id)) (\<lambda>lit.
           case row_of lit of
             None \<Rightarrow> eraise e
           | Some latest \<Rightarrow>
               ebind (e_now E) (\<lambda>now4.
               ebind (elift (above (dget_or latest ''retentionDeadlineEpoch'' (PInt 0)) now4)) (\<lambda>live.
               if \<not> live then eraise e else
               ebind (elift (didx latest ''payloadHmac'')) (\<lambda>d.
               ebind (verify_token E s account (PStr proof_id) d True) (\<lambda>_.
               eret (receipt_public latest)))))))))))))))))"

definition candidate_row :: "env \<Rightarrow> settings \<Rightarrow> string \<Rightarrow> dict option \<Rightarrow> pyval \<Rightarrow> dict option eff" where
  \<comment> \<open>the receipt, or the preparation that the client names\<close>
  "candidate_row E s part row client_check_id =
     (case (row, as_str client_check_id) of
        (None, Some c) \<Rightarrow>
          if fullmatch is_ident 1 64 c then e_get E (authority_table s) (part, ''PREPARE#'' @ c) else eret None
      | _ \<Rightarrow> eret row)"

definition expect :: "env \<Rightarrow> settings \<Rightarrow> string \<Rightarrow> dict option \<Rightarrow> pyval \<Rightarrow> pyval \<Rightarrow> string list \<Rightarrow> (dict \<Rightarrow> pyval) \<Rightarrow> unit eff" where
  \<comment> \<open>one of the four \<open>expected_...\<close> arguments: a known value that the stored row agrees with\<close>
  "expect E s part row client_check_id expected allowed actual =
     (if expected = PNone then eret () else
      ebind (eraise_if (\<not> one_of expected allowed) INPUT_REJECTED) (\<lambda>_.
      ebind (candidate_row E s part row client_check_id) (\<lambda>candidate.
      eraise_if (case row_of candidate of None \<Rightarrow> False | Some c \<Rightarrow> \<not> pyeq (actual c) expected)
        (AuthorityError ''CHECK_ID_CONFLICT''))))"

definition actual_scope :: "dict \<Rightarrow> pyval" where
  "actual_scope c = (if one_of (dget c ''projectionScope'') [''sanitized_message'', ''recovery_clarification'']
                     then dget c ''projectionScope'' else PStr ''url'')"

record expectations =
  expected_scope :: pyval
  expected_url_version :: pyval
  expected_message_version :: pyval
  expected_recovery_version :: pyval

definition reconcile :: "env \<Rightarrow> settings \<Rightarrow> dict \<Rightarrow> pyval \<Rightarrow> pyval \<Rightarrow> expectations \<Rightarrow> dict eff" where
  "reconcile E s event check_id client_check_id x =
     ebind (authority_account E s event) (\<lambda>account.
     ebind (elift (token_parts s check_id)) (\<lambda>tok.
     let cid = (case as_str check_id of None \<Rightarrow> [] | Some c \<Rightarrow> c) in
     ebind (elift (account_partition E s account (tok_key tok))) (\<lambda>part.
     ebind (e_get E (authority_table s) (check_key part cid)) (\<lambda>row.
     ebind (expect E s part row client_check_id (expected_scope x)
              [''url'', ''sanitized_message'', ''recovery_clarification''] actual_scope) (\<lambda>_.
     ebind (expect E s part row client_check_id (expected_url_version x)
              [''1.0.0-candidate.1'', URL_VERSION] (\<lambda>c. dget_or c ''urlTransportVersion'' (PStr ''1.0.0-candidate.1''))) (\<lambda>_.
     ebind (expect E s part row client_check_id (expected_message_version x)
              [MESSAGE_V1, MESSAGE_V2, MESSAGE_V3] (\<lambda>c. dget_or c ''messageTransportVersion'' (PStr MESSAGE_V1))) (\<lambda>_.
     ebind (expect E s part row client_check_id (expected_recovery_version x)
              [RECOVERY_VERSION] (\<lambda>c. dget c ''recoveryTransportVersion'')) (\<lambda>_.
     case row_of row of
       None \<Rightarrow> close_unadmitted E s account cid client_check_id
     | Some r \<Rightarrow>
         ebind (e_now E) (\<lambda>now.
         ebind (elift (above (dget_or r ''retentionDeadlineEpoch'' (dget_or r ''expiresAt'' (PInt 0))) now)) (\<lambda>live.
         if \<not> live then eret unknown_state else
         ebind (elift (didx r ''payloadHmac'')) (\<lambda>d.
         ebind (verify_token E s account check_id d True) (\<lambda>_.
         eret (receipt_public r)))))))))))))"

end
