(* ===== verification/Settlement.thy ===== *)
theory Settlement
  imports Checks
begin

text \<open>
  Settlement of an admitted check (\<open>_settle\<close>, \<open>settle\<close> and \<open>recover_expired\<close> of \<open>Authority\<close> in
  \<open>shared_check_authority/core.py\<close>): who may settle, which outcome charges, which summary is kept,
  and the one transaction that returns the reservation and finalises the receipt.
\<close>

datatype worker = TrustedWorkerContext pyval | UntrustedCaller

section \<open>The summary a settlement keeps\<close>

abbreviation EVIDENCE_EXPIRED :: exc where "EVIDENCE_EXPIRED \<equiv> AuthorityError ''PROVIDER_EVIDENCE_EXPIRED''"

definition recovery_summary :: "dict \<Rightarrow> pyval \<Rightarrow> pyval \<Rightarrow> bool \<Rightarrow> dict result" where
  "recovery_summary row summary outcome expired_recovery =
     rejected (
       rbind (raise_if (dget row ''recoveryTransportVersion'' \<noteq> PStr RECOVERY_VERSION) ValueError) (\<lambda>_.
       rbind (if expired_recovery then Inr [] else validate_outcome summary (dget row ''clientCheckId'') outcome) (\<lambda>_.
       recovery_usage (dget row ''clientCheckId'') outcome))) SUMMARY_INVALID"

fun any_stale :: "(pyval \<times> pyval) list \<Rightarrow> env \<Rightarrow> bool eff" where
  \<comment> \<open>\<open>any(not current(start, end, self.freshness_now()) for ...)\<close>\<close>
  "any_stale [] E = eret False"
| "any_stale (w # ws) E =
     ebind (e_wall E) (\<lambda>now. ebind (elift (current (fst w) (snd w) now)) (\<lambda>ok.
     if \<not> ok then eret True else any_stale ws E))"

definition current_windows :: "dict \<Rightarrow> (pyval \<times> pyval) list" where
  "current_windows summary =
     map (\<lambda>e. (dget e ''observedAt'', dget e ''validUntil''))
       (filter (\<lambda>e. dget e ''freshness'' = PStr ''current'') (rows (dget summary ''evidence'')))"

definition message_summary :: "env \<Rightarrow> dict \<Rightarrow> pyval \<Rightarrow> pyval \<Rightarrow> dict eff" where
  "message_summary E row summary outcome =
     ecatch
       (let version = dget row ''messageTransportVersion''; client = dget row ''clientCheckId'' in
        ebind (elift (if version = PStr MESSAGE_V3 then validate_v3 summary client outcome
                      else if version = PStr MESSAGE_V2 then validate_v2 summary client outcome
                      else validate_v1 summary client outcome)) (\<lambda>v.
        if version \<noteq> PStr MESSAGE_V3 then eret v else
        ebind (any_stale (current_windows v) E) (\<lambda>stale.
        ebind (eraise_if stale EVIDENCE_EXPIRED) (\<lambda>_. eret v))))
       (\<lambda>e. case e of AuthorityError c \<Rightarrow> eraise e | _ \<Rightarrow> eraise SUMMARY_INVALID)"

definition url_summary :: "env \<Rightarrow> dict \<Rightarrow> pyval \<Rightarrow> pyval \<Rightarrow> dict eff" where
  "url_summary E row summary outcome =
     (let version = dget_or row ''urlTransportVersion'' (PStr ''1.0.0-candidate.1'') in
      ebind (eraise_if (\<not> one_of version [''1.0.0-candidate.1'', URL_VERSION]) SUMMARY_INVALID) (\<lambda>_.
      ebind (elift (attr_get summary ''schemaVersion'')) (\<lambda>schema.
      ebind (eraise_if (\<not> pyeq schema (PInt (if version = PStr URL_VERSION then 2 else 1))) SUMMARY_INVALID) (\<lambda>_.
      ebind (elift (validate_url_summary summary (dget row ''clientCheckId'') outcome)) (\<lambda>v.
      if \<not> (pyeq (dget v ''schemaVersion'') (PInt 2) \<and> dget v ''verdict'' = PStr ''high_risk'') then eret v else
      ebind (e_wall E) (\<lambda>now.
      ebind (elift (current (dget v ''lookupObservedAt'') (dget v ''lookupValidUntil'') now)) (\<lambda>ok.
      ebind (eraise_if (\<not> ok) EVIDENCE_EXPIRED) (\<lambda>_. eret v))))))))"

definition kept_summary :: "env \<Rightarrow> dict \<Rightarrow> pyval \<Rightarrow> pyval \<Rightarrow> bool \<Rightarrow> dict option eff" where
  "kept_summary E row summary outcome expired_recovery =
     (if dget row ''projectionScope'' = PStr ''recovery_clarification'' then
        ebind (elift (recovery_summary row summary outcome expired_recovery)) (\<lambda>v. eret (Some v))
      else if summary = PNone then eret None
      else if dget row ''projectionScope'' = PStr ''sanitized_message'' then
        ebind (message_summary E row summary outcome) (\<lambda>v. eret (Some v))
      else ebind (url_summary E row summary outcome) (\<lambda>v. eret (Some v)))"

definition observed_times :: "dict \<Rightarrow> dict \<Rightarrow> pyval list" where
  "observed_times row summary =
     (if dget row ''projectionScope'' \<noteq> PStr ''sanitized_message'' then [dget summary ''lookupObservedAt'']
      else map (\<lambda>e. dget e ''observedAt'') (rows (dget summary ''evidence'')))"

fun any_future :: "pyval list \<Rightarrow> env \<Rightarrow> bool eff" where
  \<comment> \<open>\<open>any(value is not None and epoch(value) > self.now() for value in observed_times)\<close>\<close>
  "any_future [] E = eret False"
| "any_future (v # vs) E =
     (if v = PNone then any_future vs E else
      ebind (elift (epoch v)) (\<lambda>t. ebind (e_now E) (\<lambda>now.
      if t > now * nanos_per_second then eret True else any_future vs E)))"

definition final_windows :: "dict \<Rightarrow> dict \<Rightarrow> (pyval \<times> pyval) list" where
  "final_windows row summary =
     (if dget row ''projectionScope'' \<noteq> PStr ''sanitized_message'' \<and> pyeq (dget summary ''schemaVersion'') (PInt 2)
         \<and> dget summary ''verdict'' = PStr ''high_risk''
      then [(dget summary ''lookupObservedAt'', dget summary ''lookupValidUntil'')] else current_windows summary)"

section \<open>The transaction\<close>

definition settlement_charge :: "string \<Rightarrow> pyval \<Rightarrow> int" where
  "settlement_charge outcome basis = of_bool (outcome \<in> set CHARGEABLE_OUTCOMES \<and> basis \<noteq> PStr ''complimentary'')"

definition period_release :: "settings \<Rightarrow> string \<Rightarrow> string \<Rightarrow> int \<Rightarrow> pyval \<Rightarrow> pyval \<Rightarrow> action" where
  "period_release s part sk charge revision policy =
     Update (authority_table s) (part, sk) [UAdd ''reservedChecks'' (- 1), UAdd ''usedChecks'' charge]
       (all_of [Cmp CGe ''reservedChecks'' (PInt 1), equals ''grantRevision'' revision, equals ''policyVersion'' policy])"

definition release_actions :: "env \<Rightarrow> settings \<Rightarrow> string \<Rightarrow> dict \<Rightarrow> pyval \<Rightarrow> int \<Rightarrow> action list eff" where
  "release_actions E s part row basis charge =
     (if basis = PStr ''paid'' then
        ebind (period_for_receipt E (authority_table s) part row) (\<lambda>original.
        ebind (e_now E) (\<lambda>now.
        paired_counter_actions E (authority_table s) original (- 1) charge now False))
      else
        ebind (elift (didx row ''periodSK'')) (\<lambda>sk.
        if \<not> truthy sk then eret [] else
        (case as_str sk of
           None \<Rightarrow> eraise (AuthorityError ''TRANSACTION_UNCERTAIN'')
         | Some t \<Rightarrow>
             ebind (elift (didx row ''grantRevision'')) (\<lambda>revision.
             ebind (elift (didx row ''policyVersion'')) (\<lambda>policy.
             eret [period_release s part t charge revision policy])))))"

definition inflight_leave :: "settings \<Rightarrow> string \<Rightarrow> action" where
  "inflight_leave s part =
     Update (authority_table s) (inflight_key part) [UAdd ''activeCount'' (- 1)] (Cmp CGe ''activeCount'' (PInt 1))"

definition whole :: "pyval \<Rightarrow> int result" where   \<comment> \<open>\<open>int(v)\<close> of a number, which truncates\<close>
  "whole v =
     (case v of
        PInt n \<Rightarrow> Inr n
      | PBool b \<Rightarrow> Inr (of_bool b)
      | PDec m e \<Rightarrow> Inr (if 0 \<le> e then m * 10 ^ nat e else sgn m * (\<bar>m\<bar> div 10 ^ nat (- e)))
      | PStr t \<Rightarrow> parse_int t
      | _ \<Rightarrow> Inl TypeError)"

definition settle_condition :: "pyval \<Rightarrow> int \<Rightarrow> bool \<Rightarrow> pyval option \<Rightarrow> cond" where
  "settle_condition token now expired_recovery captured =
     all_of ([equals ''state'' (PStr ''ADMITTED''), equals ''executionToken'' token, equals ''policyVersion'' (PStr OWNER_POLICY),
        Cmp (if expired_recovery then CLe else CGt) ''settleByEpoch'' (PInt now)]
       @ (case captured of None \<Rightarrow> [] | Some m \<Rightarrow> [equals ''operationsReceipt'' m]))"

record receipt_update =
  ru_charge :: int
  ru_receipt :: string
  ru_outcome :: string
  ru_expiry :: pyval
  ru_summary :: pyval
  ru_assessed :: int
  ru_sort :: string
  ru_history :: dict
  ru_governed :: bool
  ru_reason :: "pyval option"

definition receipt_updates :: "receipt_update \<Rightarrow> update list" where
  "receipt_updates u =
     [USet ''state'' (PStr ''SETTLED''), USet ''chargedChecks'' (PInt (ru_charge u)), USet ''receiptId'' (PStr (ru_receipt u)),
      USet ''processingOutcome'' (PStr (ru_outcome u)), USet ''expiresAt'' (ru_expiry u)]
     @ (if ru_governed u then [USet ''retentionDeadlineEpoch'' (ru_expiry u)] else [])
     @ [USet ''resultSummary'' (ru_summary u), USet ''assessmentEpoch'' (PInt (ru_assessed u)),
        USet ''GSI1PK'' (PStr ''V1_EXPIRING''), USet ''GSI1SK'' (PStr (ru_sort u))]
     @ map (\<lambda>k. USet k (dget (ru_history u) k))
         (if ru_history u = [] then [] else [''governedHistory'', ''governedHistoryDigest'', ''GSI2PK'', ''GSI2SK''])
     @ (case ru_reason u of None \<Rightarrow> [] | Some r \<Rightarrow> [USet ''operationsTerminalReasonCode'' r])"

definition history_fields :: "env \<Rightarrow> settings \<Rightarrow> dict \<Rightarrow> pyval \<Rightarrow> string \<Rightarrow> int \<Rightarrow> string \<Rightarrow> (dict \<times> int option) eff" where
  "history_fields E s row summary receipt_id charge outcome =
     (if \<not> governed_history_settlement_enabled s then eret ([], None) else
      ebind (e_now E) (\<lambda>settled_at.
      ebind (elift (rejected (history_settlement E row summary receipt_id charge (PStr outcome) settled_at
                      (receipt_retention_seconds s)) (AuthorityError ''GOVERNED_HISTORY_INVALID''))) (\<lambda>h.
      eret (h, Some settled_at))))"

definition operations_fields ::
  "settings \<Rightarrow> dict \<Rightarrow> string \<Rightarrow> pyval \<Rightarrow> bool \<Rightarrow> (pyval option \<times> pyval option \<times> int option) result" where
  \<comment> \<open>the terminal reason, the captured reference and its deadline, for a row that carries one\<close>
  "operations_fields s row outcome reason expired_recovery =
     (if \<not> dhas row ''operationsReceipt'' then Inr (None, None, None) else
      rejected (
        rbind (if operations_producer_enabled s
               then rbind (Operations.settlement_fields (PDict row) (PStr outcome) reason expired_recovery) (\<lambda>o'. Inr (Some o'))
               else Inr None) (\<lambda>o'.
        rbind (retirement_metadata (PDict row)) (\<lambda>m.
        Inr (map_option snd o', Some (case o' of None \<Rightarrow> PDict m | Some x \<Rightarrow> PDict (fst x)), Some (inum m ''expiresAtEpoch'')))))
        (AuthorityError ''OPERATIONS_RECEIPT_INVALID''))"

definition settle_action ::
  "env \<Rightarrow> settings \<Rightarrow> key \<Rightarrow> dict \<Rightarrow> pyval \<Rightarrow> string \<Rightarrow> pyval \<Rightarrow> string \<Rightarrow> int \<Rightarrow> bool \<Rightarrow> dict \<times> int option \<Rightarrow> pyval \<Rightarrow> action eff" where
  \<comment> \<open>the update of the receipt: its condition, its fields, its place in the expiry index\<close>
  "settle_action E s k row token outcome summary receipt_id charge expired_recovery hist reason =
     ebind (elift (didx row ''retentionDeadlineEpoch'')) (\<lambda>retention.
     let deadline = dget_or (fst hist) ''retentionDeadlineEpoch'' retention in
     ebind (case snd hist of Some t \<Rightarrow> eret t | None \<Rightarrow> e_now E) (\<lambda>now1.
     ebind (case snd hist of Some t \<Rightarrow> eret t | None \<Rightarrow> e_now E) (\<lambda>now2.
     ebind (elift (whole deadline)) (\<lambda>due.
     ebind (elift (operations_fields s row outcome reason expired_recovery)) (\<lambda>ops.
     let place = (case snd (snd ops) of None \<Rightarrow> due | Some t \<Rightarrow> min due t) in
     eret (Update (authority_table s) k
       (receipt_updates \<lparr>ru_charge = charge, ru_receipt = receipt_id, ru_outcome = outcome, ru_expiry = deadline,
          ru_summary = summary, ru_assessed = now2, ru_sort = expiry_sort place k, ru_history = fst hist,
          ru_governed = governed_history_settlement_enabled s, ru_reason = fst ops\<rparr>)
       (settle_condition token now1 expired_recovery (fst (snd ops)))))))))"

section \<open>\<open>_settle\<close>\<close>

definition settle_admitted ::
  "env \<Rightarrow> settings \<Rightarrow> string \<Rightarrow> string \<Rightarrow> key \<Rightarrow> string \<Rightarrow> string \<Rightarrow> dict \<Rightarrow> pyval \<Rightarrow> string \<Rightarrow> bool \<Rightarrow> pyval \<Rightarrow> pyval \<Rightarrow> dict eff" where
  \<comment> \<open>the part of \<open>_settle\<close> for a receipt that is not settled, once its lease was checked\<close>
  "settle_admitted E s account part k key_id check_id row token outcome expired_recovery result_summary reason =
     ebind (elift (didx row ''basis'')) (\<lambda>basis.
     let charge = settlement_charge outcome basis in
     ebind (eraise_if (one_of (dget row ''messageTransportVersion'') [MESSAGE_V2, MESSAGE_V3] \<and> outcome = ''complete''
              \<and> result_summary = PNone) SUMMARY_INVALID) (\<lambda>_.
     ebind (kept_summary E row result_summary (PStr outcome) expired_recovery) (\<lambda>kept.
     let summary = (case kept of None \<Rightarrow> PNone | Some v \<Rightarrow> PDict v) in
     ebind (case kept of None \<Rightarrow> eret False | Some v \<Rightarrow> any_future (observed_times row v) E) (\<lambda>future.
     ebind (eraise_if future SUMMARY_INVALID) (\<lambda>_.
     ebind (elift (mac E s key_id ''receipt'' check_id)) (\<lambda>m.
     let receipt_id = take 32 m in
     ebind (history_fields E s row summary receipt_id charge outcome) (\<lambda>hist.
     ebind (account_conditions E s account) (\<lambda>conds.
     ebind (release_actions E s part row basis charge) (\<lambda>rel.
     ebind (settle_action E s k row token outcome summary receipt_id charge expired_recovery hist reason) (\<lambda>act.
     ebind (case kept of None \<Rightarrow> eret False | Some v \<Rightarrow> any_stale (final_windows row v) E) (\<lambda>stale.
     ebind (eraise_if stale EVIDENCE_EXPIRED) (\<lambda>_.
     ebind (on_authority_error
       (ebind (transact_or_fail E (conds @ rel @ [inflight_leave s part, act])) (\<lambda>_. eret None))
       (\<lambda>e. ebind (e_get E (authority_table s) k) (\<lambda>it.
            case row_of it of
              None \<Rightarrow> eraise e
            | Some latest \<Rightarrow> if dget latest ''state'' = PStr ''SETTLED'' then eret (Some (receipt_public latest)) else eraise e))) (\<lambda>early.
     case early of
       Some r \<Rightarrow> eret r
     | None \<Rightarrow>
         ebind (e_get E (authority_table s) k) (\<lambda>it.
         case it of None \<Rightarrow> eraise TypeError | Some d \<Rightarrow> eret (receipt_public d)))))))))))))))"

definition lease_check :: "env \<Rightarrow> dict \<Rightarrow> bool \<Rightarrow> pyval \<Rightarrow> pyval eff" where
  \<comment> \<open>the execution token to settle with: the lease has lapsed for a recovery, is live for a worker\<close>
  "lease_check E row expired_recovery execution_token =
     ebind (e_now E) (\<lambda>now.
     ebind (elift (above (dget_or row ''settleByEpoch'' (PInt 0)) now)) (\<lambda>live.
     if expired_recovery then
       ebind (eraise_if live (AuthorityError ''OPERATION_PENDING'')) (\<lambda>_.
       elift (didx row ''executionToken''))
     else
       ebind (eraise_if (\<not> live) (AuthorityError ''RECONCILIATION_REQUIRED'')) (\<lambda>_. eret execution_token)))"

definition settle_check ::
  "env \<Rightarrow> settings \<Rightarrow> worker \<Rightarrow> pyval \<Rightarrow> pyval \<Rightarrow> pyval \<Rightarrow> bool \<Rightarrow> pyval \<Rightarrow> pyval \<Rightarrow> dict eff" where
  "settle_check E s w check_id execution_token processing_outcome expired_recovery result_summary reason =
     (case w of
        UntrustedCaller \<Rightarrow> eraise (AuthorityError ''TRUSTED_WORKER_REQUIRED'')
      | TrustedWorkerContext acc \<Rightarrow>
          ebind (assert_account E s acc) (\<lambda>account.
          ebind (elift (token_parts s check_id)) (\<lambda>tok.
          let key_id = tok_key tok; cid = (case as_str check_id of None \<Rightarrow> [] | Some c \<Rightarrow> c) in
          ebind (elift (account_partition E s account key_id)) (\<lambda>part.
          let k = check_key part cid in
          ebind (e_get E (authority_table s) k) (\<lambda>it.
          case row_of it of
            None \<Rightarrow> eraise (AuthorityError ''RECONCILIATION_REQUIRED'')
          | Some row \<Rightarrow>
              ebind (e_now E) (\<lambda>now.
              ebind (elift (above (dget_or row ''retentionDeadlineEpoch'' (dget_or row ''expiresAt'' (PInt 0))) now)) (\<lambda>live.
              ebind (eraise_if (\<not> live) (AuthorityError ''RECONCILIATION_REQUIRED'')) (\<lambda>_.
              ebind (elift (didx row ''payloadHmac'')) (\<lambda>d.
              ebind (verify_token E s account check_id d True) (\<lambda>_.
              ebind (if expired_recovery then eret () else
                     (case as_str execution_token of
                        None \<Rightarrow> eraise (AuthorityError ''EXECUTION_OWNER_MISMATCH'')
                      | Some t \<Rightarrow>
                          ebind (elift (digest_equals (dget_or row ''executionToken'' (PStr [])) t)) (\<lambda>same.
                          eraise_if (\<not> same) (AuthorityError ''EXECUTION_OWNER_MISMATCH'')))) (\<lambda>_.
              case as_str processing_outcome of
                None \<Rightarrow> eraise (AuthorityError ''OUTCOME_UNSUPPORTED'')
              | Some outcome \<Rightarrow>
                  ebind (eraise_if (outcome \<notin> set OUTCOMES) (AuthorityError ''OUTCOME_UNSUPPORTED'')) (\<lambda>_.
                  ebind (elift (didx row ''state'')) (\<lambda>state.
                  if state = PStr ''SETTLED'' then eret (receipt_public row) else
                  ebind (lease_check E row expired_recovery execution_token) (\<lambda>token.
                  settle_admitted E s account part k key_id cid row token outcome expired_recovery result_summary reason))))))))))))))"

definition settle ::
  "env \<Rightarrow> settings \<Rightarrow> worker \<Rightarrow> pyval \<Rightarrow> pyval \<Rightarrow> pyval \<Rightarrow> pyval \<Rightarrow> pyval \<Rightarrow> dict eff" where
  "settle E s w check_id execution_token processing_outcome result_summary reason =
     settle_check E s w check_id execution_token processing_outcome False result_summary reason"

definition recover_expired :: "env \<Rightarrow> settings \<Rightarrow> dict \<Rightarrow> pyval \<Rightarrow> dict eff" where
  "recover_expired E s event check_id =
     ebind (authority_account E s event) (\<lambda>account.
     settle_check E s (TrustedWorkerContext (PStr account)) check_id PNone (PStr ''failed'') True PNone PNone)"

end
