(* ===== verification/Ledger.thy ===== *)
theory Ledger
  imports Settlement
begin

text \<open>
  What the operations of the authority preserve. The locale \<open>authority_writes\<close> is the contract
  between a property of single items and the nine kinds of write the authority ever sends; from it
  every operation is shown once to preserve the property, with other writers interleaved. It is
  interpreted for the bounds of the ledger (\<open>ledger_item\<close>) and for the finality of one settled
  receipt (\<open>final_item\<close>).
\<close>

section \<open>Operations that only read\<close>

context guarded_db
begin

lemma keeps_list [keeps_intros]:
  "(x = [] \<Longrightarrow> keeps Inv m) \<Longrightarrow> (\<And>y ys. x = y # ys \<Longrightarrow> keeps Inv (f y ys)) \<Longrightarrow>
   keeps Inv (case x of [] \<Rightarrow> m | y # ys \<Rightarrow> f y ys)"
  by (cases x) auto

lemma keeps_pyval [keeps_intros]:
  assumes "keeps Inv a" "\<And>x. keeps Inv (b x)" "\<And>x. keeps Inv (c x)" "\<And>x y. keeps Inv (d x y)" "\<And>x. v = PStr x \<Longrightarrow> keeps Inv (e x)"
    "\<And>x. keeps Inv (f x)" "\<And>x. keeps Inv (g x)" "\<And>x. keeps Inv (h x)"
  shows "keeps Inv (case v of PNone \<Rightarrow> a | PBool x \<Rightarrow> b x | PInt x \<Rightarrow> c x | PDec x y \<Rightarrow> d x y | PStr x \<Rightarrow> e x
     | PBytes x \<Rightarrow> f x | PList x \<Rightarrow> g x | PDict x \<Rightarrow> h x)"
  using assms by (cases v) auto

lemma keeps_on_authority_error [keeps_intros]:
  "keeps Inv m \<Longrightarrow> (\<And>e. keeps Inv (h e)) \<Longrightarrow> keeps Inv (on_authority_error m h)"
  unfolding on_authority_error_def by (rule keeps_catch) (auto intro: keeps_pure split: exc.split)

lemma keeps_faults_as [keeps_intros]: "keeps Inv m \<Longrightarrow> keeps Inv (faults_as m e)"
  unfolding faults_as_def by (intro keeps_intros)

lemma keeps_jwt_subject [keeps_intros]: "keeps Inv (jwt_subject E event S)"
  unfolding jwt_subject_def Let_def by (intro keeps_intros)

lemma keeps_assert_account [keeps_intros]: "keeps Inv (assert_account E s a)"
  unfolding assert_account_def by (intro keeps_intros)

lemma keeps_authority_account [keeps_intros]: "keeps Inv (authority_account E s event)"
  unfolding authority_account_def
  by (intro keeps_intros) (auto intro: keeps_intros split: exc.split)

lemma keeps_authority_device [keeps_intros]: "keeps Inv (authority_device E s event account)"
  unfolding authority_device_def Let_def by (intro keeps_intros)

lemma keeps_read_usage [keeps_intros]: "keeps Inv (read_usage E t p now)"
  unfolding read_usage_def by (intro keeps_intros)

lemma keeps_global_for_period [keeps_intros]: "keeps Inv (global_for_period E t p now ae)"
  unfolding global_for_period_def by (intro keeps_intros)

lemma keeps_paired [keeps_intros]: "keeps Inv (paired_counter_actions E t p rd ud now ae)"
  unfolding paired_counter_actions_def by (intro keeps_intros)

lemma keeps_period_for_receipt [keeps_intros]: "keeps Inv (period_for_receipt E t part r)"
  unfolding period_for_receipt_def Let_def by (intro keeps_intros)

lemma keeps_authority_grant [keeps_intros]: "keeps Inv (authority_grant E s part ae)"
  unfolding authority_grant_def Let_def by (intro keeps_intros)

lemma keeps_account_conditions [keeps_intros]: "keeps Inv (account_conditions E s a)"
  unfolding account_conditions_def verified_inventory_def Let_def by (intro keeps_intros)

lemma keeps_authority_conditions [keeps_intros]: "keeps Inv (authority_conditions E s a part d g)"
  unfolding authority_conditions_def by (intro keeps_intros)

lemma keeps_verify_token [keeps_intros]: "keeps Inv (verify_token E s a c d ae)"
  unfolding verify_token_def by (intro keeps_intros)

lemma keeps_verified_prior [keeps_intros]: "keeps Inv (verified_prior E s a p d)"
  unfolding verified_prior_def by (intro keeps_intros)

lemma keeps_candidate_row [keeps_intros]: "keeps Inv (candidate_row E s part row c)"
  unfolding candidate_row_def by (intro keeps_intros)

lemma keeps_expect [keeps_intros]: "keeps Inv (expect E s part row c x al f)"
  unfolding expect_def by (intro keeps_intros)

lemma keeps_client_check_action [keeps_intros]: "keeps Inv (client_check_action E s part c d x)"
  unfolding client_check_action_def by (intro keeps_intros)

lemma keeps_reservation_actions [keeps_intros]: "keeps Inv (reservation_actions E s part g p sk)"
  unfolding reservation_actions_def by (intro keeps_intros)

lemma keeps_admission_fields [keeps_intros]: "keeps Inv (admission_fields E p a d c e)"
  unfolding admission_fields_def Let_def by (intro keeps_intros)

lemma keeps_admission_extras [keeps_intros]: "keeps Inv (admission_extras E s p g q a d)"
  unfolding admission_extras_def by (intro keeps_intros)

lemma keeps_admission_recovery [keeps_intros]: "keeps Inv (admission_recovery E s part k d e)"
  unfolding admission_recovery_def by (intro keeps_intros)

lemma keeps_any_stale [keeps_intros]: "keeps Inv (any_stale ws E)"
  by (induction ws; simp only: any_stale.simps) (intro keeps_intros; assumption)+

lemma keeps_any_future [keeps_intros]: "keeps Inv (any_future vs E)"
  by (induction vs; simp only: any_future.simps) (intro keeps_intros; assumption)+

lemma keeps_message_summary [keeps_intros]: "keeps Inv (message_summary E row x o')"
  unfolding message_summary_def Let_def
  by (intro keeps_intros) (auto intro: keeps_intros split: exc.split)

lemma keeps_url_summary [keeps_intros]: "keeps Inv (url_summary E row x o')"
  unfolding url_summary_def Let_def by (intro keeps_intros)

lemma keeps_kept_summary [keeps_intros]: "keeps Inv (kept_summary E row x o' r)"
  unfolding kept_summary_def by (intro keeps_intros)

lemma keeps_history_fields [keeps_intros]: "keeps Inv (history_fields E s row x r c o')"
  unfolding history_fields_def by (intro keeps_intros)

lemma keeps_release_actions [keeps_intros]: "keeps Inv (release_actions E s part row b c)"
  unfolding release_actions_def by (intro keeps_intros)

lemma keeps_settle_action [keeps_intros]: "keeps Inv (settle_action E s k row tok o' x r c er h reason)"
  unfolding settle_action_def Let_def by (intro keeps_intros)

lemma keeps_lease_check [keeps_intros]: "keeps Inv (lease_check E row er tok)"
  unfolding lease_check_def by (intro keeps_intros)

end


section \<open>The writes of the authority\<close>

definition EXTRA_KEYS :: "string list" where   \<comment> \<open>the optional fields of an admitted receipt\<close>
  "EXTRA_KEYS = [''governedHistoryAcceptedAtEpoch'', ''governedHistorySourceType'', ''governedHistoryResultType'',
     ''operationsReceipt'', ''purchaseUsageKey'', ''accessUntilEpoch'', ''urlTransportVersion'', ''messageTransportVersion'',
     ''recoveryTransportVersion'']"

definition extras_ok :: "dict \<Rightarrow> bool" where
  "extras_ok d = list_all (\<lambda>kv. fst kv \<in> set EXTRA_KEYS) d"

definition counters_within :: "dict \<Rightarrow> int \<Rightarrow> int \<Rightarrow> int \<Rightarrow> bool" where
  \<comment> \<open>the row counts within \<open>limit\<close> now and after the deltas\<close>
  "counters_within d limit rd ud =
     (\<exists>u r. integral (dget d ''usedChecks'') = Some u \<and> integral (dget d ''reservedChecks'') = Some r
        \<and> 0 \<le> u + ud \<and> 0 \<le> r + rd \<and> u + ud + (r + rd) \<le> limit)"

definition paid_row :: "dict \<Rightarrow> bool" where "paid_row d = (integral (dget d ''limit'') = Some PAID_COMPLETED_CHECKS)"

definition final_charge :: "receipt_update \<Rightarrow> bool" where
  "final_charge u = (ru_outcome u \<in> set OUTCOMES \<and> ru_charge u \<in> {0, 1} \<and> (ru_charge u = 1 \<longrightarrow> ru_outcome u = ''complete''))"

fun is_check :: "action \<Rightarrow> bool" where
  "is_check (ConditionCheck t k c) = True"
| "is_check _ = False"

definition checks_only :: "action list \<Rightarrow> bool" where
  "checks_only acts = list_all is_check acts"

lemma checks_only_safe: "checks_only acts \<Longrightarrow> list_all (item_safe P) acts"
  unfolding checks_only_def list_all_iff by (metis is_check.elims(2) item_safe_check)

lemma account_conditions_checks: "yields (account_conditions E s a) acts \<Longrightarrow> checks_only acts"
  by (auto simp: account_conditions_def inventory_condition_def checks_only_def dest!: yields_elims)

lemma authority_conditions_checks: "yields (authority_conditions E s a part d g) acts \<Longrightarrow> checks_only acts"
  by (auto simp: authority_conditions_def checks_only_def dest!: yields_bind account_conditions_checks)

lemma client_check_checks: "yields (client_check_action E s part c d x) acts \<Longrightarrow> checks_only acts"
  by (auto simp: client_check_action_def checks_only_def preparation_check_def dest!: yields_bind split: option.splits)

lemma validate_period_limit: "validate_period (PDict d) = Inr p \<Longrightarrow> paid_row d"
  by (auto simp: validate_period_def rbind_Inr_iff paid_row_def)

lemma usage_ok_within:
  assumes "usage_ok p d" "0 \<le> inum d ''usedChecks'' + ud" "0 \<le> inum d ''reservedChecks'' + rd"
    "inum d ''usedChecks'' + ud + (inum d ''reservedChecks'' + rd) \<le> PAID_COMPLETED_CHECKS"
  shows "paid_row d" "counters_within d PAID_COMPLETED_CHECKS rd ud"
  using assms usage_okD(4,5) [OF assms(1)] by (auto simp: usage_ok_def paid_row_def counters_within_def)

lemma paired_yields:
  assumes "yields (paired_counter_actions E t period rd ud now False) acts"
  obtains g where "acts = [local_counter_action t period rd ud, local_counter_action t g rd ud]"
    "paid_row period" "paid_row g" "counters_within period PAID_COMPLETED_CHECKS rd ud" "counters_within g PAID_COMPLETED_CHECKS rd ud"
proof -
  from assms obtain w w' where run: "paired_counter_actions E t period rd ud now False w = (Inr acts, w')"
    by (auto simp: yields_def)
  then obtain r w1 where r: "global_for_period E t period now False w = (Inr r, w1)"
    unfolding paired_counter_actions_def ebind_Inr by blast
  from r obtain p g where live: "r = Some g" "validate_period (PDict period) = Inr p" "usage_ok p g"
      "inum g ''usedChecks'' = inum period ''usedChecks''" "inum g ''reservedChecks'' = inum period ''reservedChecks''"
    by (cases rule: global_for_period_yields) auto
  from run r live(1) obtain act where act: "counter_action t g rd ud now = Inr act"
      "acts = [local_counter_action t period rd ud, act]"
    by (auto simp: paired_counter_actions_def ebind_Inr)
  note ca = counter_action_Inr [OF act(1)]
  have nn: "0 \<le> inum g ''usedChecks'' + ud" using usage_okD(1) [OF live(3)] ca(3) by simp
  have "integral (dget period k) = Some (inum period k)" if "k \<in> {''usedChecks'', ''reservedChecks''}" for k
    by (rule validate_period_Inr(2) [OF live(2)]) (use that in auto)
  then have "counters_within period PAID_COMPLETED_CHECKS rd ud"
    using nn ca(4,5) live(4,5) by (simp add: counters_within_def)
  then show thesis
    by (rule that [OF act(2) [unfolded ca(1)] validate_period_limit [OF live(2)] usage_ok_within(1) [OF live(3) nn ca(4,5)] _
          usage_ok_within(2) [OF live(3) nn ca(4,5)]])
qed

lemma grant_yields:
  assumes "yields (authority_grant E s part False) (g, Some q)" "dget g ''basis'' \<noteq> PStr ''paid''"
  shows "counters_within q TRIAL_COMPLETED_CHECKS 1 0"
proof -
  from assms(1) obtain now where "period_ok g q now"
      and "inum q ''usedChecks'' + inum q ''reservedChecks'' < period_limit g"
    unfolding authority_grant_def Let_def
    by (fastforce dest!: yields_bind split: if_splits option.splits)
  with assms(2) show ?thesis
    by (auto simp: period_ok_def period_limit_def counters_within_def inum_def split: option.splits)
qed

lemma admission_metadata_extras: "admission_metadata p a = Inr d \<Longrightarrow> extras_ok d"
  by (auto simp: admission_metadata_def Let_def rbind_Inr_iff extras_ok_def EXTRA_KEYS_def split: option.splits if_splits)

lemma extras_ok_simps: "extras_ok []" "extras_ok (d @ e) \<longleftrightarrow> extras_ok d \<and> extras_ok e"
  by (simp_all add: extras_ok_def)

lemma admission_fields_extras: "yields (faults_as (admission_fields E p a d c e) x) f \<Longrightarrow> extras_ok f"
  by (auto simp: faults_as_def admission_fields_def Let_def extras_ok_def EXTRA_KEYS_def dest!: yields_catch yields_bind)

lemma paid_fields_extras: "paid_fields g q = Inr d \<Longrightarrow> extras_ok d"
  by (auto simp: paid_fields_def rbind_Inr_iff extras_ok_def EXTRA_KEYS_def split: if_splits option.splits)

lemma copied_versions_extras: "extras_ok (copied_versions p)"
  by (auto simp: copied_versions_def extras_ok_def EXTRA_KEYS_def)

lemma admission_extras_ok:
  assumes "yields (admission_extras E s p g q a d) ex"
  shows "extras_ok ex"
proof -
  from assms obtain h o' pf where
      h: "(if governed_history_settlement_enabled s then rejected (admission_metadata p (PInt a)) INPUT_REJECTED else Inr []) = Inr h"
    and o': "yields (if operations_producer_enabled s then faults_as (admission_fields E p (PInt a) (PInt d) (dget g ''basis'')
        (PStr (operations_environment s))) (AuthorityError ''OPERATIONS_RECEIPT_INVALID'') else eret []) o'"
    and pf: "paid_fields g q = Inr pf" and ex: "ex = h @ o' @ pf @ copied_versions (payload_fields p)"
    unfolding admission_extras_def by (fastforce dest!: yields_bind)
  from h have "extras_ok h"
    by (auto simp: rejected_def extras_ok_simps admission_metadata_extras split: if_splits sum.splits)
  moreover from o' have "extras_ok o'"
    by (auto simp: extras_ok_simps admission_fields_extras split: if_splits)
  ultimately show ?thesis
    using pf by (simp add: ex extras_ok_simps paid_fields_extras copied_versions_extras)
qed

lemma settlement_charge_final: "o' \<in> set OUTCOMES \<Longrightarrow> ru_outcome u = o' \<Longrightarrow> ru_charge u = settlement_charge o' b \<Longrightarrow> final_charge u"
  by (auto simp: final_charge_def settlement_charge_def CHARGEABLE_OUTCOMES_def)

lemma settlement_charge_01: "settlement_charge o' b \<in> {0, 1}"
  by (simp add: settlement_charge_def)

locale authority_writes = guarded_items E P for E and P +
  fixes s :: settings
  assumes attempt_safe: "item_safe P (attempt_action s part window)"
    and trial_safe: "counters_within period TRIAL_COMPLETED_CHECKS 1 0 \<Longrightarrow> item_safe P (trial_reservation s part sk period now)"
    and counter_safe: "paid_row row \<Longrightarrow> counters_within row PAID_COMPLETED_CHECKS rd ud \<Longrightarrow>
      item_safe P (local_counter_action (authority_table s) row rd ud)"
    and release_safe: "charge \<in> {0, 1} \<Longrightarrow> item_safe P (period_release s part sk charge revision policy)"
    and inflight_safe: "item_safe P (inflight_enter s part)" "item_safe P (inflight_leave s part)"
    and preparation_safe: "item_safe P (Put (authority_table s) (preparation_row s k digest cid client p n1 n2) (NotExists ''PK''))"
    and admission_safe: "extras_ok extras \<Longrightarrow> item_safe P (Put (authority_table s)
      (dmerge (admission_row s k cid digest client scope grant q skv token t1 t2 accepted) extras) (NotExists ''PK''))"
    and close_safe: "item_safe P (closed_preparation s k prep proof_id client now)"
    and settle_safe: "final_charge u \<Longrightarrow>
      item_safe P (Update (authority_table s) k (receipt_updates u) (settle_condition proof_token now er captured))"
begin

lemma keeps_transact_or_fail [keeps_intros]:
  "list_all (item_safe P) acts \<Longrightarrow> keeps (all_items P) (transact_or_fail E acts)"
  unfolding transact_or_fail_def by (intro keeps_intros)

lemma keeps_count_attempt [keeps_intros]: "keeps (all_items P) (count_attempt E s a part)"
  unfolding count_attempt_def Let_def
  by (intro keeps_intros) (simp_all add: attempt_safe checks_only_safe account_conditions_checks)

lemma keeps_mint_preparation [keeps_intros]: "keeps (all_items P) (mint_preparation E s a k d g dg c p)"
  unfolding mint_preparation_def Let_def
  by (intro keeps_intros) (simp_all add: preparation_safe checks_only_safe authority_conditions_checks)

lemma keeps_prepare [keeps_intros]: "keeps (all_items P) (prepare E s I event payload pid c b)"
  unfolding prepare_def Let_def by (intro keeps_intros)

lemma keeps_close_unadmitted [keeps_intros]: "keeps (all_items P) (close_unadmitted E s a pr c)"
  unfolding close_unadmitted_def Let_def
  by (intro keeps_intros) (simp_all add: close_safe checks_only_safe account_conditions_checks)

lemma keeps_reconcile [keeps_intros]: "keeps (all_items P) (reconcile E s event c cl x)"
  unfolding reconcile_def Let_def by (intro keeps_intros)

lemma reservation_safe:
  assumes "yields (reservation_actions E s part g q sk) acts"
    and "\<And>p. q = Some p \<Longrightarrow> dget g ''basis'' \<noteq> PStr ''paid'' \<Longrightarrow> counters_within p TRIAL_COMPLETED_CHECKS 1 0"
  shows "list_all (item_safe P) acts"
proof (cases q)
  case None
  with assms(1) show ?thesis by (simp add: reservation_actions_def)
next
  case (Some p)
  show ?thesis
  proof (cases "dget g ''basis'' = PStr ''paid''")
    case True
    with assms(1) Some obtain now where "yields (paired_counter_actions E (authority_table s) p 1 0 now False) acts"
      by (auto simp: reservation_actions_def dest!: yields_bind)
    then show ?thesis by (rule paired_yields) (simp add: counter_safe)
  next
    case False
    with assms(1) Some obtain now t where "acts = [trial_reservation s part t p now]"
      by (auto simp: reservation_actions_def dest!: yields_bind split: option.splits)
    with assms(2) [OF Some False] show ?thesis by (simp add: trial_safe)
  qed
qed

lemma keeps_admit_new:
  assumes "\<And>p. q = Some p \<Longrightarrow> dget g ''basis'' \<noteq> PStr ''paid'' \<Longrightarrow> counters_within p TRIAL_COMPLETED_CHECKS 1 0"
  shows "keeps (all_items P) (admit_new E s a part dev g q payload cid dg c)"
  unfolding admit_new_def Let_def
  by (intro keeps_intros)
    (simp_all add: checks_only_safe authority_conditions_checks client_check_checks reservation_safe [OF _ assms]
      inflight_safe admission_safe admission_extras_ok)

lemma keeps_admit [keeps_intros]: "keeps (all_items P) (admit E s I event payload c cl b)"
  unfolding admit_def Let_def
  by (intro keeps_intros keeps_admit_new) (metis grant_yields prod.collapse)

lemma release_actions_safe:
  assumes "yields (release_actions E s part row b (settlement_charge o' b)) acts"
  shows "list_all (item_safe P) acts"
proof (cases "b = PStr ''paid''")
  case True
  with assms obtain q now where "yields (paired_counter_actions E (authority_table s) q (- 1) (settlement_charge o' b) now False) acts"
    by (auto simp: release_actions_def dest!: yields_bind)
  then show ?thesis by (rule paired_yields) (simp add: counter_safe)
next
  case False
  with assms obtain sk where "acts = [] \<or> (\<exists>t rv pl. acts = [period_release s part t (settlement_charge o' b) rv pl])"
    unfolding release_actions_def by (fastforce dest!: yields_bind split: if_splits option.splits)
  then show ?thesis using release_safe [OF settlement_charge_01] by auto
qed

lemma settle_action_safe:
  assumes "yields (settle_action E s k row tok o' x r (settlement_charge o' b) er h reason) act" "o' \<in> set OUTCOMES"
  shows "item_safe P act"
proof -
  from assms(1) obtain u now cap where "act = Update (authority_table s) k (receipt_updates u) (settle_condition tok now er cap)"
      "ru_outcome u = o'" "ru_charge u = settlement_charge o' b"
    unfolding settle_action_def Let_def by (fastforce dest!: yields_bind)
  with settle_safe settlement_charge_final [OF assms(2)] show ?thesis by blast
qed

lemma keeps_settle_admitted:
  assumes "o' \<in> set OUTCOMES"
  shows "keeps (all_items P) (settle_admitted E s a part k kid cid row tok o' er x reason)"
  unfolding settle_admitted_def Let_def
  by (intro keeps_intros)
    (simp_all add: checks_only_safe account_conditions_checks release_actions_safe settle_action_safe [OF _ assms] inflight_safe)

lemma keeps_settle_check [keeps_intros]: "keeps (all_items P) (settle_check E s w c tok o' er x reason)"
  unfolding settle_check_def Let_def
  by (cases w; simp only: worker.case; intro keeps_intros keeps_settle_admitted) simp_all

lemma keeps_settle [keeps_intros]: "keeps (all_items P) (settle E s w c tok o' x reason)"
  unfolding settle_def by (intro keeps_intros)

lemma keeps_recover_expired [keeps_intros]: "keeps (all_items P) (recover_expired E s event c)"
  unfolding recover_expired_def by (intro keeps_intros)

end

section \<open>The bounds of the ledger\<close>

definition within :: "dict \<Rightarrow> string \<Rightarrow> int \<Rightarrow> bool" where   \<comment> \<open>an integer between 0 and \<open>cap\<close>\<close>
  "within d k cap = (\<exists>n. integral (dget d k) = Some n \<and> 0 \<le> n \<and> n \<le> cap)"

definition allowance_row :: "dict \<Rightarrow> bool" where
  "allowance_row d = (\<exists>l \<in> {TRIAL_COMPLETED_CHECKS, PAID_COMPLETED_CHECKS}.
     integral (dget d ''limit'') = Some l \<and> counters_within d l 0 0)"

definition settled_row :: "dict \<Rightarrow> bool" where
  "settled_row d = ((\<exists>o' \<in> set OUTCOMES. dget d ''processingOutcome'' = PStr o')
     \<and> (dget d ''chargedChecks'' = PInt 0 \<or> dget d ''chargedChecks'' = PInt 1 \<and> dget d ''processingOutcome'' = PStr ''complete''))"

definition counted_ok :: "dict \<Rightarrow> bool" where
  "counted_ok d = (dhas d ''usedChecks'' \<or> dhas d ''reservedChecks'' \<longrightarrow> allowance_row d)"

definition capped :: "string \<Rightarrow> int \<Rightarrow> dict \<Rightarrow> bool" where
  "capped k cap d = (dhas d k \<longrightarrow> within d k cap)"

definition settled_ok :: "dict \<Rightarrow> bool" where
  "settled_ok d = (dget d ''state'' = PStr ''SETTLED'' \<longrightarrow> settled_row d)"

definition ledger_row :: "settings \<Rightarrow> dict \<Rightarrow> bool" where
  "ledger_row s d = (counted_ok d \<and> capped ''activeCount'' (max_inflight s) d
     \<and> capped ''attempts'' (attempts_per_window s) d \<and> settled_ok d)"

definition agree :: "string list \<Rightarrow> dict \<Rightarrow> dict \<Rightarrow> bool" where
  "agree ks d e = list_all (\<lambda>k. dget d k = dget e k \<and> dhas d k = dhas e k) ks"

lemma ledger_parts:
  "agree [''usedChecks'', ''reservedChecks'', ''limit''] d e \<Longrightarrow> counted_ok d = counted_ok e"
  "agree [k] d e \<Longrightarrow> capped k cap d = capped k cap e"
  "agree [''state'', ''processingOutcome'', ''chargedChecks''] d e \<Longrightarrow> settled_ok d = settled_ok e"
  by (simp_all add: agree_def counted_ok_def allowance_row_def counters_within_def capped_def within_def settled_ok_def settled_row_def)

lemma ledger_row_step:
  assumes "ledger_row s d"
    and "agree [''usedChecks'', ''reservedChecks'', ''limit''] e d \<or> counted_ok e"
    and "agree [''activeCount''] e d \<or> capped ''activeCount'' (max_inflight s) e"
    and "agree [''attempts''] e d \<or> capped ''attempts'' (attempts_per_window s) e"
    and "agree [''state'', ''processingOutcome'', ''chargedChecks''] e d \<or> settled_ok e"
  shows "ledger_row s e"
  using assms ledger_parts(1,3) [of e d] ledger_parts(2) [of _ e d] unfolding ledger_row_def by blast

definition ledger_item :: "settings \<Rightarrow> item_prop" where
  "ledger_item s t k it = (validate_settings s \<longrightarrow> t = authority_table s \<longrightarrow> (\<forall>d. it = Some d \<longrightarrow> ledger_row s d))"

lemma num_less_at:
  assumes "j \<le> snd x" "j \<le> snd y"
  shows "num_less x y \<longleftrightarrow> scaled j x < scaled j y"
proof -
  let ?k = "min (snd x) (snd y)"
  have "scaled j x = scaled ?k x * 10 ^ nat (?k - j)" "scaled j y = scaled ?k y * 10 ^ nat (?k - j)"
    by (rule scaled_shift; use assms in simp)+
  then show ?thesis by (simp add: num_less_def Let_def)
qed

lemma num_less_cong:
  assumes "num_eq x y"
  shows "num_less x z \<longleftrightarrow> num_less y z" "num_less z x \<longleftrightarrow> num_less z y"
proof -
  define j where "j = min (snd x) (min (snd y) (snd z))"
  have "scaled j x = scaled j y" using assms num_eq_at [of j x y] by (simp add: j_def)
  moreover have "num_less x z \<longleftrightarrow> scaled j x < scaled j z" "num_less y z \<longleftrightarrow> scaled j y < scaled j z"
    "num_less z x \<longleftrightarrow> scaled j z < scaled j x" "num_less z y \<longleftrightarrow> scaled j z < scaled j y"
    by (rule num_less_at; simp add: j_def)+
  ultimately show "num_less x z \<longleftrightarrow> num_less y z" "num_less z x \<longleftrightarrow> num_less z y" by simp_all
qed

lemma num_cmp_integral:
  assumes "integral v = Some n"
  shows "num_cmp CLt v (PInt m) \<longleftrightarrow> n < m" "num_cmp CLe v (PInt m) \<longleftrightarrow> n \<le> m"
    "num_cmp CGt v (PInt m) \<longleftrightarrow> m < n" "num_cmp CGe v (PInt m) \<longleftrightarrow> m \<le> n"
proof -
  from assms obtain x where v: "\<not> is_bool v" "pynum v = Some x" "num_eq x (n, 0)" by (auto simp: integral_Some_iff)
  note less = num_less_cong [OF v(3)]
  show "num_cmp CLt v (PInt m) \<longleftrightarrow> n < m" "num_cmp CLe v (PInt m) \<longleftrightarrow> n \<le> m"
    "num_cmp CGt v (PInt m) \<longleftrightarrow> m < n" "num_cmp CGe v (PInt m) \<longleftrightarrow> m \<le> n"
    using v(1,2) by (auto simp: num_cmp_def less)
qed

lemma cond_integral:
  assumes "integral (dget d a) = Some n"
  shows "cond_holds (Cmp CLt a (PInt m)) d \<longleftrightarrow> n < m" "cond_holds (Cmp CLe a (PInt m)) d \<longleftrightarrow> n \<le> m"
    "cond_holds (Cmp CGt a (PInt m)) d \<longleftrightarrow> m < n" "cond_holds (Cmp CGe a (PInt m)) d \<longleftrightarrow> m \<le> n"
  using dget_integral_has [OF assms] by (auto simp: num_cmp_integral)

lemma cond_present: "cond_holds (Cmp op a v) d \<Longrightarrow> op \<noteq> CNe \<Longrightarrow> dhas d a"
  by (auto simp: dhas_def split: option.splits)

lemma cond_equal: "cond_holds (equals a v) d \<Longrightarrow> dhas d a \<and> aveq (dget d a) v"
  by (auto simp: equals_def dhas_def dget_def split: option.splits)

lemma dget_uadd:
  "dget (apply_update (UAdd a n) d) k =
     (if a = k then (if dhas d a then add_num (dget d a) n else PInt n) else dget d k)"
  by (auto simp: dget_def dhas_def update_conv' split: option.splits)

lemma dhas_update [simp]:
  "dhas (apply_update (UAdd a n) d) k \<longleftrightarrow> a = k \<or> dhas d k" "dhas (apply_update (USet a v) d) k \<longleftrightarrow> a = k \<or> dhas d k"
  "dhas (apply_update (URemove a) d) k \<longleftrightarrow> a \<noteq> k \<and> dhas d k"
  "dget (apply_update (USet a v) d) k = (if a = k then v else dget d k)"
  "dget (apply_update (URemove a) d) k = (if a = k then PNone else dget d k)"
  by simp_all

declare apply_update.simps [simp del]

lemma integral_uadd:
  "integral (dget d a) = Some m \<Longrightarrow> integral (dget (apply_update (UAdd a n) d) a) = Some (m + n)"
  using integral_has [of d a m] by (simp add: dget_uadd add_num_integral)

text \<open>The item that an update starts from: the stored one, or one with the key alone.\<close>

definition update_base :: "key \<Rightarrow> dict option \<Rightarrow> dict" where
  "update_base k it = (case it of None \<Rightarrow> key_item k | Some d \<Rightarrow> d)"

lemma after_update: "after (Update t k us c) it = Some (fold apply_update us (update_base k it))"
  by (simp add: update_base_def)

lemma update_base_fields:
  "x \<noteq> ''PK'' \<Longrightarrow> x \<noteq> ''SK'' \<Longrightarrow> dget (update_base k it) x = dget (contents it) x"
  "x \<noteq> ''PK'' \<Longrightarrow> x \<noteq> ''SK'' \<Longrightarrow> dhas (update_base k it) x = dhas (contents it) x"
  by (auto simp: update_base_def contents_def key_item_def split: option.splits)

lemma ledger_update:
  assumes "\<And>it. \<lbrakk>validate_settings s; \<And>d. it = Some d \<Longrightarrow> ledger_row s d; cond_holds c (contents it);
      ledger_row s (update_base k it)\<rbrakk> \<Longrightarrow> ledger_row s (fold apply_update us (update_base k it))"
  shows "item_safe (ledger_item s) (Update (authority_table s) k us c)"
  unfolding item_safe_def ledger_item_def
proof (intro allI impI)
  fix it :: "dict option" and d
  assume a: "validate_settings s \<longrightarrow> fst (target (Update (authority_table s) k us c)) = authority_table s \<longrightarrow> (\<forall>d. it = Some d \<longrightarrow> ledger_row s d)"
    "cond_holds (guard (Update (authority_table s) k us c)) (contents it)" "validate_settings s"
    "after (Update (authority_table s) k us c) it = Some d"
  then have r: "\<And>d. it = Some d \<Longrightarrow> ledger_row s d" by simp
  have "ledger_row s (update_base k it)"
  proof (cases it)
    case None
    then show ?thesis by (simp add: update_base_def ledger_row_def key_item_def counted_ok_def capped_def settled_ok_def)
  next
    case (Some d)
    with r show ?thesis by (simp add: update_base_def)
  qed
  with assms [of it] a r show "ledger_row s d" by (simp add: after_update del: after.simps)
qed

lemma capped_increment:
  assumes "capped k cap d" "cond_holds (Or (NotExists k) (Cmp CLt k (PInt cap))) d" "1 \<le> cap"
    "dget e k = dget d k" "dhas e k = dhas d k"
  shows "capped k cap (apply_update (UAdd k 1) e)"
proof (cases "dhas d k")
  case True
  with assms(1) obtain n where n: "integral (dget d k) = Some n" "0 \<le> n" by (auto simp: capped_def within_def)
  with assms(2) True have "n < cap" by (simp add: cond_integral del: cond_holds.simps(4))
  with n assms(4) show ?thesis by (simp add: capped_def within_def integral_uadd)
next
  case False
  with assms(3,5) show ?thesis by (simp add: capped_def within_def dget_uadd)
qed

lemma capped_base:
  "x \<noteq> ''PK'' \<Longrightarrow> x \<noteq> ''SK'' \<Longrightarrow> capped x cap (contents it) = capped x cap (update_base k it)"
  by (simp add: capped_def within_def update_base_fields)

lemma ledger_attempt: "item_safe (ledger_item s) (attempt_action s part window)"
  unfolding attempt_action_def Let_def
proof (rule ledger_update)
  fix it :: "dict option"
  define k where "k = (part, ''ATTEMPT#'' @ show_int window)"
  define d where "d = update_base k it"
  define e where "e = fold apply_update
     [USet ''expiresAt'' (PInt (window + counter_retention_seconds s)), USet ''recordType'' (PStr ''V1_ATTEMPT_COUNTER''), USet ''GSI1PK'' (PStr ''V1_EXPIRING''),
      USet ''GSI1SK'' (PStr (expiry_sort (window + counter_retention_seconds s) k))] d"
  assume v: "validate_settings s" and row: "ledger_row s (update_base (part, ''ATTEMPT#'' @ show_int window) it)"
    and c: "cond_holds (Or (NotExists ''attempts'') (Cmp CLt ''attempts'' (PInt (attempts_per_window s)))) (contents it)"
  have "capped ''attempts'' (attempts_per_window s) (apply_update (UAdd ''attempts'' 1) e)"
    by (rule capped_increment [OF _ c])
      (use row v in \<open>simp_all add: capped_base [of _ _ it k] ledger_row_def k_def validate_settings_def e_def d_def update_base_fields\<close>)
  then have "ledger_row s (apply_update (UAdd ''attempts'' 1) e)"
    by (intro ledger_row_step [OF row [folded k_def, folded d_def]]) (simp_all add: agree_def e_def dget_uadd)
  then show "ledger_row s (fold apply_update
     [USet ''expiresAt'' (PInt (window + counter_retention_seconds s)), USet ''recordType'' (PStr ''V1_ATTEMPT_COUNTER''), USet ''GSI1PK'' (PStr ''V1_EXPIRING''),
      USet ''GSI1SK'' (PStr (expiry_sort (window + counter_retention_seconds s) (part, ''ATTEMPT#'' @ show_int window))), UAdd ''attempts'' 1]
      (update_base (part, ''ATTEMPT#'' @ show_int window) it))"
    unfolding k_def [symmetric] d_def [symmetric] by (simp add: e_def)
qed

lemma ledger_enter: "item_safe (ledger_item s) (inflight_enter s part)"
  unfolding inflight_enter_def
proof (rule ledger_update)
  fix it :: "dict option"
  define d where "d = update_base (inflight_key part) it"
  define e where "e = apply_update (URemove ''expiresAt'') d"
  assume v: "validate_settings s" and row: "ledger_row s (update_base (inflight_key part) it)"
    and c: "cond_holds (Or (NotExists ''activeCount'') (Cmp CLt ''activeCount'' (PInt (max_inflight s)))) (contents it)"
  have "capped ''activeCount'' (max_inflight s) (apply_update (UAdd ''activeCount'' 1) e)"
    by (rule capped_increment [OF _ c])
      (use row v in \<open>simp_all add: capped_base [of _ _ it "inflight_key part"] ledger_row_def validate_settings_def e_def d_def update_base_fields\<close>)
  then have "ledger_row s (apply_update (UAdd ''activeCount'' 1) e)"
    by (intro ledger_row_step [OF row [folded d_def]]) (simp_all add: agree_def e_def dget_uadd)
  then show "ledger_row s (fold apply_update [URemove ''expiresAt'', UAdd ''activeCount'' 1] (update_base (inflight_key part) it))"
    unfolding d_def [symmetric] by (simp add: e_def)
qed

lemma ledger_leave: "item_safe (ledger_item s) (inflight_leave s part)"
  unfolding inflight_leave_def
proof (rule ledger_update)
  fix it :: "dict option"
  define d where "d = update_base (inflight_key part) it"
  assume row: "ledger_row s (update_base (inflight_key part) it)"
    and c: "cond_holds (Cmp CGe ''activeCount'' (PInt 1)) (contents it)"
  from cond_present [OF c] have "dhas d ''activeCount''" by (simp add: d_def update_base_fields)
  with row obtain n where n: "integral (dget d ''activeCount'') = Some n" "n \<le> max_inflight s"
    by (auto simp: ledger_row_def capped_def within_def d_def)
  then have "1 \<le> n" using c by (simp add: d_def update_base_fields cond_integral del: cond_holds.simps(4))
  with n have "capped ''activeCount'' (max_inflight s) (apply_update (UAdd ''activeCount'' (- 1)) d)"
    by (simp add: capped_def within_def integral_uadd)
  then have "ledger_row s (apply_update (UAdd ''activeCount'' (- 1)) d)"
    by (intro ledger_row_step [OF row [folded d_def]]) (simp_all add: agree_def dget_uadd)
  then show "ledger_row s (fold apply_update [UAdd ''activeCount'' (- 1)] (update_base (inflight_key part) it))"
    unfolding d_def [symmetric] by simp
qed

lemma counted_step:
  assumes "ledger_row s d" "integral (dget e ''usedChecks'') = Some u" "integral (dget e ''reservedChecks'') = Some r"
    "integral (dget d ''limit'') = Some l" "l \<in> {TRIAL_COMPLETED_CHECKS, PAID_COMPLETED_CHECKS}" "0 \<le> u" "0 \<le> r" "u + r \<le> l"
    "agree [''limit'', ''activeCount'', ''attempts'', ''state'', ''processingOutcome'', ''chargedChecks''] e d"
  shows "ledger_row s e"
  using assms(9)
  by (intro ledger_row_step [OF assms(1)])
    (use assms(2-8) in \<open>auto simp: agree_def counted_ok_def allowance_row_def counters_within_def\<close>)

lemma counted_rowE:
  assumes "ledger_row s d" "dhas d ''usedChecks'' \<or> dhas d ''reservedChecks''"
  obtains l u r where "l \<in> {TRIAL_COMPLETED_CHECKS, PAID_COMPLETED_CHECKS}" "integral (dget d ''limit'') = Some l"
    "integral (dget d ''usedChecks'') = Some u" "integral (dget d ''reservedChecks'') = Some r" "0 \<le> u" "0 \<le> r" "u + r \<le> l"
  using assms by (auto simp: ledger_row_def counted_ok_def allowance_row_def counters_within_def)

lemma integral_uadd_both:
  assumes "integral (dget d ''usedChecks'') = Some u" "integral (dget d ''reservedChecks'') = Some r"
  shows "integral (dget (apply_update (UAdd ''usedChecks'' ud) (apply_update (UAdd ''reservedChecks'' rd) d)) ''usedChecks'') = Some (u + ud)"
    "integral (dget (apply_update (UAdd ''usedChecks'' ud) (apply_update (UAdd ''reservedChecks'' rd) d)) ''reservedChecks'') = Some (r + rd)"
  using integral_uadd [of "apply_update (UAdd ''reservedChecks'' rd) d" "''usedChecks''" u ud] assms integral_uadd [OF assms(2), of rd]
  by (simp_all add: dget_uadd)

lemma ledger_trial:
  assumes "counters_within period TRIAL_COMPLETED_CHECKS 1 0"
  shows "item_safe (ledger_item s) (trial_reservation s part sk period now)"
  unfolding trial_reservation_def
proof (rule ledger_update)
  fix it :: "dict option"
  define d where "d = update_base (part, sk) it"
  assume row: "ledger_row s (update_base (part, sk) it)"
    and c: "cond_holds (all_of [equals ''usedChecks'' (dget period ''usedChecks''), equals ''reservedChecks'' (dget period ''reservedChecks''),
      equals ''grantRevision'' (dget period ''grantRevision''), equals ''policyVersion'' (PStr OWNER_POLICY), Cmp CGt ''endEpoch'' (PInt now)]) (contents it)"
  note row = row [folded d_def]
  from c have "cond_holds (equals ''usedChecks'' (dget period ''usedChecks'')) (contents it)"
      "cond_holds (equals ''reservedChecks'' (dget period ''reservedChecks'')) (contents it)" by simp_all
  then have eq: "dhas d ''usedChecks''" "integral (dget d ''usedChecks'') = integral (dget period ''usedChecks'')"
      "integral (dget d ''reservedChecks'') = integral (dget period ''reservedChecks'')"
    by (auto simp: d_def update_base_fields dest!: cond_equal dest: aveq_integral)
  obtain l u r where l: "l \<in> {TRIAL_COMPLETED_CHECKS, PAID_COMPLETED_CHECKS}" "integral (dget d ''limit'') = Some l"
      "integral (dget d ''usedChecks'') = Some u" "integral (dget d ''reservedChecks'') = Some r" "0 \<le> u" "0 \<le> r" "u + r \<le> l"
    by (rule counted_rowE [OF row]) (use eq(1) in auto)
  from assms l(3,4) eq(2,3) have "u + (r + 1) \<le> TRIAL_COMPLETED_CHECKS" by (auto simp: counters_within_def)
  moreover have "TRIAL_COMPLETED_CHECKS \<le> l" using l(1) by (auto simp: TRIAL_COMPLETED_CHECKS_def PAID_COMPLETED_CHECKS_def)
  ultimately have "ledger_row s (apply_update (UAdd ''reservedChecks'' 1) d)"
    by (intro counted_step [OF row _ integral_uadd [OF l(4)] l(2,1)]) (use l in \<open>auto simp: agree_def dget_uadd\<close>)
  then show "ledger_row s (fold apply_update [UAdd ''reservedChecks'' 1] (update_base (part, sk) it))"
    by (simp add: d_def)
qed

lemma ledger_counter:
  assumes "paid_row p" "counters_within p PAID_COMPLETED_CHECKS rd ud"
  shows "item_safe (ledger_item s) (local_counter_action (authority_table s) p rd ud)"
  unfolding local_counter_action_def
proof (rule ledger_update)
  fix it :: "dict option"
  define d where "d = update_base (item_key p) it"
  assume row: "ledger_row s (update_base (item_key p) it)" and c: "cond_holds (exact_condition p) (contents it)"
  note row = row [folded d_def]
  from assms obtain u r where ur: "integral (dget p ''usedChecks'') = Some u" "integral (dget p ''reservedChecks'') = Some r"
      "integral (dget p ''limit'') = Some PAID_COMPLETED_CHECKS" "0 \<le> u + ud" "0 \<le> r + rd" "u + ud + (r + rd) \<le> PAID_COMPLETED_CHECKS"
    by (auto simp: counters_within_def paid_row_def)
  have d: "integral (dget d k) = integral (dget p k)" if "integral (dget p k) = Some n" "k \<noteq> ''PK''" "k \<noteq> ''SK''" for k n
    using exact_integral [OF c integral_has [OF that(1)]] that by (simp add: d_def update_base_fields)
  have "ledger_row s (apply_update (UAdd ''usedChecks'' ud) (apply_update (UAdd ''reservedChecks'' rd) d))"
    by (rule counted_step [OF row integral_uadd_both])
      (use ur d [OF ur(1)] d [OF ur(2)] d [OF ur(3)] in \<open>auto simp: agree_def dget_uadd\<close>)
  then show "ledger_row s (fold apply_update [UAdd ''reservedChecks'' rd, UAdd ''usedChecks'' ud] (update_base (item_key p) it))"
    by (simp add: d_def)
qed

lemma ledger_release:
  assumes "charge \<in> {0, 1}"
  shows "item_safe (ledger_item s) (period_release s part sk charge revision policy)"
  unfolding period_release_def
proof (rule ledger_update)
  fix it :: "dict option"
  define d where "d = update_base (part, sk) it"
  assume row: "ledger_row s (update_base (part, sk) it)"
    and c: "cond_holds (all_of [Cmp CGe ''reservedChecks'' (PInt 1), equals ''grantRevision'' revision, equals ''policyVersion'' policy]) (contents it)"
  note row = row [folded d_def]
  from c have c: "cond_holds (Cmp CGe ''reservedChecks'' (PInt 1)) (contents it)" by simp
  from cond_present [OF c] have "dhas d ''reservedChecks''" by (simp add: d_def update_base_fields)
  then obtain l u r where l: "l \<in> {TRIAL_COMPLETED_CHECKS, PAID_COMPLETED_CHECKS}" "integral (dget d ''limit'') = Some l"
      "integral (dget d ''usedChecks'') = Some u" "integral (dget d ''reservedChecks'') = Some r" "0 \<le> u" "0 \<le> r" "u + r \<le> l"
    using counted_rowE [OF row] by metis
  have "1 \<le> r" using c l(4) by (simp add: d_def update_base_fields cond_integral del: cond_holds.simps(4))
  then have "ledger_row s (apply_update (UAdd ''usedChecks'' charge) (apply_update (UAdd ''reservedChecks'' (- 1)) d))"
    by (intro counted_step [OF row integral_uadd_both [OF l(3,4)] l(2,1)])
      (use l assms in \<open>auto simp: agree_def dget_uadd\<close>)
  then show "ledger_row s (fold apply_update [UAdd ''reservedChecks'' (- 1), UAdd ''usedChecks'' charge] (update_base (part, sk) it))"
    by (simp add: d_def)
qed

lemma ledger_put:
  assumes "\<And>x. x \<in> {''usedChecks'', ''reservedChecks'', ''activeCount'', ''attempts''} \<Longrightarrow> \<not> dhas d x" "dget d ''state'' \<noteq> PStr ''SETTLED''"
  shows "item_safe (ledger_item s) (Put t d c)"
proof -
  have "ledger_row s d" using assms by (simp add: ledger_row_def counted_ok_def capped_def settled_ok_def)
  then show ?thesis by (simp add: item_safe_def ledger_item_def)
qed

lemma dhas_keys: "dhas d k \<longleftrightarrow> k \<in> set (map fst d)"
  by (simp add: dhas_def map_of_eq_None_iff)

lemma dhas_append: "dhas (d @ e) k \<longleftrightarrow> dhas d k \<or> dhas e k"
  by (auto simp: dhas_keys)

lemma dget_append: "dget (d @ e) k = (if dhas d k then dget d k else dget e k)"
  by (auto simp: dget_def dhas_def map_add_def split: option.splits)

lemma copied_versions_keys: "dhas (copied_versions p) k \<Longrightarrow> k \<in> set EXTRA_KEYS"
  using copied_versions_extras [of p] by (auto simp: dhas_keys extras_ok_def list_all_iff)

lemma dget_absent: "\<not> dhas d k \<Longrightarrow> dget d k = PNone"
  by (simp add: dget_def dhas_def)

lemma ledger_preparation: "item_safe (ledger_item s) (Put t (preparation_row s k digest cid client p n1 n2) c)"
proof (rule ledger_put)
  have copied: "\<not> dhas (copied_versions p) x" if "x \<notin> set EXTRA_KEYS" for x using that copied_versions_keys by blast
  show "\<not> dhas (preparation_row s k digest cid client p n1 n2) x" if "x \<in> {''usedChecks'', ''reservedChecks'', ''activeCount'', ''attempts''}" for x
    using that copied [of x] by (auto simp: preparation_row_def key_item_def dhas_append EXTRA_KEYS_def)
  have "\<not> dhas (preparation_row s k digest cid client p n1 n2) ''state''"
    using copied [of "''state''"] by (auto simp: preparation_row_def key_item_def dhas_append EXTRA_KEYS_def)
  then show "dget (preparation_row s k digest cid client p n1 n2) ''state'' \<noteq> PStr ''SETTLED''" by (simp add: dget_absent)
qed

lemma extras_row:
  assumes "extras_ok e" "k \<notin> set EXTRA_KEYS"
  shows "dget (dmerge d e) k = dget d k" "dhas (dmerge d e) k = dhas d k"
proof -
  have "map_of (rev e) k = None" using assms by (auto simp: extras_ok_def list_all_iff map_of_eq_None_iff)
  then show "dget (dmerge d e) k = dget d k" "dhas (dmerge d e) k = dhas d k"
    by (simp_all add: dget_dmerge dhas_def map_of_dmerge map_add_def)
qed

lemma ledger_admission:
  assumes "extras_ok extras"
  shows "item_safe (ledger_item s) (Put t (dmerge (admission_row s k cid digest client scope grant q sk token t1 t2 accepted) extras) c)"
  by (rule ledger_put; (subst extras_row [OF assms])?)
    (auto simp: EXTRA_KEYS_def admission_row_def key_item_def extras_row [OF assms])

lemma ledger_close: "item_safe (ledger_item s) (closed_preparation s k prep proof_id client now)"
  unfolding closed_preparation_def
  by (rule ledger_update) (erule ledger_row_step; simp add: agree_def)

definition sets_only :: "string list \<Rightarrow> update list \<Rightarrow> bool" where   \<comment> \<open>only sets, of none of these fields\<close>
  "sets_only ks us = list_all (\<lambda>u. case u of USet a v \<Rightarrow> a \<notin> set ks | _ \<Rightarrow> False) us"

lemma sets_only_fold:
  "sets_only ks us \<Longrightarrow> k \<in> set ks \<Longrightarrow> dget (fold apply_update us d) k = dget d k \<and> dhas (fold apply_update us d) k = dhas d k"
  unfolding sets_only_def by (induction us arbitrary: d) (auto split: update.splits)

lemma receipt_updates_split:
  "\<exists>rest. receipt_updates u = [USet ''state'' (PStr ''SETTLED''), USet ''chargedChecks'' (PInt (ru_charge u)), USet ''receiptId'' (PStr (ru_receipt u)),
      USet ''processingOutcome'' (PStr (ru_outcome u)), USet ''expiresAt'' (ru_expiry u)] @ rest
    \<and> sets_only [''state'', ''chargedChecks'', ''processingOutcome'', ''usedChecks'', ''reservedChecks'', ''limit'', ''activeCount'', ''attempts'',
        ''PK'', ''SK'', ''payloadHmac'', ''executionToken'', ''basis'', ''periodSK''] rest"
  unfolding receipt_updates_def append_assoc
  by (intro exI conjI, rule refl) (auto simp: sets_only_def split: option.splits)

lemma ledger_settle:
  assumes "final_charge u"
  shows "item_safe (ledger_item s) (Update (authority_table s) k (receipt_updates u) (settle_condition tok now er captured))"
proof (rule ledger_update)
  fix it :: "dict option"
  define d where "d = update_base k it"
  obtain rest where r: "receipt_updates u = [USet ''state'' (PStr ''SETTLED''), USet ''chargedChecks'' (PInt (ru_charge u)), USet ''receiptId'' (PStr (ru_receipt u)),
      USet ''processingOutcome'' (PStr (ru_outcome u)), USet ''expiresAt'' (ru_expiry u)] @ rest"
    and o': "sets_only [''state'', ''chargedChecks'', ''processingOutcome'', ''usedChecks'', ''reservedChecks'', ''limit'', ''activeCount'', ''attempts'',
        ''PK'', ''SK'', ''payloadHmac'', ''executionToken'', ''basis'', ''periodSK''] rest"
    using receipt_updates_split by blast
  assume row: "ledger_row s (update_base k it)"
  have "ledger_row s (fold apply_update (receipt_updates u) d)"
    unfolding r
    by (rule ledger_row_step [OF row [folded d_def]])
      (use assms in \<open>auto simp: agree_def sets_only_fold [OF o'] settled_ok_def settled_row_def final_charge_def\<close>)
  then show "ledger_row s (fold apply_update (receipt_updates u) (update_base k it))" by (simp add: d_def)
qed

lemma ledger_writes:
  assumes "guarded_items E (ledger_item s)"
  shows "authority_writes E (ledger_item s) s"
  by (intro authority_writes.intro authority_writes_axioms.intro assms ledger_attempt ledger_trial ledger_counter ledger_release
      ledger_enter ledger_leave ledger_preparation ledger_admission ledger_close ledger_settle)

interpretation ledger: authority_writes "quiet_env now h" "ledger_item s" s
  by (rule ledger_writes) (rule quiet_items.guarded_items_axioms)

section \<open>Finality of a settled receipt\<close>

definition final_receipt :: "dict \<Rightarrow> bool" where
  "final_receipt d = (dget d ''state'' = PStr ''SETTLED'' \<and> dhas d ''PK'' \<and> dget d ''recordType'' = PStr ''V1_CHECK_RECEIPT''
     \<and> \<not> dhas d ''usedChecks'' \<and> \<not> dhas d ''reservedChecks'')"

definition final_item :: "settings \<Rightarrow> key \<Rightarrow> dict \<Rightarrow> item_prop" where
  \<comment> \<open>the receipt stored under \<open>k\<close> is \<open>d\<close>, a final one\<close>
  "final_item s k d t k' it = (t = authority_table s \<longrightarrow> k' = k \<longrightarrow> it = Some d)"

lemma final_blocked:
  assumes "\<not> cond_holds (guard a) d"
  shows "item_safe (final_item s k d) a"
  using assms by (auto simp: item_safe_def final_item_def contents_def)

lemma final_other:
  assumes "snd (target a) \<noteq> k"
  shows "item_safe (final_item s k d) a"
  using assms by (auto simp: item_safe_def final_item_def)

lemma final_writes:
  assumes "guarded_items E (final_item s (part, ''CHECK#'' @ cid) d)" "final_receipt d"
  shows "authority_writes E (final_item s (part, ''CHECK#'' @ cid) d) s"
proof (intro authority_writes.intro authority_writes_axioms.intro assms(1))
  note d = assms(2) [unfolded final_receipt_def]
  let ?P = "final_item s (part, ''CHECK#'' @ cid) d"
  show "item_safe ?P (attempt_action s p w)" for p w
    by (rule final_other) (simp add: attempt_action_def Let_def)
  show "item_safe ?P (trial_reservation s p sk q now)" if "counters_within q TRIAL_COMPLETED_CHECKS 1 0" for q p sk now
    by (rule final_blocked) (use d in \<open>auto simp: trial_reservation_def dest!: cond_equal\<close>)
  show "item_safe ?P (local_counter_action (authority_table s) row rd ud)" if "counters_within row PAID_COMPLETED_CHECKS rd ud" for row rd ud
  proof (rule final_blocked)
    from that obtain u where "integral (dget row ''usedChecks'') = Some u" by (auto simp: counters_within_def)
    then have "\<not> cond_holds (exact_condition row) d"
      using exact_integral [of row d "''usedChecks''"] integral_has [of row] integral_has [of d "''usedChecks''"] d by auto
    then show "\<not> cond_holds (guard (local_counter_action (authority_table s) row rd ud)) d"
      by (simp add: local_counter_action_def)
  qed
  show "item_safe ?P (period_release s p sk charge rv pl)" for p sk charge rv pl
  proof (rule final_blocked)
    have "\<not> cond_holds (Cmp CGe ''reservedChecks'' (PInt 1)) d" using d cond_present [of CGe] by blast
    then show "\<not> cond_holds (guard (period_release s p sk charge rv pl)) d"
      unfolding period_release_def guard.simps cond_holds_all_of by auto
  qed
  show "item_safe ?P (inflight_enter s p)" "item_safe ?P (inflight_leave s p)" for p
    by (rule final_other, simp add: inflight_enter_def inflight_leave_def inflight_key_def)+
  show "item_safe ?P (Put (authority_table s) (preparation_row s k dg c cl p n1 n2) (NotExists ''PK''))" for k dg c cl p n1 n2
    by (rule final_blocked) (use d in simp)
  show "item_safe ?P (Put (authority_table s) (dmerge (admission_row s k c dg cl sc g q sk tok t1 t2 a) ex) (NotExists ''PK''))"
    for k c dg cl sc g q sk tok t1 t2 a ex
    by (rule final_blocked) (use d in simp)
  show "item_safe ?P (closed_preparation s k prep pr cl now)" for k prep pr cl now
    by (rule final_blocked) (use d in \<open>auto simp: closed_preparation_def dest!: cond_equal\<close>)
  show "item_safe ?P (Update (authority_table s) k (receipt_updates u) (settle_condition tok now er cap))" for k u tok now er cap
    by (rule final_blocked) (use d in \<open>auto simp: settle_condition_def cond_holds_all_of dest!: cond_equal\<close>)
qed

section \<open>Histories of the authority\<close>

text \<open>
  One step of the system: an operation of the authority, run to its end with other writers
  interleaved, whatever its arguments, or a step of the other writers alone.
\<close>

inductive authority_step :: "env \<Rightarrow> settings \<Rightarrow> intents \<Rightarrow> db \<Rightarrow> db \<Rightarrow> bool" for E s I where
  prepared: "prepare E s I event payload pid client counted \<lparr>tables = db, tick = n\<rparr> = (r, w) \<Longrightarrow> authority_step E s I db (tables w)"
| admitted: "admit E s I event payload cid client counted \<lparr>tables = db, tick = n\<rparr> = (r, w) \<Longrightarrow> authority_step E s I db (tables w)"
| reconciled: "reconcile E s event cid client x \<lparr>tables = db, tick = n\<rparr> = (r, w) \<Longrightarrow> authority_step E s I db (tables w)"
| settled: "settle E s wk cid token outcome summary reason \<lparr>tables = db, tick = n\<rparr> = (r, w) \<Longrightarrow> authority_step E s I db (tables w)"
| recovered: "recover_expired E s event cid \<lparr>tables = db, tick = n\<rparr> = (r, w) \<Longrightarrow> authority_step E s I db (tables w)"
| others: "authority_step E s I db (peers E n db)"

inductive_cases authority_stepE: "authority_step E s I db db'"

inductive authority_run :: "env \<Rightarrow> settings \<Rightarrow> intents \<Rightarrow> db \<Rightarrow> db \<Rightarrow> bool" for E s I db where
  start: "authority_run E s I db db"
| step: "authority_run E s I db db1 \<Longrightarrow> authority_step E s I db1 db2 \<Longrightarrow> authority_run E s I db db2"

context authority_writes
begin

lemma step_keeps:
  assumes "authority_step E s I db db'" "all_items P db"
  shows "all_items P db'"
  using assms(1)
proof cases
  case (prepared event payload pid client counted n r w)
  with keepsD [OF keeps_prepare, of "\<lparr>tables = db, tick = n\<rparr>"] assms(2) show ?thesis by auto
next
  case (admitted event payload cid client counted n r w)
  with keepsD [OF keeps_admit, of "\<lparr>tables = db, tick = n\<rparr>"] assms(2) show ?thesis by auto
next
  case (reconciled event cid client x n r w)
  with keepsD [OF keeps_reconcile, of "\<lparr>tables = db, tick = n\<rparr>"] assms(2) show ?thesis by auto
next
  case (settled wk cid tok o' x reason n r w)
  with keepsD [OF keeps_settle, of "\<lparr>tables = db, tick = n\<rparr>"] assms(2) show ?thesis by auto
next
  case (recovered event cid n r w)
  with keepsD [OF keeps_recover_expired, of "\<lparr>tables = db, tick = n\<rparr>"] assms(2) show ?thesis by auto
next
  case (others n)
  with item_peers assms(2) show ?thesis by simp
qed

lemma run_keeps: "authority_run E s I db db' \<Longrightarrow> all_items P db \<Longrightarrow> all_items P db'"
  by (induction rule: authority_run.induct) (auto intro: step_keeps)

end

lemma guarded_itemsI:
  "transact_service (transact E) \<Longrightarrow> (\<And>db i. all_items P db \<Longrightarrow> all_items P (peers E i db)) \<Longrightarrow> guarded_items E P"
  by (simp add: guarded_items_def)

text \<open>
  C3 (safety). A settled receipt never changes again: no operation of the authority, with any
  arguments, in any interleaving and under any failure, alters the stored receipt of a settled
  check, so its charge, outcome, receipt identifier and summary are final. (Only the writers
  outside this component, such as the removal of expired receipts, could remove it.)
\<close>

theorem settled_receipt_final:
  assumes "transact_service (transact E)" "db (authority_table s) (check_key part cid) = Some d" "final_receipt d"
    and "\<And>db i. db (authority_table s) (check_key part cid) = Some d \<Longrightarrow>
      peers E i db (authority_table s) (check_key part cid) = Some d"
    and "authority_run E s I db db'"
  shows "db' (authority_table s) (check_key part cid) = Some d"
proof -
  let ?P = "final_item s (part, ''CHECK#'' @ cid) d"
  have P: "all_items ?P db \<longleftrightarrow> db (authority_table s) (check_key part cid) = Some d" for db
    by (auto simp: all_items_def final_item_def check_key_def)
  have "guarded_items E ?P" by (rule guarded_itemsI) (use assms(1,4) P in blast)+
  from authority_writes.run_keeps [OF final_writes [OF this assms(3)] assms(5)] assms(2) P show ?thesis by blast
qed

section \<open>Instances\<close>

definition ex_settings :: settings where
  "ex_settings = \<lparr>users_table = ''U'', devices_table = ''D'', deletion_table = ''X'', authority_table = ''A'',
     token_policy = \<lparr>cognito_issuer = ''i'', cognito_app_client_id = ''c'', cognito_required_scope = ''s''\<rparr>,
     policy_version = OWNER_POLICY, active_key_id = ''k1'', hmac_keys = [(''k1'', replicate 32 CHR ''z'')],
     operation_validity_seconds = 60, worker_settlement_seconds = 60, reconciliation_seconds = 60,
     receipt_retention_seconds = 604800, counter_retention_seconds = 604800, attempt_window_seconds = 60,
     attempts_per_window = 5, max_inflight = 2, enabled = True, governed_history_settlement_enabled = False,
     operations_producer_enabled = False, operations_environment = ''dev''\<rparr>"

lemma ex_settings: "validate_settings ex_settings"
  by (simp add: validate_settings_def ex_settings_def strip_def is_space_def code_def fullmatch_def is_alnum_def is_digit_def)

definition ex_ledger :: db where
  "ex_ledger = (\<lambda>t k. if t = ''A'' \<and> k = (''p'', ''PERIOD#1'')
     then Some [(''limit'', PInt 10), (''usedChecks'', PInt 4), (''reservedChecks'', PInt 6)]
     else if t = ''A'' \<and> k = check_key ''p'' ''c''
     then Some [(''PK'', PStr ''p''), (''recordType'', PStr ''V1_CHECK_RECEIPT''), (''state'', PStr ''SETTLED''),
       (''processingOutcome'', PStr ''complete''), (''chargedChecks'', PInt 1)]
     else None)"

lemma ex_ledger_run: "authority_run (quiet_env 5 h) s I ex_ledger ex_ledger"
proof (rule authority_run.step [OF authority_run.start])
  have "settle (quiet_env 5 h) s UntrustedCaller (PStr ''c'') PNone (PStr ''complete'') PNone PNone \<lparr>tables = ex_ledger, tick = 0\<rparr>
      = (Inl (AuthorityError ''TRUSTED_WORKER_REQUIRED''), \<lparr>tables = ex_ledger, tick = 0\<rparr>)"
    by (simp add: settle_def settle_check_def)
  from authority_step.settled [OF this] show "authority_step (quiet_env 5 h) s I ex_ledger ex_ledger" by simp
qed

lemma ex_ledger_items: "all_items (ledger_item s) ex_ledger"
  by (auto simp: all_items_def ledger_item_def ex_ledger_def check_key_def ledger_row_def counted_ok_def capped_def settled_ok_def settled_row_def
      allowance_row_def counters_within_def TRIAL_COMPLETED_CHECKS_def PAID_COMPLETED_CHECKS_def OUTCOMES_def)

lemma settled_receipt_final_witness:
  "\<exists>d. ex_ledger ''A'' (check_key ''p'' ''c'') = Some d \<and> final_receipt d"
proof -
  have "ex_ledger (authority_table ex_settings) (check_key ''p'' ''c'') = Some [(''PK'', PStr ''p''), (''recordType'', PStr ''V1_CHECK_RECEIPT''),
      (''state'', PStr ''SETTLED''), (''processingOutcome'', PStr ''complete''), (''chargedChecks'', PInt 1)]"
    by (rule settled_receipt_final [OF quiet_env(2) _ _ _ ex_ledger_run [of "\<lambda>_ _. []"]])
      (simp_all add: ex_ledger_def ex_settings_def check_key_def final_receipt_def)
  then show ?thesis by (simp add: ex_settings_def final_receipt_def)
qed

end
