(* ===== verification/Leases.thy ===== *)
theory Leases
  imports Settlement
begin

text \<open>
  The background workers of the authority: recovery of checks whose lease ran out
  (\<open>shared_check_authority/recovery.py\<close>), removal of expired records (\<open>expiry.py\<close>) and the earlier
  removal of operational references (\<open>operations_retirement.py\<close>). They read index entries, know no
  caller, and decide again under a transaction. A sweep processes a bounded number of pages and
  remembers where it stopped.
\<close>

section \<open>References to rows\<close>

definition partition_key :: "string \<Rightarrow> string option" where
  \<comment> \<open>\<open>V1#([A-Za-z0-9]{1,8})#[0-9a-f]{64}\<close>, with the key identifier\<close>
  "partition_key p =
     (case split_on CHR ''#'' p of
        [v, k, h] \<Rightarrow> if v = ''V1'' \<and> fullmatch is_alnum 1 8 k \<and> fullmatch is_hex 64 64 h then Some k else None
      | _ \<Rightarrow> None)"

definition is_proof :: "string \<Rightarrow> bool" where "is_proof p = (parse_token p \<noteq> None)"

definition has_operations :: "dict \<Rightarrow> bool" where
  "has_operations row = (dhas row ''operationsReceipt'' \<or> dhas row ''operationsProjection'')"

definition expired_receipt_id :: "env \<Rightarrow> string \<Rightarrow> string \<Rightarrow> string" where
  "expired_receipt_id E part check_id = ''expired_'' @ take 32 (sha256_hex E (part @ CHR 0x00 # check_id))"

section \<open>Recovery of a lapsed lease (\<open>recovery.py\<close>)\<close>

definition lease_release :: "string \<Rightarrow> string \<Rightarrow> string \<Rightarrow> pyval \<Rightarrow> action" where
  "lease_release table part sk revision =
     Update table (part, sk) [UAdd ''reservedChecks'' (- 1)]
       (all_of [equals ''recordType'' (PStr ''V1_ALLOWANCE_PERIOD''), Cmp CGe ''reservedChecks'' (PInt 1),
          equals ''grantRevision'' revision, equals ''policyVersion'' (PStr OWNER_POLICY)])"

definition lease_releases :: "env \<Rightarrow> string \<Rightarrow> string \<Rightarrow> dict \<Rightarrow> int \<Rightarrow> action list eff" where
  "lease_releases E table part row now =
     (if dget row ''basis'' = PStr ''paid'' then
        ebind (period_for_receipt E table part row) (\<lambda>period.
        paired_counter_actions E table period (- 1) 0 now True)
      else if truthy (dget row ''periodSK'') then
        (case as_str (dget row ''periodSK'') of
           None \<Rightarrow> eraise (AuthorityError ''RECOVERY_TRANSACTION_UNCERTAIN'')
         | Some sk \<Rightarrow> ebind (elift (didx row ''grantRevision'')) (\<lambda>rv. eret [lease_release table part sk rv]))
      else eret [])"

definition lease_summary :: "dict \<Rightarrow> dict option result" where
  "lease_summary row =
     (if dget row ''projectionScope'' \<noteq> PStr ''recovery_clarification'' then Inr None else
      rejected (rbind (raise_if (dget row ''recoveryTransportVersion'' \<noteq> PStr RECOVERY_VERSION) ValueError) (\<lambda>_.
                rbind (recovery_usage (dget row ''clientCheckId'') (PStr ''failed'')) (\<lambda>u. Inr (Some u))))
        (AuthorityError ''RECOVERY_REFERENCE_INVALID''))"

definition lease_operations :: "dict \<Rightarrow> int \<Rightarrow> (dict \<times> pyval option) option result" where
  \<comment> \<open>the captured reference, with the terminal reason while it has not expired\<close>
  "lease_operations row now =
     (if \<not> dhas row ''operationsReceipt'' then Inr None else
      rejected (rbind (Operations.settlement_fields (PDict row) (PStr ''failed'') PNone True) (\<lambda>o'.
                Inr (Some (fst o', if inum (fst o') ''expiresAtEpoch'' > now then Some (snd o') else None))))
        (AuthorityError ''OPERATIONS_RECEIPT_INVALID''))"

definition lease_updates :: "string \<Rightarrow> pyval \<Rightarrow> string \<Rightarrow> dict option \<Rightarrow> pyval option \<Rightarrow> bool \<Rightarrow> int \<Rightarrow> update list" where
  "lease_updates receipt deadline file_key summary reason assessed now =
     [USet ''state'' (PStr ''SETTLED''), USet ''chargedChecks'' (PInt 0), USet ''processingOutcome'' (PStr ''failed''),
      USet ''receiptId'' (PStr receipt), USet ''expiresAt'' deadline, USet ''GSI1PK'' (PStr ''V1_EXPIRING''),
      USet ''GSI1SK'' (PStr file_key)]
     @ (case summary of None \<Rightarrow> [] | Some v \<Rightarrow> [USet ''resultSummary'' (PDict v), USet ''assessmentEpoch'' (PInt now)])
     @ (case reason of None \<Rightarrow> [] | Some r \<Rightarrow> USet ''operationsTerminalReasonCode'' r
          # (if assessed then [USet ''assessmentEpoch'' (PInt now)] else []))"

definition lease_condition :: "pyval \<Rightarrow> int \<Rightarrow> dict option \<Rightarrow> cond" where
  "lease_condition token now captured =
     all_of ([equals ''state'' (PStr ''ADMITTED''), Cmp CLe ''settleByEpoch'' (PInt now), equals ''executionToken'' token,
        equals ''policyVersion'' (PStr OWNER_POLICY)]
       @ (case captured of None \<Rightarrow> [] | Some m \<Rightarrow> [equals ''operationsReceipt'' (PDict m)]))"

definition lease_settlement :: "env \<Rightarrow> string \<Rightarrow> key \<Rightarrow> string \<Rightarrow> dict \<Rightarrow> int \<Rightarrow> action result" where
  "lease_settlement E table k check_id row now =
     rbind (didx row ''retentionDeadlineEpoch'') (\<lambda>deadline.
     rbind (didx row ''executionToken'') (\<lambda>token.
     rbind (whole deadline) (\<lambda>due.
     rbind (lease_summary row) (\<lambda>summary.
     rbind (lease_operations row now) (\<lambda>ops.
     let place = (case ops of None \<Rightarrow> due | Some o' \<Rightarrow> min due (inum (fst o') ''expiresAtEpoch'')) in
     Inr (Update table k
       (lease_updates (expired_receipt_id E (fst k) check_id) deadline (expiry_sort place k) summary
          (case ops of None \<Rightarrow> None | Some o' \<Rightarrow> snd o') (dget row ''projectionScope'' \<noteq> PStr ''recovery_clarification'') now)
       (lease_condition token now (map_option fst ops))))))))"

definition not_deleting :: "string \<Rightarrow> string \<Rightarrow> action" where
  "not_deleting table part =
     ConditionCheck table (part, ''ACCESS'')
       (all_of [equals ''recordType'' (PStr ''V1_ACCESS_AUTHORITY''), Exists ''state'', Cmp CNe ''state'' (PStr ''DELETING'')])"

definition lease_leave :: "string \<Rightarrow> string \<Rightarrow> action" where
  "lease_leave table part =
     Update table (inflight_key part) [UAdd ''activeCount'' (- 1)] (Cmp CGe ''activeCount'' (PInt 1))"

definition lease_expire :: "env \<Rightarrow> string \<Rightarrow> pyval \<Rightarrow> pyval \<Rightarrow> bool eff" where   \<comment> \<open>\<open>Recovery.expire\<close>\<close>
  "lease_expire E table part_v proof_v =
     (case (as_str part_v, as_str proof_v) of
        (Some part, Some check_id) \<Rightarrow>
          ebind (eraise_if (partition_key part = None \<or> \<not> is_proof check_id) (AuthorityError ''RECOVERY_REFERENCE_INVALID'')) (\<lambda>_.
          let k = check_key part check_id in
          ebind (e_get E table k) (\<lambda>it.
          if row_of it = None \<or> dget (contents it) ''state'' = PStr ''SETTLED'' then eret False else
          let row = contents it in
          ebind (e_now E) (\<lambda>now.
          if dget row ''recordType'' \<noteq> PStr ''V1_CHECK_RECEIPT'' \<or> dget row ''policyVersion'' \<noteq> PStr OWNER_POLICY then eret False else
          ebind (elift (above (dget_or row ''settleByEpoch'' (PInt (now + 1))) now)) (\<lambda>live.
          if live then eret False else
          ebind (lease_releases E table part row now) (\<lambda>rel.
          ebind (elift (lease_settlement E table k check_id row now)) (\<lambda>act.
          ebind (e_transact E (not_deleting table part # rel @ [lease_leave table part, act])) (\<lambda>r.
          ebind (eraise_if (r \<noteq> Committed) (AuthorityError ''RECOVERY_TRANSACTION_UNCERTAIN'')) (\<lambda>_.
          eret True))))))))
      | _ \<Rightarrow> eraise (AuthorityError ''RECOVERY_REFERENCE_INVALID''))"

section \<open>Removal of expired records (\<open>expiry.py\<close>)\<close>

definition expiry_inventory :: "env \<Rightarrow> string \<Rightarrow> string option \<Rightarrow> dict eff" where   \<comment> \<open>\<open>_inventory\<close>\<close>
  "expiry_inventory E table key_id =
     ebind (e_get E table INVENTORY_KEY) (\<lambda>it.
     let row = contents it in
     ebind (eraise_if (\<not> has_keys row [''PK'', ''SK'', ''recordType'', ''schemaVersion'', ''revision'', ''coverage'', ''issuedKeys'']
         \<or> dget row ''recordType'' \<noteq> PStr ''V1_HMAC_KEY_INVENTORY'' \<or> integral (dget row ''schemaVersion'') \<noteq> Some 1
         \<or> integral (dget row ''revision'') = None \<or> inum row ''revision'' < 1 \<or> dget row ''coverage'' \<noteq> PStr ''VERIFIED_COMPLETE''
         \<or> (case as_dict (dget row ''issuedKeys'') of
              None \<Rightarrow> True
            | Some ks \<Rightarrow> length ks < 1 \<or> 4 < length ks \<or> (case key_id of None \<Rightarrow> False | Some k \<Rightarrow> \<not> dhas ks k)
                \<or> list_ex (\<lambda>kv. \<not> fullmatch is_alnum 1 8 (fst kv) \<or> \<not> str_matches (fullmatch is_hex 64 64) (snd kv)) ks))
       (AuthorityError ''EXPIRY_INVENTORY_UNAVAILABLE'')) (\<lambda>_. eret row))"

datatype family = PREPARE | ATTEMPT | CHECK

definition family_type :: "family \<Rightarrow> string" where   \<comment> \<open>\<open>TYPES\<close>\<close>
  "family_type f = (case f of PREPARE \<Rightarrow> ''V1_PREPARATION'' | ATTEMPT \<Rightarrow> ''V1_ATTEMPT_COUNTER'' | CHECK \<Rightarrow> ''V1_CHECK_RECEIPT'')"

definition sort_family :: "string \<Rightarrow> family option" where
  "sort_family sk =
     (if prefixed ''PREPARE#'' (fullmatch is_ident 1 64) sk then Some PREPARE
      else if prefixed ''ATTEMPT#'' (fullmatch is_digit 1 12) sk then Some ATTEMPT
      else if prefixed ''CHECK#'' is_proof sk then Some CHECK else None)"

definition expire_usage :: "env \<Rightarrow> string \<Rightarrow> string \<Rightarrow> pyval \<Rightarrow> bool eff" where   \<comment> \<open>\<open>_expire_purchase_usage\<close>\<close>
  "expire_usage E table part sort_v =
     ebind (elift (valid_key (PDict [(''PK'', PStr part), (''SK'', sort_v)]))) (\<lambda>k.
     ebind (e_get E table k) (\<lambda>it.
     case it of
       None \<Rightarrow> eret False
     | Some row \<Rightarrow>
         ebind (e_now E) (\<lambda>now1.
         ebind (elift (validate (PDict row) (PDict (key_item k)) now1 True)) (\<lambda>_.
         ebind (e_now E) (\<lambda>now2.
         if inum row ''expiresAt'' > now2 then eret False else
         ebind (expiry_inventory E table None) (\<lambda>inventory.
         ebind (e_transact E [inventory_condition table inventory, Delete table k (exact_condition row)]) (\<lambda>r.
         if r = Committed then eret True else
         ebind (e_get E table k) (\<lambda>latest.
         if latest = None then eret False else eraise (AuthorityError ''EXPIRY_TRANSACTION_UNCERTAIN'')))))))))"

definition expiry_sort_key :: "family \<Rightarrow> key \<Rightarrow> dict \<Rightarrow> int \<Rightarrow> string result" where
  "expiry_sort_key f k row expiry =
     (if f = CHECK \<and> dhas row ''operationsReceipt'' then
        rbind (rejected (retirement_metadata (PDict row)) (AuthorityError ''EXPIRY_RECORD_INVALID'')) (\<lambda>m.
        Inr (expiry_sort (min expiry (inum m ''expiresAtEpoch'')) k))
      else Inr (expiry_sort expiry k))"

definition expiry_guard :: "string \<Rightarrow> string \<Rightarrow> family \<Rightarrow> dict option \<Rightarrow> action option result" where
  \<comment> \<open>the condition on the access row, \<open>None\<close> when the account is being deleted\<close>
  "expiry_guard table part f access =
     (case access of
        None \<Rightarrow> if f = CHECK then Inl (AuthorityError ''EXPIRY_ACCESS_UNAVAILABLE'')
                else Inr (Some (ConditionCheck table (part, ''ACCESS'') (NotExists ''PK'')))
      | Some a \<Rightarrow>
          if dget a ''recordType'' = PStr ''V1_ACCESS_AUTHORITY'' \<and> dget a ''state'' = PStr ''DELETING'' then Inr None
          else if dget a ''recordType'' \<noteq> PStr ''V1_ACCESS_AUTHORITY'' \<or> \<not> one_of (dget a ''state'') [''ACTIVE'', ''INACTIVE'', ''REVOKED'']
          then Inl (AuthorityError ''EXPIRY_ACCESS_UNAVAILABLE'')
          else Inr (Some (ConditionCheck table (part, ''ACCESS'')
                 (all_of [equals ''recordType'' (PStr ''V1_ACCESS_AUTHORITY''), equals ''state'' (dget a ''state'')]))))"

definition expiry_delete :: "string \<Rightarrow> key \<Rightarrow> family \<Rightarrow> int \<Rightarrow> int \<Rightarrow> string \<Rightarrow> action" where
  "expiry_delete table k f expiry now file_key =
     Delete table k (all_of ([equals ''recordType'' (PStr (family_type f)), equals ''expiresAt'' (PInt expiry),
         Cmp CLe ''expiresAt'' (PInt now), equals ''GSI1PK'' (PStr ''V1_EXPIRING''), equals ''GSI1SK'' (PStr file_key)]
       @ (if f = CHECK then [equals ''state'' (PStr ''SETTLED''), equals ''policyVersion'' (PStr OWNER_POLICY)] else [])))"

definition expiry_resolution :: "env \<Rightarrow> string \<Rightarrow> key \<Rightarrow> int \<Rightarrow> bool eff" where
  \<comment> \<open>after an uncertain transaction: a vanished or extended row is a no-op\<close>
  "expiry_resolution E table k expiry =
     ebind (e_get E table k) (\<lambda>latest.
     if latest = None then eret False else
     let e = integral (dget (contents latest) ''expiresAt'') in
     if e \<noteq> None \<and> e \<noteq> Some expiry then eret False else
     ebind (e_get E table (fst k, ''ACCESS'')) (\<lambda>access.
     if dget (contents access) ''state'' = PStr ''DELETING'' then eret False
     else eraise (AuthorityError ''EXPIRY_TRANSACTION_UNCERTAIN'')))"

definition expire_row :: "env \<Rightarrow> string \<Rightarrow> string \<Rightarrow> string \<Rightarrow> string \<Rightarrow> family \<Rightarrow> bool eff" where
  "expire_row E table part key_id sk f =
     (let k = (part, sk) in
      ebind (e_get E table k) (\<lambda>it.
      case it of
        None \<Rightarrow> eret False
      | Some row \<Rightarrow>
          (case integral (dget row ''expiresAt'') of
             None \<Rightarrow> eret False
           | Some expiry \<Rightarrow>
               ebind (e_now E) (\<lambda>now1.
               if expiry \<le> 0 \<or> expiry > now1 then eret False else
               ebind (elift (expiry_sort_key f k row expiry)) (\<lambda>file_key.
               ebind (eraise_if (dget row ''recordType'' \<noteq> PStr (family_type f) \<or> dget row ''GSI1PK'' \<noteq> PStr ''V1_EXPIRING''
                   \<or> dget row ''GSI1SK'' \<noteq> PStr file_key
                   \<or> f = CHECK \<and> (dget row ''state'' \<noteq> PStr ''SETTLED'' \<or> dget row ''policyVersion'' \<noteq> PStr OWNER_POLICY))
                 (AuthorityError ''EXPIRY_RECORD_INVALID'')) (\<lambda>_.
               ebind (expiry_inventory E table (Some key_id)) (\<lambda>inventory.
               ebind (e_get E table (part, ''ACCESS'')) (\<lambda>access.
               ebind (elift (expiry_guard table part f access)) (\<lambda>g.
               case g of
                 None \<Rightarrow> eret False
               | Some guard_act \<Rightarrow>
                   ebind (e_now E) (\<lambda>now2.
                   ebind (e_transact E [inventory_condition table inventory, guard_act, expiry_delete table k f expiry now2 file_key]) (\<lambda>r.
                   if r = Committed then eret True else expiry_resolution E table k expiry)))))))))))"

definition expire :: "env \<Rightarrow> string \<Rightarrow> pyval \<Rightarrow> pyval \<Rightarrow> bool eff" where   \<comment> \<open>\<open>Expiry.expire\<close>\<close>
  "expire E table part_v sort_v =
     (case as_str part_v of
        None \<Rightarrow> eraise (AuthorityError ''EXPIRY_REFERENCE_INVALID'')
      | Some part \<Rightarrow>
          if prefixed ''V1#PURCHASE_USAGE#'' (\<lambda>_. True) part then expire_usage E table part sort_v
          else (case (partition_key part, as_str sort_v) of
                  (Some key_id, Some sk) \<Rightarrow>
                    (case sort_family sk of
                       None \<Rightarrow> eraise (AuthorityError ''EXPIRY_REFERENCE_INVALID'')
                     | Some f \<Rightarrow> expire_row E table part key_id sk f)
                | _ \<Rightarrow> eraise (AuthorityError ''EXPIRY_REFERENCE_INVALID'')))"

section \<open>Retirement of operational references (\<open>operations_retirement.py\<close>)\<close>

abbreviation RETIRE_INVALID :: exc where "RETIRE_INVALID \<equiv> AuthorityError ''OPERATIONS_RETIREMENT_RECORD_INVALID''"

definition retire_continue :: "env \<Rightarrow> bool \<Rightarrow> unit eff" where   \<comment> \<open>\<open>_continue\<close>; unlimited in a sweep\<close>
  "retire_continue E limited =
     (if \<not> limited then eret () else
      ebind (e_continue E) (\<lambda>ok. eraise_if (\<not> ok) (AuthorityError ''OPERATIONS_RETIREMENT_TIME_BUDGET'')))"

definition retire_get :: "env \<Rightarrow> string \<Rightarrow> bool \<Rightarrow> key \<Rightarrow> dict option eff" where
  "retire_get E table limited k =
     ebind (retire_continue E limited) (\<lambda>_. faults_as (e_get E table k) (AuthorityError ''OPERATIONS_RETIREMENT_READ_UNAVAILABLE''))"

definition retire_metadata :: "env \<Rightarrow> dict \<Rightarrow> dict result" where
  "retire_metadata E row =
     rejected (if dhas row ''operationsReceipt'' then retirement_metadata (PDict row)
               else rbind (didx row ''operationsProjection'') (\<lambda>v. rbind (validate_capture E v) (\<lambda>c. Inr (cap_reference c))))
       RETIRE_INVALID"

definition retire_reference :: "dict \<Rightarrow> dict \<Rightarrow> cond list" where
  "retire_reference row m =
     (if dhas row ''operationsReceipt'' then [equals ''operationsReceipt'' (PDict m)]
      else [NotExists ''operationsReceipt'', equals ''operationsProjection'' (dget row ''operationsProjection'')])"

definition retire_place :: "key \<Rightarrow> dict \<Rightarrow> dict \<Rightarrow> (update list \<times> cond list) result" where
  \<comment> \<open>a settled row returns to its own expiry; a pending row stays with lease recovery\<close>
  "retire_place k row m =
     (if dget row ''state'' = PStr ''SETTLED'' then
        (case integral (dget row ''expiresAt'') of
           None \<Rightarrow> Inl RETIRE_INVALID
         | Some expiry \<Rightarrow>
             rbind (raise_if (expiry \<le> 0 \<or> integral (dget row ''retentionDeadlineEpoch'') \<noteq> Some expiry
                 \<or> dget row ''GSI1PK'' \<noteq> PStr ''V1_EXPIRING'') RETIRE_INVALID) (\<lambda>_.
             rbind (in_set (dget row ''GSI1SK'') [expiry_sort (min expiry (inum m ''expiresAtEpoch'')) k, expiry_sort expiry k]) (\<lambda>ok.
             rbind (raise_if (\<not> ok) RETIRE_INVALID) (\<lambda>_.
             Inr ([USet ''GSI1SK'' (PStr (expiry_sort expiry k))],
                  [equals ''expiresAt'' (PInt expiry), equals ''retentionDeadlineEpoch'' (PInt expiry)])))))
      else
        rbind (raise_if (dget row ''GSI1PK'' \<noteq> PStr ''V1_PENDING''
            \<or> \<not> str_matches (\<lambda>t. fullmatch is_digit 12 12 (take 12 t) \<and> prefixed (''#'' @ fst k @ ''#'') is_proof (drop 12 t)) (dget row ''GSI1SK''))
          RETIRE_INVALID) (\<lambda>_. Inr ([], [])))"

definition retire_action :: "string \<Rightarrow> key \<Rightarrow> dict \<Rightarrow> dict \<Rightarrow> update list \<times> cond list \<Rightarrow> action" where
  "retire_action table k row m place =
     Update table k
       (fst place @ [URemove ''operationsReceipt'', URemove ''operationsTerminalReasonCode'', URemove ''operationsProjection''])
       (all_of ([equals ''recordType'' (PStr ''V1_CHECK_RECEIPT''), equals ''policyVersion'' (PStr OWNER_POLICY),
           equals ''state'' (dget row ''state'')] @ retire_reference row m
         @ [equals ''GSI1PK'' (dget row ''GSI1PK''), equals ''GSI1SK'' (dget row ''GSI1SK'')] @ snd place))"

definition retire_access :: "string \<Rightarrow> string \<Rightarrow> dict option \<Rightarrow> action result" where
  "retire_access table part access =
     (case access of
        None \<Rightarrow> Inr (ConditionCheck table (part, ''ACCESS'') (NotExists ''PK''))
      | Some a \<Rightarrow>
          if dget a ''recordType'' = PStr ''V1_ACCESS_AUTHORITY'' \<and> one_of (dget a ''state'') [''ACTIVE'', ''INACTIVE'', ''REVOKED'', ''DELETING'']
          then Inr (ConditionCheck table (part, ''ACCESS'')
                 (all_of [equals ''recordType'' (PStr ''V1_ACCESS_AUTHORITY''), equals ''state'' (dget a ''state'')]))
          else Inl (AuthorityError ''OPERATIONS_RETIREMENT_ACCESS_UNAVAILABLE''))"

definition retire_inventory :: "env \<Rightarrow> string \<Rightarrow> bool \<Rightarrow> string \<Rightarrow> dict eff" where
  "retire_inventory E table limited key_id =
     ebind (retire_continue E limited) (\<lambda>_.
     ecatch (expiry_inventory E table (Some key_id)) (\<lambda>e. case e of
         SdkError \<Rightarrow> eraise (AuthorityError ''OPERATIONS_RETIREMENT_READ_UNAVAILABLE'')
       | _ \<Rightarrow> eraise e))"

definition retire_resolution :: "env \<Rightarrow> string \<Rightarrow> bool \<Rightarrow> key \<Rightarrow> bool eff" where
  "retire_resolution E table limited k =
     ebind (faults_as (retire_get E table limited k) (AuthorityError ''OPERATIONS_RETIREMENT_TRANSACTION_UNCERTAIN'')) (\<lambda>latest.
     if latest = None \<or> \<not> has_operations (contents latest) then eret False
     else eraise (AuthorityError ''OPERATIONS_RETIREMENT_TRANSACTION_UNCERTAIN''))"

definition retire_row :: "env \<Rightarrow> string \<Rightarrow> bool \<Rightarrow> key \<Rightarrow> string \<Rightarrow> dict \<Rightarrow> bool eff" where
  "retire_row E table limited k key_id row =
     ebind (elift (retire_metadata E row)) (\<lambda>m.
     ebind (e_now E) (\<lambda>now.
     ebind (eraise_if (now < 0) (AuthorityError ''OPERATIONS_RETIREMENT_CLOCK_UNAVAILABLE'')) (\<lambda>_.
     ebind (eraise_if (dget row ''recordType'' \<noteq> PStr ''V1_CHECK_RECEIPT'' \<or> dget row ''policyVersion'' \<noteq> PStr OWNER_POLICY
         \<or> \<not> one_of (dget row ''state'') [''ADMITTED'', ''SETTLED'']) RETIRE_INVALID) (\<lambda>_.
     ebind (elift (retire_place k row m)) (\<lambda>place.
     if inum m ''expiresAtEpoch'' > now then eret False else
     ebind (retire_inventory E table limited key_id) (\<lambda>inventory.
     ebind (retire_get E table limited (fst k, ''ACCESS'')) (\<lambda>access.
     ebind (elift (retire_access table (fst k) access)) (\<lambda>guard_act.
     ebind (retire_continue E limited) (\<lambda>_.
     ebind (e_transact E [inventory_condition table inventory, guard_act, retire_action table k row m place]) (\<lambda>r.
     if r = Committed then eret True else retire_resolution E table limited k))))))))))"

definition retire :: "env \<Rightarrow> string \<Rightarrow> bool \<Rightarrow> pyval \<Rightarrow> pyval \<Rightarrow> bool eff" where
  "retire E table limited part_v sort_v =
     (case (as_str part_v, as_str sort_v) of
        (Some part, Some sk) \<Rightarrow>
          (case partition_key part of
             None \<Rightarrow> eraise (AuthorityError ''OPERATIONS_RETIREMENT_REFERENCE_INVALID'')
           | Some key_id \<Rightarrow>
               ebind (eraise_if (\<not> prefixed ''CHECK#'' is_proof sk) (AuthorityError ''OPERATIONS_RETIREMENT_REFERENCE_INVALID'')) (\<lambda>_.
               ebind (retire_get E table limited (part, sk)) (\<lambda>it.
               case it of
                 None \<Rightarrow> eret False
               | Some row \<Rightarrow> if \<not> has_operations row then eret False else retire_row E table limited (part, sk) key_id row)))
      | _ \<Rightarrow> eraise (AuthorityError ''OPERATIONS_RETIREMENT_REFERENCE_INVALID''))"

section \<open>Sweeps\<close>

record counts =
  examined :: nat
  completed :: nat      \<comment> \<open>\<open>recovered\<close> or \<open>deleted\<close>\<close>
  failed :: nat
  pages :: nat
  oldestOverdueSeconds :: int
  operationsRetired :: nat

definition no_counts :: counts where
  "no_counts = \<lparr>examined = 0, completed = 0, failed = 0, pages = 0, oldestOverdueSeconds = 0, operationsRetired = 0\<rparr>"

definition item_cursor :: "dict \<Rightarrow> dict result" where   \<comment> \<open>\<open>{k: item[k] for k in ('PK', 'SK', 'GSI1PK', 'GSI1SK')}\<close>\<close>
  "item_cursor it = sequence (map (\<lambda>k. rbind (didx it k) (\<lambda>v. Inr (k, v))) [''PK'', ''SK'', ''GSI1PK'', ''GSI1SK''])"

definition overdue :: "env \<Rightarrow> int option \<Rightarrow> counts \<Rightarrow> counts eff" where
  "overdue E deadline c =
     (case deadline of
        None \<Rightarrow> eret c
      | Some d \<Rightarrow> ebind (e_now E) (\<lambda>now. eret (c\<lparr>oldestOverdueSeconds := max (oldestOverdueSeconds c) (max 0 (now - d))\<rparr>)))"

definition failure_counted :: "counts eff \<Rightarrow> counts \<Rightarrow> counts eff" where
  \<comment> \<open>\<open>except (AuthorityError, KeyError, TypeError): counts['failed'] += 1\<close>\<close>
  "failure_counted m c = ecatch m (\<lambda>e. case e of
       AuthorityError x \<Rightarrow> eret (c\<lparr>failed := failed c + 1\<rparr>)
     | KeyError x \<Rightarrow> eret (c\<lparr>failed := failed c + 1\<rparr>)
     | TypeError \<Rightarrow> eret (c\<lparr>failed := failed c + 1\<rparr>)
     | _ \<Rightarrow> eraise e)"

definition retire_item :: "env \<Rightarrow> string \<Rightarrow> dict \<Rightarrow> counts \<Rightarrow> counts eff" where
  "retire_item E table it c =
     ebind (elift (didx it ''PK'')) (\<lambda>pk. ebind (elift (didx it ''SK'')) (\<lambda>sk.
     ebind (retire E table False pk sk) (\<lambda>r.
     eret (if r then c\<lparr>operationsRetired := operationsRetired c + 1\<rparr> else c))))"

text \<open>
  One item of a sweep yields the counts and whether to stop here; the exception handler keeps what
  was counted before the exception.
\<close>

definition guarded_stage :: "counts eff \<Rightarrow> counts \<Rightarrow> (counts \<times> bool) eff" where
  \<comment> \<open>one stage under the handler, and whether it was left by the exception\<close>
  "guarded_stage m c = ecatch (ebind m (\<lambda>c'. eret (c', False))) (\<lambda>e. case e of
       AuthorityError x \<Rightarrow> eret (c\<lparr>failed := failed c + 1\<rparr>, True)
     | KeyError x \<Rightarrow> eret (c\<lparr>failed := failed c + 1\<rparr>, True)
     | TypeError \<Rightarrow> eret (c\<lparr>failed := failed c + 1\<rparr>, True)
     | _ \<Rightarrow> eraise e)"

definition recovery_item :: "env \<Rightarrow> string \<Rightarrow> dict \<Rightarrow> counts \<Rightarrow> (counts \<times> bool) eff" where
  \<comment> \<open>the second component: out of time, return with the previous cursor\<close>
  "recovery_item E table it c =
     ebind (overdue E (integral (dget it ''settleByEpoch'')) (c\<lparr>examined := examined c + 1\<rparr>)) (\<lambda>c1.
     ebind (if has_operations it then guarded_stage (retire_item E table it c1) c1 else eret (c1, False)) (\<lambda>s.
     if snd s then eret (fst s, False) else
     ebind (if has_operations it then e_continue E else eret True) (\<lambda>go.
     if \<not> go then eret (fst s, True) else
     ebind (failure_counted (ebind (elift (didx it ''PK'')) (\<lambda>pk. ebind (elift (didx it ''checkId'')) (\<lambda>cid.
              ebind (lease_expire E table pk cid) (\<lambda>r. eret (if r then (fst s)\<lparr>completed := completed (fst s) + 1\<rparr> else fst s))))) (fst s)) (\<lambda>c2.
     eret (c2, False)))))"

fun recovery_items :: "env \<Rightarrow> string \<Rightarrow> dict list \<Rightarrow> dict \<Rightarrow> counts \<Rightarrow> (counts \<times> dict \<times> bool) eff" where
  "recovery_items E table [] cursor c = eret (c, cursor, False)"
| "recovery_items E table (it # its) cursor c =
     ebind (e_continue E) (\<lambda>go.
     if \<not> go then eret (c, cursor, True) else
     ebind (elift (item_cursor it)) (\<lambda>next_cursor.
     ebind (recovery_item E table it c) (\<lambda>s.
     if snd s then eret (fst s, cursor, True) else recovery_items E table its next_cursor (fst s))))"

fun recovery_pages :: "nat \<Rightarrow> env \<Rightarrow> string \<Rightarrow> nat \<Rightarrow> dict \<Rightarrow> counts \<Rightarrow> (counts \<times> dict) eff" where
  "recovery_pages 0 E table page_size cursor c = eret (c, cursor)"
| "recovery_pages (Suc n) E table page_size cursor c =
     ebind (e_continue E) (\<lambda>go.
     if \<not> go then eret (c, cursor) else
     ebind (e_now E) (\<lambda>now.
     ebind (e_page E table ''V1_PENDING'' (fmt_d 12 now @ ''~'') page_size cursor) (\<lambda>page.
     ebind (recovery_items E table (fst page) cursor (c\<lparr>pages := pages c + 1\<rparr>)) (\<lambda>r.
     if snd (snd r) then eret (fst r, fst (snd r))
     else if snd page = [] then eret (fst r, snd page)
     else recovery_pages n E table page_size (snd page) (fst r)))))"

definition sweep_bounds :: "nat \<Rightarrow> nat \<Rightarrow> bool" where
  "sweep_bounds page_size max_pages = (1 \<le> page_size \<and> page_size \<le> 25 \<and> 1 \<le> max_pages \<and> max_pages \<le> 4)"

definition recovery_sweep :: "env \<Rightarrow> string \<Rightarrow> dict \<Rightarrow> nat \<Rightarrow> nat \<Rightarrow> (counts \<times> dict) eff" where   \<comment> \<open>\<open>Recovery.sweep\<close>\<close>
  "recovery_sweep E table cursor page_size max_pages =
     ebind (eraise_if (\<not> sweep_bounds page_size max_pages) (AuthorityError ''RECOVERY_CONFIGURATION_INVALID'')) (\<lambda>_.
     recovery_pages max_pages E table page_size cursor no_counts)"

definition indexed_expiry :: "dict \<Rightarrow> int option result" where
  \<comment> \<open>a row with an operational reference is filed under its earlier deadline\<close>
  "indexed_expiry it =
     (let full = integral (dget it ''expiresAt'') in
      if \<not> has_operations it then Inr full else
      (case as_str (dget_or it ''GSI1SK'' (PStr [])) of
         None \<Rightarrow> Inr full
       | Some t \<Rightarrow>
           let prefix = takeWhile (\<lambda>ch. ch \<noteq> CHR ''#'') t in
           if length prefix = 12 \<and> list_all is_digit_like prefix then rbind (parse_int prefix) (\<lambda>n. Inr (Some n)) else Inr full))"

definition expiry_item :: "env \<Rightarrow> string \<Rightarrow> dict \<Rightarrow> counts \<Rightarrow> (counts \<times> bool) eff" where
  "expiry_item E table it c =
     ebind (elift (indexed_expiry it)) (\<lambda>deadline.
     ebind (overdue E deadline (c\<lparr>examined := examined c + 1\<rparr>)) (\<lambda>c1.
     let full = integral (dget it ''expiresAt'') in
     ebind (if has_operations it then guarded_stage (retire_item E table it c1) c1 else eret (c1, False)) (\<lambda>s.
     if snd s then eret (fst s, False) else
     ebind (if has_operations it then e_continue E else eret True) (\<lambda>go.
     if \<not> go then eret (fst s, True) else
     ebind (if \<not> has_operations it then eret True else
            (case full of None \<Rightarrow> eret False | Some t \<Rightarrow> ebind (e_now E) (\<lambda>now. eret (t \<le> now)))) (\<lambda>due.
     if \<not> due then eret (fst s, False) else
     ebind (failure_counted (ebind (elift (didx it ''PK'')) (\<lambda>pk. ebind (elift (didx it ''SK'')) (\<lambda>sk.
              ebind (expire E table pk sk) (\<lambda>r. eret (if r then (fst s)\<lparr>completed := completed (fst s) + 1\<rparr> else fst s))))) (fst s)) (\<lambda>c2.
     eret (c2, False)))))))"

fun expiry_items :: "env \<Rightarrow> string \<Rightarrow> dict list \<Rightarrow> dict \<Rightarrow> counts \<Rightarrow> (counts \<times> dict \<times> bool) eff" where
  "expiry_items E table [] cursor c = eret (c, cursor, False)"
| "expiry_items E table (it # its) cursor c =
     ebind (e_continue E) (\<lambda>go.
     if \<not> go then eret (c, cursor, True) else
     ebind (expiry_item E table it c) (\<lambda>s.
     if snd s then eret (fst s, cursor, True) else
     ebind (elift (item_cursor it)) (\<lambda>next_cursor.
     expiry_items E table its next_cursor (fst s))))"

fun expiry_pages :: "nat \<Rightarrow> env \<Rightarrow> string \<Rightarrow> nat \<Rightarrow> dict \<Rightarrow> counts \<Rightarrow> (counts \<times> dict) eff" where
  "expiry_pages 0 E table page_size cursor c = eret (c, cursor)"
| "expiry_pages (Suc n) E table page_size cursor c =
     ebind (e_continue E) (\<lambda>go.
     if \<not> go then eret (c, cursor) else
     ebind (e_now E) (\<lambda>now.
     ebind (e_page E table ''V1_EXPIRING'' (fmt_d 12 now @ ''~'') page_size cursor) (\<lambda>page.
     ebind (expiry_items E table (fst page) cursor (c\<lparr>pages := pages c + 1\<rparr>)) (\<lambda>r.
     if snd (snd r) then eret (fst r, fst (snd r))
     else if snd page = [] then eret (fst r, snd page)
     else expiry_pages n E table page_size (snd page) (fst r)))))"

definition expiry_sweep :: "env \<Rightarrow> string \<Rightarrow> dict \<Rightarrow> nat \<Rightarrow> nat \<Rightarrow> (counts \<times> dict) eff" where   \<comment> \<open>\<open>Expiry.sweep\<close>\<close>
  "expiry_sweep E table cursor page_size max_pages =
     ebind (eraise_if (\<not> sweep_bounds page_size max_pages) (AuthorityError ''EXPIRY_CONFIGURATION_INVALID'')) (\<lambda>_.
     expiry_pages max_pages E table page_size cursor no_counts)"

end
