(* ===== verification/Workers.thy ===== *)
theory Workers
  imports Ledger Leases
begin

text \<open>
  The whole system of the authority: the operations that serve callers and the background workers
  that recover leases, remove expired records and retire operational references, in any
  interleaving. The contract \<open>authority_writes\<close> is extended by the writes of the workers, and the
  bounds of the ledger are shown to hold in every history of the system.
\<close>

section \<open>Worker operations that only read\<close>

context guarded_db
begin

lemma keeps_lease_releases [keeps_intros]: "keeps Inv (lease_releases E t part row now)"
  unfolding lease_releases_def by (intro keeps_intros)

lemma keeps_expiry_inventory [keeps_intros]: "keeps Inv (expiry_inventory E t k)"
  unfolding expiry_inventory_def Let_def by (intro keeps_intros)

lemma keeps_expiry_resolution [keeps_intros]: "keeps Inv (expiry_resolution E t k e)"
  unfolding expiry_resolution_def Let_def by (intro keeps_intros)

lemma keeps_retire_continue [keeps_intros]: "keeps Inv (retire_continue E l)"
  unfolding retire_continue_def by (intro keeps_intros)

lemma keeps_retire_get [keeps_intros]: "keeps Inv (retire_get E t l k)"
  unfolding retire_get_def by (intro keeps_intros)

lemma keeps_retire_inventory [keeps_intros]: "keeps Inv (retire_inventory E t l k)"
  unfolding retire_inventory_def by (intro keeps_intros) (auto intro: keeps_intros split: exc.split)

lemma keeps_retire_resolution [keeps_intros]: "keeps Inv (retire_resolution E t l k)"
  unfolding retire_resolution_def by (intro keeps_intros)

lemma keeps_overdue [keeps_intros]: "keeps Inv (overdue E d c)"
  unfolding overdue_def by (intro keeps_intros)

lemma keeps_failure_counted [keeps_intros]: "keeps Inv m \<Longrightarrow> keeps Inv (failure_counted m c)"
  unfolding failure_counted_def by (intro keeps_intros) (auto intro: keeps_intros split: exc.split)

lemma keeps_guarded_stage [keeps_intros]: "keeps Inv m \<Longrightarrow> keeps Inv (guarded_stage m c)"
  unfolding guarded_stage_def by (intro keeps_intros) (auto intro: keeps_intros split: exc.split)

end

section \<open>The writes of the workers\<close>

definition releases_within :: "string \<Rightarrow> int \<Rightarrow> int \<Rightarrow> action list \<Rightarrow> bool" where
  \<comment> \<open>counter writes on paid rows that stay within the limit\<close>
  "releases_within t rd ud acts = (\<forall>a \<in> set acts. \<exists>row. a = local_counter_action t row rd ud \<and> paid_row row
     \<and> counters_within row PAID_COMPLETED_CHECKS rd ud)"

lemma paired_expired:
  assumes "yields (paired_counter_actions E t period rd 0 now True) acts" "rd \<le> 0"
  shows "releases_within t rd 0 acts"
proof -
  from assms(1) obtain w w' where run: "paired_counter_actions E t period rd 0 now True w = (Inr acts, w')"
    by (auto simp: yields_def)
  then obtain r w1 where r: "global_for_period E t period now True w = (Inr r, w1)"
    unfolding paired_counter_actions_def ebind_Inr by blast
  from r obtain p where p: "validate_period (PDict period) = Inr p"
    by (auto simp: global_for_period_def ebind_Inr)
  note period = validate_period_Inr [OF p]
  from run r have nr: "0 \<le> inum period ''reservedChecks'' + rd"
    by (auto simp: paired_counter_actions_def ebind_Inr eraise_if_def split: if_splits option.splits)
  have local: "paid_row period" "counters_within period PAID_COMPLETED_CHECKS rd 0"
    using validate_period_limit [OF p] period(2) [of "''usedChecks''"] period(2) [of "''reservedChecks''"] period(3-5) nr assms(2)
    by (auto simp: counters_within_def)
  show ?thesis
  proof (cases r)
    case None
    with run r have "acts = [local_counter_action t period rd 0]"
      by (auto simp: paired_counter_actions_def ebind_Inr)
    with local show ?thesis by (auto simp: releases_within_def)
  next
    case (Some g)
    with r obtain q where q: "usage_ok q g" by (cases rule: global_for_period_yields) auto
    from run r Some obtain act where act: "counter_action t g rd 0 now = Inr act"
        "acts = [local_counter_action t period rd 0, act]"
      by (auto simp: paired_counter_actions_def ebind_Inr)
    note ca = counter_action_Inr [OF act(1)]
    have nn: "0 \<le> inum g ''usedChecks'' + 0" using usage_okD(1) [OF q] by simp
    from local act(2) ca(1) usage_ok_within [OF q nn ca(4,5)] show ?thesis by (auto simp: releases_within_def)
  qed
qed

locale worker_writes = authority_writes +
  assumes lease_release_safe: "item_safe P (lease_release (authority_table s) part sk rv)"
    and lease_leave_safe: "item_safe P (lease_leave (authority_table s) part)"
    and lease_settle_safe: "item_safe P (Update (authority_table s) k
      (lease_updates receipt deadline file_key summary reason assessed now) (lease_condition tok now captured))"
    and delete_safe: "item_safe P (Delete (authority_table s) k c)"
    and retire_safe: "retire_place k row m = Inr place \<Longrightarrow> item_safe P (retire_action (authority_table s) k row m place)"
begin

lemma lease_releases_safe:
  assumes "yields (lease_releases E (authority_table s) part row now) acts"
  shows "list_all (item_safe P) acts"
proof (cases "dget row ''basis'' = PStr ''paid''")
  case True
  with assms obtain period where "yields (paired_counter_actions E (authority_table s) period (- 1) 0 now True) acts"
    by (auto simp: lease_releases_def dest!: yields_bind)
  then have "releases_within (authority_table s) (- 1) 0 acts" by (rule paired_expired) simp
  then show ?thesis using counter_safe by (fastforce simp: releases_within_def list_all_iff)
next
  case False
  with assms have "acts = [] \<or> (\<exists>sk rv. acts = [lease_release (authority_table s) part sk rv])"
    unfolding lease_releases_def by (fastforce dest!: yields_bind split: if_splits option.splits)
  then show ?thesis using lease_release_safe by auto
qed

lemma lease_settlement_safe:
  "lease_settlement E (authority_table s) k cid row now = Inr act \<Longrightarrow> item_safe P act"
  unfolding lease_settlement_def Let_def by (clarsimp simp: rbind_Inr_iff lease_settle_safe)

lemma keeps_lease_expire [keeps_intros]: "keeps (all_items P) (lease_expire E (authority_table s) pk cid)"
  unfolding lease_expire_def Let_def
  by (intro keeps_intros) (simp_all add: not_deleting_def lease_releases_safe lease_leave_safe lease_settlement_safe)

lemma keeps_expire_usage [keeps_intros]: "keeps (all_items P) (expire_usage E (authority_table s) pk sk)"
  unfolding expire_usage_def Let_def by (intro keeps_intros) (simp_all add: inventory_condition_def delete_safe)

lemma expiry_guard_safe: "expiry_guard t part f a = Inr (Some act) \<Longrightarrow> item_safe P act"
  by (auto simp: expiry_guard_def split: option.splits if_splits)

lemma keeps_expire_row [keeps_intros]: "keeps (all_items P) (expire_row E (authority_table s) part kid sk f)"
  unfolding expire_row_def Let_def
  by (intro keeps_intros) (simp_all add: inventory_condition_def expiry_delete_def delete_safe expiry_guard_safe)

lemma keeps_expire [keeps_intros]: "keeps (all_items P) (expire E (authority_table s) pk sk)"
  unfolding expire_def by (intro keeps_intros)

lemma retire_access_safe: "retire_access t part a = Inr act \<Longrightarrow> item_safe P act"
  by (auto simp: retire_access_def split: option.splits if_splits)

lemma keeps_retire_row [keeps_intros]: "keeps (all_items P) (retire_row E (authority_table s) l k kid row)"
  unfolding retire_row_def
  by (intro keeps_intros) (simp_all add: inventory_condition_def retire_access_safe retire_safe)

lemma keeps_retire [keeps_intros]: "keeps (all_items P) (retire E (authority_table s) l pk sk)"
  unfolding retire_def by (intro keeps_intros)

lemma keeps_retire_item [keeps_intros]: "keeps (all_items P) (retire_item E (authority_table s) it c)"
  unfolding retire_item_def by (intro keeps_intros)

lemma keeps_recovery_item [keeps_intros]: "keeps (all_items P) (recovery_item E (authority_table s) it c)"
  unfolding recovery_item_def by (intro keeps_intros)

lemma keeps_recovery_items [keeps_intros]: "keeps (all_items P) (recovery_items E (authority_table s) its cursor c)"
  by (induction its arbitrary: cursor c; simp only: recovery_items.simps) (intro keeps_intros; blast)+

lemma keeps_recovery_pages [keeps_intros]: "keeps (all_items P) (recovery_pages n E (authority_table s) m cursor c)"
  by (induction n arbitrary: cursor c; simp only: recovery_pages.simps) (intro keeps_intros; blast)+

lemma keeps_recovery_sweep [keeps_intros]: "keeps (all_items P) (recovery_sweep E (authority_table s) cursor m n)"
  unfolding recovery_sweep_def by (intro keeps_intros)

lemma keeps_expiry_item [keeps_intros]: "keeps (all_items P) (expiry_item E (authority_table s) it c)"
  unfolding expiry_item_def Let_def by (intro keeps_intros)

lemma keeps_expiry_items [keeps_intros]: "keeps (all_items P) (expiry_items E (authority_table s) its cursor c)"
  by (induction its arbitrary: cursor c; simp only: expiry_items.simps) (intro keeps_intros; blast)+

lemma keeps_expiry_pages [keeps_intros]: "keeps (all_items P) (expiry_pages n E (authority_table s) m cursor c)"
  by (induction n arbitrary: cursor c; simp only: expiry_pages.simps) (intro keeps_intros; blast)+

lemma keeps_expiry_sweep [keeps_intros]: "keeps (all_items P) (expiry_sweep E (authority_table s) cursor m n)"
  unfolding expiry_sweep_def by (intro keeps_intros)

end

section \<open>The ledger under the workers\<close>

lemma ledger_lease_release: "item_safe (ledger_item s) (lease_release (authority_table s) part sk revision)"
  unfolding lease_release_def
proof (rule ledger_update)
  fix it :: "dict option"
  define d where "d = update_base (part, sk) it"
  assume row: "ledger_row s (update_base (part, sk) it)"
    and all: "cond_holds (all_of [equals ''recordType'' (PStr ''V1_ALLOWANCE_PERIOD''), Cmp CGe ''reservedChecks'' (PInt 1),
          equals ''grantRevision'' revision, equals ''policyVersion'' (PStr OWNER_POLICY)]) (contents it)"
  note row = row [folded d_def]
  from all have c: "cond_holds (Cmp CGe ''reservedChecks'' (PInt 1)) (contents it)" unfolding cond_holds_all_of by simp
  from cond_present [OF c] have "dhas d ''reservedChecks''" by (simp add: d_def update_base_fields)
  then obtain l u r where l: "l \<in> {TRIAL_COMPLETED_CHECKS, PAID_COMPLETED_CHECKS}" "integral (dget d ''limit'') = Some l"
      "integral (dget d ''usedChecks'') = Some u" "integral (dget d ''reservedChecks'') = Some r" "0 \<le> u" "0 \<le> r" "u + r \<le> l"
    using counted_rowE [OF row] by metis
  have "1 \<le> r" using c l(4) by (simp add: d_def update_base_fields cond_integral del: cond_holds.simps(4))
  then have "ledger_row s (apply_update (UAdd ''reservedChecks'' (- 1)) d)"
    by (intro counted_step [OF row _ integral_uadd [OF l(4)] l(2,1)])
      (use l in \<open>auto simp: agree_def dget_uadd\<close>)
  then show "ledger_row s (fold apply_update [UAdd ''reservedChecks'' (- 1)] (update_base (part, sk) it))"
    by (simp add: d_def)
qed

lemma ledger_lease_leave: "item_safe (ledger_item s) (lease_leave (authority_table s) part)"
  using ledger_leave [of s part] by (simp add: lease_leave_def inflight_leave_def)

lemma ledger_lease_settle:
  "item_safe (ledger_item s) (Update (authority_table s) k (lease_updates receipt deadline file_key summary reason assessed now) c)"
proof (rule ledger_update)
  fix it :: "dict option"
  assume row: "ledger_row s (update_base k it)"
  show "ledger_row s (fold apply_update (lease_updates receipt deadline file_key summary reason assessed now) (update_base k it))"
    by (rule ledger_row_step [OF row])
      (auto simp: lease_updates_def agree_def settled_ok_def settled_row_def OUTCOMES_def split: option.splits)
qed

lemma ledger_delete: "item_safe (ledger_item s) (Delete t k c)"
  by (simp add: item_safe_def ledger_item_def)

lemma retire_place_sets: "retire_place k row m = Inr place \<Longrightarrow> fst place = [] \<or> (\<exists>v. fst place = [USet ''GSI1SK'' v])"
  by (auto simp: retire_place_def rbind_Inr_iff split: if_splits option.splits)

lemma ledger_retire:
  assumes "retire_place k row m = Inr place"
  shows "item_safe (ledger_item s) (retire_action (authority_table s) k row m place)"
  unfolding retire_action_def
proof (rule ledger_update)
  fix it :: "dict option"
  assume row: "ledger_row s (update_base k it)"
  show "ledger_row s (fold apply_update (fst place @ [URemove ''operationsReceipt'', URemove ''operationsTerminalReasonCode'',
      URemove ''operationsProjection'']) (update_base k it))"
    by (rule ledger_row_step [OF row]) (use retire_place_sets [OF assms] in \<open>auto simp: agree_def\<close>)
qed

lemma worker_ledger_writes:
  assumes "guarded_items E (ledger_item s)"
  shows "worker_writes E (ledger_item s) s"
  by (intro worker_writes.intro worker_writes_axioms.intro ledger_writes assms ledger_lease_release ledger_lease_leave
      ledger_lease_settle ledger_delete ledger_retire)

interpretation worker_ledger: worker_writes "quiet_env now h" "ledger_item s" s
  by (rule worker_ledger_writes) (rule quiet_items.guarded_items_axioms)

section \<open>Histories of the system\<close>

inductive system_step :: "env \<Rightarrow> settings \<Rightarrow> intents \<Rightarrow> db \<Rightarrow> db \<Rightarrow> bool" for E s I where
  authority: "authority_step E s I db db' \<Longrightarrow> system_step E s I db db'"
| lease: "lease_expire E (authority_table s) pk cid \<lparr>tables = db, tick = n\<rparr> = (r, w) \<Longrightarrow> system_step E s I db (tables w)"
| record_expiry: "expire E (authority_table s) pk sk \<lparr>tables = db, tick = n\<rparr> = (r, w) \<Longrightarrow> system_step E s I db (tables w)"
| retirement: "retire E (authority_table s) limited pk sk \<lparr>tables = db, tick = n\<rparr> = (r, w) \<Longrightarrow> system_step E s I db (tables w)"
| recovery: "recovery_sweep E (authority_table s) cursor m p \<lparr>tables = db, tick = n\<rparr> = (c, w) \<Longrightarrow> system_step E s I db (tables w)"
| removal: "expiry_sweep E (authority_table s) cursor m p \<lparr>tables = db, tick = n\<rparr> = (c, w) \<Longrightarrow> system_step E s I db (tables w)"

inductive system_run :: "env \<Rightarrow> settings \<Rightarrow> intents \<Rightarrow> db \<Rightarrow> db \<Rightarrow> bool" for E s I db where
  start: "system_run E s I db db"
| step: "system_run E s I db db1 \<Longrightarrow> system_step E s I db1 db2 \<Longrightarrow> system_run E s I db db2"

context worker_writes
begin

lemma keeps_run:
  assumes "keeps (all_items P) m" "m \<lparr>tables = db, tick = n\<rparr> = (r, w)" "all_items P db"
  shows "all_items P (tables w)"
  using keepsD [OF assms(1), of "\<lparr>tables = db, tick = n\<rparr>"] assms(2,3) by simp

lemma system_step_keeps:
  assumes "system_step E s I db db'" "all_items P db"
  shows "all_items P db'"
  using assms(1)
proof cases
  case authority
  with assms(2) show ?thesis by (blast intro: step_keeps)
next
  case (lease pk cid n r w)
  then show ?thesis using keeps_run [OF keeps_lease_expire] assms(2) by blast
next
  case (record_expiry pk sk n r w)
  then show ?thesis using keeps_run [OF keeps_expire] assms(2) by blast
next
  case (retirement limited pk sk n r w)
  then show ?thesis using keeps_run [OF keeps_retire] assms(2) by blast
next
  case (recovery cursor m p n c w)
  then show ?thesis using keeps_run [OF keeps_recovery_sweep] assms(2) by blast
next
  case (removal cursor m p n c w)
  then show ?thesis using keeps_run [OF keeps_expiry_sweep] assms(2) by blast
qed

lemma system_run_keeps: "system_run E s I db db' \<Longrightarrow> all_items P db \<Longrightarrow> all_items P db'"
  by (induction rule: system_run.induct) (auto intro: system_step_keeps)

end

text \<open>
  C1 (invariant). The ledger stays within its bounds in every history of the system. Whatever
  sequence of preparations, admissions, reconciliations, settlements, lease recoveries, expiry and
  retirement sweeps runs, with any arguments, interleaved with other writers that respect the ledger, and with any transaction
  possibly failing or committing without an answer: no period row ever counts more used and reserved
  checks than its limit (10 or 200) or a negative number of either, no account ever has more checks
  in flight than allowed, no attempt counter passes its cap, and a settled receipt has a known
  outcome, charged for only when the check was complete.
\<close>

theorem ledger_invariant:
  assumes "validate_settings s" "transact_service (transact E)"
    and "\<And>db i. all_items (ledger_item s) db \<Longrightarrow> all_items (ledger_item s) (peers E i db)"
    and "all_items (ledger_item s) db" "system_run E s I db db'" "db' (authority_table s) k = Some d"
  shows "(dhas d ''usedChecks'' \<or> dhas d ''reservedChecks'' \<longrightarrow>
      (\<exists>l u r. l \<in> {10, 200} \<and> integral (dget d ''limit'') = Some l \<and> integral (dget d ''usedChecks'') = Some u
         \<and> integral (dget d ''reservedChecks'') = Some r \<and> 0 \<le> u \<and> 0 \<le> r \<and> u + r \<le> l))
    \<and> (dhas d ''activeCount'' \<longrightarrow> (\<exists>n. integral (dget d ''activeCount'') = Some n \<and> 0 \<le> n \<and> n \<le> max_inflight s))
    \<and> (dhas d ''attempts'' \<longrightarrow> (\<exists>n. integral (dget d ''attempts'') = Some n \<and> 0 \<le> n \<and> n \<le> attempts_per_window s))
    \<and> (dget d ''state'' = PStr ''SETTLED'' \<longrightarrow> (\<exists>o' \<in> set OUTCOMES. dget d ''processingOutcome'' = PStr o')
      \<and> (dget d ''chargedChecks'' = PInt 0 \<or> dget d ''chargedChecks'' = PInt 1 \<and> dget d ''processingOutcome'' = PStr ''complete''))"
proof -
  have "all_items (ledger_item s) db'"
    by (rule worker_writes.system_run_keeps [OF worker_ledger_writes [OF guarded_itemsI [OF assms(2,3)]] assms(5,4)])
  then have "ledger_item s (authority_table s) k (db' (authority_table s) k)" unfolding all_items_def by blast
  with assms(1,6) have row: "ledger_row s d" by (simp add: ledger_item_def)
  then have "dhas d ''usedChecks'' \<or> dhas d ''reservedChecks'' \<longrightarrow>
      (\<exists>l u r. l \<in> {10, 200} \<and> integral (dget d ''limit'') = Some l \<and> integral (dget d ''usedChecks'') = Some u
         \<and> integral (dget d ''reservedChecks'') = Some r \<and> 0 \<le> u \<and> 0 \<le> r \<and> u + r \<le> l)"
    using counted_rowE [OF row] unfolding PAID_COMPLETED_CHECKS_def TRIAL_COMPLETED_CHECKS_def by metis
  with row show ?thesis
    by (simp add: ledger_row_def capped_def within_def settled_ok_def settled_row_def)
qed

section \<open>Instances\<close>

lemma ex_system_run: "system_run (quiet_env 5 h) s I ex_ledger ex_ledger"
proof (rule system_run.step [OF system_run.start])
  have "recovery_sweep (quiet_env 5 h) (authority_table s) [] 0 0 \<lparr>tables = ex_ledger, tick = 0\<rparr>
      = (Inl (AuthorityError ''RECOVERY_CONFIGURATION_INVALID''), \<lparr>tables = ex_ledger, tick = 0\<rparr>)"
    by (simp add: recovery_sweep_def sweep_bounds_def)
  from system_step.recovery [OF this] show "system_step (quiet_env 5 h) s I ex_ledger ex_ledger" by simp
qed

lemma ledger_invariant_witness:
  "\<exists>l u r. l \<in> {10, 200} \<and> integral (PInt 10) = Some l \<and> integral (PInt 4) = Some u \<and> integral (PInt 6) = Some r \<and> u + r \<le> (l :: int)"
  using ledger_invariant [OF ex_settings quiet_env(2) _ ex_ledger_items ex_system_run [of "\<lambda>_ _. []"],
      of "(''p'', ''PERIOD#1'')" "[(''limit'', PInt 10), (''usedChecks'', PInt 4), (''reservedChecks'', PInt 6)]"]
  by (simp add: ex_ledger_def ex_settings_def)

end
