(* ===== verification/Protocol.thy ===== *)
theory Protocol
  imports Workers
begin

text \<open>
  The protocol of a check: which check identifiers are accepted, that an admission happens at most
  once for an identifier, and what one settlement does to the rows it touches.
\<close>

section \<open>Tokens\<close>

lemma of_base_hex_inj:
  "length a = length b \<Longrightarrow> list_all is_hex a \<Longrightarrow> list_all is_hex b \<Longrightarrow> of_base 16 a = of_base 16 b \<Longrightarrow> a = b"
proof (induction a arbitrary: b rule: rev_induct)
  case (snoc c a)
  then obtain b' d where b: "b = b' @ [d]" by (cases b rule: rev_cases) auto
  have less: "digit_val x < 16 \<and> x = digit_char (digit_val x)" if "is_hex x" for x
    using that by (auto simp: is_hex_def is_digit_def digit_val_def digit_char_def code_def)
  have "is_hex c" "is_hex d" using snoc.prems by (simp_all add: b)
  note c = less [OF this(1)] and d = less [OF this(2)]
  from snoc.prems(4) have eq: "of_base 16 a * 16 + digit_val c = of_base 16 b' * 16 + digit_val d"
    by (simp add: b of_base_append)
  then have "(of_base 16 a * 16 + digit_val c) mod 16 = (of_base 16 b' * 16 + digit_val d) mod 16" by simp
  then have "digit_val c = digit_val d" using c d by simp
  with eq have "of_base 16 a = of_base 16 b'" by simp
  with snoc b have "a = b'" by simp
  with c d \<open>digit_val c = digit_val d\<close> show ?case unfolding b by metis
qed simp

lemma of_base_hex: "list_all is_hex s \<Longrightarrow> of_base 16 s < 16 ^ length s"
proof (induction s rule: rev_induct)
  case (snoc c s)
  have "digit_val c < 16" using snoc.prems by (auto simp: is_hex_def is_digit_def digit_val_def)
  with snoc show ?case by (simp add: of_base_append)
qed (simp add: of_base_def)

lemma fmt_x_of_base: "fullmatch is_hex w w e \<Longrightarrow> 0 < w \<Longrightarrow> fmt_x w (int (of_base 16 e)) = e"
proof -
  assume e: "fullmatch is_hex w w e" "0 < w"
  then have "length e = w" "list_all is_hex e" by (auto simp: fullmatch_def)
  then have b: "of_base 16 e < 16 ^ w" using of_base_hex [of e] by simp
  have "int (of_base 16 e) < int (16 ^ w)" using b by (simp only: of_nat_less_iff)
  then have f: "fullmatch is_hex w w (fmt_x w (int (of_base 16 e)))" using e(2) by (intro fmt_x_fullmatch) simp_all
  show ?thesis
    by (rule of_base_hex_inj) (use e(1) f in \<open>simp_all add: fullmatch_def of_base_fmt_x\<close>)
qed

lemma free_of_underscore:
  "fullmatch is_alnum a b k \<Longrightarrow> CHR ''_'' \<notin> set k" "fullmatch is_hex a b k \<Longrightarrow> CHR ''_'' \<notin> set k"
  using is_alnum_not_underscore is_hex_not_underscore by (auto simp: fullmatch_def list_all_iff)

lemma parse_print_token:
  assumes "fullmatch is_alnum 1 8 k" "0 \<le> e" "e < 16 ^ 8" "fullmatch is_hex 16 16 n" "fullmatch is_hex 24 24 g"
  shows "parse_token (print_token k e n g) = Some \<lparr>tok_key = k, tok_expiry = e, tok_nonce = n, tok_tag = g\<rparr>"
proof -
  have x: "fullmatch is_hex 8 8 (fmt_x 8 e)" using assms by (intro fmt_x_fullmatch) simp_all
  have "split_on CHR ''_'' (print_token k e n g) = [''v1'', k, fmt_x 8 e, n, g]"
    using split_on_join [of "CHR ''_''" k] split_on_join [of "CHR ''_''" "fmt_x 8 e"] split_on_join [of "CHR ''_''" n]
      split_on_free [of "CHR ''_''" g] free_of_underscore(1) [OF assms(1)] free_of_underscore(2) [OF x]
      free_of_underscore(2) [OF assms(4)] free_of_underscore(2) [OF assms(5)]
    by (simp add: print_token_def)
  then show ?thesis using assms x by (simp add: parse_token_def of_base_fmt_x)
qed

lemma parse_token_print:
  assumes "parse_token c = Some t"
  shows "c = print_token (tok_key t) (tok_expiry t) (tok_nonce t) (tok_tag t)" "fullmatch is_alnum 1 8 (tok_key t)"
    "0 \<le> tok_expiry t" "tok_expiry t < 16 ^ 8" "fullmatch is_hex 16 16 (tok_nonce t)" "fullmatch is_hex 24 24 (tok_tag t)"
proof -
  from assms obtain k e n g where parts: "split_on CHR ''_'' c = [''v1'', k, e, n, g]"
      "fullmatch is_alnum 1 8 k" "fullmatch is_hex 8 8 e" "fullmatch is_hex 16 16 n" "fullmatch is_hex 24 24 g"
    and t: "t = \<lparr>tok_key = k, tok_expiry = int (of_base 16 e), tok_nonce = n, tok_tag = g\<rparr>"
    by (auto simp: parse_token_def split: list.splits if_splits)
  have "c = join_on CHR ''_'' [''v1'', k, e, n, g]" using join_split [of "CHR ''_''" c] parts(1) by simp
  then show "c = print_token (tok_key t) (tok_expiry t) (tok_nonce t) (tok_tag t)"
    using fmt_x_of_base [OF parts(3)] by (simp add: t print_token_def)
  have "of_base 16 e < 16 ^ 8" using parts(3) of_base_hex [of e] by (auto simp: fullmatch_def)
  then have "int (of_base 16 e) < int (16 ^ 8)" by (simp only: of_nat_less_iff)
  then show "0 \<le> tok_expiry t" "tok_expiry t < 16 ^ 8" by (simp_all add: t)
  show "fullmatch is_alnum 1 8 (tok_key t)" "fullmatch is_hex 16 16 (tok_nonce t)" "fullmatch is_hex 24 24 (tok_tag t)"
    using parts by (simp_all add: t)
qed

lemma verify_token_yields:
  "verify_token E s account (PStr c) (PStr digest) True w = (Inr k, w') \<longleftrightarrow>
     w' = w \<and> (\<exists>t. parse_token c = Some t \<and> tok_key t = k \<and> map_of (hmac_keys s) k \<noteq> None
       \<and> operation_tag E s k account digest (tok_expiry t) (tok_nonce t) = Inr (tok_tag t))"
  by (cases "parse_token c")
    (auto simp: verify_token_def token_parts_def ebind_Inr eraise_if_def rbind_Inr_iff operation_tag_def split: option.splits)

lemma operation_tag_hex:
  assumes "\<And>x y. fullmatch is_hex 64 64 (hmac_hex E x y)" "operation_tag E s k account digest e n = Inr tag"
  shows "fullmatch is_hex 24 24 tag"
proof -
  from assms(2) obtain m x y where "m = hmac_hex E x y" "tag = take 24 m"
    by (auto simp: operation_tag_def mac_def rbind_Inr_iff split: option.splits)
  with assms(1) [of x y] show ?thesis by (auto simp: fullmatch_def list_all_iff dest: in_set_takeD)
qed

text \<open>
  C13 (equivalence). The check identifiers that are accepted for an account and a request are
  exactly those that preparation mints for them: a known key, an expiry of at most eight hexadecimal
  digits, a nonce and the tag that the keyed hash gives to this account, this request digest, this
  expiry and this nonce. In particular the text of an identifier determines its parts, and one that
  was minted for another account or another request is accepted only if the keyed hash collides.
\<close>

theorem accepted_tokens_are_minted:
  assumes "\<And>x y. fullmatch is_hex 64 64 (hmac_hex E x y)" "validate_settings s"
  shows "(\<exists>w'. verify_token E s account (PStr c) (PStr digest) True w = (Inr k, w')) \<longleftrightarrow>
    (\<exists>e n tag. 0 \<le> e \<and> e < 16 ^ 8 \<and> fullmatch is_hex 16 16 n \<and> map_of (hmac_keys s) k \<noteq> None
       \<and> operation_tag E s k account digest e n = Inr tag \<and> c = print_token k e n tag)"
proof
  assume "\<exists>w'. verify_token E s account (PStr c) (PStr digest) True w = (Inr k, w')"
  then obtain t where "parse_token c = Some t" "tok_key t = k" "map_of (hmac_keys s) k \<noteq> None"
      "operation_tag E s k account digest (tok_expiry t) (tok_nonce t) = Inr (tok_tag t)"
    by (auto simp: verify_token_yields)
  with parse_token_print [of c t] show "\<exists>e n tag. 0 \<le> e \<and> e < 16 ^ 8 \<and> fullmatch is_hex 16 16 n \<and> map_of (hmac_keys s) k \<noteq> None
       \<and> operation_tag E s k account digest e n = Inr tag \<and> c = print_token k e n tag" by blast
next
  assume "\<exists>e n tag. 0 \<le> e \<and> e < 16 ^ 8 \<and> fullmatch is_hex 16 16 n \<and> map_of (hmac_keys s) k \<noteq> None
       \<and> operation_tag E s k account digest e n = Inr tag \<and> c = print_token k e n tag"
  then obtain e n tag where t: "0 \<le> e" "e < 16 ^ 8" "fullmatch is_hex 16 16 n" "map_of (hmac_keys s) k \<noteq> None"
      "operation_tag E s k account digest e n = Inr tag" "c = print_token k e n tag" by blast
  from t(4) obtain v where "map_of (hmac_keys s) k = Some v" by blast
  then have "(k, v) \<in> set (hmac_keys s)" by (rule map_of_SomeD)
  moreover have "list_all (\<lambda>kv. fullmatch is_alnum 1 8 (fst kv) \<and> length (snd kv) \<ge> 32) (hmac_keys s)"
    using assms(2) by (simp add: validate_settings_def)
  ultimately have "fullmatch is_alnum 1 8 k" by (auto simp: list_all_iff)
  with t parse_print_token operation_tag_hex [OF assms(1) t(5)]
  show "\<exists>w'. verify_token E s account (PStr c) (PStr digest) True w = (Inr k, w')"
    by (auto simp: verify_token_yields)
qed

definition ex_tag :: string where "ex_tag = replicate 24 CHR ''b''"

lemma accepted_tokens_are_minted_witness:
  "\<exists>w'. verify_token (quiet_env 5 (\<lambda>_ _. replicate 64 CHR ''b'')) ex_settings ''acct'' (PStr (print_token ''k1'' 255 (replicate 16 CHR ''c'') ex_tag))
     (PStr ''digest'') True \<lparr>tables = ex_ledger, tick = 0\<rparr> = (Inr ''k1'', w')"
proof -
  have h: "fullmatch is_hex 64 64 (hmac_hex (quiet_env 5 (\<lambda>_ _. replicate 64 CHR ''b'')) x y)" for x y
    by (simp add: fullmatch_def list_all_iff is_hex_def code_def)
  show ?thesis
    unfolding accepted_tokens_are_minted [OF h ex_settings]
    by (intro exI [of _ 255] exI [of _ "replicate 16 CHR ''c''"] exI [of _ ex_tag])
      (simp add: fullmatch_def list_all_iff is_hex_def code_def operation_tag_def mac_def ex_settings_def ex_tag_def)
qed

section \<open>Admission\<close>

text \<open>
  C4 (safety). Whatever \<open>admit\<close> answers, new or repeated, it answers to the account that the
  caller's token names, for an identifier that was minted for this account and exactly this request.
\<close>

theorem admission_is_bound:
  assumes "admit E s I event payload check_id client counted w = (Inr r, w')"
  shows "\<exists>account k digest (t :: token). yields (authority_account E s event) account
    \<and> payload_digest E s I account payload k client = Inr digest
    \<and> check_id = PStr (print_token k (tok_expiry t) (tok_nonce t) (tok_tag t))
    \<and> operation_tag E s k account digest (tok_expiry t) (tok_nonce t) = Inr (tok_tag t)
    \<and> (\<exists>now. tok_expiry t > clock E now)"
proof -
  from assms obtain account w1 tok part w2 digest key w3 where
      account: "authority_account E s event w = (Inr account, w1)"
    and tok: "token_parts s check_id = Inr tok"
    and digest: "payload_digest E s I account payload (tok_key tok) client = Inr digest"
    and verified: "verify_token E s account check_id (PStr digest) False w2 = (Inr key, w3)"
    unfolding admit_def Let_def ebind_Inr by (auto simp: elift_def)
  from tok obtain c where c: "check_id = PStr c" "parse_token c = Some tok"
    by (auto simp: token_parts_def split: option.splits if_splits)
  from verified tok obtain now where "operation_tag E s (tok_key tok) account digest (tok_expiry tok) (tok_nonce tok) = Inr (tok_tag tok)"
      "tok_expiry tok > clock E now"
    by (auto simp: verify_token_def ebind_Inr eraise_if_def e_now_def elift_def not_le)
  moreover have "yields (authority_account E s event) account" using account unfolding yields_def by blast
  moreover have "check_id = PStr (print_token (tok_key tok) (tok_expiry tok) (tok_nonce tok) (tok_tag tok))"
    using c(1) parse_token_print(1) [OF c(2)] by simp
  ultimately show ?thesis using digest by blast
qed

definition present_item :: "settings \<Rightarrow> key \<Rightarrow> item_prop" where
  \<comment> \<open>a row is stored under \<open>k\<close>\<close>
  "present_item s k t k' it = (t = authority_table s \<longrightarrow> k' = k \<longrightarrow> (\<exists>d. it = Some d \<and> dhas d ''PK''))"

definition keeps_key :: "update list \<Rightarrow> bool" where
  "keeps_key us = list_all (\<lambda>u. u \<noteq> URemove ''PK'') us"

lemma keeps_key_fold: "keeps_key us \<Longrightarrow> dhas d ''PK'' \<Longrightarrow> dhas (fold apply_update us d) ''PK''"
  unfolding keeps_key_def
proof (induction us arbitrary: d)
  case (Cons u us)
  then have "dhas (apply_update u d) ''PK''" by (cases u) auto
  with Cons show ?case by simp
qed simp

lemma sets_only_keeps_key: "sets_only ks us \<Longrightarrow> keeps_key us"
  by (auto simp: sets_only_def keeps_key_def list_all_iff)

lemma present_update: "keeps_key us \<Longrightarrow> item_safe (present_item s k) (Update t k' us c)"
  by (auto simp: item_safe_def present_item_def after_update update_base_def keeps_key_fold simp del: after.simps)

lemma present_put: "item_safe (present_item s k) (Put (authority_table s) d (NotExists ''PK''))"
  by (auto simp: item_safe_def present_item_def contents_def)

lemma present_writes:
  assumes "guarded_items E (present_item s k)"
  shows "authority_writes E (present_item s k) s"
proof (intro authority_writes.intro authority_writes_axioms.intro assms)
  show "item_safe (present_item s k) (Update (authority_table s) k' (receipt_updates u) c)" for k' u c
  proof (rule present_update)
    from receipt_updates_split [of u] obtain a b c d e rest where "receipt_updates u = [USet ''state'' a, USet ''chargedChecks'' b,
        USet ''receiptId'' c, USet ''processingOutcome'' d, USet ''expiresAt'' e] @ rest" "keeps_key rest"
      using sets_only_keeps_key by blast
    then show "keeps_key (receipt_updates u)" by (simp add: keeps_key_def)
  qed
qed (simp_all add: attempt_action_def trial_reservation_def local_counter_action_def period_release_def inflight_enter_def
      inflight_leave_def closed_preparation_def Let_def present_put present_update keeps_key_def)

interpretation present: authority_writes "quiet_env now h" "present_item s k" s
  by (rule present_writes) (rule quiet_items.guarded_items_axioms)

lemma authority_account_yields:
  assumes "yields (authority_account E s event) a"
  obtains c x where "token_claims event = Inr c" "dget c ''sub'' = PStr x" "a = strip x"
proof -
  from assms have "yields (jwt_subject E event (token_policy s)) a"
    unfolding authority_account_def assert_account_def
    by (fastforce dest!: yields_bind yields_catch split: exc.splits if_splits)
  then obtain c where c: "token_claims event = Inr c" and rest: "yields (case as_str (dget c ''sub'') of None \<Rightarrow> eraise (jwt_rejection ''SUBJECT_INVALID'') | Some x \<Rightarrow> eret (strip x)) a"
    unfolding jwt_subject_def Let_def
    by (fastforce dest!: yields_bind split: option.splits)
  then show thesis by (auto intro: that split: option.splits)
qed

context guarded_items
begin

lemma get_item:
  assumes "all_items P (tables w)" "e_get E t k w = (Inr it, w')"
  shows "P t k it"
proof -
  from assms(2) have "it = tables w' t k" by (auto simp: e_get_def Let_def split: if_splits)
  moreover have "all_items P (tables w')" using keepsD [OF keeps_get(1)] assms by blast
  ultimately show ?thesis unfolding all_items_def by blast
qed

lemma step_item:
  assumes "keeps (all_items P) m" "all_items P (tables w)" "m w = (r, w')"
  shows "all_items P (tables w')"
  using keepsD [OF assms] .

end

lemma ebindE:
  assumes "ebind m f w = (Inr y, w')"
  obtains x w1 where "m w = (Inr x, w1)" "f x w1 = (Inr y, w')"
  using assms unfolding ebind_Inr by blast

context authority_writes
begin

lemma admit_prior:
  assumes "all_items P (tables w)" "admit E s I event payload (PStr cid) client cnt w = (Inr r, w')"
    and "\<And>a. yields (authority_account E s event) a \<Longrightarrow> a = account" "token_parts s (PStr cid) = Inr tok"
    and "account_partition E s account (tok_key tok) = Inr part"
    and "\<And>it. P (authority_table s) (check_key part cid) it \<Longrightarrow> \<exists>d. row_of it = Some d"
  shows "\<exists>row. r = replayed_value row"
  using assms(2) unfolding admit_def Let_def as_str.simps option.case
proof (elim ebindE)
  fix a w1 t w2 p w3 u w4 digest w5 key w6 it w7
  assume a: "authority_account E s event w = (Inr a, w1)" and t: "elift (token_parts s (PStr cid)) w1 = (Inr t, w2)"
    and p: "elift (account_partition E s a (tok_key t)) w2 = (Inr p, w3)"
    and n: "(if cnt then count_attempt E s a p else eret ()) w3 = (Inr u, w4)"
    and d: "elift (payload_digest E s I a payload (tok_key t) client) w4 = (Inr digest, w5)"
    and v: "verify_token E s a (PStr cid) (PStr digest) False w5 = (Inr key, w6)"
    and g: "e_get E (authority_table s) (check_key p cid) w6 = (Inr it, w7)"
    and rest: "(case row_of it of
           Some prior \<Rightarrow>
             ebind (elift (digest_equals (dget_or prior ''payloadHmac'' (PStr [])) digest)) (\<lambda>same.
             ebind (eraise_if (\<not> same) (AuthorityError ''CHECK_ID_CONFLICT'')) (\<lambda>_.
             eret (replayed_value prior)))
         | None \<Rightarrow>
             ebind (eraise_if (tok_key t \<noteq> active_key_id s) (AuthorityError ''KEY_ROTATION_PENDING'')) (\<lambda>_.
             ebind (authority_device E s event a) (\<lambda>device.
             ebind (authority_grant E s p False) (\<lambda>gp.
             admit_new E s a p device (fst gp) (snd gp) payload cid digest client)))) w7 = (Inr r, w')"
  have "a = account" using assms(3) a unfolding yields_def by blast
  with t p assms(4,5) have part: "p = part" "w3 = w1" by (simp_all add: elift_def)
  have "all_items P (tables w1)" by (rule step_item [OF keeps_authority_account assms(1) a])
  then have "all_items P (tables w4)"
    using n part by (cases cnt) (auto intro: step_item [OF keeps_count_attempt])
  with d have "all_items P (tables w5)" by (simp add: elift_def)
  then have "all_items P (tables w6)" by (rule step_item [OF keeps_verify_token _ v])
  from get_item [OF this g] part assms(6) obtain prior where "row_of it = Some prior" by blast
  with rest show ?thesis by (auto simp: ebind_Inr)
qed

end

text \<open>
  C5 (safety). A check is admitted at most once: while its receipt is stored, \<open>admit\<close> for the same
  identifier and account can only answer with that receipt, whatever its other arguments are,
  however other writers interleave as long as they leave the receipt in place, and whatever calls
  fail. It never hands out a second execution token, so no second execution of the check is paid for.
\<close>

theorem admission_at_most_once:
  assumes "transact_service (transact E)"
    and "\<And>db i. \<exists>d. db (authority_table s) (check_key part cid) = Some d \<and> dhas d ''PK'' \<Longrightarrow>
      \<exists>d. peers E i db (authority_table s) (check_key part cid) = Some d \<and> dhas d ''PK''"
    and "\<exists>d. tables w (authority_table s) (check_key part cid) = Some d \<and> dhas d ''PK''"
    and "admit E s I event payload (PStr cid) client cnt w = (Inr r, w')"
    and "yields (authority_account E s event) account" "token_parts s (PStr cid) = Inr tok"
    and "account_partition E s account (tok_key tok) = Inr part"
  shows "dget r ''admitted'' = PBool False \<and> \<not> dhas r ''executionToken''"
proof -
  let ?P = "present_item s (check_key part cid)"
  have P: "all_items ?P db \<longleftrightarrow> (\<exists>d. db (authority_table s) (check_key part cid) = Some d \<and> dhas d ''PK'')" for db
    by (auto simp: all_items_def present_item_def)
  have "guarded_items E ?P" by (rule guarded_itemsI) (use assms(1,2) P in blast)+
  note aw = present_writes [OF this]
  have one: "a = account" if "yields (authority_account E s event) a" for a
    using authority_account_yields [OF that] authority_account_yields [OF assms(5)] by (metis Inr_inject pyval.inject(4))
  have row: "\<exists>d. row_of it = Some d" if "?P (authority_table s) (check_key part cid) it" for it
    using that by (auto simp: present_item_def row_of_def)
  have "all_items ?P (tables w)" using assms(3) P by blast
  from authority_writes.admit_prior [OF aw this assms(4) one assms(6,7) row]
  show ?thesis by (auto simp: replayed_value_def)
qed

section \<open>Instances\<close>

definition ex_quiet :: env where "ex_quiet = quiet_env 150 (\<lambda>_ _. replicate 64 CHR ''b'')"

definition ex_part :: string where "ex_part = ''V1#k1#'' @ replicate 64 CHR ''b''"

definition ex_cid :: string where "ex_cid = print_token ''k1'' 255 (replicate 16 CHR ''c'') ex_tag"

definition ex_payload :: dict where
  "ex_payload = [(''entryPoint'', PStr ''standalone_url''), (''language'', PStr ''en''),
     (''target'', PDict [(''url'', PStr ''u''), (''scope'', PStr ''full_url''), (''withheldComponents'', PList [])])]"

definition ex_row :: dict where "ex_row = [(''PK'', PStr ex_part), (''payloadHmac'', PStr (replicate 64 CHR ''b''))]"

definition ex_accounts :: db where
  "ex_accounts = (\<lambda>t k. if t = ''U'' \<and> k = profile_key ''alice''
     then Some [(''sub'', PStr ''alice''), (''status'', PStr ''ACTIVE''), (''ageVerified'', PBool True)]
     else if t = ''A'' \<and> k = check_key ex_part ex_cid then Some ex_row else None)"

lemma ex_parse: "parse_token ex_cid = Some \<lparr>tok_key = ''k1'', tok_expiry = 255, tok_nonce = replicate 16 CHR ''c'', tok_tag = ex_tag\<rparr>"
  unfolding ex_cid_def
  by (rule parse_print_token) (simp_all add: fullmatch_def is_alnum_def is_digit_def is_hex_def code_def ex_tag_def list_all_iff)

lemma ex_token_parts: "token_parts ex_settings (PStr ex_cid) = Inr \<lparr>tok_key = ''k1'', tok_expiry = 255, tok_nonce = replicate 16 CHR ''c'', tok_tag = ex_tag\<rparr>"
  by (simp add: token_parts_def ex_parse) (simp add: ex_settings_def)

lemma ex_partition: "account_partition ex_quiet ex_settings ''alice'' ''k1'' = Inr ex_part"
  by (simp add: account_partition_def mac_def ex_settings_def ex_quiet_def ex_part_def)

lemma ex_account: "authority_account ex_quiet ex_settings ex_event \<lparr>tables = ex_accounts, tick = 0\<rparr> = (Inr ''alice'', \<lparr>tables = ex_accounts, tick = 3\<rparr>)"
proof -
  have "token_policy ex_settings = ex_token" by (simp add: ex_settings_def ex_token_def)
  moreover have "SUBJECT_PATTERN ''alice''" by (simp add: SUBJECT_PATTERN_def first_then_def fullmatch_def is_alnum_def is_digit_def code_def)
  ultimately show ?thesis
    using ex_subject [of "\<lambda>_ _. replicate 64 CHR ''b''"]
    by (simp add: authority_account_def assert_account_def ebind_def ecatch_def ex_quiet_def quiet_get [OF quiet_env(1)])
      (simp add: ex_settings_def ex_accounts_def profile_key_def deletion_key_def profile_active_def eraise_if_def numeral_eq_Suc)
qed

lemma ex_digest: "payload_digest ex_quiet ex_settings I ''alice'' (PDict ex_payload) ''k1'' PNone = Inr (replicate 64 CHR ''b'')"
  by (simp add: payload_digest_def ex_payload_def url_payload_def target_ok_def utf8_length_def code_def has_keys_def
      dumps_def rejected_def mac_def ex_settings_def ex_quiet_def)

lemma ex_replay: "\<exists>w. admit ex_quiet ex_settings I ex_event (PDict ex_payload) (PStr ex_cid) PNone False \<lparr>tables = ex_accounts, tick = 0\<rparr>
    = (Inr (replayed_value ex_row), w)"
proof -
  have v: "verify_token ex_quiet ex_settings ''alice'' (PStr ex_cid) (PStr (replicate 64 CHR ''b'')) False w = (Inr ''k1'', w\<lparr>tick := Suc (tick w)\<rparr>)" for w
    by (simp add: verify_token_def ex_token_parts operation_tag_def mac_def)
      (simp add: ex_settings_def ex_quiet_def ex_tag_def e_now_def ebind_def)
  have t: "authority_table ex_settings = ''A''" by (simp add: ex_settings_def)
  have q: "quiet ex_quiet" by (simp add: ex_quiet_def quiet_env)
  show ?thesis
    by (simp add: admit_def ebind_def ex_account ex_token_parts ex_partition ex_digest v quiet_get [OF q] t)
      (simp add: ex_accounts_def row_of_def ex_row_def digest_equals_def compare_digest_def is_ascii_def code_def check_key_def list_all_iff)
qed

lemma admission_is_bound_witness: "yields (authority_account ex_quiet ex_settings ex_event) ''alice''"
proof -
  from ex_replay [of undefined] obtain w where w: "admit ex_quiet ex_settings undefined ex_event (PDict ex_payload) (PStr ex_cid) PNone False
      \<lparr>tables = ex_accounts, tick = 0\<rparr> = (Inr (replayed_value ex_row), w)" by blast
  from admission_is_bound [OF w] obtain a where "yields (authority_account ex_quiet ex_settings ex_event) a" by blast
  with ex_account show ?thesis by (auto simp: yields_def)
qed

lemma admission_at_most_once_witness:
  "\<exists>r w. admit ex_quiet ex_settings undefined ex_event (PDict ex_payload) (PStr ex_cid) PNone False \<lparr>tables = ex_accounts, tick = 0\<rparr> = (Inr r, w)
     \<and> dget r ''admitted'' = PBool False"
proof -
  from ex_replay [of undefined] obtain w where w: "admit ex_quiet ex_settings undefined ex_event (PDict ex_payload) (PStr ex_cid) PNone False
      \<lparr>tables = ex_accounts, tick = 0\<rparr> = (Inr (replayed_value ex_row), w)" by blast
  have y: "yields (authority_account ex_quiet ex_settings ex_event) ''alice''" using ex_account by (auto simp: yields_def)
  have "transact_service (transact ex_quiet)" unfolding ex_quiet_def by (rule quiet_env(2))
  then have "dget (replayed_value ex_row) ''admitted'' = PBool False \<and> \<not> dhas (replayed_value ex_row) ''executionToken''"
    by (rule admission_at_most_once [OF _ _ _ w y ex_token_parts])
      (simp_all add: ex_partition, simp_all add: ex_accounts_def ex_settings_def ex_row_def ex_quiet_def)
  with w show ?thesis by blast
qed

end
