(* ===== verification/OneSettlement.thy ===== *)
theory OneSettlement
  imports Protocol
begin

text \<open>
  What one settlement does to the tables when no other writer interferes, whatever reads fail and
  replies are lost (locale \<open>lone_world\<close>): an abstract view of the counters of an allowance, the
  refinement of one abstract step by the whole transaction, and what a failing settlement leaves.
\<close>

section \<open>Operations without other writers\<close>

text \<open>
  Nobody else writes. Reads may fail, a transaction may be cancelled or its reply lost: the handler
  sees a failure and the batch is either committed as a whole or not at all.
\<close>

locale lone_world =
  fixes E :: env and db0 :: db
  assumes serves: "transact_service (transact E)"
    and alone: "peers E = (\<lambda>_ db. db)"
begin

sublocale frozen: guarded_db E "\<lambda>db. db = db0"
  using serves alone by unfold_locales (auto simp: transact_service_def)

lemma same: "keeps (\<lambda>db. db = db0) m \<Longrightarrow> m w = (r, w') \<Longrightarrow> tables w = db0 \<Longrightarrow> tables w' = db0"
  using keepsD by blast

lemma get_cases:
  assumes "e_get E t k w = (r, w')"
  shows "tables w' = tables w \<and> (r = Inr (tables w t k) \<or> r = Inl SdkError \<and> read_fails E (tick w))"
  using assms alone by (auto simp: e_get_def Let_def split: if_splits)

lemma get_Inr: "e_get E t k w = (Inr it, w') \<Longrightarrow> it = tables w t k \<and> tables w' = tables w"
  using get_cases by blast

lemma transact_cases:
  assumes "transact_or_fail E acts w = (r, w')" "tables w = db0"
  shows "r = Inr () \<and> batch_holds acts db0 \<and> tables w' = commit acts db0
    \<or> r = Inl (AuthorityError ''TRANSACTION_UNCERTAIN'') \<and> (tables w' = db0 \<or> batch_holds acts db0 \<and> tables w' = commit acts db0)"
proof -
  obtain out db' where tx: "transact E (tick w) acts db0 = (out, db')" by fastforce
  then have run: "r = raise_if (out \<noteq> Committed) (AuthorityError ''TRANSACTION_UNCERTAIN'')" "tables w' = db'"
    using assms alone by (auto simp: transact_or_fail_def ebind_def e_transact_def eraise_if_def)
  show ?thesis
  proof (cases "out = Committed")
    case True
    with tx run transact_service.committed [OF serves] show ?thesis by auto
  next
    case False
    with tx run transact_service.all_or_nothing [OF serves] show ?thesis by auto
  qed
qed

lemma settle_action_form:
  assumes "settle_action E s k row tok o' x rid ch er h reason w = (Inr act, w')"
  obtains u now cap where "act = Update (authority_table s) k (receipt_updates u) (settle_condition tok now er cap)"
    "ru_charge u = ch" "ru_outcome u = o'" "ru_receipt u = rid"
  using assms unfolding settle_action_def Let_def by (elim ebindE) (auto intro: that)

lemma release_form:
  assumes "release_actions E s part row b ch w = (Inr rel, w')" "b \<noteq> PStr ''paid''" "didx row ''periodSK'' = Inr (PStr sk)" "sk \<noteq> []"
  obtains rv pl where "rel = [period_release s part sk ch rv pl]"
  using assms unfolding release_actions_def by (auto simp: ebind_Inr elift_def)

lemma settle_commits:
  assumes "settle_admitted E s a part k kid cid row tok o' er x reason w = (Inr r, w')" "tables w = db0"
    and "db0 (authority_table s) k = Some row" "dget row ''state'' \<noteq> PStr ''SETTLED''"
    and "didx row ''basis'' = Inr b" "b \<noteq> PStr ''paid''" "didx row ''periodSK'' = Inr (PStr sk)" "sk \<noteq> []"
  obtains conds u c rv pl where "checks_only conds"
    "batch_holds (conds @ [period_release s part sk (settlement_charge o' b) rv pl, inflight_leave s part,
        Update (authority_table s) k (receipt_updates u) c]) db0"
    "tables w' = commit (conds @ [period_release s part sk (settlement_charge o' b) rv pl, inflight_leave s part,
        Update (authority_table s) k (receipt_updates u) c]) db0"
    "ru_charge u = settlement_charge o' b" "ru_outcome u = o'"
  using assms(1) unfolding settle_admitted_def Let_def
proof (elim ebindE)
  fix b' w1 u2 w2 kept w3 future w4 u5 w5 m w6 hist w7 conds w8 rel w9 act w10 stale w11 u12 w12 early w13
  assume b: "elift (didx row ''basis'') w = (Inr b', w1)" and w2: "eraise_if (one_of (dget row ''messageTransportVersion'') [MESSAGE_V2, MESSAGE_V3] \<and> o' = ''complete''
              \<and> x = PNone) SUMMARY_INVALID w1 = (Inr u2, w2)"
    and w3: "kept_summary E row x (PStr o') er w2 = (Inr kept, w3)"
    and w4: "(case kept of None \<Rightarrow> eret False | Some v \<Rightarrow> any_future (observed_times row v) E) w3 = (Inr future, w4)"
    and w5: "eraise_if future SUMMARY_INVALID w4 = (Inr u5, w5)"
    and w6: "elift (mac E s kid ''receipt'' cid) w5 = (Inr m, w6)"
    and w7: "history_fields E s row (case kept of None \<Rightarrow> PNone | Some v \<Rightarrow> PDict v) (take 32 m) (settlement_charge o' b') o' w6 = (Inr hist, w7)"
    and w8: "account_conditions E s a w7 = (Inr conds, w8)"
    and w9: "release_actions E s part row b' (settlement_charge o' b') w8 = (Inr rel, w9)"
    and w10: "settle_action E s k row tok o' (case kept of None \<Rightarrow> PNone | Some v \<Rightarrow> PDict v) (take 32 m) (settlement_charge o' b') er hist reason w9 = (Inr act, w10)"
    and w11: "(case kept of None \<Rightarrow> eret False | Some v \<Rightarrow> any_stale (final_windows row v) E) w10 = (Inr stale, w11)"
    and w12: "eraise_if stale EVIDENCE_EXPIRED w11 = (Inr u12, w12)"
    and w13: "on_authority_error
       (ebind (transact_or_fail E (conds @ rel @ [inflight_leave s part, act])) (\<lambda>_. eret None))
       (\<lambda>e. ebind (e_get E (authority_table s) k) (\<lambda>it.
            case row_of it of
              None \<Rightarrow> eraise e
            | Some latest \<Rightarrow> if dget latest ''state'' = PStr ''SETTLED'' then eret (Some (receipt_public latest)) else eraise e)) w12 = (Inr early, w13)"
    and rest: "(case early of
       Some r \<Rightarrow> eret r
     | None \<Rightarrow>
         ebind (e_get E (authority_table s) k) (\<lambda>it.
         case it of None \<Rightarrow> eraise TypeError | Some d \<Rightarrow> eret (receipt_public d))) w13 = (Inr r, w')"
  from b assms(5) have b': "b' = b" "w1 = w" by (simp_all add: elift_def)
  have k4: "keeps (\<lambda>db. db = db0) (case kept of None \<Rightarrow> eret False | Some v \<Rightarrow> any_future (observed_times row v) E)"
    and k11: "keeps (\<lambda>db. db = db0) (case kept of None \<Rightarrow> eret False | Some v \<Rightarrow> any_stale (final_windows row v) E)"
    by (intro frozen.keeps_option frozen.keeps_pure frozen.keeps_any_future frozen.keeps_any_stale)+
  have t: "tables w12 = db0"
  proof -
    have "tables w2 = db0" using w2 b' assms(2) by simp
    then have "tables w3 = db0" by (rule same [OF frozen.keeps_kept_summary w3])
    then have "tables w4 = db0" by (rule same [OF k4 w4])
    then have "tables w6 = db0" using w5 w6 by (simp add: elift_def)
    then have "tables w7 = db0" by (rule same [OF frozen.keeps_history_fields w7])
    then have "tables w8 = db0" by (rule same [OF frozen.keeps_account_conditions w8])
    then have "tables w9 = db0" by (rule same [OF frozen.keeps_release_actions w9])
    then have "tables w10 = db0" by (rule same [OF frozen.keeps_settle_action w10])
    then have "tables w11 = db0" by (rule same [OF k11 w11])
    then show ?thesis using w12 by simp
  qed
  obtain rv pl where rel: "rel = [period_release s part sk (settlement_charge o' b) rv pl]"
    by (rule release_form [OF w9]) (use assms(6-8) b' in auto)
  obtain u now cap where act: "act = Update (authority_table s) k (receipt_updates u) (settle_condition tok now er cap)"
      "ru_charge u = settlement_charge o' b" "ru_outcome u = o'"
    by (rule settle_action_form [OF w10]) (use b' in auto)
  define acts where "acts = conds @ rel @ [inflight_leave s part, act]"
  obtain r1 w1' where tr: "transact_or_fail E acts w12 = (r1, w1')" by (cases "transact_or_fail E acts w12")
  from transact_cases [OF tr t] show thesis
  proof
    assume ok: "r1 = Inr () \<and> batch_holds acts db0 \<and> tables w1' = commit acts db0"
    with tr w13 have "early = None" "w13 = w1'"
      by (auto simp: acts_def on_authority_error_def ecatch_def ebind_def)
    with rest have "tables w' = tables w1'"
      by (auto simp: ebind_Inr dest!: get_Inr split: option.splits)
    with ok show thesis
      by (intro that [of conds rv pl u "settle_condition tok now er cap"] account_conditions_checks [of E s a])
        (use w8 act in \<open>auto simp: acts_def rel yields_def\<close>)
  next
    assume lost: "r1 = Inl (AuthorityError ''TRANSACTION_UNCERTAIN'') \<and> (tables w1' = db0 \<or> batch_holds acts db0 \<and> tables w1' = commit acts db0)"
    let ?h = "ebind (e_get E (authority_table s) k) (\<lambda>it.
            case row_of it of
              None \<Rightarrow> eraise (AuthorityError ''TRANSACTION_UNCERTAIN'')
            | Some latest \<Rightarrow> if dget latest ''state'' = PStr ''SETTLED'' then eret (Some (receipt_public latest))
                else eraise (AuthorityError ''TRANSACTION_UNCERTAIN''))"
    from lost tr w13 have "?h w1' = (Inr early, w13)"
      by (simp add: acts_def on_authority_error_def ecatch_def ebind_def)
    then obtain latest where l: "row_of (tables w1' (authority_table s) k) = Some latest" "dget latest ''state'' = PStr ''SETTLED''"
        "early = Some (receipt_public latest)" "tables w13 = tables w1'"
      by (auto simp: ebind_Inr dest!: get_Inr split: option.splits if_splits)
    from l(1,2) assms(3,4) have "tables w1' \<noteq> db0" by (auto simp: row_of_def split: if_splits)
    with lost have ok: "batch_holds acts db0" "tables w1' = commit acts db0" by simp_all
    from rest l(3,4) have "tables w' = tables w1'" by simp
    with ok show thesis
      by (intro that [of conds rv pl u "settle_condition tok now er cap"] account_conditions_checks [of E s a])
        (use w8 act in \<open>auto simp: acts_def rel yields_def\<close>)
  qed
qed

lemma settle_check_admitted:
  assumes "settle_check E s (TrustedWorkerContext acc) (PStr cid) tok (PStr o') er x reason w = (Inr r, w')" "tables w = db0"
    and "token_parts s (PStr cid) = Inr t" "account_partition E s account (tok_key t) = Inr part" "acc = PStr account"
    and "db0 (authority_table s) (check_key part cid) = Some row" "dget row ''state'' \<noteq> PStr ''SETTLED''"
  obtains token w1 where "tables w1 = db0" "o' \<in> set OUTCOMES"
    "settle_admitted E s account part (check_key part cid) (tok_key t) cid row token o' er x reason w1 = (Inr r, w')"
  using assms(1) unfolding settle_check_def Let_def worker.case as_str.simps option.case
proof (elim ebindE)
  fix a w1 t' w2 part' w3 it w4
  assume w1: "assert_account E s acc w = (Inr a, w1)" and w2: "elift (token_parts s (PStr cid)) w1 = (Inr t', w2)"
    and w3: "elift (account_partition E s a (tok_key t')) w2 = (Inr part', w3)"
    and w4: "e_get E (authority_table s) (check_key part' cid) w3 = (Inr it, w4)"
    and rest: "(case row_of it of
            None \<Rightarrow> eraise (AuthorityError ''RECONCILIATION_REQUIRED'')
          | Some row \<Rightarrow>
              ebind (e_now E) (\<lambda>now.
              ebind (elift (above (dget_or row ''retentionDeadlineEpoch'' (dget_or row ''expiresAt'' (PInt 0))) now)) (\<lambda>live.
              ebind (eraise_if (\<not> live) (AuthorityError ''RECONCILIATION_REQUIRED'')) (\<lambda>_.
              ebind (elift (didx row ''payloadHmac'')) (\<lambda>d.
              ebind (verify_token E s a (PStr cid) d True) (\<lambda>_.
              ebind (if er then eret () else
                     (case as_str tok of
                        None \<Rightarrow> eraise (AuthorityError ''EXECUTION_OWNER_MISMATCH'')
                      | Some t \<Rightarrow>
                          ebind (elift (digest_equals (dget_or row ''executionToken'' (PStr [])) t)) (\<lambda>same.
                          eraise_if (\<not> same) (AuthorityError ''EXECUTION_OWNER_MISMATCH'')))) (\<lambda>_.
                  ebind (eraise_if (o' \<notin> set OUTCOMES) (AuthorityError ''OUTCOME_UNSUPPORTED'')) (\<lambda>_.
                  ebind (elift (didx row ''state'')) (\<lambda>state.
                  if state = PStr ''SETTLED'' then eret (receipt_public row) else
                  ebind (lease_check E row er tok) (\<lambda>token.
                  settle_admitted E s a part' (check_key part' cid) (tok_key t') cid row token o' er x reason)))))))))) w4 = (Inr r, w')"
  have t1: "tables w1 = db0" by (rule same [OF frozen.keeps_assert_account w1 assms(2)])
  have "a = account" using w1 assms(5) unfolding assert_account_def by (auto simp: ebind_Inr)
  with w2 w3 assms(3,4) have part: "t' = t" "part' = part" "a = account" "w3 = w1" by (auto simp: elift_def)
  have it: "it = Some row" "tables w4 = db0"
    using get_Inr [OF w4] t1 part assms(6) by simp_all
  then have "row_of it = Some row" using rest by (auto simp: row_of_def)
  note rest = rest [unfolded this part option.case]
  from rest show thesis
  proof (elim ebindE)
    fix now w5 live w6 u7 w7 d w8 k' w9 u10 w10 u11 w11 st w12
    assume w5: "e_now E w4 = (Inr now, w5)" and w6: "elift (above (dget_or row ''retentionDeadlineEpoch'' (dget_or row ''expiresAt'' (PInt 0))) now) w5 = (Inr live, w6)"
      and w7: "eraise_if (\<not> live) (AuthorityError ''RECONCILIATION_REQUIRED'') w6 = (Inr u7, w7)" and w8: "elift (didx row ''payloadHmac'') w7 = (Inr d, w8)"
      and w9: "verify_token E s account (PStr cid) d True w8 = (Inr k', w9)"
      and w10: "(if er then eret () else
                     (case as_str tok of
                        None \<Rightarrow> eraise (AuthorityError ''EXECUTION_OWNER_MISMATCH'')
                      | Some t \<Rightarrow>
                          ebind (elift (digest_equals (dget_or row ''executionToken'' (PStr [])) t)) (\<lambda>same.
                          eraise_if (\<not> same) (AuthorityError ''EXECUTION_OWNER_MISMATCH'')))) w9 = (Inr u10, w10)"
      and w11: "eraise_if (o' \<notin> set OUTCOMES) (AuthorityError ''OUTCOME_UNSUPPORTED'') w10 = (Inr u11, w11)"
      and w12: "elift (didx row ''state'') w11 = (Inr st, w12)"
      and last: "(if st = PStr ''SETTLED'' then eret (receipt_public row) else
                  ebind (lease_check E row er tok) (\<lambda>token.
                  settle_admitted E s account part (check_key part cid) (tok_key t) cid row token o' er x reason)) w12 = (Inr r, w')"
    have "tables w5 = db0" using w5 it(2) by (auto simp: e_now_def)
    then have "tables w8 = db0" using w6 w7 w8 by (simp add: elift_def)
    then have t9: "tables w9 = db0" by (rule same [OF frozen.keeps_verify_token w9])
    have k10: "keeps (\<lambda>db. db = db0) (if er then eret () else
                     (case as_str tok of
                        None \<Rightarrow> eraise (AuthorityError ''EXECUTION_OWNER_MISMATCH'')
                      | Some t \<Rightarrow>
                          ebind (elift (digest_equals (dget_or row ''executionToken'' (PStr [])) t)) (\<lambda>same.
                          eraise_if (\<not> same) (AuthorityError ''EXECUTION_OWNER_MISMATCH''))))"
      by (intro frozen.keeps_if frozen.keeps_pure frozen.keeps_option frozen.keeps_bind)
    have "tables w10 = db0" by (rule same [OF k10 w10 t9])
    then have t: "tables w12 = db0" "o' \<in> set OUTCOMES" using w11 w12 by (simp_all add: elift_def)
    from w12 have "st = dget row ''state''" by (auto simp: elift_def didx_Inr_iff dget_def)
    with last assms(7) obtain token w13 where l: "lease_check E row er tok w12 = (Inr token, w13)"
      and a: "settle_admitted E s account part (check_key part cid) (tok_key t) cid row token o' er x reason w13 = (Inr r, w')"
      by (auto simp: ebind_Inr)
    from same [OF frozen.keeps_lease_check l t(1)] t(2) a show thesis by (rule that)
  qed
qed

end

section \<open>Failures\<close>

lemma receipt_settled:
  "dget (fold apply_update (receipt_updates u) d) ''state'' = PStr ''SETTLED''"
  "dget (fold apply_update (receipt_updates u) d) ''chargedChecks'' = PInt (ru_charge u)"
  "dget (fold apply_update (receipt_updates u) d) ''processingOutcome'' = PStr (ru_outcome u)"
proof -
  obtain rest where r: "receipt_updates u = [USet ''state'' (PStr ''SETTLED''), USet ''chargedChecks'' (PInt (ru_charge u)), USet ''receiptId'' (PStr (ru_receipt u)),
      USet ''processingOutcome'' (PStr (ru_outcome u)), USet ''expiresAt'' (ru_expiry u)] @ rest"
    and o': "sets_only [''state'', ''chargedChecks'', ''processingOutcome'', ''usedChecks'', ''reservedChecks'', ''limit'', ''activeCount'', ''attempts'',
        ''PK'', ''SK'', ''payloadHmac'', ''executionToken'', ''basis'', ''periodSK''] rest"
    using receipt_updates_split by blast
  show "dget (fold apply_update (receipt_updates u) d) ''state'' = PStr ''SETTLED''"
    "dget (fold apply_update (receipt_updates u) d) ''chargedChecks'' = PInt (ru_charge u)"
    "dget (fold apply_update (receipt_updates u) d) ''processingOutcome'' = PStr (ru_outcome u)"
    by (simp_all add: r sets_only_fold [OF o'])
qed

definition fails_with :: "db \<Rightarrow> (exc \<Rightarrow> db \<Rightarrow> bool) \<Rightarrow> 'a eff \<Rightarrow> bool" where
  \<comment> \<open>an exception leaves the tables as they were, or in a state it is known to come with\<close>
  "fails_with db Q m = (\<forall>w w' e. tables w = db \<longrightarrow> m w = (Inl e, w') \<longrightarrow> tables w' = db \<or> Q e (tables w'))"

lemma fails_keeps: "keeps (\<lambda>d. d = db) m \<Longrightarrow> fails_with db Q m"
  unfolding fails_with_def using keepsD [of "\<lambda>d. d = db" m] by blast

lemma fails_bind:
  assumes "keeps (\<lambda>d. d = db) m" "\<And>x. yields m x \<Longrightarrow> fails_with db Q (f x)"
  shows "fails_with db Q (ebind m f)"
  unfolding fails_with_def
proof (intro allI impI)
  fix w w' e
  assume w: "tables w = db" "ebind m f w = (Inl e, w')"
  from this(2) consider "m w = (Inl e, w')" | x w1 where "m w = (Inr x, w1)" "f x w1 = (Inl e, w')"
    unfolding ebind_Inl by blast
  then show "tables w' = db \<or> Q e (tables w')"
  proof cases
    case 1
    with assms(1) w(1) keepsD [of "\<lambda>d. d = db" m] show ?thesis by blast
  next
    case (2 x w1)
    then have "tables w1 = db" using assms(1) w(1) keepsD [of "\<lambda>d. d = db" m] by blast
    moreover have "yields m x" using 2 by (auto simp: yields_def)
    ultimately show ?thesis using assms(2) 2(2) unfolding fails_with_def by blast
  qed
qed

lemma fails_option:
  "(x = None \<Longrightarrow> fails_with db Q m) \<Longrightarrow> (\<And>y. x = Some y \<Longrightarrow> fails_with db Q (f y)) \<Longrightarrow>
   fails_with db Q (case x of None \<Rightarrow> m | Some y \<Rightarrow> f y)"
  by (cases x) auto

lemma fails_if:
  "(b \<Longrightarrow> fails_with db Q m) \<Longrightarrow> (\<not> b \<Longrightarrow> fails_with db Q m') \<Longrightarrow> fails_with db Q (if b then m else m')"
  by simp

definition settled_unread :: "env \<Rightarrow> settings \<Rightarrow> db \<Rightarrow> exc \<Rightarrow> db \<Rightarrow> bool" where
  \<comment> \<open>the one batch of a settlement was committed, and a read failed\<close>
  "settled_unread E s db e db' =
     (e = SdkError \<and> (\<exists>i. read_fails E i)
      \<and> (\<exists>acts k u c d. batch_holds acts db \<and> db' = commit acts db \<and> Update (authority_table s) k (receipt_updates u) c \<in> set acts
         \<and> db' (authority_table s) k = Some d \<and> dget d ''state'' = PStr ''SETTLED''))"

context lone_world
begin

lemma settle_tail_fails:
  fixes s :: settings and k :: key
  assumes act: "act = Update (authority_table s) k (receipt_updates u) c"
  shows "fails_with db0 (settled_unread E s db0) (ebind (on_authority_error
       (ebind (transact_or_fail E (conds @ rel @ [leave, act])) (\<lambda>_. eret None))
       (\<lambda>e. ebind (e_get E (authority_table s) k) (\<lambda>it.
            case row_of it of
              None \<Rightarrow> eraise e
            | Some latest \<Rightarrow> if dget latest ''state'' = PStr ''SETTLED'' then eret (Some (receipt_public latest)) else eraise e))) (\<lambda>early.
     case early of
       Some r \<Rightarrow> eret r
     | None \<Rightarrow>
         ebind (e_get E (authority_table s) k) (\<lambda>it.
         case it of None \<Rightarrow> eraise TypeError | Some d \<Rightarrow> eret (receipt_public d))))"
  unfolding fails_with_def
proof (intro allI impI)
  fix w w' e
  let ?acts = "conds @ rel @ [leave, act]"
  let ?h = "\<lambda>e. ebind (e_get E (authority_table s) k) (\<lambda>it.
            case row_of it of
              None \<Rightarrow> eraise e
            | Some latest \<Rightarrow> if dget latest ''state'' = PStr ''SETTLED'' then eret (Some (receipt_public latest)) else eraise e)"
  let ?f = "\<lambda>early. case early of
       Some r \<Rightarrow> eret r
     | None \<Rightarrow>
         ebind (e_get E (authority_table s) k) (\<lambda>it.
         case it of None \<Rightarrow> eraise TypeError | Some d \<Rightarrow> eret (receipt_public d))"
  assume w: "tables w = db0" and run: "ebind (on_authority_error (ebind (transact_or_fail E ?acts) (\<lambda>_. eret None)) ?h) ?f w = (Inl e, w')"
  obtain r1 w1 where tr: "transact_or_fail E ?acts w = (r1, w1)" by (cases "transact_or_fail E ?acts w")
  have row: "\<exists>d. tables w1 (authority_table s) k = Some d \<and> row_of (Some d) = Some d \<and> dget d ''state'' = PStr ''SETTLED''"
    if ok: "batch_holds ?acts db0" "tables w1 = commit ?acts db0"
  proof -
    from ok have "distinct (map target ?acts)" using batch_holds_at [of ?acts db0 act] by simp
    then have "commit ?acts db0 (authority_table s) k = after act (db0 (authority_table s) k)"
      using commit_at [of act ?acts "authority_table s" k] by (simp add: act)
    then have "tables w1 (authority_table s) k = after act (db0 (authority_table s) k)" using ok by simp
    moreover have "row_of (Some d) = Some d" if "dget d ''state'' = PStr ''SETTLED''" for d
      using that by (auto simp: row_of_def)
    ultimately show ?thesis using receipt_settled(1) [of u] by (auto simp: act)
  qed
  have committed: "settled_unread E s db0 e (tables w1)"
    if "batch_holds ?acts db0" "tables w1 = commit ?acts db0" "e = SdkError" "read_fails E i" for i
  proof -
    have "Update (authority_table s) k (receipt_updates u) c \<in> set ?acts" by (simp add: act)
    with that row [OF that(1,2)] show ?thesis unfolding settled_unread_def by blast
  qed
  from transact_cases [OF tr w] show "tables w' = db0 \<or> settled_unread E s db0 e (tables w')"
  proof
    assume ok: "r1 = Inr () \<and> batch_holds ?acts db0 \<and> tables w1 = commit ?acts db0"
    with tr run have "ebind (e_get E (authority_table s) k) (\<lambda>it. case it of None \<Rightarrow> eraise TypeError | Some d \<Rightarrow> eret (receipt_public d)) w1 = (Inl e, w')"
      by (simp add: on_authority_error_def ecatch_def ebind_def)
    then have "e = SdkError \<and> read_fails E (tick w1) \<and> tables w' = tables w1"
      using row ok by (auto simp: ebind_Inl dest!: get_cases)
    with ok committed show ?thesis by metis
  next
    assume lost: "r1 = Inl (AuthorityError ''TRANSACTION_UNCERTAIN'') \<and> (tables w1 = db0 \<or> batch_holds ?acts db0 \<and> tables w1 = commit ?acts db0)"
    with tr run have "ebind (?h (AuthorityError ''TRANSACTION_UNCERTAIN'')) ?f w1 = (Inl e, w')"
      by (simp add: on_authority_error_def ecatch_def ebind_def)
    then have "?h (AuthorityError ''TRANSACTION_UNCERTAIN'') w1 = (Inl e, w')"
      by (auto simp: ebind_Inl ebind_Inr split: option.splits if_splits)
    then have "tables w' = tables w1 \<and> (e = SdkError \<and> read_fails E (tick w1) \<or>
        \<not> (\<exists>d. row_of (tables w1 (authority_table s) k) = Some d \<and> dget d ''state'' = PStr ''SETTLED''))"
      by (auto simp: ebind_Inl dest!: get_cases split: option.splits if_splits)
    with lost row committed show ?thesis by metis
  qed
qed

lemma settle_admitted_fails: "fails_with db0 (settled_unread E s db0) (settle_admitted E s a part k kid cid row tok o' er x reason)"
proof -
  have act: "\<exists>u c. act = Update (authority_table s) k (receipt_updates u) c" if "yields (settle_action E s k row tok o' x r ch er h rs) act" for act x r ch h rs
    using that unfolding yields_def by (blast elim: settle_action_form)
  show ?thesis
    unfolding settle_admitted_def Let_def
    by (((drule act, elim exE, rule settle_tail_fails, assumption) | rule fails_bind | rule frozen.keeps_pure frozen.keeps_option
        frozen.keeps_kept_summary frozen.keeps_any_future frozen.keeps_any_stale frozen.keeps_history_fields
        frozen.keeps_account_conditions frozen.keeps_release_actions frozen.keeps_settle_action)+)
qed

lemma settle_check_fails: "fails_with db0 (settled_unread E s db0) (settle_check E s wk c tok o' er x reason)"
  unfolding settle_check_def Let_def
  by (cases wk; simp only: worker.case)
    (intro fails_bind fails_option fails_if settle_admitted_fails fails_keeps [OF frozen.keeps_pure(1)]
        fails_keeps [OF frozen.keeps_pure(2)]
        frozen.keeps_pure frozen.keeps_option frozen.keeps_if frozen.keeps_bind frozen.keeps_assert_account frozen.keeps_get frozen.keeps_now
        frozen.keeps_verify_token frozen.keeps_lease_check)+

end

section \<open>A quiet world\<close>

text \<open>The reference service and no failing read: every call answers.\<close>

locale quiet_world =
  fixes E :: env and db0 :: db
  assumes calm: "quiet E"
begin

sublocale lone_world E db0
  using calm by unfold_locales (simp_all add: quiet_def reference.committed reference.cancelled reference.failed)

end

interpretation quiet_quiet: quiet_world "quiet_env now h" initial for now h initial
  by unfold_locales (rule quiet_env(1))

text \<open>Every reply is lost.\<close>

interpretation lossy_lone: lone_world "(quiet_env now h)\<lparr>transact := lossy_transact\<rparr>" initial for now h initial
  by unfold_locales (simp_all add: quiet_env_def lossy.committed lossy.cancelled lossy.failed)

section \<open>The counters of an allowance\<close>

text \<open>Used and reserved checks of a period and the number of checks in flight, where they are whole numbers.\<close>

definition counters_view :: "settings \<Rightarrow> string \<Rightarrow> string \<Rightarrow> db \<Rightarrow> (int \<times> int \<times> int) option" where
  "counters_view s part sk db =
     (case (db (authority_table s) (part, sk), db (authority_table s) (inflight_key part)) of
        (Some p, Some f) \<Rightarrow>
          (case (integral (dget p ''usedChecks''), integral (dget p ''reservedChecks''), integral (dget f ''activeCount'')) of
             (Some u, Some r, Some a) \<Rightarrow> Some (u, r, a) | _ \<Rightarrow> None)
      | _ \<Rightarrow> None)"

definition settle_counters :: "int \<Rightarrow> int \<times> int \<times> int \<Rightarrow> int \<times> int \<times> int" where
  \<comment> \<open>one reservation becomes a use, or is given back, and one check leaves\<close>
  "settle_counters charge v = (case v of (u, r, a) \<Rightarrow> (u + charge, r - 1, a - 1))"

lemma counters_viewE:
  assumes "counters_view s part sk db = Some (u, r, a)"
  obtains p f where "db (authority_table s) (part, sk) = Some p" "db (authority_table s) (inflight_key part) = Some f"
    "integral (dget p ''usedChecks'') = Some u" "integral (dget p ''reservedChecks'') = Some r" "integral (dget f ''activeCount'') = Some a"
  using assms by (auto simp: counters_view_def split: option.splits prod.splits)

lemma check_after: "is_check b \<Longrightarrow> after b it = it"
  by (cases b) simp_all

lemma commit_released:
  assumes "checks_only conds" "acts = conds @ [period_release s part sk ch rv pl, inflight_leave s part, Update (authority_table s) k us c]"
    and "batch_holds acts db" "counters_view s part sk db = Some (u, r, a)" "db (authority_table s) k = Some row"
  shows "1 \<le> r" "1 \<le> a" "counters_view s part sk (commit acts db) = Some (settle_counters ch (u, r, a))"
    "commit acts db (authority_table s) k = Some (fold apply_update us row)"
    "(t, k') \<notin> {(authority_table s, (part, sk)), (authority_table s, inflight_key part), (authority_table s, k)} \<Longrightarrow>
      commit acts db t k' = db t k'"
proof -
  have mem: "period_release s part sk ch rv pl \<in> set acts" "inflight_leave s part \<in> set acts" "Update (authority_table s) k us c \<in> set acts"
    using assms(2) by auto
  obtain p f where v: "db (authority_table s) (part, sk) = Some p" "db (authority_table s) (inflight_key part) = Some f"
      "integral (dget p ''usedChecks'') = Some u" "integral (dget p ''reservedChecks'') = Some r" "integral (dget f ''activeCount'') = Some a"
    using counters_viewE [OF assms(4)] .
  note at = batch_holds_at [OF assms(3)]
  from at [OF mem(1)] v(1) have c1: "cond_holds (Cmp CGe ''reservedChecks'' (PInt 1)) p"
    by (auto simp: holds_at_def Let_def period_release_def contents_def cond_holds_all_of)
  then show "1 \<le> r" using v(4) by (simp add: cond_integral del: cond_holds.simps(4))
  from at [OF mem(2)] v(2) have c2: "cond_holds (Cmp CGe ''activeCount'' (PInt 1)) f"
    by (auto simp: holds_at_def Let_def inflight_leave_def contents_def)
  then show "1 \<le> a" using v(5) by (simp add: cond_integral del: cond_holds.simps(4))
  have p': "commit acts db (authority_table s) (part, sk) = Some (apply_update (UAdd ''usedChecks'' ch) (apply_update (UAdd ''reservedChecks'' (- 1)) p))"
    using commit_at [OF mem(1), of "authority_table s" "(part, sk)"] at [OF mem(1)] v(1) by (simp add: period_release_def)
  have f': "commit acts db (authority_table s) (inflight_key part) = Some (apply_update (UAdd ''activeCount'' (- 1)) f)"
    using commit_at [OF mem(2), of "authority_table s" "inflight_key part"] at [OF mem(2)] v(2) by (simp add: inflight_leave_def)
  show "counters_view s part sk (commit acts db) = Some (settle_counters ch (u, r, a))"
    using integral_uadd_both [OF v(3,4), of ch "- 1"] integral_uadd [OF v(5), of "- 1"]
    by (simp add: counters_view_def p' f' settle_counters_def)
  show "commit acts db (authority_table s) k = Some (fold apply_update us row)"
    using commit_at [OF mem(3), of "authority_table s" k] at [OF mem(3)] assms(5) by simp
  show "commit acts db t k' = db t k'"
    if "(t, k') \<notin> {(authority_table s, (part, sk)), (authority_table s, inflight_key part), (authority_table s, k)}"
    using assms(3)
  proof (cases rule: commit_cases [of acts db t k'])
    case (2 b)
    with that assms(2) have "b \<in> set conds" by (auto simp: period_release_def inflight_leave_def)
    with assms(1) have "is_check b" by (simp add: checks_only_def list_all_iff)
    with 2(4) show ?thesis by (simp add: check_after)
  qed simp
qed

text \<open>
  C2 (refinement). One settlement of an unpaid check is one step of the accounting. Take a check whose
  receipt is not settled, on a trial or complimentary basis, with the row of its period. When no other
  writer interferes, even if reads fail and replies are lost, and \<open>_settle\<close> returns, then exactly one
  reservation was turned into a use (for a chargeable outcome of a trial) or given back (otherwise),
  one check left the in-flight count, the receipt is settled with that charge and outcome, and no other
  item of any table changed: the concrete transaction refines \<open>settle_counters\<close>. Paid checks, which
  also move the counters of the purchase, are not part of this property.
\<close>

theorem settlement_refines_counters:
  assumes "transact_service (transact E)" "peers E = (\<lambda>_ db. db)"
    and "settle_check E s (TrustedWorkerContext (PStr account)) (PStr cid) tok (PStr o') er x reason w = (Inr r, w')"
    and "token_parts s (PStr cid) = Inr t" "account_partition E s account (tok_key t) = Inr part"
    and "tables w (authority_table s) (check_key part cid) = Some row" "dget row ''state'' \<noteq> PStr ''SETTLED''"
    and "didx row ''basis'' = Inr b" "b \<noteq> PStr ''paid''" "didx row ''periodSK'' = Inr (PStr sk)" "sk \<noteq> []"
    and "counters_view s part sk (tables w) = Some v"
  shows "1 \<le> fst (snd v) \<and> 1 \<le> snd (snd v)
    \<and> counters_view s part sk (tables w') = Some (settle_counters (settlement_charge o' b) v)
    \<and> (\<exists>d. tables w' (authority_table s) (check_key part cid) = Some d \<and> dget d ''state'' = PStr ''SETTLED''
         \<and> dget d ''chargedChecks'' = PInt (settlement_charge o' b) \<and> dget d ''processingOutcome'' = PStr o')
    \<and> (\<forall>t' k'. (t', k') \<notin> {(authority_table s, (part, sk)), (authority_table s, inflight_key part), (authority_table s, check_key part cid)} \<longrightarrow>
         tables w' t' k' = tables w t' k')"
proof -
  have lw: "lone_world E" by (rule lone_world.intro) (rule assms(1,2))+
  obtain token w1 where w1: "tables w1 = tables w"
    "settle_admitted E s account part (check_key part cid) (tok_key t) cid row token o' er x reason w1 = (Inr r, w')"
    by (rule lone_world.settle_check_admitted [OF lw assms(3) refl assms(4,5) refl assms(6,7)])
  obtain conds u c rv pl where acts: "checks_only conds"
    "batch_holds (conds @ [period_release s part sk (settlement_charge o' b) rv pl, inflight_leave s part,
        Update (authority_table s) (check_key part cid) (receipt_updates u) c]) (tables w)"
    "tables w' = commit (conds @ [period_release s part sk (settlement_charge o' b) rv pl, inflight_leave s part,
        Update (authority_table s) (check_key part cid) (receipt_updates u) c]) (tables w)"
    "ru_charge u = settlement_charge o' b" "ru_outcome u = o'"
    by (rule lone_world.settle_commits [OF lw w1(2,1) assms(6-11)])
  obtain used res act where v: "v = (used, res, act)" by (cases v)
  note c = commit_released [OF acts(1) refl acts(2) assms(12) [unfolded v] assms(6)]
  show ?thesis
    unfolding acts(3) v fst_conv snd_conv
    by (intro conjI allI impI c(1,2,3) exI [of _ "fold apply_update (receipt_updates u) row"] c(4) receipt_settled(1))
      (simp_all add: receipt_settled acts(4,5) c(5))
qed


text \<open>
  C6 (error). A settlement that fails changes nothing, or it was committed. No other writer interferes;
  reads may fail, the transaction may be cancelled and its reply lost. If \<open>_settle\<close> raises, for any
  caller, identifier, token, outcome, summary and reason, then every item of every table is as it was:
  no reservation is released and no charge is made. The one exception is a failing read after the
  commit: the error is then that of the read, the whole batch of the settlement was applied, and the
  receipt it belongs to is settled, so that the repetition answers with it.
\<close>

theorem failed_settlement_changes_nothing:
  assumes "transact_service (transact E)" "peers E = (\<lambda>_ db. db)"
    and "settle_check E s wk check_id tok o' er x reason w = (Inl e, w')"
  shows "tables w' = tables w
    \<or> e = SdkError \<and> (\<exists>i. read_fails E i)
      \<and> (\<exists>acts k u c d. batch_holds acts (tables w) \<and> tables w' = commit acts (tables w)
           \<and> Update (authority_table s) k (receipt_updates u) c \<in> set acts
           \<and> tables w' (authority_table s) k = Some d \<and> dget d ''state'' = PStr ''SETTLED'')"
proof -
  have "lone_world E" by (rule lone_world.intro) (rule assms(1,2))+
  from lone_world.settle_check_fails [OF this, of "tables w"] assms(3) show ?thesis
    unfolding fails_with_def settled_unread_def by blast
qed

section \<open>Instances\<close>

definition ex_admitted :: dict where
  "ex_admitted = [(''PK'', PStr ex_part), (''payloadHmac'', PStr (replicate 64 CHR ''b'')), (''executionToken'', PStr ''x''),
     (''state'', PStr ''ADMITTED''), (''basis'', PStr ''trial''), (''periodSK'', PStr ''PERIOD#1''), (''grantRevision'', PInt 1),
     (''policyVersion'', PStr OWNER_POLICY), (''settleByEpoch'', PInt 200), (''retentionDeadlineEpoch'', PInt 1000)]"

definition ex_inventory :: dict where
  "ex_inventory = [(''PK'', PStr ''V1#CONTROL''), (''SK'', PStr ''HMAC_KEY_INVENTORY''), (''recordType'', PStr ''V1_HMAC_KEY_INVENTORY''),
     (''schemaVersion'', PInt 1), (''revision'', PInt 1), (''coverage'', PStr ''VERIFIED_COMPLETE''),
     (''issuedKeys'', PDict [(''k1'', PStr (replicate 32 CHR ''z''))])]"

definition ex_trial :: dict where
  "ex_trial = [(''limit'', PInt 10), (''usedChecks'', PInt 4), (''reservedChecks'', PInt 3), (''grantRevision'', PInt 1), (''policyVersion'', PStr OWNER_POLICY)]"

definition ex_profile :: dict where
  "ex_profile = [(''sub'', PStr ''alice''), (''status'', PStr ''ACTIVE''), (''ageVerified'', PBool True)]"

definition ex_settling :: db where
  "ex_settling = (\<lambda>t k. if t = ''U'' \<and> k = profile_key ''alice'' then Some ex_profile
     else if t = ''A'' \<and> k = check_key ex_part ex_cid then Some ex_admitted
     else if t = ''A'' \<and> k = INVENTORY_KEY then Some ex_inventory
     else if t = ''A'' \<and> k = (ex_part, ''PERIOD#1'') then Some ex_trial
     else if t = ''A'' \<and> k = inflight_key ex_part then Some [(''activeCount'', PInt 2)]
     else None)"

lemma ex_settling_rows:
  "ex_settling ''U'' (profile_key ''alice'') = Some ex_profile" "ex_settling ''X'' (deletion_key ''alice'') = None"
  "ex_settling ''A'' (check_key ex_part ex_cid) = Some ex_admitted" "ex_settling ''A'' INVENTORY_KEY = Some ex_inventory"
  "ex_settling ''A'' (ex_part, ''PERIOD#1'') = Some ex_trial" "ex_settling ''A'' (inflight_key ex_part) = Some [(''activeCount'', PInt 2)]"
  by (simp_all add: ex_settling_def check_key_def inflight_key_def INVENTORY_KEY_def ex_part_def)

lemma ex_tables: "users_table ex_settings = ''U''" "deletion_table ex_settings = ''X''" "authority_table ex_settings = ''A''"
    "governed_history_settlement_enabled ex_settings = False" "hmac_keys ex_settings = [(''k1'', replicate 32 CHR ''z'')]"
  by (simp_all add: ex_settings_def)

definition ex_mac :: string where "ex_mac = replicate 64 CHR ''b''"

definition ex_batch :: "action list" where
  "ex_batch = [inventory_condition ''A'' ex_inventory,
     ConditionCheck ''U'' (profile_key ''alice'') (all_of [equals ''status'' (PStr ''ACTIVE''), equals ''ageVerified'' (PBool True), equals ''sub'' (PStr ''alice'')]),
     ConditionCheck ''X'' (deletion_key ''alice'') (NotExists ''PK''),
     period_release ex_settings ex_part ''PERIOD#1'' 1 (PInt 1) (PStr OWNER_POLICY),
     inflight_leave ex_settings ex_part,
     Update ''A'' (check_key ex_part ex_cid)
       (receipt_updates \<lparr>ru_charge = 1, ru_receipt = take 32 ex_mac, ru_outcome = ''complete'', ru_expiry = PInt 1000,
          ru_summary = PNone, ru_assessed = 150, ru_sort = expiry_sort 1000 (check_key ex_part ex_cid), ru_history = [],
          ru_governed = False, ru_reason = None\<rparr>)
       (settle_condition (PStr ''x'') 150 False None)]"

lemma ex_charge: "settlement_charge ''complete'' (PStr ''trial'') = 1"
  by (simp add: settlement_charge_def CHARGEABLE_OUTCOMES_def)

text \<open>A service that gives no reply: the caller cannot know whether the batch was committed.\<close>

definition ex_served :: "(nat \<Rightarrow> action list \<Rightarrow> db \<Rightarrow> outcome \<times> db) \<Rightarrow> env" where "ex_served tx = ex_quiet\<lparr>transact := tx\<rparr>"

lemma ex_served_sel: "clock (ex_served tx) i = 150" "hmac_hex (ex_served tx) = (\<lambda>_ _. replicate 64 CHR ''b'')" "transact (ex_served tx) = tx"
    "peers (ex_served tx) = (\<lambda>_ db. db)" "read_fails (ex_served tx) = (\<lambda>_. False)"
    "sha256_hex (ex_served tx) = (\<lambda>s. s)"
  by (simp_all add: ex_served_def ex_quiet_def quiet_env_def)

lemma ex_served_get: "e_get (ex_served tx) t k w = (Inr (tables w t k), w\<lparr>tick := Suc (tick w)\<rparr>)"
  by (simp add: e_get_def ex_served_sel)

lemma ex_served_now: "e_now (ex_served tx) w = (Inr 150, w\<lparr>tick := Suc (tick w)\<rparr>)"
  by (simp add: e_now_def ex_served_sel)

lemma ex_served_partition: "account_partition (ex_served tx) ex_settings ''alice'' ''k1'' = Inr ex_part"
  by (simp add: account_partition_def mac_def ex_settings_def ex_part_def ex_served_sel)

lemma ex_issued: "veq b (PDict [(''k1'', PStr (replicate 32 CHR ''z''))]) (PDict [(''k1'', PStr (replicate 32 CHR ''z''))])"
  by (simp add: veq_dict)

lemma ex_conditions: "tables w = ex_settling \<Longrightarrow> account_conditions (ex_served tx) ex_settings ''alice'' w = (Inr (take 3 ex_batch), w\<lparr>tick := Suc (tick w)\<rparr>)"
  by (simp add: account_conditions_def verified_inventory_def ebind_def ex_served_get ex_tables ex_settling_rows ex_batch_def
      contents_def expected_keys_def)
    (simp add: ex_inventory_def has_keys_def inum_def ex_issued ex_served_sel)

lemma ex_release: "release_actions (ex_served tx) ex_settings ex_part ex_admitted (PStr ''trial'') 1 w = (Inr [period_release ex_settings ex_part ''PERIOD#1'' 1 (PInt 1) (PStr OWNER_POLICY)], w)"
  by (simp add: release_actions_def ebind_def elift_def) (simp add: ex_admitted_def ebind_def)

lemma ex_settle_action: "settle_action (ex_served tx) ex_settings (check_key ex_part ex_cid) ex_admitted (PStr ''x'') ''complete'' PNone (take 32 ex_mac) 1 False ([], None) PNone w
    = (Inr (last ex_batch), w\<lparr>tick := Suc (Suc (tick w))\<rparr>)"
proof -
  have d: "didx ex_admitted ''retentionDeadlineEpoch'' = Inr (PInt 1000)" "dhas ex_admitted ''operationsReceipt'' = False"
    by (simp_all add: ex_admitted_def)
  show ?thesis
    by (simp add: settle_action_def ebind_def d ex_served_now whole_def operations_fields_def ex_batch_def elift_def ex_tables)
qed

lemma ex_batch_commits: "batch_holds ex_batch ex_settling"
proof -
  have wf: "batch_wf ex_batch"
    by (simp add: batch_wf_def ex_batch_def inventory_condition_def period_release_def inflight_leave_def ex_tables check_key_def inflight_key_def
        INVENTORY_KEY_def ex_part_def)
  show ?thesis unfolding batch_holds_def
  proof (intro conjI wf)
    show "list_all (\<lambda>a. holds_at a ex_settling) ex_batch"
      by (simp add: ex_batch_def holds_at_def inventory_condition_def period_release_def inflight_leave_def ex_tables ex_settling_rows contents_def
          cond_holds_all_of equals_def settle_condition_def receipt_updates_def)
        (simp add: ex_inventory_def ex_profile_def ex_trial_def ex_admitted_def ex_issued num_cmp_def)
  qed
qed

lemma ex_settle_run:
  assumes "\<And>i. tx i ex_batch ex_settling = (Failed, db')" "db' ''A'' (check_key ex_part ex_cid) = Some d" "d \<noteq> []"
  shows "\<exists>w'. settle_check (ex_served tx) ex_settings (TrustedWorkerContext (PStr ''alice'')) (PStr ex_cid) (PStr ''x'') (PStr ''complete'') False PNone PNone
      \<lparr>tables = ex_settling, tick = 0\<rparr>
    = (if dget d ''state'' = PStr ''SETTLED'' then Inr (receipt_public d) else Inl (AuthorityError ''TRANSACTION_UNCERTAIN''), w') \<and> tables w' = db'"
proof -
  have "SUBJECT_PATTERN ''alice''" by (simp add: SUBJECT_PATTERN_def first_then_def fullmatch_def is_alnum_def is_digit_def code_def)
  then have a: "assert_account (ex_served tx) ex_settings (PStr ''alice'') \<lparr>tables = ex_settling, tick = 0\<rparr> = (Inr ''alice'', \<lparr>tables = ex_settling, tick = 2\<rparr>)"
    by (simp add: assert_account_def ebind_def ex_served_get ex_tables ex_settling_rows) (simp add: profile_active_def ex_profile_def)
  have v: "verify_token (ex_served tx) ex_settings ''alice'' (PStr ex_cid) (PStr (replicate 64 CHR ''b'')) True w = (Inr ''k1'', w)" for w
    by (simp add: verify_token_def ex_token_parts operation_tag_def mac_def ex_tables) (simp add: ex_served_sel ex_tag_def)
  have row: "dget_or ex_admitted ''retentionDeadlineEpoch'' v = PInt 1000" "didx ex_admitted ''payloadHmac'' = Inr (PStr (replicate 64 CHR ''b''))"
      "dget_or ex_admitted ''executionToken'' v = PStr ''x''" "didx ex_admitted ''state'' = Inr (PStr ''ADMITTED'')"
      "dget_or ex_admitted ''settleByEpoch'' v = PInt 200" "row_of (Some ex_admitted) = Some ex_admitted" for v
    by (simp_all add: ex_admitted_def row_of_def)
  have basis: "didx ex_admitted ''basis'' = Inr (PStr ''trial'')" "dget ex_admitted ''messageTransportVersion'' = PNone" "dget ex_admitted ''projectionScope'' = PNone"
    by (simp_all add: ex_admitted_def)
  have m: "mac (ex_served tx) ex_settings ''k1'' ''receipt'' ex_cid = Inr ex_mac"
    by (simp add: mac_def ex_tables) (simp add: ex_served_sel ex_mac_def)
  have acts: "take 3 ex_batch @ [period_release ex_settings ex_part ''PERIOD#1'' 1 (PInt 1) (PStr OWNER_POLICY)] @ [inflight_leave ex_settings ex_part, last ex_batch] = ex_batch"
    by (simp add: ex_batch_def)
  have tx: "e_transact (ex_served tx) ex_batch w = (Inr Failed, w\<lparr>tables := db', tick := Suc (tick w)\<rparr>)" if "tables w = ex_settling" for w
    using assms(1) that by (simp add: e_transact_def ex_served_sel)
  have adm: "\<exists>w'. settle_admitted (ex_served tx) ex_settings ''alice'' ex_part (check_key ex_part ex_cid) ''k1'' ex_cid ex_admitted (PStr ''x'') ''complete'' False PNone PNone w
      = (if dget d ''state'' = PStr ''SETTLED'' then Inr (receipt_public d) else Inl (AuthorityError ''TRANSACTION_UNCERTAIN''), w') \<and> tables w' = db'"
    if "tables w = ex_settling" for w
    using that assms(2,3) unfolding settle_admitted_def Let_def
    by (simp add: ebind_def basis one_of_def kept_summary_def m history_fields_def ex_tables ex_charge ex_conditions ex_release ex_settle_action
        on_authority_error_def ecatch_def transact_or_fail_def acts tx ex_served_get row_of_def del: append.simps)
  show ?thesis
    unfolding settle_check_def worker.case Let_def as_str.simps option.case
    by (simp add: ebind_def a ex_token_parts ex_served_partition ex_served_get ex_tables ex_settling_rows row ex_served_now v above_def
        digest_equals_def compare_digest_def is_ascii_def code_def OUTCOMES_def lease_check_def adm)
qed

text \<open>The request is lost: nothing is committed, and the repetition of the read shows the admitted row.\<close>

lemma failed_settlement_changes_nothing_witness:
  "\<exists>w'. settle_check (ex_served (\<lambda>_ _ db. (Failed, db))) ex_settings (TrustedWorkerContext (PStr ''alice'')) (PStr ex_cid) (PStr ''x'') (PStr ''complete'')
      False PNone PNone \<lparr>tables = ex_settling, tick = 0\<rparr> = (Inl (AuthorityError ''TRANSACTION_UNCERTAIN''), w') \<and> tables w' = ex_settling"
proof -
  let ?E = "ex_served (\<lambda>_ _ db. (Failed, db))"
  have service: "transact_service (transact ?E)" by unfold_locales (simp_all add: ex_served_sel)
  have "dget ex_admitted ''state'' \<noteq> PStr ''SETTLED''" "ex_admitted \<noteq> []" by (simp_all add: ex_admitted_def)
  then obtain w' where run: "settle_check ?E ex_settings (TrustedWorkerContext (PStr ''alice'')) (PStr ex_cid) (PStr ''x'') (PStr ''complete'')
      False PNone PNone \<lparr>tables = ex_settling, tick = 0\<rparr> = (Inl (AuthorityError ''TRANSACTION_UNCERTAIN''), w')"
    using ex_settle_run [of "\<lambda>_ _ db. (Failed, db)" ex_settling ex_admitted] by (auto simp: ex_settling_rows)
  from failed_settlement_changes_nothing [OF service ex_served_sel(4) run] run show ?thesis by simp
qed

text \<open>The reply is lost: the batch was committed, and the second read shows the settled receipt.\<close>

lemma settlement_refines_counters_witness:
  "\<exists>r w. settle_check (ex_served lossy_transact) ex_settings (TrustedWorkerContext (PStr ''alice'')) (PStr ex_cid) (PStr ''x'') (PStr ''complete'') False PNone PNone
      \<lparr>tables = ex_settling, tick = 0\<rparr> = (Inr r, w)
    \<and> counters_view ex_settings ex_part ''PERIOD#1'' (tables w) = Some (5, 2, 1)"
proof -
  have "commit ex_batch ex_settling ''A'' (check_key ex_part ex_cid) = after (last ex_batch) (ex_settling ''A'' (check_key ex_part ex_cid))"
  proof (rule commit_at)
    show mem: "last ex_batch \<in> set ex_batch" "target (last ex_batch) = (''A'', check_key ex_part ex_cid)" by (simp_all add: ex_batch_def)
    show "distinct (map target ex_batch)" using batch_holds_at [OF ex_batch_commits mem(1)] by blast
  qed
  then obtain d where d: "commit ex_batch ex_settling ''A'' (check_key ex_part ex_cid) = Some d" "dget d ''state'' = PStr ''SETTLED''"
    using receipt_settled(1) by (auto simp: ex_batch_def)
  then have "d \<noteq> []" by auto
  then obtain r w where run: "settle_check (ex_served lossy_transact) ex_settings (TrustedWorkerContext (PStr ''alice'')) (PStr ex_cid) (PStr ''x'') (PStr ''complete'') False PNone PNone
      \<lparr>tables = ex_settling, tick = 0\<rparr> = (Inr r, w)"
    using ex_settle_run [of lossy_transact "commit ex_batch ex_settling" d] d by (auto simp: lossy_transact_def ex_batch_commits)
  have service: "transact_service (transact (ex_served lossy_transact))" by (simp add: ex_served_sel lossy.transact_service_axioms)
  have row: "dget ex_admitted ''state'' \<noteq> PStr ''SETTLED''" "didx ex_admitted ''basis'' = Inr (PStr ''trial'')" "didx ex_admitted ''periodSK'' = Inr (PStr ''PERIOD#1'')"
    by (simp_all add: ex_admitted_def)
  have part: "account_partition (ex_served lossy_transact) ex_settings ''alice''
      (tok_key (\<lparr>tok_key = ''k1'', tok_expiry = 255, tok_nonce = replicate 16 CHR ''c'', tok_tag = ex_tag\<rparr> :: token)) = Inr ex_part"
    by (simp add: ex_served_partition)
  have at: "tables \<lparr>tables = ex_settling, tick = 0\<rparr> (authority_table ex_settings) (check_key ex_part ex_cid) = Some ex_admitted"
    by (simp add: ex_tables ex_settling_rows)
  have v: "counters_view ex_settings ex_part ''PERIOD#1'' (tables \<lparr>tables = ex_settling, tick = 0\<rparr>) = Some (4, 3, 2)"
    by (simp add: counters_view_def ex_tables ex_settling_rows ex_trial_def)
  have "counters_view ex_settings ex_part ''PERIOD#1'' (tables w) = Some (settle_counters (settlement_charge ''complete'' (PStr ''trial'')) (4, 3, 2))"
    using settlement_refines_counters [OF service ex_served_sel(4) run ex_token_parts part at row(1,2) _ row(3) _ v] by simp
  then have "counters_view ex_settings ex_part ''PERIOD#1'' (tables w) = Some (5, 2, 1)"
    by (simp add: settle_counters_def ex_charge)
  with run show ?thesis by blast
qed

end
