(* ===== verification/Devices.thy ===== *)
theory Devices
  imports Settlement
begin

text \<open>
  The binding of an account to one device (\<open>device_registration/service.py\<close>). An account has a
  pointer row naming the fingerprint of its device, with a version, and one row per device it ever
  bound. The pointer is created, moved and read by the operations here and by the recovery of
  devices; a row is moved to \<open>INACTIVE\<close> when another device takes its place.
\<close>

section \<open>Configuration and time\<close>

record device_config =
  dc_bindings :: string
  dc_users :: string
  dc_ledger :: string
  dc_control :: string
  inactive_days :: int
  receipt_days :: int
  audit_days :: int
  rate_window :: int
  rate_max :: int
  rate_ttl :: int
  py_str :: "pyval \<Rightarrow> string"   \<comment> \<open>\<open>str(v)\<close> of what is not a text, in an f-string\<close>

definition shown :: "device_config \<Rightarrow> pyval \<Rightarrow> string" where
  "shown c v = (case v of PStr s \<Rightarrow> s | _ \<Rightarrow> py_str c v)"

lemma shown_PStr [simp]: "shown c (PStr s) = s"
  by (simp add: shown_def)

text \<open>The calendar date of a day counted from 1970-01-01, and \<open>datetime.isoformat\<close> in UTC.\<close>

definition civil :: "int \<Rightarrow> int \<times> int \<times> int" where
  "civil days =
     (let z = days + 719468; era = z div 146097; doe = z mod 146097;
          yoe = (doe - doe div 1460 + doe div 36524 - doe div 146096) div 365;
          doy = doe - (365 * yoe + yoe div 4 - yoe div 100); mp = (5 * doy + 2) div 153;
          m = (if mp < 10 then mp + 3 else mp - 9)
      in (yoe + era * 400 + (if m \<le> 2 then 1 else 0), m, doy - (153 * mp + 2) div 5 + 1))"

definition isoformat :: "int \<Rightarrow> string" where   \<comment> \<open>of a moment in microseconds\<close>
  "isoformat us =
     (let sec = us div 1000000; frac = us mod 1000000; tod = sec mod 86400 in
      case civil (sec div 86400) of (y, m, d) \<Rightarrow>
        fmt_d 4 y @ ''-'' @ fmt_d 2 m @ ''-'' @ fmt_d 2 d @ ''T'' @ fmt_d 2 (tod div 3600) @ '':'' @ fmt_d 2 (tod div 60 mod 60)
        @ '':'' @ fmt_d 2 (tod mod 60) @ (if frac = 0 then [] else ''.'' @ fmt_d 6 frac) @ ''+00:00'')"

definition e_utcnow :: "env \<Rightarrow> int eff" where   \<comment> \<open>\<open>datetime.now(UTC)\<close>, in microseconds\<close>
  "e_utcnow E = ebind (e_wall E) (\<lambda>ns. eret (ns div 1000))"

section \<open>Rows\<close>

definition positive_version :: "pyval \<Rightarrow> int option" where
  "positive_version v =
     (case v of
        PInt n \<Rightarrow> if 1 \<le> n then Some n else None
      | PDec m e \<Rightarrow> (case integral v of None \<Rightarrow> None | Some n \<Rightarrow> if n < 1 then None else Some n)
      | _ \<Rightarrow> None)"

definition active_row :: "string \<Rightarrow> string \<Rightarrow> string \<Rightarrow> string \<Rightarrow> string \<Rightarrow> dict option \<Rightarrow> dict" where
  "active_row account f platform os now_iso existing =
     [(''PK'', PStr (''USER#'' @ account)), (''SK'', PStr (''DEVICE#'' @ f)), (''accountId'', PStr account),
      (''bindingFingerprint'', PStr f), (''platform'', PStr platform), (''osVersion'', PStr os), (''status'', PStr ''ACTIVE''),
      (''firstSeenAt'', dget_or (contents existing) ''firstSeenAt'' (PStr now_iso)), (''lastSeenAt'', PStr now_iso),
      (''deactivatedAt'', PNone), (''GSI1PK'', PStr (''USER#'' @ account @ ''#ACTIVE'')), (''GSI1SK'', PStr now_iso)]"

definition inactive_row :: "device_config \<Rightarrow> dict \<Rightarrow> int \<Rightarrow> dict result" where
  "inactive_row c item now =
     rbind (didx item ''accountId'') (\<lambda>account.
     Inr (dset ''expiresAt'' (PInt (now div 1000000 + inactive_days c * 86400))
         (dset ''GSI1SK'' (PStr (isoformat now))
         (dset ''GSI1PK'' (PStr (''USER#'' @ shown c account @ ''#INACTIVE''))
         (dset ''deactivatedAt'' (PStr (isoformat now))
         (dset ''status'' (PStr ''INACTIVE'') item))))))"

definition pointer_row :: "string \<Rightarrow> string \<Rightarrow> string \<Rightarrow> dict" where
  "pointer_row account f now_iso =
     [(''PK'', PStr (''USER#'' @ account)), (''SK'', PStr ''ACTIVE_BINDING''), (''recordType'', PStr ''ACTIVE_BINDING_POINTER''),
      (''schemaVersion'', PInt 1), (''bindingFingerprint'', PStr f), (''stateVersion'', PInt 1), (''updatedAt'', PStr now_iso)]"

fun flat :: "pyval \<Rightarrow> bool" where   \<comment> \<open>the values \<open>_serialize_value\<close> of the registration accepts\<close>
  "flat PNone = True"
| "flat (PBool b) = True"
| "flat (PInt n) = True"
| "flat (PStr s) = True"
| "flat _ = False"

definition serialized :: "dict \<Rightarrow> dict result" where
  "serialized d = (if list_all (\<lambda>kv. flat (snd kv)) d then Inr d else Inl TypeError)"

definition is_new :: cond where
  "is_new = And (NotExists ''PK'') (NotExists ''SK'')"

section \<open>Reads\<close>

abbreviation UNAVAILABLE :: exc where "UNAVAILABLE \<equiv> AppError ''SERVER_UNAVAILABLE'' False"
abbreviation CONFLICT :: exc where "CONFLICT \<equiv> AppError ''CONFLICT'' True"

definition get_binding :: "env \<Rightarrow> device_config \<Rightarrow> string \<Rightarrow> pyval \<Rightarrow> dict option eff" where
  "get_binding E c account f = e_read E (dc_bindings c) (binding_key account (shown c f))"

definition legacy_active :: "env \<Rightarrow> device_config \<Rightarrow> string \<Rightarrow> dict option eff" where
  \<comment> \<open>without a pointer: the only row of the index of active bindings\<close>
  "legacy_active E c account =
     ebind (e_index_query E (dc_bindings c) ''GSI1'' (''USER#'' @ account @ ''#ACTIVE'')) (\<lambda>items.
     case take 2 items of
       [] \<Rightarrow> eret None
     | [b] \<Rightarrow> eret (Some b)
     | _ \<Rightarrow> eraise UNAVAILABLE)"

definition active_from_pointer :: "env \<Rightarrow> device_config \<Rightarrow> string \<Rightarrow> dict option \<Rightarrow> dict option eff" where
  "active_from_pointer E c account pointer =
     (case pointer of
        None \<Rightarrow> legacy_active E c account
      | Some p \<Rightarrow>
          if dget p ''recordType'' \<noteq> PStr ''ACTIVE_BINDING_POINTER'' \<or> positive_version (dget p ''stateVersion'') = None
          then eraise UNAVAILABLE
          else if dget p ''bindingFingerprint'' = PStr ''NONE'' then eret None
          else ebind (get_binding E c account (dget p ''bindingFingerprint'')) (\<lambda>it.
            case row_of it of
              None \<Rightarrow> eraise UNAVAILABLE
            | Some b \<Rightarrow> if dget b ''status'' \<noteq> PStr ''ACTIVE'' then eraise UNAVAILABLE else eret (Some b)))"

section \<open>Registration\<close>

definition device_authority :: "device_config \<Rightarrow> string \<Rightarrow> action list" where
  "device_authority c account =
     [ConditionCheck (dc_users c) (profile_key account)
        (all_of [equals ''status'' (PStr ''ACTIVE''), equals ''ageVerified'' (PBool True), equals ''sub'' (PStr account)]),
      ConditionCheck (dc_ledger c) (deletion_key account) (NotExists ''PK'')]"

fun hashable :: "pyval \<Rightarrow> bool" where   \<comment> \<open>what may be put into a set\<close>
  "hashable (PList xs) = False"
| "hashable (PDict d) = False"
| "hashable _ = True"

definition decision :: "pyval \<Rightarrow> string \<Rightarrow> dict option \<Rightarrow> dict option \<Rightarrow> string" where
  "decision current_f f active existing =
     (if current_f = PStr f then ''KNOWN'' else if active \<noteq> None then ''SWITCH'' else if existing \<noteq> None then ''KNOWN'' else ''NEW'')"

definition pointer_move :: "device_config \<Rightarrow> string \<Rightarrow> string \<Rightarrow> string \<Rightarrow> pyval \<Rightarrow> int \<Rightarrow> action" where
  "pointer_move c account f now_iso seen version =
     Update (dc_bindings c) (pointer_key account)
       [USet ''bindingFingerprint'' (PStr f), USet ''stateVersion'' (PInt (version + 1)), USet ''updatedAt'' (PStr now_iso)]
       (And (equals ''bindingFingerprint'' seen) (equals ''stateVersion'' (PInt version)))"

definition register_pointer :: "device_config \<Rightarrow> string \<Rightarrow> string \<Rightarrow> string \<Rightarrow> dict option \<Rightarrow> pyval \<Rightarrow> action result" where
  "register_pointer c account f now_iso pointer current_f =
     (case pointer of
        Some p \<Rightarrow>
          (case positive_version (dget p ''stateVersion'') of
             None \<Rightarrow> Inl UNAVAILABLE
           | Some version \<Rightarrow>
               let seen = dget p ''bindingFingerprint'' in
               rbind (raise_if (\<not> hashable current_f \<or> \<not> hashable seen) TypeError) (\<lambda>_.
               rbind (raise_if (\<not> (pyeq seen current_f \<or> seen = PStr ''NONE'')) UNAVAILABLE) (\<lambda>_.
               rbind (serialized [('':current'', seen)]) (\<lambda>_.
               Inr (pointer_move c account f now_iso seen version)))))
      | None \<Rightarrow> Inr (Put (dc_bindings c) (pointer_row account f now_iso) is_new))"

definition demote :: "device_config \<Rightarrow> dict \<Rightarrow> pyval \<Rightarrow> action" where
  "demote c inactive current_f =
     Put (dc_bindings c) inactive (And (equals ''status'' (PStr ''ACTIVE'')) (equals ''bindingFingerprint'' current_f))"

definition register_demote :: "device_config \<Rightarrow> string \<Rightarrow> int \<Rightarrow> dict option \<Rightarrow> pyval \<Rightarrow> action list result" where
  "register_demote c f now active current_f =
     (case active of
        None \<Rightarrow> Inr []
      | Some a \<Rightarrow>
          if current_f = PStr f then Inr [] else
          rbind (inactive_row c a now) (\<lambda>inactive.
          rbind (serialized inactive) (\<lambda>_.
          rbind (serialized [('':current'', current_f)]) (\<lambda>_.
          Inr [demote c inactive current_f]))))"

definition promote :: "device_config \<Rightarrow> dict \<Rightarrow> dict option \<Rightarrow> action" where
  "promote c row existing =
     Put (dc_bindings c) row (case existing of None \<Rightarrow> is_new | Some x \<Rightarrow> equals ''status'' (dget x ''status''))"

definition register_promote :: "device_config \<Rightarrow> dict \<Rightarrow> dict option \<Rightarrow> action result" where
  "register_promote c row existing =
     rbind (serialized row) (\<lambda>_.
     rbind (serialized [('':previous'', dget (contents existing) ''status'')]) (\<lambda>_.
     Inr (promote c row existing)))"

definition register_response :: "string \<Rightarrow> dict \<Rightarrow> dict" where
  "register_response d row =
     (''decision'', PStr d) # map (\<lambda>k. (k, dget row k))
       [''accountId'', ''bindingFingerprint'', ''status'', ''firstSeenAt'', ''lastSeenAt'', ''deactivatedAt'']"

definition register_device :: "env \<Rightarrow> device_config \<Rightarrow> string \<Rightarrow> string \<Rightarrow> string \<Rightarrow> string \<Rightarrow> dict eff" where
  "register_device E c account f platform os =
     ebind (eraise_if (dc_bindings c = []) UNAVAILABLE) (\<lambda>_.
     ebind (e_utcnow E) (\<lambda>now.
     ebind (get_binding E c account (PStr f)) (\<lambda>it.
     let existing = row_of it in
     ebind (e_get E (dc_bindings c) (pointer_key account)) (\<lambda>pit.
     let pointer = row_of pit in
     ebind (active_from_pointer E c account pointer) (\<lambda>ait.
     let active = row_of ait;
         current_f = (case active of None \<Rightarrow> PNone | Some a \<Rightarrow> dget a ''bindingFingerprint'');
         row = active_row account f platform os (isoformat now)
                 (if existing \<noteq> None then existing else if current_f = PStr f then active else None) in
     ebind (elift (register_pointer c account f (isoformat now) pointer current_f)) (\<lambda>moved.
     ebind (elift (register_demote c f now active current_f)) (\<lambda>demoted.
     ebind (elift (register_promote c row existing)) (\<lambda>promoted.
     ebind (e_transact E (device_authority c account @ [moved] @ demoted @ [promoted])) (\<lambda>r.
     case r of
       Committed \<Rightarrow> eret (register_response (decision current_f f active existing) row)
     | Cancelled \<Rightarrow> eraise CONFLICT
     | Failed \<Rightarrow> eraise SdkError)))))))))"

end
