(* ===== verification/DeviceRecovery.thy ===== *)
theory DeviceRecovery
  imports Devices Json
begin

text \<open>
  Recovery of a device binding (\<open>device_recovery/service.py\<close>): an operator clears or replaces the
  active binding of an account, and an account replaces its own binding with an operation that is
  recorded in a receipt, so that a repeated request is answered from the receipt.
\<close>

section \<open>Rows\<close>

fun nested :: "pyval \<Rightarrow> bool" where   \<comment> \<open>the values \<open>_serialize_value\<close> of the recovery accepts\<close>
  "nested (PDict d) = list_all (\<lambda>kv. nested (snd kv)) d"
| "nested v = flat v"

definition serialized_nested :: "dict \<Rightarrow> dict result" where
  "serialized_nested d = (if nested (PDict d) then Inr d else Inl TypeError)"

definition refreshed_row :: "device_config \<Rightarrow> dict \<Rightarrow> int \<Rightarrow> dict result" where   \<comment> \<open>\<open>_build_active_item\<close>\<close>
  "refreshed_row c item now =
     rbind (didx item ''PK'') (\<lambda>pk.
     rbind (didx item ''SK'') (\<lambda>sk.
     rbind (didx item ''accountId'') (\<lambda>account.
     rbind (didx item ''bindingFingerprint'') (\<lambda>f.
     rbind (didx item ''platform'') (\<lambda>platform.
     rbind (didx item ''osVersion'') (\<lambda>os.
     rbind (didx item ''firstSeenAt'') (\<lambda>first.
     Inr [(''PK'', pk), (''SK'', sk), (''accountId'', account), (''bindingFingerprint'', f), (''platform'', platform),
       (''osVersion'', os), (''status'', PStr ''ACTIVE''), (''firstSeenAt'', first), (''lastSeenAt'', PStr (isoformat now)),
       (''deactivatedAt'', PNone), (''GSI1PK'', PStr (''USER#'' @ shown c account @ ''#ACTIVE'')),
       (''GSI1SK'', PStr (isoformat now))])))))))"

definition new_item :: "string \<Rightarrow> dict \<Rightarrow> action" where   \<comment> \<open>\<open>_put\<close>\<close>
  "new_item table item = Put table item is_new"

section \<open>Reads\<close>

definition find_binding :: "env \<Rightarrow> device_config \<Rightarrow> string \<Rightarrow> pyval \<Rightarrow> dict option eff" where
  "find_binding E c account f = (if truthy f then get_binding E c account f else eret None)"

definition checked_pointer :: "env \<Rightarrow> device_config \<Rightarrow> string \<Rightarrow> dict \<Rightarrow> (dict \<times> dict option) eff" where
  \<comment> \<open>the pointer, its version as an \<open>int\<close>, and the active binding it names\<close>
  "checked_pointer E c account p =
     (case (positive_version (dget p ''stateVersion''), as_str (dget p ''bindingFingerprint'')) of
        (Some version, Some f) \<Rightarrow>
          if dget p ''recordType'' \<noteq> PStr ''ACTIVE_BINDING_POINTER'' then eraise UNAVAILABLE else
          let p' = dset ''stateVersion'' (PInt version) p in
          if f = ''NONE'' then eret (p', None) else
          ebind (find_binding E c account (PStr f)) (\<lambda>it.
          case row_of it of
            None \<Rightarrow> eraise UNAVAILABLE
          | Some b \<Rightarrow> if dget b ''status'' \<noteq> PStr ''ACTIVE'' then eraise UNAVAILABLE else eret (p', Some b))
      | _ \<Rightarrow> eraise UNAVAILABLE)"

definition pointer_and_active :: "env \<Rightarrow> device_config \<Rightarrow> string \<Rightarrow> (dict option \<times> dict option) eff" where
  "pointer_and_active E c account =
     ebind (e_get E (dc_bindings c) (pointer_key account)) (\<lambda>it.
     case row_of it of
       None \<Rightarrow> ebind (legacy_active E c account) (\<lambda>a. eret (None, row_of a))
     | Some p \<Rightarrow> ebind (checked_pointer E c account p) (\<lambda>r. eret (Some (fst r), snd r)))"

section \<open>What a change of the binding writes\<close>

definition replace_pointer :: "device_config \<Rightarrow> string \<Rightarrow> dict option \<Rightarrow> pyval \<Rightarrow> dict \<Rightarrow> action result" where
  "replace_pointer c account pointer current_f row =
     (let f = dget row ''bindingFingerprint'' in
      case pointer of
        Some p \<Rightarrow>
          let seen = dget p ''bindingFingerprint''; version = inum p ''stateVersion'' in
          if pyeq current_f f then
            Inr (ConditionCheck (dc_bindings c) (pointer_key account)
              (And (equals ''bindingFingerprint'' seen) (equals ''stateVersion'' (PInt version))))
          else
            rbind (serialized_nested [('':target'', f)]) (\<lambda>_.
            Inr (Update (dc_bindings c) (pointer_key account)
              [USet ''bindingFingerprint'' f, USet ''stateVersion'' (PInt (version + 1)), USet ''updatedAt'' (dget row ''lastSeenAt'')]
              (And (equals ''bindingFingerprint'' seen) (equals ''stateVersion'' (PInt version)))))
      | None \<Rightarrow>
          rbind (serialized_nested [('':target'', f)]) (\<lambda>_.
          Inr (new_item (dc_bindings c)
            [(''PK'', PStr (''USER#'' @ account)), (''SK'', PStr ''ACTIVE_BINDING''), (''recordType'', PStr ''ACTIVE_BINDING_POINTER''),
             (''schemaVersion'', PInt 1), (''bindingFingerprint'', f), (''stateVersion'', PInt 1), (''updatedAt'', dget row ''lastSeenAt'')])))"

definition replace_demote :: "device_config \<Rightarrow> int \<Rightarrow> dict option \<Rightarrow> pyval \<Rightarrow> dict \<Rightarrow> action list result" where
  "replace_demote c now active current_f row =
     (case active of
        None \<Rightarrow> Inr []
      | Some a \<Rightarrow>
          if pyeq current_f (dget row ''bindingFingerprint'') then Inr [] else
          rbind (inactive_row c a now) (\<lambda>inactive.
          rbind (serialized_nested inactive) (\<lambda>_.
          Inr [demote c inactive current_f])))"

definition replace_promote :: "device_config \<Rightarrow> dict \<Rightarrow> dict option \<Rightarrow> action result" where
  "replace_promote c row existing =
     rbind (serialized_nested row) (\<lambda>_.
     rbind (serialized_nested [('':previous'', dget (contents existing) ''status'')]) (\<lambda>_.
     Inr (promote c row existing)))"

definition replacement_operations ::
  "device_config \<Rightarrow> string \<Rightarrow> dict option \<Rightarrow> dict option \<Rightarrow> dict option \<Rightarrow> dict \<Rightarrow> int \<Rightarrow> action list result" where
  "replacement_operations c account pointer active existing row now =
     (let current_f = (case active of None \<Rightarrow> PNone | Some a \<Rightarrow> dget a ''bindingFingerprint'') in
      rbind (replace_pointer c account pointer current_f row) (\<lambda>moved.
      rbind (replace_demote c now active current_f row) (\<lambda>demoted.
      rbind (replace_promote c row existing) (\<lambda>promoted.
      Inr (moved # demoted @ [promoted])))))"

definition clear_operations :: "device_config \<Rightarrow> string \<Rightarrow> dict option \<Rightarrow> dict \<Rightarrow> dict \<Rightarrow> int \<Rightarrow> action list result" where
  "clear_operations c account pointer active inactive now =
     rbind (case pointer of
              Some p \<Rightarrow>
                rbind (didx active ''bindingFingerprint'') (\<lambda>current_f.
                rbind (serialized_nested [('':current'', current_f)]) (\<lambda>_.
                Inr (pointer_move c account ''NONE'' (isoformat now) current_f (inum p ''stateVersion''))))
            | None \<Rightarrow> Inr (new_item (dc_bindings c) (pointer_row account ''NONE'' (isoformat now)))) (\<lambda>moved.
     rbind (serialized_nested inactive) (\<lambda>_.
     rbind (didx active ''bindingFingerprint'') (\<lambda>current_f.
     rbind (serialized_nested [('':current'', current_f)]) (\<lambda>_.
     Inr [moved, demote c inactive current_f]))))"

definition transact_binding :: "env \<Rightarrow> action list \<Rightarrow> unit eff" where
  "transact_binding E acts =
     ebind (e_transact E acts) (\<lambda>r.
     case r of Committed \<Rightarrow> eret () | Cancelled \<Rightarrow> eraise CONFLICT | Failed \<Rightarrow> eraise SdkError)"

section \<open>Recovery by an operator\<close>

definition recovery_response :: "string \<Rightarrow> string \<Rightarrow> dict \<Rightarrow> string \<Rightarrow> int \<Rightarrow> dict" where
  "recovery_response r account row operator now =
     [(''result'', PStr r), (''accountId'', PStr account), (''bindingFingerprint'', dget row ''bindingFingerprint''),
      (''status'', dget row ''status''), (''operatorId'', PStr operator), (''recoveredAt'', PStr (isoformat now))]"

definition reset_active :: "env \<Rightarrow> device_config \<Rightarrow> string \<Rightarrow> dict option \<Rightarrow> dict option \<Rightarrow> string \<Rightarrow> int \<Rightarrow> dict eff" where
  "reset_active E c account pointer active operator now =
     (case active of
        None \<Rightarrow>
          ebind (if pointer = None
                 then transact_binding E (device_authority c account @ [new_item (dc_bindings c) (pointer_row account ''NONE'' (isoformat now))])
                 else eret ()) (\<lambda>_.
          eret (recovery_response ''NO_ACTIVE_BINDING'' account [] operator now))
      | Some a \<Rightarrow>
          ebind (elift (inactive_row c a now)) (\<lambda>inactive.
          ebind (elift (clear_operations c account pointer a inactive now)) (\<lambda>acts.
          ebind (transact_binding E (device_authority c account @ acts)) (\<lambda>_.
          eret (recovery_response ''CLEARED'' account inactive operator now)))))"

definition recover_binding :: "env \<Rightarrow> device_config \<Rightarrow> string \<Rightarrow> pyval \<Rightarrow> dict option \<Rightarrow> dict option \<Rightarrow> string \<Rightarrow> int \<Rightarrow> dict eff" where
  "recover_binding E c account f pointer active operator now =
     ebind (find_binding E c account f) (\<lambda>it.
     case row_of it of
       None \<Rightarrow> eraise (AppError ''NOT_FOUND'' False)
     | Some existing \<Rightarrow>
         ebind (elift (refreshed_row c existing now)) (\<lambda>row.
         ebind (elift (replacement_operations c account pointer active (Some existing) row now)) (\<lambda>acts.
         ebind (transact_binding E (device_authority c account @ acts)) (\<lambda>_.
         eret (recovery_response
                 (if (case active of None \<Rightarrow> False | Some a \<Rightarrow> pyeq (dget a ''bindingFingerprint'') f) then ''ALREADY_ACTIVE'' else ''RECOVERED'')
                 account row operator now)))))"

definition process_recovery :: "env \<Rightarrow> device_config \<Rightarrow> string \<Rightarrow> string \<Rightarrow> pyval \<Rightarrow> string \<Rightarrow> dict eff" where
  "process_recovery E c account act f operator =
     ebind (eraise_if (dc_bindings c = []) UNAVAILABLE) (\<lambda>_.
     ebind (e_utcnow E) (\<lambda>now.
     ebind (pointer_and_active E c account) (\<lambda>pa.
     if act = ''RESET_ACTIVE_BINDING'' then reset_active E c account (fst pa) (snd pa) operator now
     else recover_binding E c account f (fst pa) (snd pa) operator now)))"

section \<open>Recovery by the account\<close>

record self_request =
  sr_operation :: string
  sr_fingerprint :: string
  sr_platform :: string
  sr_os :: string

definition request_payload :: "self_request \<Rightarrow> dict" where   \<comment> \<open>the validated request\<close>
  "request_payload q =
     [(''schemaVersion'', PInt 1), (''operationId'', PStr (sr_operation q)), (''action'', PStr ''REPLACE_ACTIVE_BINDING''),
      (''bindingFingerprint'', PStr (sr_fingerprint q)), (''platform'', PStr (sr_platform q)), (''osVersion'', PStr (sr_os q))]"

definition receipt_key :: "string \<Rightarrow> string \<Rightarrow> key" where
  "receipt_key account operation = (''USER#'' @ account, ''RECOVERY#'' @ operation)"

definition rate_key :: "device_config \<Rightarrow> string \<Rightarrow> int \<Rightarrow> key" where
  "rate_key c account now = (''USER#'' @ account, ''RATE#'' @ show_int (now - now mod rate_window c))"

definition rate_update :: "device_config \<Rightarrow> string \<Rightarrow> int \<Rightarrow> action" where
  "rate_update c account now =
     Update (dc_control c) (rate_key c account now) [USet ''expiresAt'' (PInt (now + rate_ttl c)), UAdd ''requestCount'' 1]
       (Or (NotExists ''requestCount'') (Cmp CLt ''requestCount'' (PInt (rate_max c))))"

definition RECEIPT_FIELDS :: "string list" where
  "RECEIPT_FIELDS = [''PK'', ''SK'', ''recordType'', ''schemaVersion'', ''operationId'', ''operation'', ''payloadHash'', ''result'',
     ''status'', ''bindingFingerprint'', ''completedAtEpoch'', ''expiresAt'']"

definition new_receipt :: "device_config \<Rightarrow> string \<Rightarrow> self_request \<Rightarrow> string \<Rightarrow> int \<Rightarrow> dict" where
  "new_receipt c account q payload_hash now =
     [(''PK'', PStr (''USER#'' @ account)), (''SK'', PStr (''RECOVERY#'' @ sr_operation q)), (''recordType'', PStr ''DEVICE_RECOVERY_RECEIPT''),
      (''schemaVersion'', PInt 1), (''operationId'', PStr (sr_operation q)), (''operation'', PStr ''REPLACE_ACTIVE_BINDING''),
      (''payloadHash'', PStr payload_hash), (''result'', PStr ''RECOVERED''), (''status'', PStr ''COMPLETE''),
      (''bindingFingerprint'', PStr (sr_fingerprint q)), (''completedAtEpoch'', PInt now),
      (''expiresAt'', PInt (now + receipt_days c * 86400))]"

definition new_audit :: "device_config \<Rightarrow> string \<Rightarrow> self_request \<Rightarrow> int \<Rightarrow> dict" where
  "new_audit c account q now =
     [(''PK'', PStr (''USER#'' @ account)), (''SK'', PStr (''AUDIT#'' @ fmt_d 10 now @ ''#'' @ sr_operation q)),
      (''recordType'', PStr ''DEVICE_RECOVERY_AUDIT''), (''schemaVersion'', PInt 1), (''operationId'', PStr (sr_operation q)),
      (''actorType'', PStr ''SELF''), (''action'', PStr ''REPLACE_ACTIVE_BINDING''), (''result'', PStr ''RECOVERED''),
      (''bindingFingerprint'', PStr (sr_fingerprint q)), (''occurredAtEpoch'', PInt now), (''expiresAt'', PInt (now + audit_days c * 86400))]"

definition FINGERPRINT_OK :: "pyval \<Rightarrow> bool" where
  "FINGERPRINT_OK = str_matches FINGERPRINT_PATTERN"

definition validated_receipt :: "device_config \<Rightarrow> dict \<Rightarrow> string \<Rightarrow> string \<Rightarrow> int \<Rightarrow> dict result" where
  "validated_receipt c item account operation now =
     (case (positive_version (dget item ''completedAtEpoch''), positive_version (dget item ''expiresAt'')) of
        (Some completed, Some expires) \<Rightarrow>
          if \<not> has_keys item RECEIPT_FIELDS
             \<or> dget item ''PK'' \<noteq> PStr (''USER#'' @ account) \<or> dget item ''SK'' \<noteq> PStr (''RECOVERY#'' @ operation)
             \<or> dget item ''recordType'' \<noteq> PStr ''DEVICE_RECOVERY_RECEIPT'' \<or> integral (dget item ''schemaVersion'') \<noteq> Some 1
             \<or> dget item ''operationId'' \<noteq> PStr operation \<or> dget item ''operation'' \<noteq> PStr ''REPLACE_ACTIVE_BINDING''
             \<or> dget item ''result'' \<noteq> PStr ''RECOVERED'' \<or> dget item ''status'' \<noteq> PStr ''COMPLETE''
             \<or> \<not> str_matches (fullmatch is_hex 64 64) (dget item ''payloadHash'')
             \<or> \<not> FINGERPRINT_OK (dget item ''bindingFingerprint'')
             \<or> completed > now \<or> expires \<noteq> completed + receipt_days c * 86400
          then Inl UNAVAILABLE
          else Inr (dset ''expiresAt'' (PInt expires) (dset ''completedAtEpoch'' (PInt completed) item))
      | _ \<Rightarrow> Inl UNAVAILABLE)"

definition public_receipt :: "dict \<Rightarrow> dict" where
  "public_receipt item =
     (''schemaVersion'', PInt 1) # map (\<lambda>k. (k, dget item k)) [''operationId'', ''operation'', ''result'', ''status'', ''bindingFingerprint'']
     @ [(''completedAtEpoch'', PInt (inum item ''completedAtEpoch''))]"

definition replay_receipt :: "device_config \<Rightarrow> dict \<Rightarrow> string \<Rightarrow> string \<Rightarrow> string \<Rightarrow> string \<Rightarrow> int \<Rightarrow> dict result" where
  "replay_receipt c item payload_hash account operation f now =
     rbind (validated_receipt c item account operation now) (\<lambda>receipt.
     rbind (digest_equals (dget receipt ''payloadHash'') payload_hash) (\<lambda>same.
     rbind (raise_if (\<not> same) (AppError ''IDEMPOTENCY_CONFLICT'' False)) (\<lambda>_.
     rbind (raise_if (dget receipt ''bindingFingerprint'' \<noteq> PStr f) UNAVAILABLE) (\<lambda>_.
     rbind (raise_if (inum receipt ''expiresAt'' \<le> now) UNAVAILABLE) (\<lambda>_.
     Inr (public_receipt receipt))))))"

definition recovery_authority_active :: "env \<Rightarrow> device_config \<Rightarrow> string \<Rightarrow> unit eff" where
  "recovery_authority_active E c account =
     ebind (eraise_if (dc_users c = [] \<or> dc_ledger c = []) UNAVAILABLE) (\<lambda>_.
     ebind (e_get E (dc_users c) (profile_key account)) (\<lambda>profile.
     ebind (e_get E (dc_ledger c) (deletion_key account)) (\<lambda>deletion.
     eraise_if (\<not> profile_active account profile deletion) (AppError ''FORBIDDEN'' False))))"

definition lost_race :: "env \<Rightarrow> device_config \<Rightarrow> string \<Rightarrow> self_request \<Rightarrow> string \<Rightarrow> int \<Rightarrow> dict eff" where
  \<comment> \<open>after a cancelled transaction: another run of the request, the rate limit, or a conflict\<close>
  "lost_race E c account q payload_hash now =
     ebind (e_get E (dc_control c) (receipt_key account (sr_operation q))) (\<lambda>it.
     case row_of it of
       Some previous \<Rightarrow> elift (replay_receipt c previous payload_hash account (sr_operation q) (sr_fingerprint q) now)
     | None \<Rightarrow>
         ebind (e_get E (dc_control c) (rate_key c account now)) (\<lambda>rit.
         ebind (case row_of rit of
                  None \<Rightarrow> eret False
                | Some rate \<Rightarrow> ebind (elift (whole (dget_or rate ''requestCount'' (PInt 0)))) (\<lambda>n. eret (rate_max c \<le> n))) (\<lambda>limited.
         if limited then eraise (AppError ''RATE_LIMITED'' True) else eraise CONFLICT)))"

definition process_self_recovery :: "env \<Rightarrow> device_config \<Rightarrow> string \<Rightarrow> self_request \<Rightarrow> dict eff" where
  "process_self_recovery E c account q =
     ebind (eraise_if (dc_bindings c = []) UNAVAILABLE) (\<lambda>_.
     ebind (eraise_if (dc_control c = []) UNAVAILABLE) (\<lambda>_.
     ebind (recovery_authority_active E c account) (\<lambda>_.
     ebind (e_now E) (\<lambda>now.
     ebind (elift (dumps True (PDict (request_payload q)))) (\<lambda>t.
     let payload_hash = sha256_hex E (ascii_json t) in
     ebind (e_get E (dc_control c) (receipt_key account (sr_operation q))) (\<lambda>it.
     case row_of it of
       Some previous \<Rightarrow> elift (replay_receipt c previous payload_hash account (sr_operation q) (sr_fingerprint q) now)
     | None \<Rightarrow>
         ebind (pointer_and_active E c account) (\<lambda>pa.
         ebind (find_binding E c account (PStr (sr_fingerprint q))) (\<lambda>bit.
         let existing = row_of bit; us = now * 1000000;
             row = active_row account (sr_fingerprint q) (sr_platform q) (sr_os q) (isoformat us) existing in
         ebind (elift (replacement_operations c account (fst pa) (snd pa) existing row us)) (\<lambda>acts.
         let receipt = new_receipt c account q payload_hash now in
         ebind (e_transact E (device_authority c account @ [rate_update c account now] @ acts
             @ [new_item (dc_control c) receipt, new_item (dc_control c) (new_audit c account q now)])) (\<lambda>r.
         case r of
           Committed \<Rightarrow> eret (public_receipt receipt)
         | Cancelled \<Rightarrow> lost_race E c account q payload_hash now
         | Failed \<Rightarrow> eraise SdkError))))))))))"

end
