(* ===== verification/DeviceBinding.thy ===== *)
theory DeviceBinding
  imports DeviceRecovery Ledger
begin

text \<open>
  One account, one device: the invariant of the bindings table under every interleaving of
  registrations and recoveries with other writers that keep it, and its consequences.
\<close>

section \<open>The invariant\<close>

definition row_ok :: "string \<Rightarrow> string \<Rightarrow> dict \<Rightarrow> bool" where
  "row_ok a f d = (item_key d = binding_key a f \<and> dget d ''bindingFingerprint'' = PStr f)"

definition active_at :: "device_config \<Rightarrow> db \<Rightarrow> string \<Rightarrow> string \<Rightarrow> bool" where
  "active_at c db a f =
     (case db (dc_bindings c) (binding_key a f) of None \<Rightarrow> False | Some d \<Rightarrow> dget d ''status'' = PStr ''ACTIVE'')"

definition names :: "string \<Rightarrow> dict \<Rightarrow> bool" where   \<comment> \<open>a pointer row naming a fingerprint\<close>
  "names f p = (dhas p ''PK'' \<and> dget p ''bindingFingerprint'' = PStr f)"

definition account_ok :: "device_config \<Rightarrow> db \<Rightarrow> string \<Rightarrow> bool" where
  "account_ok c db a =
     ((\<forall>f d. db (dc_bindings c) (binding_key a f) = Some d \<longrightarrow> row_ok a f d)
      \<and> (case db (dc_bindings c) (pointer_key a) of
           None \<Rightarrow> \<forall>f. \<not> active_at c db a f
         | Some p \<Rightarrow> \<exists>g. names g p \<and> (\<forall>f. active_at c db a f \<longleftrightarrow> f = g \<and> g \<noteq> ''NONE'')))"

definition one_binding :: "device_config \<Rightarrow> db \<Rightarrow> bool" where
  \<comment> \<open>the pointer of an account names its only active binding; without one there is none\<close>
  "one_binding c db = (\<forall>a. account_ok c db a)"

definition binding_keys :: "device_config \<Rightarrow> string \<Rightarrow> (string \<times> key) set" where
  "binding_keys c a = insert (dc_bindings c, pointer_key a) (range (\<lambda>f. (dc_bindings c, binding_key a f)))"

lemma binding_key_eq [simp]: "binding_key a f = binding_key b g \<longleftrightarrow> a = b \<and> f = g" "pointer_key a = pointer_key b \<longleftrightarrow> a = b"
    "pointer_key a \<noteq> binding_key b g" "binding_key b g \<noteq> pointer_key a"
  by (simp_all add: binding_key_def pointer_key_def)

lemma binding_keys_mem [simp]: "(dc_bindings c, binding_key a f) \<in> binding_keys c b \<longleftrightarrow> b = a"
    "(dc_bindings c, pointer_key a) \<in> binding_keys c b \<longleftrightarrow> b = a"
  by (auto simp: binding_keys_def)

lemma account_ok_cong:
  assumes "\<And>k. k \<in> binding_keys c a \<Longrightarrow> db' (fst k) (snd k) = db (fst k) (snd k)"
  shows "account_ok c db' a = account_ok c db a"
proof -
  have "db' (dc_bindings c) (pointer_key a) = db (dc_bindings c) (pointer_key a)"
      "\<And>f. db' (dc_bindings c) (binding_key a f) = db (dc_bindings c) (binding_key a f)"
    using assms [of "(dc_bindings c, k)" for k] by (auto simp: binding_keys_def)
  moreover from this have "active_at c db' a = active_at c db a" by (simp add: active_at_def fun_eq_iff)
  ultimately show ?thesis by (simp add: account_ok_def cong: option.case_cong)
qed

definition aside :: "device_config \<Rightarrow> action list \<Rightarrow> bool" where
  "aside c acts = list_all (\<lambda>x. is_check x \<or> (\<forall>a. target x \<notin> binding_keys c a)) acts"

definition of_account :: "device_config \<Rightarrow> string \<Rightarrow> action list \<Rightarrow> bool" where
  "of_account c a acts = list_all (\<lambda>x. is_check x \<or> (\<forall>b. target x \<in> binding_keys c b \<longrightarrow> b = a)) acts"

lemma commit_unchanged:
  assumes "batch_holds acts db" "\<And>x. x \<in> set acts \<Longrightarrow> target x = (t, k) \<Longrightarrow> is_check x"
  shows "commit acts db t k = db t k"
  using assms(1)
proof (cases rule: commit_cases [of acts db t k])
  case (2 x)
  with assms(2) [of x] show ?thesis by (cases x) simp_all
qed simp

lemma binding_keys_disjoint: "k \<in> binding_keys c a \<Longrightarrow> k \<in> binding_keys c b \<longleftrightarrow> a = b"
  by (auto simp: binding_keys_def)

lemma others_unchanged:
  assumes "batch_holds acts db" "of_account c a acts" "b \<noteq> a" "account_ok c db b"
  shows "account_ok c (commit acts db) b"
proof -
  have "commit acts db (fst k) (snd k) = db (fst k) (snd k)" if "k \<in> binding_keys c b" for k
    using that assms(2,3) by (intro commit_unchanged [OF assms(1)]) (auto simp: of_account_def list_all_iff)
  with assms(4) show ?thesis by (simp add: account_ok_cong [of c b "commit acts db" db])
qed

text \<open>
  \<open>rebinds\<close>: what a batch must contain to leave an account bound to \<open>f\<close>, or to no device when
  \<open>f\<close> is the placeholder.
\<close>

definition status_after :: "string \<Rightarrow> string \<Rightarrow> string" where
  "status_after f g = (if g = f \<and> f \<noteq> ''NONE'' then ''ACTIVE'' else ''INACTIVE'')"

definition rebinds :: "device_config \<Rightarrow> string \<Rightarrow> string \<Rightarrow> action list \<Rightarrow> db \<Rightarrow> bool" where
  "rebinds c a f acts db =
     ((\<exists>p. commit acts db (dc_bindings c) (pointer_key a) = Some p \<and> names f p)
      \<and> (\<forall>x \<in> set acts. \<forall>g. target x = (dc_bindings c, binding_key a g) \<longrightarrow> is_check x \<or>
           (\<exists>row e. x = Put (dc_bindings c) row e \<and> row_ok a g row \<and> dget row ''status'' = PStr (status_after f g)))
      \<and> (\<forall>g. active_at c db a g \<or> g = f \<and> f \<noteq> ''NONE'' \<longrightarrow>
           (\<exists>row e. Put (dc_bindings c) row e \<in> set acts \<and> item_key row = binding_key a g)))"

lemma rebinds_ok:
  assumes "account_ok c db a" "batch_holds acts db" "rebinds c a f acts db"
  shows "account_ok c (commit acts db) a"
proof -
  let ?new = "\<lambda>g. commit acts db (dc_bindings c) (binding_key a g)"
  have put: "\<exists>row. ?new g = Some row \<and> row_ok a g row \<and> dget row ''status'' = PStr (status_after f g)"
    if "Put (dc_bindings c) row e \<in> set acts" "item_key row = binding_key a g" for g row e
  proof -
    have "?new g = Some row"
      using commit_at [OF that(1), of "dc_bindings c" "binding_key a g"] batch_holds_at [OF assms(2) that(1)] that(2) by simp
    moreover have "row_ok a g row \<and> dget row ''status'' = PStr (status_after f g)"
      using assms(3) that unfolding rebinds_def by fastforce
    ultimately show ?thesis by blast
  qed
  have row: "row_ok a g d" "dget d ''status'' = PStr ''ACTIVE'' \<longleftrightarrow> g = f \<and> f \<noteq> ''NONE''" if "?new g = Some d" for g d
  proof -
    have "row_ok a g d \<and> (dget d ''status'' = PStr ''ACTIVE'' \<longleftrightarrow> g = f \<and> f \<noteq> ''NONE'')"
    proof (cases "\<exists>row e. Put (dc_bindings c) row e \<in> set acts \<and> item_key row = binding_key a g")
      case True
      then have "row_ok a g d" "dget d ''status'' = PStr (status_after f g)" using put [of _ _ g] that by auto
      then show ?thesis by (simp add: status_after_def)
    next
      case False
      have same: "?new g = db (dc_bindings c) (binding_key a g)"
      proof (intro commit_unchanged [OF assms(2)])
        fix x
        assume "x \<in> set acts" "target x = (dc_bindings c, binding_key a g)"
        with assms(3) have "is_check x \<or> (\<exists>row e. x = Put (dc_bindings c) row e \<and> row_ok a g row)" unfolding rebinds_def by blast
        with False \<open>x \<in> set acts\<close> show "is_check x" by (auto simp: row_ok_def)
      qed
      from False assms(3) have old: "\<not> active_at c db a g" "\<not> (g = f \<and> f \<noteq> ''NONE'')" unfolding rebinds_def by blast+
      from same that have "db (dc_bindings c) (binding_key a g) = Some d" by simp
      moreover from this old(1) have "dget d ''status'' \<noteq> PStr ''ACTIVE''" by (simp add: active_at_def)
      moreover note old(2)
      ultimately show ?thesis using assms(1) by (simp add: account_ok_def)
    qed
    then show "row_ok a g d" "dget d ''status'' = PStr ''ACTIVE'' \<longleftrightarrow> g = f \<and> f \<noteq> ''NONE''" by blast+
  qed
  have "active_at c (commit acts db) a g \<longleftrightarrow> g = f \<and> f \<noteq> ''NONE''" for g
  proof (cases "?new g")
    case None
    have "\<not> (\<exists>row e. Put (dc_bindings c) row e \<in> set acts \<and> item_key row = binding_key a g)"
      using put [of _ _ g] None by auto
    with assms(3) have "\<not> (g = f \<and> f \<noteq> ''NONE'')" unfolding rebinds_def by blast
    with None show ?thesis by (simp add: active_at_def)
  qed (use row(2) in \<open>auto simp: active_at_def\<close>)
  with assms(3) row(1) show ?thesis by (auto simp: account_ok_def rebinds_def)
qed

lemma one_binding_commit:
  assumes "one_binding c db" "batch_holds acts db" "of_account c a acts" "account_ok c (commit acts db) a"
  shows "one_binding c (commit acts db)"
  unfolding one_binding_def
proof
  fix b
  show "account_ok c (commit acts db) b"
    using assms others_unchanged [OF assms(2,3), of b] by (cases "b = a") (auto simp: one_binding_def)
qed


section \<open>What the operations write\<close>

text \<open>A batch that leaves every binding row and pointer alone except those it names.\<close>

lemma authority_checks: "x \<in> set (device_authority c a) \<Longrightarrow> is_check x"
  by (auto simp: device_authority_def)

lemma inactive_row_ok:
  assumes "inactive_row c b now = Inr d" "row_ok a g b"
  shows "row_ok a g d" "dget d ''status'' = PStr ''INACTIVE''"
proof -
  have "item_key d = item_key b" "dget d ''bindingFingerprint'' = dget b ''bindingFingerprint''"
    using assms(1) by (auto simp: inactive_row_def rbind_Inr_iff item_key_def)
  with assms(2) show "row_ok a g d" by (simp add: row_ok_def)
  show "dget d ''status'' = PStr ''INACTIVE''" using assms(1) by (auto simp: inactive_row_def rbind_Inr_iff)
qed

lemma active_row_ok: "row_ok a f (active_row a f pl os t x)" "dget (active_row a f pl os t x) ''status'' = PStr ''ACTIVE''"
  by (simp_all add: active_row_def row_ok_def item_key_def binding_key_def)

lemma refreshed_row_ok:
  assumes "refreshed_row c b now = Inr d" "row_ok a f b"
  shows "row_ok a f d" "dget d ''status'' = PStr ''ACTIVE''"
  using assms by (auto simp: refreshed_row_def rbind_Inr_iff row_ok_def item_key_def didx_Inr_iff dget_def)

lemma pointer_row_key: "item_key (pointer_row a f t) = pointer_key a" "dget (pointer_row a f t) ''bindingFingerprint'' = PStr f"
  by (simp_all add: pointer_row_def item_key_def pointer_key_def)

text \<open>The three ways the pointer takes part: it is moved, checked, or created.\<close>

definition old_device :: "string \<Rightarrow> string \<Rightarrow> string \<Rightarrow> bool" where
  "old_device g f h = (h = g \<and> g \<noteq> ''NONE'' \<and> g \<noteq> f)"

definition binding_batch :: "device_config \<Rightarrow> string \<Rightarrow> string \<Rightarrow> string \<Rightarrow> action \<Rightarrow> action list \<Rightarrow> bool" where
  \<comment> \<open>apart from the pointer: the old device is demoted, the new one promoted, nothing else of bindings is touched\<close>
  "binding_batch c a g f moved acts =
     (moved \<in> set acts
      \<and> (\<forall>x \<in> set acts. \<forall>h. target x = (dc_bindings c, binding_key a h) \<longrightarrow> is_check x \<or>
           (\<exists>row e. x = Put (dc_bindings c) row e \<and> row_ok a h row \<and> dget row ''status'' = PStr (status_after f h)))
      \<and> (\<forall>h. old_device g f h \<or> h = f \<and> f \<noteq> ''NONE'' \<longrightarrow>
           (\<exists>row e. Put (dc_bindings c) row e \<in> set acts \<and> item_key row = binding_key a h)))"

lemma rebindsI:
  assumes "binding_batch c a g f moved acts" "commit acts db (dc_bindings c) (pointer_key a) = Some p" "names f p"
    and "\<And>h. active_at c db a h \<Longrightarrow> h = g \<and> g \<noteq> ''NONE''"
  shows "rebinds c a f acts db"
proof -
  have "old_device g f h \<or> h = f \<and> f \<noteq> ''NONE''" if "active_at c db a h \<or> h = f \<and> f \<noteq> ''NONE''" for h
    using that assms(4) by (auto simp: old_device_def)
  with assms(1) have "\<forall>h. active_at c db a h \<or> h = f \<and> f \<noteq> ''NONE'' \<longrightarrow>
      (\<exists>row e. Put (dc_bindings c) row e \<in> set acts \<and> item_key row = binding_key a h)"
    unfolding binding_batch_def by blast
  moreover have "\<forall>x \<in> set acts. \<forall>h. target x = (dc_bindings c, binding_key a h) \<longrightarrow> is_check x \<or>
           (\<exists>row e. x = Put (dc_bindings c) row e \<and> row_ok a h row \<and> dget row ''status'' = PStr (status_after f h))"
    using assms(1) unfolding binding_batch_def by blast
  ultimately show ?thesis unfolding rebinds_def using assms(2,3) by blast
qed

lemma pointer_condition:
  assumes "holds_at x db" "target x = (dc_bindings c, pointer_key a)" "guard x = And (equals ''bindingFingerprint'' (PStr g)) e" "account_ok c db a"
  obtains p where "db (dc_bindings c) (pointer_key a) = Some p" "names g p" "\<And>h. active_at c db a h \<Longrightarrow> h = g \<and> g \<noteq> ''NONE''"
proof -
  from assms(1-3) have "cond_holds (equals ''bindingFingerprint'' (PStr g)) (contents (db (dc_bindings c) (pointer_key a)))"
    by (simp add: holds_at_def Let_def)
  then obtain p where p: "db (dc_bindings c) (pointer_key a) = Some p" "dget p ''bindingFingerprint'' = PStr g"
    by (cases "db (dc_bindings c) (pointer_key a)") (auto simp: contents_def equals_def dget_def split: option.splits)
  with assms(4) obtain h where "names h p" "\<forall>f. active_at c db a f \<longleftrightarrow> f = h \<and> h \<noteq> ''NONE''" by (auto simp: account_ok_def)
  with p show thesis by (intro that) (auto simp: names_def)
qed

lemma moved_rebinds:
  assumes "account_ok c db a" "batch_holds acts db" "binding_batch c a g f moved acts"
    and "moved = Update (dc_bindings c) (pointer_key a) us (And (equals ''bindingFingerprint'' (PStr g)) e)"
    and "\<And>p. names g p \<Longrightarrow> names f (fold apply_update us p)"
  shows "rebinds c a f acts db"
proof -
  from assms(3) have mem: "moved \<in> set acts" by (simp add: binding_batch_def)
  note at = batch_holds_at [OF assms(2) mem]
  obtain p where p: "db (dc_bindings c) (pointer_key a) = Some p" "names g p" "\<And>h. active_at c db a h \<Longrightarrow> h = g \<and> g \<noteq> ''NONE''"
    by (rule pointer_condition [of moved db c a g e]) (use at assms(1,4) in auto)
  have "commit acts db (dc_bindings c) (pointer_key a) = Some (fold apply_update us p)"
    using commit_at [OF mem, of "dc_bindings c" "pointer_key a"] at assms(4) p(1) by simp
  then show ?thesis by (rule rebindsI [OF assms(3)]) (use p assms(5) in auto)
qed

lemma checked_rebinds:
  assumes "account_ok c db a" "batch_holds acts db" "binding_batch c a f f moved acts"
    and "moved = ConditionCheck (dc_bindings c) (pointer_key a) (And (equals ''bindingFingerprint'' (PStr f)) e)"
  shows "rebinds c a f acts db"
proof -
  from assms(3) have mem: "moved \<in> set acts" by (simp add: binding_batch_def)
  note at = batch_holds_at [OF assms(2) mem]
  obtain p where p: "db (dc_bindings c) (pointer_key a) = Some p" "names f p" "\<And>h. active_at c db a h \<Longrightarrow> h = f \<and> f \<noteq> ''NONE''"
    by (rule pointer_condition [of moved db c a f e]) (use at assms(1,4) in auto)
  have "commit acts db (dc_bindings c) (pointer_key a) = Some p"
    using commit_at [OF mem, of "dc_bindings c" "pointer_key a"] at assms(4) p(1) by simp
  then show ?thesis by (rule rebindsI [OF assms(3)]) (use p in auto)
qed

lemma created_rebinds:
  assumes "account_ok c db a" "batch_holds acts db" "binding_batch c a ''NONE'' f moved acts"
    and "moved = Put (dc_bindings c) row is_new" "item_key row = pointer_key a" "names f row"
  shows "rebinds c a f acts db" "db (dc_bindings c) (pointer_key a) = None"
proof -
  from assms(3) have mem: "moved \<in> set acts" by (simp add: binding_batch_def)
  note at = batch_holds_at [OF assms(2) mem]
  show none: "db (dc_bindings c) (pointer_key a) = None"
    using at assms(1,4,5) by (cases "db (dc_bindings c) (pointer_key a)") (auto simp: holds_at_def Let_def contents_def is_new_def account_ok_def names_def)
  have "commit acts db (dc_bindings c) (pointer_key a) = Some row"
    using commit_at [OF mem, of "dc_bindings c" "pointer_key a"] at assms(4,5) by simp
  then show "rebinds c a f acts db" by (rule rebindsI [OF assms(3)]) (use none assms(1,6) in \<open>auto simp: account_ok_def\<close>)
qed

definition moves :: "device_config \<Rightarrow> string \<Rightarrow> string \<Rightarrow> string \<Rightarrow> action \<Rightarrow> bool" where
  \<comment> \<open>the pointer goes from naming \<open>g\<close> to naming \<open>f\<close>\<close>
  "moves c a g f moved =
     ((\<exists>us e. moved = Update (dc_bindings c) (pointer_key a) us (And (equals ''bindingFingerprint'' (PStr g)) e)
         \<and> (\<forall>p. names g p \<longrightarrow> names f (fold apply_update us p)))
      \<or> g = f \<and> (\<exists>e. moved = ConditionCheck (dc_bindings c) (pointer_key a) (And (equals ''bindingFingerprint'' (PStr f)) e))
      \<or> g = ''NONE'' \<and> (\<exists>row. moved = Put (dc_bindings c) row is_new \<and> item_key row = pointer_key a \<and> names f row))"

lemma moves_target: "moves c a g f moved \<Longrightarrow> target moved = (dc_bindings c, pointer_key a)"
  by (auto simp: moves_def)

lemma change_keeps:
  assumes "binding_batch c a g f moved acts" "of_account c a acts" "moves c a g f moved"
  shows "batch_keeps (one_binding c) acts"
  unfolding batch_keeps_def
proof (intro allI impI)
  fix db
  assume db: "one_binding c db" "batch_holds acts db"
  then have a: "account_ok c db a" by (simp add: one_binding_def)
  from assms(3) consider us e where "moved = Update (dc_bindings c) (pointer_key a) us (And (equals ''bindingFingerprint'' (PStr g)) e)"
        "\<And>p. names g p \<Longrightarrow> names f (fold apply_update us p)"
    | e where "g = f" "moved = ConditionCheck (dc_bindings c) (pointer_key a) (And (equals ''bindingFingerprint'' (PStr f)) e)"
    | row where "g = ''NONE''" "moved = Put (dc_bindings c) row is_new" "item_key row = pointer_key a" "names f row"
    unfolding moves_def by blast
  then have "rebinds c a f acts db"
  proof cases
    case (1 us e)
    then show ?thesis by (intro moved_rebinds [OF a db(2) assms(1)]) blast+
  next
    case (2 e)
    with assms(1) have batch: "binding_batch c a f f moved acts" by simp
    show ?thesis by (rule checked_rebinds [OF a db(2) batch 2(2)])
  next
    case (3 row)
    with assms(1) have batch: "binding_batch c a ''NONE'' f moved acts" by simp
    show ?thesis by (rule created_rebinds(1) [OF a db(2) batch 3(2-4)])
  qed
  then have "account_ok c (commit acts db) a" by (rule rebinds_ok [OF a db(2)])
  then show "one_binding c (commit acts db)" by (rule one_binding_commit [OF db assms(2)])
qed

definition demotes :: "device_config \<Rightarrow> string \<Rightarrow> string \<Rightarrow> string \<Rightarrow> action list \<Rightarrow> bool" where
  "demotes c a g f acts =
     (acts = [] \<and> (g = ''NONE'' \<or> g = f)
      \<or> (\<exists>h row e. acts = [Put (dc_bindings c) row e] \<and> row_ok a h row \<and> dget row ''status'' = PStr ''INACTIVE''
            \<and> (h \<noteq> f \<or> f = ''NONE'') \<and> (g = h \<or> g = ''NONE'')))"

definition promotes :: "device_config \<Rightarrow> string \<Rightarrow> string \<Rightarrow> action list \<Rightarrow> bool" where
  "promotes c a f acts =
     (acts = [] \<and> f = ''NONE''
      \<or> (\<exists>row e. acts = [Put (dc_bindings c) row e] \<and> row_ok a f row \<and> dget row ''status'' = PStr ''ACTIVE'' \<and> f \<noteq> ''NONE''))"

lemma row_ok_unique: "row_ok a f d \<Longrightarrow> item_key d = binding_key b g \<longleftrightarrow> b = a \<and> g = f"
  by (auto simp: row_ok_def)

lemma binding_actions:
  assumes "demotes c a g f demoted" "promotes c a f promoted" "x \<in> set (demoted @ promoted)"
  shows "\<exists>h row e. x = Put (dc_bindings c) row e \<and> row_ok a h row \<and> dget row ''status'' = PStr (status_after f h)"
proof -
  consider "x \<in> set demoted" | "x \<in> set promoted" using assms(3) by auto
  then show ?thesis
  proof cases
    case 1
    with assms(1) obtain h row e where "x = Put (dc_bindings c) row e" "row_ok a h row" "dget row ''status'' = PStr ''INACTIVE''" "h \<noteq> f \<or> f = ''NONE''"
      by (auto simp: demotes_def)
    then show ?thesis by (intro exI [of _ h] exI [of _ row] exI [of _ e]) (auto simp: status_after_def)
  next
    case 2
    with assms(2) obtain row e where "x = Put (dc_bindings c) row e" "row_ok a f row" "dget row ''status'' = PStr ''ACTIVE''" "f \<noteq> ''NONE''"
      by (auto simp: promotes_def)
    then show ?thesis by (intro exI [of _ f] exI [of _ row] exI [of _ e]) (simp add: status_after_def)
  qed
qed

lemma binding_hits:
  assumes "demotes c a g f demoted" "promotes c a f promoted" "old_device g f h \<or> h = f \<and> f \<noteq> ''NONE''"
  shows "\<exists>row e. Put (dc_bindings c) row e \<in> set (demoted @ promoted) \<and> item_key row = binding_key a h"
  using assms(3)
proof
  assume "old_device g f h"
  with assms(1) show ?thesis by (fastforce simp: old_device_def demotes_def row_ok_def)
next
  assume "h = f \<and> f \<noteq> ''NONE''"
  with assms(2) show ?thesis by (fastforce simp: promotes_def row_ok_def)
qed

lemma rebinding_keeps:
  assumes "acts = pre @ [moved] @ demoted @ promoted @ post" "aside c pre" "aside c post"
    and "moves c a g f moved" "demotes c a g f demoted" "promotes c a f promoted"
  shows "batch_keeps (one_binding c) acts"
proof (rule change_keeps)
  have side: "is_check x \<or> (\<forall>b. target x \<notin> binding_keys c b)" if "x \<in> set pre \<union> set post" for x
    using that assms(2,3) by (auto simp: aside_def list_all_iff)
  have mem: "x \<in> set acts \<longleftrightarrow> x \<in> set pre \<union> set post \<or> x = moved \<or> x \<in> set (demoted @ promoted)" for x
    using assms(1) by auto
  show "binding_batch c a g f moved acts"
    unfolding binding_batch_def
  proof (intro conjI ballI allI impI)
    show "moved \<in> set acts" using mem by blast
  next
    fix x h
    assume x: "x \<in> set acts" "target x = (dc_bindings c, binding_key a h)"
    then have "x \<noteq> moved" using moves_target [OF assms(4)] by auto
    with x mem consider "x \<in> set pre \<union> set post" | "x \<in> set (demoted @ promoted)" by blast
    then show "is_check x \<or> (\<exists>row e. x = Put (dc_bindings c) row e \<and> row_ok a h row \<and> dget row ''status'' = PStr (status_after f h))"
    proof cases
      case 1
      with side [OF 1] x(2) show ?thesis by simp
    next
      case 2
      from binding_actions [OF assms(5,6) 2] obtain h' row e where r: "x = Put (dc_bindings c) row e" "row_ok a h' row"
          "dget row ''status'' = PStr (status_after f h')" by blast
      with x(2) have "h' = h" by (simp add: row_ok_def)
      with r show ?thesis by blast
    qed
  next
    fix h
    assume "old_device g f h \<or> h = f \<and> f \<noteq> ''NONE''"
    from binding_hits [OF assms(5,6) this] mem
    show "\<exists>row e. Put (dc_bindings c) row e \<in> set acts \<and> item_key row = binding_key a h" by blast
  qed
  show "of_account c a acts"
    unfolding of_account_def list_all_iff
  proof
    fix x
    assume "x \<in> set acts"
    with mem consider "x \<in> set pre \<union> set post" | "x = moved" | "x \<in> set (demoted @ promoted)" by blast
    then show "is_check x \<or> (\<forall>b. target x \<in> binding_keys c b \<longrightarrow> b = a)"
    proof cases
      case 1
      then show ?thesis using side by blast
    next
      case 2
      then show ?thesis using moves_target [OF assms(4)] by (auto simp: binding_keys_def)
    next
      case 3
      from binding_actions [OF assms(5,6) this] show ?thesis by (auto simp: row_ok_def binding_keys_def)
    qed
  qed
  show "moves c a g f moved" by (rule assms(4))
qed

section \<open>The operations keep the invariant\<close>

lemma aside_Nil [simp]: "aside c []"
  by (simp add: aside_def)

lemma created_moves: "item_key row = pointer_key a \<Longrightarrow> names f row \<Longrightarrow> moves c a ''NONE'' f (Put (dc_bindings c) row is_new)"
  unfolding moves_def by blast

lemma authority_aside: "aside c (device_authority d a)"
  by (auto simp: aside_def list_all_iff dest: authority_checks)

lemma pointer_move_moves: "moves c a g f (pointer_move c a f t (PStr g) v)"
  by (auto simp: moves_def pointer_move_def names_def)

lemma pointer_row_moves: "moves c a ''NONE'' f (Put (dc_bindings c) (pointer_row a f t) is_new)"
proof -
  have "names f (pointer_row a f t)" by (simp add: names_def pointer_row_def)
  then show ?thesis unfolding moves_def using pointer_row_key(1) [of a f t] by blast
qed

lemma demote_demotes:
  assumes "row_ok a h b" "inactive_row c b now = Inr inactive" "h \<noteq> f \<or> f = ''NONE''" "g = h \<or> g = ''NONE''"
  shows "demotes c a g f [demote c inactive x]"
  using inactive_row_ok [OF assms(2,1)] assms(3,4) unfolding demotes_def demote_def by blast

lemma register_demotes:
  assumes "register_demote c f now (Some b) cur = Inr demoted" "row_ok a h b" "cur = dget b ''bindingFingerprint''" "g = h \<or> g = ''NONE''"
  shows "demotes c a g f demoted"
proof (cases "h = f")
  case True
  with assms show ?thesis by (auto simp: register_demote_def row_ok_def demotes_def)
next
  case False
  with assms(1-3) obtain inactive where "inactive_row c b now = Inr inactive" "demoted = [demote c inactive cur]"
    by (auto simp: register_demote_def row_ok_def rbind_Inr_iff)
  with assms False show ?thesis by (simp add: demote_demotes)
qed

lemma promote_promotes: "row_ok a f row \<Longrightarrow> dget row ''status'' = PStr ''ACTIVE'' \<Longrightarrow> f \<noteq> ''NONE'' \<Longrightarrow> promotes c a f [promote c row x]"
  unfolding promotes_def promote_def by blast

text \<open>
  Documented behaviour of reads that are not consistent: the replica and the index return rows that
  were stored at an earlier time, each under its own key; the index partition of the active
  bindings of an account holds rows of that account.
\<close>

locale device_world = guarded_db E "one_binding c" for E :: env and c :: device_config +
  assumes older_rows: "older E i db (dc_bindings c) (binding_key a f) = Some d \<Longrightarrow> row_ok a f d"
    and index_rows: "d \<in> set (index_query E i (dc_bindings c) ''GSI1'' (''USER#'' @ a @ ''#ACTIVE'')) \<Longrightarrow> \<exists>f. row_ok a f d"
begin

lemma yields_get_binding: "yields (get_binding E c a f) (Some d) \<Longrightarrow> row_ok a (shown c f) d"
  by (auto simp: yields_def get_binding_def e_read_def Let_def intro: older_rows split: if_splits)

lemma yields_legacy: "yields (legacy_active E c a) (Some d) \<Longrightarrow> \<exists>f. row_ok a f d"
proof -
  assume "yields (legacy_active E c a) (Some d)"
  then obtain items where "yields (e_index_query E (dc_bindings c) ''GSI1'' (''USER#'' @ a @ ''#ACTIVE'')) items" "take 2 items = [d]"
    unfolding legacy_active_def by (auto dest!: yields_bind split: list.splits)
  moreover from this have "d \<in> set items" using in_set_takeD [of d 2 items] by simp
  ultimately obtain i where "d \<in> set (index_query E i (dc_bindings c) ''GSI1'' (''USER#'' @ a @ ''#ACTIVE''))"
    by (auto simp: yields_def e_index_query_def Let_def split: if_splits)
  then show ?thesis by (rule index_rows)
qed

lemma yields_active_from_pointer:
  assumes "yields (active_from_pointer E c a pointer) r"
  obtains "pointer = None" "\<And>b. r = Some b \<Longrightarrow> \<exists>f. row_ok a f b"
  | p where "pointer = Some p" "dget p ''bindingFingerprint'' = PStr ''NONE''" "r = None"
  | p b where "pointer = Some p" "dget p ''bindingFingerprint'' \<noteq> PStr ''NONE''" "r = Some b" "b \<noteq> []"
      "row_ok a (shown c (dget p ''bindingFingerprint'')) b"
proof (cases pointer)
  case None
  with assms show thesis by (intro that(1)) (auto simp: active_from_pointer_def yields_legacy)
next
  case (Some p)
  show thesis
  proof (cases "dget p ''bindingFingerprint'' = PStr ''NONE''")
    case True
    with assms Some show thesis by (intro that(2) [OF Some True]) (auto simp: active_from_pointer_def split: if_splits)
  next
    case False
    with assms Some obtain it b where it: "yields (get_binding E c a (dget p ''bindingFingerprint'')) it" "row_of it = Some b" "r = Some b"
      by (auto simp: active_from_pointer_def split: if_splits option.splits dest!: yields_bind)
    then have "it = Some b" "b \<noteq> []" by (auto simp: row_of_def split: option.splits if_splits)
    with it show thesis by (intro that(3) [OF Some False]) (auto intro: yields_get_binding)
  qed
qed

lemma keeps_get_binding [keeps_intros]: "keeps (one_binding c) (get_binding E c a f)"
  unfolding get_binding_def by (intro keeps_intros)

lemma keeps_legacy [keeps_intros]: "keeps (one_binding c) (legacy_active E c a)"
  unfolding legacy_active_def by (intro keeps_intros)

lemma keeps_utcnow [keeps_intros]: "keeps (one_binding c) (e_utcnow E)"
  unfolding e_utcnow_def by (intro keeps_intros)

lemma keeps_active_from_pointer [keeps_intros]: "keeps (one_binding c) (active_from_pointer E c a p)"
  unfolding active_from_pointer_def by (intro keeps_intros)

lemma register_batch:
  assumes "register_pointer c a f t pointer cur = Inr moved" "register_demote c f now active cur = Inr demoted"
    and "register_promote c row existing = Inr promoted" "row_ok a f row" "dget row ''status'' = PStr ''ACTIVE''" "f \<noteq> ''NONE''"
    and "yields (active_from_pointer E c a pointer) it" "active = row_of it"
    and "cur = (case active of None \<Rightarrow> PNone | Some b \<Rightarrow> dget b ''bindingFingerprint'')"
  shows "batch_keeps (one_binding c) (device_authority c a @ moved # demoted @ [promoted])"
proof -
  have pro: "promotes c a f [promoted]"
    using assms(3-6) by (auto simp: register_promote_def rbind_Inr_iff intro: promote_promotes)
  obtain g where g: "moves c a g f moved" "demotes c a g f demoted"
    using assms(7)
  proof (cases rule: yields_active_from_pointer)
    case 1
    then have "moves c a ''NONE'' f moved" using assms(1) pointer_row_moves by (auto simp: register_pointer_def)
    moreover have "demotes c a ''NONE'' f demoted"
    proof (cases active)
      case None
      with assms(2) show ?thesis by (simp add: register_demote_def demotes_def)
    next
      case (Some b)
      then have "it = Some b" using assms(8) by (auto simp: row_of_def split: option.splits if_splits)
      with 1(2) obtain h where "row_ok a h b" by blast
      with assms(2,9) Some show ?thesis by (intro register_demotes [where now = now and cur = cur]) auto
    qed
    ultimately show thesis by (rule that)
  next
    case (2 p)
    then have "active = None" "cur = PNone" using assms(8,9) by (simp_all add: row_of_def)
    with 2 assms(1,2) have "moves c a ''NONE'' f moved" "demotes c a ''NONE'' f demoted"
      by (auto simp: register_pointer_def register_demote_def rbind_Inr_iff demotes_def Let_def intro: pointer_move_moves split: option.splits)
    then show thesis by (rule that)
  next
    case (3 p b)
    define h where "h = shown c (dget p ''bindingFingerprint'')"
    from 3 have b: "row_ok a h b" "active = Some b" using assms(8) by (simp_all add: h_def row_of_def)
    with assms(9) have cur: "cur = PStr h" by (simp add: row_ok_def)
    with assms(1) 3(1,2) have seen: "dget p ''bindingFingerprint'' = PStr h" "h \<noteq> ''NONE''"
      by (auto simp: register_pointer_def rbind_Inr_iff Let_def split: option.splits)
    with assms(1) 3(1) have "moves c a h f moved"
      by (auto simp: register_pointer_def rbind_Inr_iff Let_def intro: pointer_move_moves split: option.splits)
    moreover have "demotes c a h f demoted"
      using assms(2) b cur by (intro register_demotes [where now = now and cur = cur]) (auto simp: row_ok_def)
    ultimately show thesis by (rule that)
  qed
  show ?thesis
    by (rule rebinding_keeps [of _ "device_authority c a" moved demoted "[promoted]" "[]" c a g f])
      (use authority_aside g pro in \<open>simp_all add: aside_def\<close>)
qed

lemma keeps_register:
  assumes "f \<noteq> ''NONE''"
  shows "keeps (one_binding c) (register_device E c a f pl os)"
  unfolding register_device_def Let_def append_Cons append_Nil
proof (intro keeps_intros)
  fix now it pit ait moved demoted promoted
  let ?cur = "case row_of ait of None \<Rightarrow> PNone | Some b \<Rightarrow> dget b ''bindingFingerprint''"
  let ?row = "active_row a f pl os (isoformat now) (if row_of it \<noteq> None then row_of it else if ?cur = PStr f then row_of ait else None)"
  assume "yields (active_from_pointer E c a (row_of pit)) ait"
    and "yields (elift (register_pointer c a f (isoformat now) (row_of pit) ?cur)) moved"
    and "yields (elift (register_demote c f now (row_of ait) ?cur)) demoted"
    and "yields (elift (register_promote c ?row (row_of it))) promoted"
  then show "batch_keeps (one_binding c) (device_authority c a @ moved # demoted @ [promoted])"
    using assms active_row_ok by (intro register_batch [where t = "isoformat now" and pointer = "row_of pit" and cur = ?cur and now = now and active = "row_of ait"
        and row = ?row and existing = "row_of it" and it = ait]) simp_all
qed

text \<open>What recovery has read: the pointer and the active binding fit together.\<close>

definition consistent_read :: "string \<Rightarrow> dict option \<Rightarrow> dict option \<Rightarrow> bool" where
  "consistent_read a pointer active =
     (case pointer of
        None \<Rightarrow> \<forall>b. active = Some b \<longrightarrow> (\<exists>h. row_ok a h b)
      | Some p \<Rightarrow> dget p ''bindingFingerprint'' = PStr ''NONE'' \<and> active = None
          \<or> (\<exists>h b. dget p ''bindingFingerprint'' = PStr h \<and> h \<noteq> ''NONE'' \<and> active = Some b \<and> row_ok a h b))"

lemma yields_find_binding: "yields (find_binding E c a f) (Some d) \<Longrightarrow> row_ok a (shown c f) d"
  by (auto simp: find_binding_def yields_get_binding split: if_splits)

lemma row_of_Some: "row_of it = Some b \<Longrightarrow> it = Some b"
  by (auto simp: row_of_def split: option.splits if_splits)

lemma yields_checked_pointer:
  assumes "yields (checked_pointer E c a p) r"
  shows "consistent_read a (Some (fst r)) (snd r)"
proof -
  from assms obtain v h where v: "positive_version (dget p ''stateVersion'') = Some v" and h: "dget p ''bindingFingerprint'' = PStr h"
    by (auto simp: checked_pointer_def split: option.splits)
  show ?thesis
  proof (cases "h = ''NONE''")
    case True
    with assms v h show ?thesis by (auto simp: checked_pointer_def consistent_read_def split: if_splits)
  next
    case False
    with assms v h obtain it b where "yields (find_binding E c a (PStr h)) it" "row_of it = Some b" "r = (dset ''stateVersion'' (PInt v) p, Some b)"
      by (auto simp: checked_pointer_def split: if_splits option.splits dest!: yields_bind)
    with False h show ?thesis by (auto simp: consistent_read_def dest!: row_of_Some yields_find_binding)
  qed
qed

lemma yields_pointer_and_active:
  assumes "yields (pointer_and_active E c a) r"
  shows "consistent_read a (fst r) (snd r)"
proof -
  from assms obtain it where it: "yields (case row_of it of
       None \<Rightarrow> ebind (legacy_active E c a) (\<lambda>a. eret (None, row_of a))
     | Some p \<Rightarrow> ebind (checked_pointer E c a p) (\<lambda>r. eret (Some (fst r), snd r))) r"
    unfolding pointer_and_active_def by (auto dest!: yields_bind)
  show ?thesis
  proof (cases "row_of it")
    case None
    with it obtain x where "yields (legacy_active E c a) x" "r = (None, row_of x)" by (auto dest!: yields_bind)
    then show ?thesis by (auto simp: consistent_read_def dest!: row_of_Some yields_legacy)
  next
    case (Some p)
    with it obtain x where "yields (checked_pointer E c a p) x" "r = (Some (fst x), snd x)" by (auto dest!: yields_bind)
    then show ?thesis using yields_checked_pointer by simp
  qed
qed

lemma replace_pointer_moves:
  assumes "replace_pointer c a pointer cur row = Inr moved" "consistent_read a pointer active" "row_ok a f row"
    and "cur = (case active of None \<Rightarrow> PNone | Some b \<Rightarrow> dget b ''bindingFingerprint'')"
    and "replace_demote c now active cur row = Inr demoted"
  shows "\<exists>g. moves c a g f moved \<and> demotes c a g f demoted"
proof -
  from assms(3) have f: "dget row ''bindingFingerprint'' = PStr f" by (simp add: row_ok_def)
  have dem: "demotes c a g f demoted" if "active = Some b" "row_ok a h b" "g = h \<or> g = ''NONE''" for b h g
  proof (cases "h = f")
    case True
    with that assms(4,5) f show ?thesis by (auto simp: replace_demote_def row_ok_def demotes_def)
  next
    case False
    with that assms(4,5) f obtain inactive where "inactive_row c b now = Inr inactive" "demoted = [demote c inactive cur]"
      by (auto simp: replace_demote_def row_ok_def rbind_Inr_iff)
    with that False show ?thesis by (simp add: demote_demotes)
  qed
  show ?thesis
  proof (cases pointer)
    case None
    with assms(1) f obtain r where "moved = Put (dc_bindings c) r is_new" "item_key r = pointer_key a" "names f r"
      by (auto simp: replace_pointer_def rbind_Inr_iff Let_def new_item_def item_key_def pointer_key_def names_def)
    then have "moves c a ''NONE'' f moved" using created_moves by blast
    moreover have "demotes c a ''NONE'' f demoted"
    proof (cases active)
      case None
      with assms(5) show ?thesis by (simp add: replace_demote_def demotes_def)
    next
      case (Some b)
      with \<open>pointer = None\<close> assms(2) obtain h where "row_ok a h b" by (auto simp: consistent_read_def)
      with Some show ?thesis by (rule dem) simp
    qed
    ultimately show ?thesis by blast
  next
    case (Some p)
    with assms(2) consider "dget p ''bindingFingerprint'' = PStr ''NONE''" "active = None"
      | h b where "dget p ''bindingFingerprint'' = PStr h" "h \<noteq> ''NONE''" "active = Some b" "row_ok a h b"
      by (auto simp: consistent_read_def)
    then show ?thesis
    proof cases
      case 1
      with Some assms(1,4) f have "moves c a ''NONE'' f moved"
          by (auto simp: replace_pointer_def rbind_Inr_iff Let_def moves_def names_def)
      moreover have "demotes c a ''NONE'' f demoted" using 1 assms(5) by (simp add: replace_demote_def demotes_def)
      ultimately show ?thesis by blast
    next
      case (2 h b)
      then have cur: "cur = PStr h" using assms(4) by (simp add: row_ok_def)
      with 2 Some assms(1) f have "moves c a h f moved"
        by (cases "h = f") (auto simp: replace_pointer_def rbind_Inr_iff Let_def moves_def names_def)
      moreover have "demotes c a h f demoted" using 2 by (intro dem) auto
      ultimately show ?thesis by blast
    qed
  qed
qed

lemma replacement_keeps:
  assumes "replacement_operations c a (fst pa) (snd pa) existing row now = Inr acts" "consistent_read a (fst pa) (snd pa)"
    and "row_ok a f row" "dget row ''status'' = PStr ''ACTIVE''" "f \<noteq> ''NONE''" "aside c pre" "aside c post"
  shows "batch_keeps (one_binding c) (pre @ acts @ post)"
proof -
  let ?cur = "case snd pa of None \<Rightarrow> PNone | Some b \<Rightarrow> dget b ''bindingFingerprint''"
  from assms(1) obtain moved demoted promoted where ops: "replace_pointer c a (fst pa) ?cur row = Inr moved"
      "replace_demote c now (snd pa) ?cur row = Inr demoted" "replace_promote c row existing = Inr promoted"
      "acts = moved # demoted @ [promoted]"
    unfolding replacement_operations_def Let_def by (auto simp: rbind_Inr_iff)
  from replace_pointer_moves [OF ops(1) assms(2,3) refl ops(2)] obtain g where g: "moves c a g f moved" "demotes c a g f demoted" by blast
  have "promotes c a f [promoted]"
    using ops(3) assms(3-5) by (auto simp: replace_promote_def rbind_Inr_iff intro: promote_promotes)
  with g assms(6,7) show ?thesis by (intro rebinding_keeps [where c = c and a = a and f = f and g = g and moved = moved and pre = pre and post = post
      and demoted = demoted and promoted = "[promoted]"]) (simp_all add: ops(4))
qed

lemma clear_keeps:
  assumes "clear_operations c a (fst pa) b inactive now = Inr acts" "consistent_read a (fst pa) (snd pa)" "snd pa = Some b"
    and "inactive_row c b now = Inr inactive"
  shows "batch_keeps (one_binding c) (device_authority c a @ acts)"
proof -
  obtain h where h: "row_ok a h b" "fst pa \<noteq> None \<Longrightarrow> h \<noteq> ''NONE''"
    using assms(2,3) by (auto simp: consistent_read_def split: option.splits)
  then have cur: "didx b ''bindingFingerprint'' = Inr (PStr h)" by (simp add: row_ok_def didx_Inr_iff) (auto simp: dget_def split: option.splits)
  from assms(1) cur obtain moved where acts: "acts = [moved, demote c inactive (PStr h)]"
    and moved: "moved = (case fst pa of
            Some p \<Rightarrow> pointer_move c a ''NONE'' (isoformat now) (PStr h) (inum p ''stateVersion'')
          | None \<Rightarrow> new_item (dc_bindings c) (pointer_row a ''NONE'' (isoformat now)))"
    by (auto simp: clear_operations_def rbind_Inr_iff split: option.splits)
  define g where "g = (if fst pa = None then ''NONE'' else h)"
  have "moves c a g ''NONE'' moved"
    using moved pointer_move_moves pointer_row_moves by (auto simp: g_def new_item_def split: option.splits)
  moreover have "demotes c a g ''NONE'' [demote c inactive (PStr h)]"
    by (rule demote_demotes [OF h(1) assms(4)]) (auto simp: g_def)
  moreover have "promotes c a ''NONE'' []" by (simp add: promotes_def)
  ultimately show ?thesis
    by (intro rebinding_keeps [where c = c and a = a and f = "''NONE''" and g = g and moved = moved and pre = "device_authority c a" and post = "[]"
          and demoted = "[demote c inactive (PStr h)]" and promoted = "[]"])
      (simp_all add: acts authority_aside)
qed

lemma keeps_transact_binding [keeps_intros]: "batch_keeps (one_binding c) acts \<Longrightarrow> keeps (one_binding c) (transact_binding E acts)"
  unfolding transact_binding_def by (intro keeps_intros)

lemma keeps_find_binding [keeps_intros]: "keeps (one_binding c) (find_binding E c a f)"
  unfolding find_binding_def by (intro keeps_intros)

lemma keeps_pointer_and_active [keeps_intros]: "keeps (one_binding c) (pointer_and_active E c a)"
  unfolding pointer_and_active_def checked_pointer_def Let_def by (intro keeps_intros)

lemma keeps_reset:
  assumes "consistent_read a (fst pa) (snd pa)"
  shows "keeps (one_binding c) (reset_active E c a (fst pa) (snd pa) operator now)"
  unfolding reset_active_def
proof (intro keeps_intros)
  have "moves c a ''NONE'' ''NONE'' (new_item (dc_bindings c) (pointer_row a ''NONE'' (isoformat now)))"
    unfolding new_item_def by (rule pointer_row_moves)
  then show "batch_keeps (one_binding c) (device_authority c a @ [new_item (dc_bindings c) (pointer_row a ''NONE'' (isoformat now))])"
    by (intro rebinding_keeps [where c = c and a = a and f = "''NONE''" and g = "''NONE''" and pre = "device_authority c a" and post = "[]"
          and demoted = "[]" and promoted = "[]"]) (simp_all add: authority_aside demotes_def promotes_def)
next
  fix b inactive acts
  assume "snd pa = Some b" "yields (elift (inactive_row c b now)) inactive" "yields (elift (clear_operations c a (fst pa) b inactive now)) acts"
  then show "batch_keeps (one_binding c) (device_authority c a @ acts)" using clear_keeps [OF _ assms] by simp
qed

lemma keeps_recover:
  assumes "consistent_read a (fst pa) (snd pa)" "shown c f \<noteq> ''NONE''"
  shows "keeps (one_binding c) (recover_binding E c a f (fst pa) (snd pa) operator now)"
  unfolding recover_binding_def
proof (intro keeps_intros)
  fix it existing row acts
  assume it: "yields (find_binding E c a f) it" "row_of it = Some existing" "yields (elift (refreshed_row c existing now)) row"
    and acts: "yields (elift (replacement_operations c a (fst pa) (snd pa) (Some existing) row now)) acts"
  from it have "row_ok a (shown c f) existing" by (auto dest!: row_of_Some yields_find_binding)
  with it(3) have "row_ok a (shown c f) row" "dget row ''status'' = PStr ''ACTIVE''" by (auto dest: refreshed_row_ok)
  from replacement_keeps [OF _ assms(1) this assms(2) authority_aside, of "Some existing" now acts "[]"] acts
  show "batch_keeps (one_binding c) (device_authority c a @ acts)" by (simp add: aside_def)
qed

lemma keeps_process_recovery:
  assumes "shown c f \<noteq> ''NONE''"
  shows "keeps (one_binding c) (process_recovery E c a action f operator)"
  unfolding process_recovery_def
  by (intro keeps_intros keeps_reset keeps_recover assms yields_pointer_and_active)

lemma control_aside: "aside c [new_item t (new_receipt c a q ph n), new_item t (new_audit c a q n)]" "aside c [rate_update c a n]"
  by (simp_all add: aside_def new_item_def new_receipt_def new_audit_def rate_update_def rate_key_def item_key_def binding_keys_def pointer_key_def
      binding_key_def image_iff)

lemma aside_append: "aside c xs \<Longrightarrow> aside c ys \<Longrightarrow> aside c (xs @ ys)"
  by (simp add: aside_def)

lemma keeps_self_recovery:
  assumes "sr_fingerprint q \<noteq> ''NONE''"
  shows "keeps (one_binding c) (process_self_recovery E c a q)"
  unfolding process_self_recovery_def Let_def recovery_authority_active_def lost_race_def
proof (intro keeps_intros)
  fix now t pa it acts
  let ?row = "active_row a (sr_fingerprint q) (sr_platform q) (sr_os q) (isoformat (now * 1000000)) (row_of it)"
  assume pa: "yields (pointer_and_active E c a) pa"
    and "yields (elift (replacement_operations c a (fst pa) (snd pa) (row_of it) ?row (now * 1000000))) acts"
  then show "batch_keeps (one_binding c) (device_authority c a @ [rate_update c a now] @ acts
      @ [new_item (dc_control c) (new_receipt c a q (sha256_hex E t) now), new_item (dc_control c) (new_audit c a q now)])"
    using replacement_keeps [OF _ yields_pointer_and_active [OF pa] active_row_ok assms aside_append [OF authority_aside control_aside(2)] control_aside(1)]
    by simp
qed

end

end
