(* ===== verification/DeviceRequests.thy ===== *)
theory DeviceRequests
  imports DeviceRecovery
begin

text \<open>
  The requests that reach the device operations: the fields of a registration, of a support
  recovery and of a self-recovery (\<open>validation.py\<close> of both packages), the policy that must be
  approved before self-recovery runs (\<open>device_recovery/config.py\<close>), the proof of a recent sign-in
  and the self-recovery route (\<open>device_recovery/app.py\<close>). \<open>json.loads\<close> of a body that is a text is
  the argument \<open>loads\<close>, which answers \<open>None\<close> where it raises.
\<close>

abbreviation INVALID :: exc where "INVALID \<equiv> AppError ''INVALID_REQUEST'' False"

definition required_string :: "dict \<Rightarrow> string \<Rightarrow> string result" where
  "required_string payload field =
     (case as_str (dget payload field) of
        None \<Rightarrow> Inl INVALID
      | Some s \<Rightarrow> if strip s = [] then Inl INVALID else Inr (strip s))"

definition OS_VERSION_PATTERN :: "string \<Rightarrow> bool" where
  "OS_VERSION_PATTERN = first_then is_alnum (\<lambda>c. is_alnum c \<or> c \<in> set ''._ -'') 31"

definition ACCOUNT_ID_PATTERN :: "string \<Rightarrow> bool" where
  "ACCOUNT_ID_PATTERN = first_then is_alnum (\<lambda>c. is_alnum c \<or> c \<in> set ''._:@-'') 127"

definition PLATFORMS :: "string list" where "PLATFORMS = [''ios'', ''android'']"

definition matching :: "(string \<Rightarrow> bool) \<Rightarrow> string \<Rightarrow> string result" where
  "matching p s = (if p s then Inr s else Inl INVALID)"

definition decoded_body :: "(string \<Rightarrow> pyval option) \<Rightarrow> dict \<Rightarrow> dict result" where
  "decoded_body loads event =
     (case dget event ''body'' of
        PStr s \<Rightarrow> (case loads s of Some (PDict d) \<Rightarrow> Inr d | _ \<Rightarrow> Inl INVALID)
      | PDict d \<Rightarrow> Inr d
      | _ \<Rightarrow> Inl INVALID)"

definition registration_request :: "(string \<Rightarrow> pyval option) \<Rightarrow> dict \<Rightarrow> (string \<times> string \<times> string) result" where
  "registration_request loads event =
     rbind (decoded_body loads event) (\<lambda>payload.
     rbind (rbind (required_string payload ''bindingFingerprint'') (matching FINGERPRINT_PATTERN)) (\<lambda>f.
     rbind (rbind (required_string payload ''platform'') (\<lambda>p. matching (\<lambda>p. p \<in> set PLATFORMS) (lower p))) (\<lambda>platform.
     rbind (rbind (required_string payload ''osVersion'') (matching OS_VERSION_PATTERN)) (\<lambda>os.
     Inr (f, platform, strip os)))))"

definition SUPPORT_ACTIONS :: "string list" where "SUPPORT_ACTIONS = [''RESET_ACTIVE_BINDING'', ''RECOVER_BINDING'']"

definition support_request :: "(string \<Rightarrow> pyval option) \<Rightarrow> dict \<Rightarrow> (string \<times> string \<times> string option) result" where
  "support_request loads event =
     rbind (decoded_body loads event) (\<lambda>payload.
     rbind (rbind (required_string payload ''action'') (matching (\<lambda>a. a \<in> set SUPPORT_ACTIONS))) (\<lambda>act.
     rbind (rbind (required_string payload ''accountId'') (matching ACCOUNT_ID_PATTERN)) (\<lambda>account.
     rbind (if dget payload ''bindingFingerprint'' = PNone then Inr None
            else rbind (rbind (required_string payload ''bindingFingerprint'') (matching FINGERPRINT_PATTERN)) (\<lambda>f. Inr (Some f))) (\<lambda>f.
     rbind (raise_if (act = ''RECOVER_BINDING'' \<and> f = None) INVALID) (\<lambda>_.
     rbind (raise_if (\<not> has_keys payload ([''action'', ''accountId''] @ (if act = ''RECOVER_BINDING'' then [''bindingFingerprint''] else []))) INVALID) (\<lambda>_.
     Inr (act, account, f)))))))"

text \<open>\<open>uuid.UUID(s)\<close> of version 4 whose canonical text is \<open>s\<close>.\<close>

definition is_uuid4 :: "string \<Rightarrow> bool" where
  "is_uuid4 s =
     (length s = 36
      \<and> list_all (\<lambda>i. if i \<in> {8, 13, 18, 23} then s ! i = CHR ''-'' else is_hex (s ! i)) [0..<36]
      \<and> s ! 14 = CHR ''4'' \<and> s ! 19 \<in> set ''89ab'')"

definition self_request :: "(string \<Rightarrow> pyval option) \<Rightarrow> dict \<Rightarrow> self_request result" where
  "self_request loads event =
     rbind (decoded_body loads event) (\<lambda>payload.
     rbind (raise_if (\<not> has_keys payload [''schemaVersion'', ''operationId'', ''action'', ''bindingFingerprint'', ''platform'', ''osVersion'']
         \<or> integral (dget payload ''schemaVersion'') \<noteq> Some 1) INVALID) (\<lambda>_.
     rbind (raise_if (dget payload ''action'' \<noteq> PStr ''REPLACE_ACTIVE_BINDING'') INVALID) (\<lambda>_.
     case as_str (dget payload ''operationId'') of
       None \<Rightarrow> Inl INVALID
     | Some operation \<Rightarrow>
         rbind (raise_if (\<not> is_uuid4 operation) INVALID) (\<lambda>_.
         rbind (rbind (required_string payload ''bindingFingerprint'') (matching FINGERPRINT_PATTERN)) (\<lambda>f.
         rbind (rbind (required_string payload ''platform'') (matching (\<lambda>p. p \<in> set PLATFORMS))) (\<lambda>platform.
         rbind (rbind (required_string payload ''osVersion'') (matching OS_VERSION_PATTERN)) (\<lambda>os.
         rbind (raise_if (truthy (dget event ''queryStringParameters'')) INVALID) (\<lambda>_.
         Inr \<lparr>sr_operation = operation, sr_fingerprint = f, sr_platform = platform, sr_os = os\<rparr>))))))))"

section \<open>Policy\<close>

record recovery_policy = device_config +
  self_enabled :: bool
  environment :: string
  token_config :: token_settings
  policy_status :: string
  max_reauth_age :: int

definition self_recovery_ready :: "recovery_policy \<Rightarrow> unit result" where   \<comment> \<open>\<open>validate_self_recovery_config\<close>\<close>
  "self_recovery_ready c =
     rbind (raise_if (\<not> self_enabled c) (AppError ''FEATURE_DISABLED'' True)) (\<lambda>_.
     rbind (raise_if (environment c \<notin> set [''dev'', ''uat'', ''prod''] \<or> dc_bindings c = [] \<or> dc_control c = []
         \<or> dc_users c = [] \<or> dc_ledger c = [] \<or> \<not> prefixed ''https://cognito-idp.'' (\<lambda>_. True) (cognito_issuer (token_config c))
         \<or> cognito_app_client_id (token_config c) = [] \<or> cognito_required_scope (token_config c) \<noteq> ''aws.cognito.signin.user.admin'') UNAVAILABLE) (\<lambda>_.
     raise_if (policy_status c \<noteq> ''approved'' \<or> max_reauth_age c \<noteq> 300 \<or> rate_window c \<noteq> 3600 \<or> rate_max c \<noteq> 3
         \<or> rate_ttl c \<noteq> 86400 \<or> receipt_days c \<noteq> 7 \<or> audit_days c \<noteq> 90) UNAVAILABLE))"

section \<open>The self-recovery route\<close>

definition auth_epoch :: "pyval \<Rightarrow> int option result" where
  "auth_epoch value =
     rbind (case value of
              PStr s \<Rightarrow> if s \<noteq> [] \<and> list_all is_digit_like s then rbind (parse_int s) (\<lambda>n. Inr (PInt n)) else Inr value
            | _ \<Rightarrow> Inr value) (\<lambda>v.
     Inr (case v of PInt n \<Rightarrow> if 0 < n then Some n else None | _ \<Rightarrow> None))"

definition recent_sign_in :: "env \<Rightarrow> dict \<Rightarrow> int \<Rightarrow> unit eff" where   \<comment> \<open>\<open>_assert_recent_reauthentication\<close>\<close>
  "recent_sign_in E event max_age =
     ebind (elift (rbind (attr_get (or_empty (dget event ''requestContext'')) ''authorizer'') (\<lambda>authorizer.
       rbind (attr_get (or_empty authorizer) ''jwt'') (\<lambda>jwt. attr_get (or_empty jwt) ''claims'')))) (\<lambda>claims.
     ebind (elift (rbind (attr_get (or_empty claims) ''auth_time'') auth_epoch)) (\<lambda>auth.
     ebind (elift (rbind (attr_get (or_empty claims) ''iat'') auth_epoch)) (\<lambda>issued.
     ebind (e_now E) (\<lambda>now.
     eraise_if (case (auth, issued) of
         (Some t, Some i) \<Rightarrow> t > now + 60 \<or> i > now + 60 \<or> i < t \<or> now - t > max_age
       | _ \<Rightarrow> True) (AppError ''REAUTHENTICATION_REQUIRED'' False)))))"

definition as_app_error :: "'a eff \<Rightarrow> 'a eff" where   \<comment> \<open>\<open>except HistoryError as err: raise AppError(...)\<close>\<close>
  "as_app_error m = ecatch m (\<lambda>e. case e of HistoryError cd m' \<Rightarrow> eraise (AppError cd False) | _ \<Rightarrow> eraise e)"

definition self_subject :: "env \<Rightarrow> recovery_policy \<Rightarrow> dict \<Rightarrow> string eff" where
  "self_subject E c event =
     as_app_error
       (ebind (jwt_subject E event (token_config c)) (\<lambda>subject.
        ebind (recent_sign_in E event (max_reauth_age c)) (\<lambda>_.
        ebind (assert_authoritative_account_active E subject (dc_users c) (dc_ledger c)) (\<lambda>_.
        eret subject))))"

definition self_recovery_route :: "(string \<Rightarrow> pyval option) \<Rightarrow> env \<Rightarrow> recovery_policy \<Rightarrow> dict \<Rightarrow> dict eff" where
  "self_recovery_route loads E c event =
     ebind (elift (self_recovery_ready c)) (\<lambda>_.
     ebind (self_subject E c event) (\<lambda>account.
     ebind (elift (self_request loads event)) (\<lambda>q.
     process_self_recovery E (device_config.truncate c) account q)))"

end
