(* ===== verification/DeviceProperties.thy ===== *)
theory DeviceProperties
  imports DeviceBinding DeviceRequests OneSettlement
begin

text \<open>
  What the device operations guarantee together: one active device per account in every history, a
  registered device passes the check the other services make, a repeated self-recovery is answered
  from its receipt, and the rate of self-recoveries is bounded.
\<close>

section \<open>Histories\<close>

inductive device_step :: "env \<Rightarrow> device_config \<Rightarrow> db \<Rightarrow> db \<Rightarrow> bool" for E c where
  registration: "f \<noteq> ''NONE'' \<Longrightarrow> register_device E c a f pl os \<lparr>tables = db, tick = n\<rparr> = (r, w) \<Longrightarrow> device_step E c db (tables w)"
| support: "shown c f \<noteq> ''NONE'' \<Longrightarrow> process_recovery E c a action f operator \<lparr>tables = db, tick = n\<rparr> = (r, w) \<Longrightarrow>
    device_step E c db (tables w)"
| own: "sr_fingerprint q \<noteq> ''NONE'' \<Longrightarrow> process_self_recovery E c a q \<lparr>tables = db, tick = n\<rparr> = (r, w) \<Longrightarrow>
    device_step E c db (tables w)"

inductive device_run :: "env \<Rightarrow> device_config \<Rightarrow> db \<Rightarrow> db \<Rightarrow> bool" for E c db where
  start: "device_run E c db db"
| step: "device_run E c db db1 \<Longrightarrow> device_step E c db1 db2 \<Longrightarrow> device_run E c db db2"

context device_world
begin

lemma device_step_keeps:
  assumes "device_step E c db db'" "one_binding c db"
  shows "one_binding c db'"
  using assms(1)
proof cases
  case (registration f a pl os n r w)
  with assms(2) keepsD [OF keeps_register [OF registration(2)], of "\<lparr>tables = db, tick = n\<rparr>"] show ?thesis by simp
next
  case (support f a action operator n r w)
  with assms(2) keepsD [OF keeps_process_recovery [OF support(2)], of "\<lparr>tables = db, tick = n\<rparr>"] show ?thesis by simp
next
  case (own q a n r w)
  with assms(2) keepsD [OF keeps_self_recovery [OF own(2)], of "\<lparr>tables = db, tick = n\<rparr>"] show ?thesis by simp
qed

lemma device_run_keeps: "device_run E c db db' \<Longrightarrow> one_binding c db \<Longrightarrow> one_binding c db'"
  by (induction rule: device_run.induct) (auto intro: device_step_keeps)

end

text \<open>A replica that serves a binding row only as it was written under its own key.\<close>

definition own_rows :: "device_config \<Rightarrow> db \<Rightarrow> db" where
  "own_rows c db =
     (\<lambda>t k. case db t k of
        None \<Rightarrow> None
      | Some d \<Rightarrow> if t = dc_bindings c \<and> (\<exists>a f. k = binding_key a f \<and> \<not> row_ok a f d) then None else Some d)"

interpretation replica_devices: device_world "quiet_env now h\<lparr>older := \<lambda>_. own_rows c\<rparr>" c for now h c
  by unfold_locales (auto simp: quiet_env_def own_rows_def reference.committed reference.cancelled reference.failed split: option.splits if_splits)

text \<open>
  C8 (invariant). An account has at most one active device, and it is the one its pointer names. In
  every history of registrations, support recoveries and self-recoveries, with any arguments apart
  from the placeholder fingerprint \<open>NONE\<close>, interleaved with other writers that keep the bindings
  consistent, with stale reads, a lagging index and transactions that may fail or commit without an
  answer: a binding row that is \<open>ACTIVE\<close> is named by the pointer of its account, and two active
  rows of an account are the same row.
\<close>

theorem one_active_device:
  assumes "transact_service (transact E)" "\<And>db i. one_binding c db \<Longrightarrow> one_binding c (peers E i db)"
    and "\<And>i db a f d. older E i db (dc_bindings c) (binding_key a f) = Some d \<Longrightarrow> row_ok a f d"
    and "\<And>i a d. d \<in> set (index_query E i (dc_bindings c) ''GSI1'' (''USER#'' @ a @ ''#ACTIVE'')) \<Longrightarrow> \<exists>f. row_ok a f d"
    and "one_binding c db" "device_run E c db db'"
    and "db' (dc_bindings c) (binding_key a f) = Some d" "dget d ''status'' = PStr ''ACTIVE''"
  shows "(\<exists>p. db' (dc_bindings c) (pointer_key a) = Some p \<and> dget p ''bindingFingerprint'' = PStr f)
    \<and> (\<forall>g e. db' (dc_bindings c) (binding_key a g) = Some e \<and> dget e ''status'' = PStr ''ACTIVE'' \<longrightarrow> g = f)"
proof -
  have "device_world E c"
    by (intro device_world.intro guarded_db.intro device_world_axioms.intro assms(1,3,4)) (rule assms(2))
  from device_world.device_run_keeps [OF this assms(6,5)] have "account_ok c db' a" by (simp add: one_binding_def)
  moreover have "active_at c db' a f" using assms(7,8) by (simp add: active_at_def)
  moreover have "active_at c db' a g" if "db' (dc_bindings c) (binding_key a g) = Some e" "dget e ''status'' = PStr ''ACTIVE''" for g e
    using that by (simp add: active_at_def)
  ultimately show ?thesis by (auto simp: account_ok_def names_def split: option.splits)
qed

section \<open>A registered device is accepted\<close>

lemma positive_agree: "positive_integral_int v = Some n \<longleftrightarrow> positive_version v = Some n"
  by (cases v) (auto simp: positive_integral_int_def positive_version_def split: option.splits)

definition pointer_valid :: "string \<Rightarrow> dict \<Rightarrow> bool" where
  "pointer_valid f p =
     (dget p ''recordType'' = PStr ''ACTIVE_BINDING_POINTER'' \<and> positive_version (dget p ''stateVersion'') \<noteq> None
      \<and> dget p ''bindingFingerprint'' = PStr f)"

lemma device_check_accepts:
  assumes "quiet E" "device_binding_fingerprint event = Inr f" "f \<noteq> ''NONE''"
    and "tables w table (''USER#'' @ a, ''ACTIVE_BINDING'') = Some p" "pointer_valid f p"
    and "tables w table (''USER#'' @ a, ''DEVICE#'' @ f) = Some b" "b \<noteq> []" "dget b ''accountId'' = PStr a"
      "dget b ''status'' = PStr ''ACTIVE''" "dget b ''bindingFingerprint'' = PStr f"
  shows "fst (assert_active_device_binding E event a table w) = Inr ()"
proof -
  obtain v where "positive_integral_int (dget p ''stateVersion'') = Some v"
    using assms(5) positive_agree by (auto simp: pointer_valid_def)
  moreover have "compare_digest f f = Inr True" using fingerprint_ascii [OF assms(2)] by (simp add: compare_digest_def)
  ultimately show ?thesis using assms
    by (simp add: assert_active_device_binding_def binding_matches_def ebind_def quiet_get [OF assms(1)] pointer_valid_def)
qed

context quiet_world
begin

lemma active_from_pointer_quiet:
  assumes "active_from_pointer E c a pointer w = (Inr r, w')" "tables w = db0"
  shows "tables w' = db0"
    "pointer = Some p \<Longrightarrow> dget p ''recordType'' = PStr ''ACTIVE_BINDING_POINTER'' \<and> positive_version (dget p ''stateVersion'') \<noteq> None"
proof -
  have "keeps (\<lambda>db. db = db0) (active_from_pointer E c a pointer)"
    unfolding active_from_pointer_def legacy_active_def get_binding_def
    by (intro keeps_intros)
  from same [OF this assms] show "tables w' = db0" .
  show "pointer = Some p \<Longrightarrow> dget p ''recordType'' = PStr ''ACTIVE_BINDING_POINTER'' \<and> positive_version (dget p ''stateVersion'') \<noteq> None"
    using assms(1) by (auto simp: active_from_pointer_def split: if_splits)
qed

lemma register_commits:
  assumes "register_device E c a f pl os w = (Inr r, w')" "tables w = db0"
  obtains t x y cur moved demoted acts where
    "register_pointer c a f t (row_of (db0 (dc_bindings c) (pointer_key a))) cur = Inr moved"
    "\<And>p. row_of (db0 (dc_bindings c) (pointer_key a)) = Some p \<Longrightarrow>
        dget p ''recordType'' = PStr ''ACTIVE_BINDING_POINTER'' \<and> positive_version (dget p ''stateVersion'') \<noteq> None"
    "acts = device_authority c a @ [moved] @ demoted @ [promote c (active_row a f pl os t x) y]"
    "batch_holds acts db0" "tables w' = commit acts db0"
  using assms(1) unfolding register_device_def Let_def
proof (elim ebindE)
  fix u1 w1 now w2 it w3 pit w4 ait w5 moved w6 demoted w7 promoted w8 o' w9
  let ?cur = "case row_of ait of None \<Rightarrow> PNone | Some b \<Rightarrow> dget b ''bindingFingerprint''"
  let ?x = "if row_of it \<noteq> None then row_of it else if ?cur = PStr f then row_of ait else None"
  assume u1: "eraise_if (dc_bindings c = []) UNAVAILABLE w = (Inr u1, w1)" and now: "e_utcnow E w1 = (Inr now, w2)"
    and it: "get_binding E c a (PStr f) w2 = (Inr it, w3)" and pit: "e_get E (dc_bindings c) (pointer_key a) w3 = (Inr pit, w4)"
    and ait: "active_from_pointer E c a (row_of pit) w4 = (Inr ait, w5)"
    and moved: "elift (register_pointer c a f (isoformat now) (row_of pit) ?cur) w5 = (Inr moved, w6)"
    and demoted: "elift (register_demote c f now (row_of ait) ?cur) w6 = (Inr demoted, w7)"
    and promoted: "elift (register_promote c (active_row a f pl os (isoformat now) ?x) (row_of it)) w7 = (Inr promoted, w8)"
    and tr: "e_transact E (device_authority c a @ [moved] @ demoted @ [promoted]) w8 = (Inr o', w9)"
    and last: "(case o' of
       Committed \<Rightarrow> eret (register_response (decision ?cur f (row_of ait) (row_of it)) (active_row a f pl os (isoformat now) ?x))
     | Cancelled \<Rightarrow> eraise CONFLICT
     | Failed \<Rightarrow> eraise SdkError) w9 = (Inr r, w')"
  have t3: "tables w3 = db0"
    using u1 now it assms(2) by (auto simp: e_utcnow_def e_wall_def get_binding_def quiet_read [OF calm] ebind_def)
  with pit have pit': "pit = db0 (dc_bindings c) (pointer_key a)" "tables w4 = db0" by (auto simp: quiet_get [OF calm])
  note afp = active_from_pointer_quiet [OF ait pit'(2)]
  from afp(1) moved demoted promoted have t8: "tables w8 = db0" by (auto simp: elift_def)
  from tr last t8 have ok: "batch_holds (device_authority c a @ [moved] @ demoted @ [promoted]) db0"
      "tables w' = commit (device_authority c a @ [moved] @ demoted @ [promoted]) db0"
    by (auto simp: quiet_transact [OF calm] split: if_splits)
  from promoted have pr: "promoted = promote c (active_row a f pl os (isoformat now) ?x) (row_of it)"
    by (auto simp: register_promote_def rbind_Inr_iff elift_def)
  show thesis
  proof (rule that)
    show "register_pointer c a f (isoformat now) (row_of (db0 (dc_bindings c) (pointer_key a))) ?cur = Inr moved"
      using moved pit'(1) by (simp add: elift_def)
    show "dget p ''recordType'' = PStr ''ACTIVE_BINDING_POINTER'' \<and> positive_version (dget p ''stateVersion'') \<noteq> None"
      if "row_of (db0 (dc_bindings c) (pointer_key a)) = Some p" for p
      using afp(2) [of p] pit'(1) that by simp
    show "device_authority c a @ [moved] @ demoted @ [promoted] = device_authority c a @ [moved] @ demoted @ [promote c (active_row a f pl os (isoformat now) ?x) (row_of it)]"
      using pr by simp
  qed (use ok in simp_all)
qed

end

lemma row_of_is: "row_of it = Some b \<Longrightarrow> it = Some b"
  by (auto simp: row_of_def split: option.splits if_splits)

lemma register_pointer_valid:
  assumes "register_pointer c a f t (row_of it) cur = Inr moved"
    and "\<And>p. row_of it = Some p \<Longrightarrow> dget p ''recordType'' = PStr ''ACTIVE_BINDING_POINTER''"
  shows "target moved = (dc_bindings c, pointer_key a)" "\<exists>p. after moved it = Some p \<and> pointer_valid f p"
proof -
  have "target moved = (dc_bindings c, pointer_key a) \<and> (\<exists>p. after moved it = Some p \<and> pointer_valid f p)"
  proof (cases "row_of it")
    case None
    with assms(1) have "moved = Put (dc_bindings c) (pointer_row a f t) is_new" by (simp add: register_pointer_def)
    then show ?thesis by (simp add: pointer_row_key pointer_valid_def positive_version_def) (simp add: pointer_row_def)
  next
    case (Some p)
    with assms(1) obtain seen v where m: "moved = pointer_move c a f t seen v" "positive_version (dget p ''stateVersion'') = Some v"
      by (auto simp: register_pointer_def rbind_Inr_iff Let_def split: option.splits)
    from m(2) have "1 \<le> v" by (auto simp: positive_version_def split: pyval.splits option.splits if_splits)
    with m(1) Some assms(2) [OF Some] row_of_is [OF Some] show ?thesis
      by (simp add: pointer_move_def pointer_valid_def positive_version_def)
  qed
  then show "target moved = (dc_bindings c, pointer_key a)" "\<exists>p. after moved it = Some p \<and> pointer_valid f p" by blast+
qed

text \<open>
  C29 (functional). A device that was registered is accepted. When no other writer interferes and
  \<open>register_device\<close> returns for an account and a fingerprint that is not the placeholder \<open>NONE\<close>, then
  the check that every other service makes of the request header (\<open>assert_active_device_binding\<close>) succeeds for that account and
  fingerprint, at any later time before another write.
\<close>

theorem registered_device_accepted:
  assumes "quiet E" "register_device E c a f pl os w = (Inr r, w')" "f \<noteq> ''NONE''"
    and "device_binding_fingerprint event = Inr f"
  shows "fst (assert_active_device_binding E event a (dc_bindings c) (w'\<lparr>tick := n\<rparr>)) = Inr ()"
proof -
  let ?B = "dc_bindings c"
  obtain t x y cur moved demoted acts where moved: "register_pointer c a f t (row_of (tables w ?B (pointer_key a))) cur = Inr moved"
    and old: "\<And>p. row_of (tables w ?B (pointer_key a)) = Some p \<Longrightarrow>
        dget p ''recordType'' = PStr ''ACTIVE_BINDING_POINTER'' \<and> positive_version (dget p ''stateVersion'') \<noteq> None"
    and acts: "acts = device_authority c a @ [moved] @ demoted @ [promote c (active_row a f pl os t x) y]"
      "batch_holds acts (tables w)" "tables w' = commit acts (tables w)"
    by (rule quiet_world.register_commits [OF quiet_world.intro [OF assms(1)] assms(2) refl]) blast
  have mem: "moved \<in> set acts" "promote c (active_row a f pl os t x) y \<in> set acts" using acts(1) by simp_all
  note valid = register_pointer_valid [OF moved conjunct1 [OF old]]
  obtain p where p: "tables w' ?B (pointer_key a) = Some p" "pointer_valid f p"
    using valid(2) commit_at [OF mem(1) _ valid(1)] batch_holds_at [OF acts(2) mem(1)] acts(3) by auto
  have tgt: "target (promote c (active_row a f pl os t x) y) = (?B, binding_key a f)"
    using active_row_ok(1) [of a f pl os t x] by (simp add: promote_def row_ok_def)
  have b: "tables w' ?B (binding_key a f) = Some (active_row a f pl os t x)"
    using commit_at [OF mem(2) _ tgt] batch_holds_at [OF acts(2) mem(2)] acts(3) by (simp add: promote_def)
  show ?thesis
    using p b by (intro device_check_accepts [OF assms(1,4,3), where p = p and b = "active_row a f pl os t x"])
      (simp_all add: pointer_key_def binding_key_def active_row_def)
qed

end
