(* ===== verification/DeviceReplay.thy ===== *)
theory DeviceReplay
  imports DeviceProperties
begin

text \<open>
  Registrations of an account without a device, evaluated; the placeholder fingerprint; and the
  repetition of a self-recovery, which is answered from its receipt.
\<close>

section \<open>A first registration\<close>

lemma register_fresh:
  assumes "peers E = (\<lambda>_ db. db)" "read_fails E = (\<lambda>_. False)" "transact E = ref_transact"
    and "older E (Suc n) db (dc_bindings c) (binding_key a f) = None" "dc_bindings c \<noteq> []"
    and "active_from_pointer E c a (row_of (db (dc_bindings c) (pointer_key a))) \<lparr>tables = db, tick = Suc (Suc (Suc n))\<rparr> = (Inr None, \<lparr>tables = db, tick = m\<rparr>)"
    and "register_pointer c a f (isoformat (wall_nanos E n div 1000)) (row_of (db (dc_bindings c) (pointer_key a))) PNone = Inr moved"
    and "acts = device_authority c a @ [moved, promote c (active_row a f pl os (isoformat (wall_nanos E n div 1000)) None) None]"
    and "batch_holds acts db"
  shows "\<exists>r m'. register_device E c a f pl os \<lparr>tables = db, tick = n\<rparr> = (Inr r, \<lparr>tables = commit acts db, tick = m'\<rparr>)"
proof -
  have p: "register_promote c (active_row a f pl os t None) None = Inr (promote c (active_row a f pl os t None) None)" for t
    by (simp add: register_promote_def serialized_def active_row_def contents_def)
  show ?thesis
    unfolding register_device_def Let_def
    using assms
    by (simp add: ebind_def e_utcnow_def e_wall_def get_binding_def e_read_def e_get_def row_of_def [of None] register_demote_def p
        e_transact_def ref_transact_def)
qed

definition ex_dc :: device_config where
  "ex_dc = \<lparr>dc_bindings = ''B'', dc_users = ''U'', dc_ledger = ''L'', dc_control = ''C'', inactive_days = 180, receipt_days = 7,
     audit_days = 90, rate_window = 3600, rate_max = 3, rate_ttl = 86400, py_str = (\<lambda>_. [])\<rparr>"

lemma ex_dc [simp]: "dc_bindings ex_dc = ''B''" "dc_users ex_dc = ''U''" "dc_ledger ex_dc = ''L''" "dc_control ex_dc = ''C''"
    "receipt_days ex_dc = 7" "rate_window ex_dc = 3600" "rate_max ex_dc = 3" "rate_ttl ex_dc = 86400" "audit_days ex_dc = 90"
  by (simp_all add: ex_dc_def)

definition ex_person :: dict where
  "ex_person = [(''sub'', PStr ''alice''), (''status'', PStr ''ACTIVE''), (''ageVerified'', PBool True)]"

definition ex_home :: db where   \<comment> \<open>an account without any device\<close>
  "ex_home = (\<lambda>t k. if t = ''U'' \<and> k = profile_key ''alice'' then Some ex_person else None)"

lemma ex_home: "ex_home ''U'' (profile_key ''alice'') = Some ex_person" "t \<noteq> ''U'' \<Longrightarrow> ex_home t k = None"
  by (simp_all add: ex_home_def)

definition ex_first :: "string \<Rightarrow> string \<Rightarrow> action list" where
  "ex_first f t = device_authority ex_dc ''alice'' @ [Put ''B'' (pointer_row ''alice'' f t) is_new, promote ex_dc (active_row ''alice'' f ''ios'' ''17'' t None) None]"

lemma authority_holds: "db ''U'' (profile_key ''alice'') = Some ex_person \<Longrightarrow> db ''L'' (deletion_key ''alice'') = None \<Longrightarrow>
    list_all (\<lambda>x. holds_at x db) (device_authority ex_dc ''alice'')"
  by (simp add: device_authority_def holds_at_def contents_def cond_holds_all_of equals_def) (simp add: ex_person_def)

lemma device_targets: "map target (device_authority ex_dc ''alice'') = [(''U'', profile_key ''alice''), (''L'', deletion_key ''alice'')]"
  by (simp add: device_authority_def)

lemma ex_first_holds: "batch_holds (ex_first f t) ex_home"
proof -
  have k: "item_key (active_row ''alice'' f ''ios'' ''17'' t None) = binding_key ''alice'' f" using active_row_ok(1) by (simp add: row_ok_def)
  have len: "length (device_authority ex_dc ''alice'') = 2" by (simp add: device_authority_def)
  have "list_all (\<lambda>x. holds_at x ex_home) (device_authority ex_dc ''alice'')" by (rule authority_holds) (simp_all add: ex_home)
  then show ?thesis
    by (simp add: batch_holds_def batch_wf_def ex_first_def device_targets len promote_def pointer_row_key k is_new_def holds_at_def contents_def ex_home)
qed

lemma ex_first_run: "older (quiet_env 150 h\<lparr>older := rep\<rparr>) (Suc n) ex_home ''B'' (binding_key ''alice'' f) = None \<Longrightarrow>
  \<exists>r m. register_device (quiet_env 150 h\<lparr>older := rep\<rparr>) ex_dc ''alice'' f ''ios'' ''17'' \<lparr>tables = ex_home, tick = n\<rparr>
    = (Inr r, \<lparr>tables = commit (ex_first f (isoformat 150000000)) ex_home, tick = m\<rparr>)"
proof (rule register_fresh)
  show "active_from_pointer (quiet_env 150 h\<lparr>older := rep\<rparr>) ex_dc ''alice'' (row_of (ex_home (dc_bindings ex_dc) (pointer_key ''alice'')))
      \<lparr>tables = ex_home, tick = Suc (Suc (Suc n))\<rparr> = (Inr None, \<lparr>tables = ex_home, tick = Suc (Suc (Suc (Suc n)))\<rparr>)"
    by (simp add: ex_home row_of_def active_from_pointer_def legacy_active_def ebind_def e_index_query_def quiet_env_def)
qed (simp_all add: ex_home row_of_def register_pointer_def ex_first_def [symmetric] ex_first_holds, simp_all add: ex_first_def quiet_env_def)

definition ex_bound :: "string \<Rightarrow> db" where   \<comment> \<open>the account after its first registration\<close>
  "ex_bound f = commit (ex_first f (isoformat 150000000)) ex_home"

lemma ex_bound:
  "ex_bound f ''B'' (pointer_key ''alice'') = Some (pointer_row ''alice'' f (isoformat 150000000))"
  "ex_bound f ''B'' (binding_key ''alice'' f) = Some (active_row ''alice'' f ''ios'' ''17'' (isoformat 150000000) None)"
  "ex_bound f ''U'' (profile_key ''alice'') = Some ex_person" "ex_bound f ''L'' (deletion_key ''alice'') = None"
  "g \<noteq> f \<Longrightarrow> ex_bound f ''B'' (binding_key ''alice'' g) = None"
proof -
  have k: "item_key (active_row ''alice'' f ''ios'' ''17'' t None) = binding_key ''alice'' f" for t using active_row_ok(1) by (simp add: row_ok_def)
  show "ex_bound f ''B'' (pointer_key ''alice'') = Some (pointer_row ''alice'' f (isoformat 150000000))"
    "ex_bound f ''B'' (binding_key ''alice'' f) = Some (active_row ''alice'' f ''ios'' ''17'' (isoformat 150000000) None)"
    "ex_bound f ''U'' (profile_key ''alice'') = Some ex_person" "ex_bound f ''L'' (deletion_key ''alice'') = None"
    "g \<noteq> f \<Longrightarrow> ex_bound f ''B'' (binding_key ''alice'' g) = None"
    by (simp_all add: ex_bound_def commit_def ex_first_def device_authority_def promote_def pointer_row_key k ex_home)
qed

lemma ex_register: "\<exists>r m. register_device (quiet_env 150 h) ex_dc ''alice'' f ''ios'' ''17'' \<lparr>tables = ex_home, tick = n\<rparr>
    = (Inr r, \<lparr>tables = ex_bound f, tick = m\<rparr>)"
  using ex_first_run [where rep = "\<lambda>_ db. db" and h = h and f = f and n = n] by (simp add: ex_bound_def ex_home) (simp add: quiet_env_def)

lemma registered_device_accepted_witness:
  "\<exists>w. fst (assert_active_device_binding (quiet_env 150 (\<lambda>_ s. s)) ex_event ''alice'' ''B'' w) = Inr ()"
proof -
  have f: "device_binding_fingerprint ex_event = Inr ''f1''"
    by (simp add: device_binding_fingerprint_def ex_event_def or_empty_def lower_def code_def strip_def is_space_def
        FINGERPRINT_PATTERN_def first_then_def fullmatch_def is_alnum_def is_digit_def)
  obtain r m where run: "register_device (quiet_env 150 (\<lambda>_ s. s)) ex_dc ''alice'' ''f1'' ''ios'' ''17'' \<lparr>tables = ex_home, tick = 0\<rparr>
      = (Inr r, \<lparr>tables = ex_bound ''f1'', tick = m\<rparr>)" using ex_register by blast
  from registered_device_accepted [OF quiet_env(1) run _ f, of 0] show ?thesis by auto
qed

text \<open>
  C30 (safety). Why the placeholder had to be excluded. A device whose fingerprint is the text \<open>NONE\<close>
  is accepted by the validation of a registration and is registered; the pointer then looks
  empty, and the next registration leaves that device active beside its own: the account has two
  active devices although no other writer interfered.
\<close>

theorem placeholder_leaves_two_active:
  "\<exists>r1 w1 r2 w2.
     registration_request (\<lambda>_. None) [(''body'', PDict [(''bindingFingerprint'', PStr ''NONE''), (''platform'', PStr ''ios''), (''osVersion'', PStr ''17'')])]
       = Inr (''NONE'', ''ios'', ''17'')
   \<and> register_device (quiet_env 150 (\<lambda>_ s. s)) ex_dc ''alice'' ''NONE'' ''ios'' ''17'' \<lparr>tables = ex_home, tick = 0\<rparr> = (Inr r1, w1)
   \<and> register_device (quiet_env 150 (\<lambda>_ s. s)) ex_dc ''alice'' ''f1'' ''ios'' ''17'' w1 = (Inr r2, w2)
   \<and> active_at ex_dc (tables w2) ''alice'' ''NONE'' \<and> active_at ex_dc (tables w2) ''alice'' ''f1''"
proof -
  let ?E = "quiet_env 150 (\<lambda>_ s. s)" and ?t = "isoformat 150000000"
  define move where "move = pointer_move ex_dc ''alice'' ''f1'' ?t (PStr ''NONE'') 1"
  define row where "row = active_row ''alice'' ''f1'' ''ios'' ''17'' ?t None"
  define acts where "acts = device_authority ex_dc ''alice'' @ [move, promote ex_dc row None]"
  obtain r1 m where one: "register_device ?E ex_dc ''alice'' ''NONE'' ''ios'' ''17'' \<lparr>tables = ex_home, tick = 0\<rparr>
      = (Inr r1, \<lparr>tables = ex_bound ''NONE'', tick = m\<rparr>)" using ex_register by blast
  have p: "row_of (Some (pointer_row ''alice'' ''NONE'' ?t)) = Some (pointer_row ''alice'' ''NONE'' ?t)"
    by (simp add: row_of_def pointer_row_def)
  have k: "item_key row = binding_key ''alice'' ''f1''" using active_row_ok(1) by (simp add: row_ok_def row_def)
  have "list_all (\<lambda>x. holds_at x (ex_bound ''NONE'')) (device_authority ex_dc ''alice'')" by (rule authority_holds) (simp_all add: ex_bound)
  then have holds: "batch_holds acts (ex_bound ''NONE'')"
    by (simp add: batch_holds_def batch_wf_def acts_def device_targets promote_def move_def pointer_move_def k holds_at_def contents_def is_new_def ex_bound
        equals_def del: cond_holds.simps(3)) (simp add: device_authority_def pointer_row_def)
  have "\<exists>r m'. register_device ?E ex_dc ''alice'' ''f1'' ''ios'' ''17'' \<lparr>tables = ex_bound ''NONE'', tick = m\<rparr>
      = (Inr r, \<lparr>tables = commit acts (ex_bound ''NONE''), tick = m'\<rparr>)"
  proof (rule register_fresh)
    show "active_from_pointer ?E ex_dc ''alice'' (row_of (ex_bound ''NONE'' (dc_bindings ex_dc) (pointer_key ''alice'')))
        \<lparr>tables = ex_bound ''NONE'', tick = Suc (Suc (Suc m))\<rparr> = (Inr None, \<lparr>tables = ex_bound ''NONE'', tick = Suc (Suc (Suc m))\<rparr>)"
      by (simp add: ex_bound p active_from_pointer_def) (simp add: pointer_row_def positive_version_def)
    show "register_pointer ex_dc ''alice'' ''f1'' (isoformat (wall_nanos ?E m div 1000)) (row_of (ex_bound ''NONE'' (dc_bindings ex_dc) (pointer_key ''alice''))) PNone = Inr move"
      by (simp add: ex_bound p register_pointer_def) (simp add: pointer_row_def positive_version_def serialized_def move_def quiet_env_def)
    show "acts = device_authority ex_dc ''alice'' @ [move, promote ex_dc (active_row ''alice'' ''f1'' ''ios'' ''17'' (isoformat (wall_nanos ?E m div 1000)) None) None]"
      by (simp add: acts_def row_def quiet_env_def)
  qed (simp_all add: quiet_env_def ex_bound holds)
  then obtain r2 m' where two: "register_device ?E ex_dc ''alice'' ''f1'' ''ios'' ''17'' \<lparr>tables = ex_bound ''NONE'', tick = m\<rparr>
      = (Inr r2, \<lparr>tables = commit acts (ex_bound ''NONE''), tick = m'\<rparr>)" by blast
  have "commit acts (ex_bound ''NONE'') ''B'' (binding_key ''alice'' ''NONE'') = ex_bound ''NONE'' ''B'' (binding_key ''alice'' ''NONE'')"
      "commit acts (ex_bound ''NONE'') ''B'' (binding_key ''alice'' ''f1'') = Some row"
    by (simp_all add: commit_def acts_def device_authority_def promote_def move_def pointer_move_def k)
  then have "active_at ex_dc (commit acts (ex_bound ''NONE'')) ''alice'' ''NONE''" "active_at ex_dc (commit acts (ex_bound ''NONE'')) ''alice'' ''f1''"
    by (simp_all add: active_at_def ex_bound active_row_ok row_def)
  moreover have "registration_request (\<lambda>_. None) [(''body'', PDict [(''bindingFingerprint'', PStr ''NONE''), (''platform'', PStr ''ios''), (''osVersion'', PStr ''17'')])]
       = Inr (''NONE'', ''ios'', ''17'')"
    by (simp add: registration_request_def decoded_body_def required_string_def strip_def is_space_def code_def matching_def FINGERPRINT_PATTERN_def
        OS_VERSION_PATTERN_def PLATFORMS_def first_then_def fullmatch_def is_alnum_def is_digit_def lower_def)
  ultimately show ?thesis using one two by (intro exI conjI) (assumption | simp)+
qed

section \<open>A repeated self-recovery\<close>

definition signed_in :: "device_config \<Rightarrow> string \<Rightarrow> db \<Rightarrow> bool" where
  "signed_in c a db =
     (dc_bindings c \<noteq> [] \<and> dc_control c \<noteq> [] \<and> dc_users c \<noteq> [] \<and> dc_ledger c \<noteq> []
      \<and> profile_active a (db (dc_users c) (profile_key a)) (db (dc_ledger c) (deletion_key a)))"

lemma replay_run:
  assumes "quiet E" "\<And>i. clock E i = now" "signed_in c a (tables w)" "dumps True (PDict (request_payload q)) = Inr t"
    and "row_of (tables w (dc_control c) (receipt_key a (sr_operation q))) = Some prev"
    and "replay_receipt c prev (sha256_hex E (ascii_json t)) a (sr_operation q) (sr_fingerprint q) now = Inr r"
  shows "\<exists>w'. process_self_recovery E c a q w = (Inr r, w') \<and> tables w' = tables w"
  using assms(2-)
  by (simp add: process_self_recovery_def recovery_authority_active_def signed_in_def ebind_def quiet_get [OF assms(1)] e_now_def Let_def)

context quiet_world
begin

lemma keeps_pa: "keeps (\<lambda>db. db = db0) (pointer_and_active E c a)" "keeps (\<lambda>db. db = db0) (find_binding E c a f)"
  unfolding pointer_and_active_def checked_pointer_def legacy_active_def find_binding_def get_binding_def Let_def
  by (intro keeps_intros)+

lemma self_recovery_cases:
  assumes "process_self_recovery E c a q w = (Inr r, w')" "tables w = db0" "\<And>i. clock E i = now"
  obtains t where "signed_in c a db0" "dumps True (PDict (request_payload q)) = Inr t"
    "(\<exists>prev. row_of (db0 (dc_control c) (receipt_key a (sr_operation q))) = Some prev \<and> tables w' = db0
        \<and> replay_receipt c prev (sha256_hex E (ascii_json t)) a (sr_operation q) (sr_fingerprint q) now = Inr r)
     \<or> (\<exists>acts. r = public_receipt (new_receipt c a q (sha256_hex E (ascii_json t)) now) \<and> batch_holds acts db0 \<and> tables w' = commit acts db0
        \<and> set (device_authority c a) \<subseteq> set acts \<and> new_item (dc_control c) (new_receipt c a q (sha256_hex E (ascii_json t)) now) \<in> set acts)"
  using assms(1) unfolding process_self_recovery_def recovery_authority_active_def Let_def
proof (elim ebindE)
  fix u1 w1 u2 w2 u3 w3 u4 w4 profile w5 deletion w6 now' w7 t w8 it w9
  assume "eraise_if (dc_bindings c = []) UNAVAILABLE w = (Inr u1, w1)" "eraise_if (dc_control c = []) UNAVAILABLE w1 = (Inr u2, w2)"
    and "eraise_if (dc_users c = [] \<or> dc_ledger c = []) UNAVAILABLE w2 = (Inr u4, w4)"
    and "e_get E (dc_users c) (profile_key a) w4 = (Inr profile, w5)" "e_get E (dc_ledger c) (deletion_key a) w5 = (Inr deletion, w6)"
    and "eraise_if (\<not> profile_active a profile deletion) (AppError ''FORBIDDEN'' False) w6 = (Inr u3, w3)"
    and now: "e_now E w3 = (Inr now', w7)" and t: "elift (dumps True (PDict (request_payload q))) w7 = (Inr t, w8)"
    and it: "e_get E (dc_control c) (receipt_key a (sr_operation q)) w8 = (Inr it, w9)"
    and rest: "(case row_of it of
       Some previous \<Rightarrow> elift (replay_receipt c previous (sha256_hex E (ascii_json t)) a (sr_operation q) (sr_fingerprint q) now')
     | None \<Rightarrow>
         ebind (pointer_and_active E c a) (\<lambda>pa.
         ebind (find_binding E c a (PStr (sr_fingerprint q))) (\<lambda>bit.
         ebind (elift (replacement_operations c a (fst pa) (snd pa) (row_of bit)
            (active_row a (sr_fingerprint q) (sr_platform q) (sr_os q) (isoformat (now' * 1000000)) (row_of bit)) (now' * 1000000))) (\<lambda>acts.
         ebind (e_transact E (device_authority c a @ [rate_update c a now'] @ acts
             @ [new_item (dc_control c) (new_receipt c a q (sha256_hex E (ascii_json t)) now'), new_item (dc_control c) (new_audit c a q now')])) (\<lambda>r.
         case r of
           Committed \<Rightarrow> eret (public_receipt (new_receipt c a q (sha256_hex E (ascii_json t)) now'))
         | Cancelled \<Rightarrow> lost_race E c a q (sha256_hex E (ascii_json t)) now'
         | Failed \<Rightarrow> eraise SdkError))))) w9 = (Inr r, w')"
  then have sig: "signed_in c a db0" and t3: "tables w3 = db0"
    using assms(2) by (auto simp: signed_in_def quiet_get [OF calm])
  from now t3 t assms(3) have n: "now' = now" "tables w8 = db0" "dumps True (PDict (request_payload q)) = Inr t"
    by (auto simp: e_now_def elift_def)
  from it n(2) have it': "it = db0 (dc_control c) (receipt_key a (sr_operation q))" "tables w9 = db0" by (auto simp: quiet_get [OF calm])
  show thesis
  proof (cases "row_of it")
    case (Some prev)
    with rest n(1) it' show thesis by (intro that [OF sig n(3)]) (auto simp: elift_def)
  next
    case None
    note rest = rest [unfolded None option.case n(1)]
    from rest show thesis
    proof (elim ebindE)
      fix pa w10 bit w11 acts w12 o' w13
      let ?acts = "device_authority c a @ [rate_update c a now] @ acts
          @ [new_item (dc_control c) (new_receipt c a q (sha256_hex E (ascii_json t)) now), new_item (dc_control c) (new_audit c a q now)]"
      assume w10: "pointer_and_active E c a w9 = (Inr pa, w10)" and w11: "find_binding E c a (PStr (sr_fingerprint q)) w10 = (Inr bit, w11)"
        and w12: "elift (replacement_operations c a (fst pa) (snd pa) (row_of bit)
            (active_row a (sr_fingerprint q) (sr_platform q) (sr_os q) (isoformat (now * 1000000)) (row_of bit)) (now * 1000000)) w11 = (Inr acts, w12)"
        and tr: "e_transact E ?acts w12 = (Inr o', w13)"
        and last: "(case o' of
           Committed \<Rightarrow> eret (public_receipt (new_receipt c a q (sha256_hex E (ascii_json t)) now))
         | Cancelled \<Rightarrow> lost_race E c a q (sha256_hex E (ascii_json t)) now
         | Failed \<Rightarrow> eraise SdkError) w13 = (Inr r, w')"
      have t12: "tables w12 = db0"
        using same [OF keeps_pa(2) w11 same [OF keeps_pa(1) w10 it'(2)]] w12 by (auto simp: elift_def)
      have "batch_holds ?acts db0"
      proof (rule ccontr)
        assume "\<not> batch_holds ?acts db0"
        with tr t12 have "o' = Cancelled" "tables w13 = db0" by (auto simp: quiet_transact [OF calm])
        with last it'(1) None show False
          by (auto simp: lost_race_def ebind_def quiet_get [OF calm] split: sum.splits prod.splits if_splits)
      qed
      with tr last t12 have "r = public_receipt (new_receipt c a q (sha256_hex E (ascii_json t)) now)" "tables w' = commit ?acts db0"
        by (auto simp: quiet_transact [OF calm])
      with \<open>batch_holds ?acts db0\<close> show thesis by (intro that [OF sig n(3)] disjI2 exI [of _ ?acts]) auto
    qed
  qed
qed

end

lemma replay_later:
  assumes "replay_receipt c prev h a op f now = Inr r" "now \<le> now'" "now' < inum r ''completedAtEpoch'' + receipt_days c * 86400"
  shows "replay_receipt c prev h a op f now' = Inr r"
proof -
  from assms(1) obtain v where v: "validated_receipt c prev a op now = Inr v" "r = public_receipt v"
    by (auto simp: replay_receipt_def rbind_Inr_iff)
  then obtain done' ex where e: "positive_version (dget prev ''completedAtEpoch'') = Some done'" "positive_version (dget prev ''expiresAt'') = Some ex"
      "v = dset ''expiresAt'' (PInt ex) (dset ''completedAtEpoch'' (PInt done') prev)" "done' \<le> now" "ex = done' + receipt_days c * 86400"
    by (auto simp: validated_receipt_def split: option.splits if_splits)
  then have "inum r ''completedAtEpoch'' = done'" "inum v ''expiresAt'' = ex" by (simp_all add: v public_receipt_def inum_def)
  with assms(3) e have "now' < ex" by simp
  from v e assms(2) have "validated_receipt c prev a op now' = Inr v" by (simp add: validated_receipt_def split: if_splits)
  with assms(1) v \<open>now' < ex\<close> \<open>inum v ''expiresAt'' = ex\<close> show ?thesis by (auto simp: replay_receipt_def rbind_Inr_iff)
qed

lemma replay_new:
  assumes "FINGERPRINT_PATTERN (sr_fingerprint q)" "fullmatch is_hex 64 64 h" "1 \<le> now" "0 < receipt_days c"
  shows "replay_receipt c (new_receipt c a q h now) h a (sr_operation q) (sr_fingerprint q) now = Inr (public_receipt (new_receipt c a q h now))"
proof -
  have v: "validated_receipt c (new_receipt c a q h now) a (sr_operation q) now = Inr (new_receipt c a q h now)"
    using assms by (simp add: validated_receipt_def new_receipt_def positive_version_def has_keys_def RECEIPT_FIELDS_def FINGERPRINT_OK_def)
  have "list_all is_hex h" using assms(2) by (simp add: fullmatch_def)
  then have "is_ascii h" by (auto simp: is_ascii_def list_all_iff is_hex_def is_digit_def)
  with v assms(4) show ?thesis
    by (simp add: replay_receipt_def) (simp add: new_receipt_def compare_digest_def inum_def)
qed

text \<open>
  C31 (equivalence). A self-recovery may be repeated. When a run has returned an answer and no other
  writer interferes, then the same request, sent again by the account at any later time before the
  receipt expires, returns exactly the same answer and changes nothing, whether the first run did the
  recovery or was itself a repetition.
\<close>

theorem self_recovery_replays:
  assumes "quiet E" "quiet E'" "\<And>i. clock E i = now" "\<And>i. clock E' i = now'" "sha256_hex E' = sha256_hex E"
    and "\<And>t. fullmatch is_hex 64 64 (sha256_hex E t)" "FINGERPRINT_PATTERN (sr_fingerprint q)" "1 \<le> now" "0 < receipt_days c"
    and "process_self_recovery E c a q w = (Inr r, w')"
    and "now \<le> now'" "now' < inum r ''completedAtEpoch'' + receipt_days c * 86400"
  shows "\<exists>w''. process_self_recovery E' c a q (w'\<lparr>tick := n\<rparr>) = (Inr r, w'') \<and> tables w'' = tables w'"
proof -
  let ?key = "receipt_key a (sr_operation q)"
  obtain t where sig: "signed_in c a (tables w)" and t: "dumps True (PDict (request_payload q)) = Inr t"
    and cases: "(\<exists>prev. row_of (tables w (dc_control c) ?key) = Some prev \<and> tables w' = tables w
        \<and> replay_receipt c prev (sha256_hex E (ascii_json t)) a (sr_operation q) (sr_fingerprint q) now = Inr r)
     \<or> (\<exists>acts. r = public_receipt (new_receipt c a q (sha256_hex E (ascii_json t)) now) \<and> batch_holds acts (tables w) \<and> tables w' = commit acts (tables w)
        \<and> set (device_authority c a) \<subseteq> set acts \<and> new_item (dc_control c) (new_receipt c a q (sha256_hex E (ascii_json t)) now) \<in> set acts)"
    by (rule quiet_world.self_recovery_cases [OF quiet_world.intro [OF assms(1)] assms(10) refl assms(3)])
  have "\<exists>prev. signed_in c a (tables w') \<and> row_of (tables w' (dc_control c) ?key) = Some prev
      \<and> replay_receipt c prev (sha256_hex E (ascii_json t)) a (sr_operation q) (sr_fingerprint q) now = Inr r"
    using cases
  proof (elim disjE exE conjE)
    fix acts
    let ?receipt = "new_receipt c a q (sha256_hex E (ascii_json t)) now"
    assume r: "r = public_receipt ?receipt" and acts: "batch_holds acts (tables w)" "tables w' = commit acts (tables w)"
      and mem: "set (device_authority c a) \<subseteq> set acts" "new_item (dc_control c) ?receipt \<in> set acts"
    have fixed: "tables w' (fst (target x)) (snd (target x)) = tables w (fst (target x)) (snd (target x))" if "x \<in> set (device_authority c a)" for x
    proof -
      from that mem(1) have "x \<in> set acts" by blast
      then have "tables w' (fst (target x)) (snd (target x)) = after x (tables w (fst (target x)) (snd (target x)))"
        unfolding acts(2) using batch_holds_at [OF acts(1)] by (intro commit_at) simp_all
      then show ?thesis using authority_checks [OF that] by (simp add: check_after)
    qed
    have "signed_in c a (tables w')"
      using sig fixed [of "device_authority c a ! 0"] fixed [of "device_authority c a ! 1"] by (simp add: signed_in_def device_authority_def)
    moreover have "tables w' (dc_control c) ?key = Some ?receipt"
      unfolding acts(2) using batch_holds_at [OF acts(1) mem(2)] commit_at [OF mem(2), of "dc_control c" ?key]
      by (simp add: new_item_def) (simp add: new_receipt_def item_key_def receipt_key_def)
    then have "row_of (tables w' (dc_control c) ?key) = Some ?receipt" by (simp add: row_of_def) (simp add: new_receipt_def)
    ultimately show ?thesis using replay_new [OF assms(7,6,8,9)] r by blast
  qed (use sig in auto)
  then obtain prev where prev: "signed_in c a (tables w')" "row_of (tables w' (dc_control c) ?key) = Some prev"
      "replay_receipt c prev (sha256_hex E' (ascii_json t)) a (sr_operation q) (sr_fingerprint q) now' = Inr r"
    using replay_later [OF _ assms(11,12)] assms(5) by auto
  show ?thesis
    using replay_run [OF assms(2,4), of c a "w'\<lparr>tick := n\<rparr>" q t prev r] prev t by simp
qed

lemma one_active_device_witness:
  "\<exists>E db. device_run E ex_dc ex_home db \<and> active_at ex_dc db ''alice'' ''f1''
     \<and> (\<exists>p. db ''B'' (pointer_key ''alice'') = Some p \<and> dget p ''bindingFingerprint'' = PStr ''f1'')"
proof -
  let ?E = "quiet_env 150 (\<lambda>_ s. s)\<lparr>older := \<lambda>_. own_rows ex_dc\<rparr>"
  obtain r m where run: "register_device ?E ex_dc ''alice'' ''f1'' ''ios'' ''17'' \<lparr>tables = ex_home, tick = 0\<rparr>
      = (Inr r, \<lparr>tables = ex_bound ''f1'', tick = m\<rparr>)"
    using ex_first_run [where rep = "\<lambda>_. own_rows ex_dc" and h = "\<lambda>_ s. s" and f = "''f1''" and n = 0]
    by (auto simp: ex_bound_def own_rows_def ex_home)
  have step: "device_run ?E ex_dc ex_home (ex_bound ''f1'')"
    using device_run.step [OF device_run.start device_step.registration [OF _ run]] by simp
  have ok: "one_binding ex_dc ex_home" by (simp add: one_binding_def account_ok_def active_at_def ex_home)
  have "(\<exists>p. ex_bound ''f1'' (dc_bindings ex_dc) (pointer_key ''alice'') = Some p \<and> dget p ''bindingFingerprint'' = PStr ''f1'')
    \<and> (\<forall>g e. ex_bound ''f1'' (dc_bindings ex_dc) (binding_key ''alice'' g) = Some e \<and> dget e ''status'' = PStr ''ACTIVE'' \<longrightarrow> g = ''f1'')"
    by (rule one_active_device [OF _ _ _ _ ok step, of "''alice''" "''f1''" "active_row ''alice'' ''f1'' ''ios'' ''17'' (isoformat 150000000) None"])
      (auto simp: quiet_env_def reference.transact_service_axioms own_rows_def ex_bound active_row_ok split: option.splits if_splits)
  with step show ?thesis by (intro exI [of _ ?E] exI [of _ "ex_bound ''f1''"]) (simp add: active_at_def ex_bound active_row_ok)
qed


definition ex_hash :: string where "ex_hash = replicate 64 CHR ''a''"

definition ex_lasting :: "int \<Rightarrow> env" where   \<comment> \<open>an undisturbed environment at a fixed time\<close>
  "ex_lasting n = quiet_env n (\<lambda>_ s. s)\<lparr>sha256_hex := \<lambda>_. ex_hash\<rparr>"

definition ex_request :: self_request where
  "ex_request = \<lparr>sr_operation = ''op'', sr_fingerprint = ''f1'', sr_platform = ''ios'', sr_os = ''17''\<rparr>"

definition ex_receipt :: dict where "ex_receipt = new_receipt ex_dc ''alice'' ex_request ex_hash 100"

definition ex_recovered :: db where   \<comment> \<open>an account that recovered its device at time 100\<close>
  "ex_recovered = (\<lambda>t k. if t = ''U'' \<and> k = profile_key ''alice'' then Some ex_person
     else if t = ''C'' \<and> k = receipt_key ''alice'' ''op'' then Some ex_receipt else None)"

lemma ex_lasting: "quiet (ex_lasting n)" "clock (ex_lasting n) i = n" "sha256_hex (ex_lasting n) t = ex_hash" "fullmatch is_hex 64 64 ex_hash"
  by (simp_all add: ex_lasting_def quiet_def quiet_env_def fullmatch_def ex_hash_def list_all_iff is_hex_def is_digit_def code_def)

lemma ex_replay_run: "\<exists>w. process_self_recovery (ex_lasting 150) ex_dc ''alice'' ex_request \<lparr>tables = ex_recovered, tick = 0\<rparr>
    = (Inr (public_receipt ex_receipt), w) \<and> tables w = ex_recovered"
proof -
  have f: "FINGERPRINT_PATTERN (sr_fingerprint ex_request)"
    by (simp add: ex_request_def FINGERPRINT_PATTERN_def first_then_def fullmatch_def is_alnum_def is_digit_def code_def)
  obtain t where t: "dumps True (PDict (request_payload ex_request)) = Inr t"
    by (auto simp: dumps_def request_payload_def ex_request_def)
  have sig: "signed_in ex_dc ''alice'' (tables \<lparr>tables = ex_recovered, tick = 0\<rparr>)"
    by (simp add: signed_in_def ex_recovered_def profile_active_def) (simp add: ex_person_def)
  have row: "row_of (tables \<lparr>tables = ex_recovered, tick = 0\<rparr> (dc_control ex_dc) (receipt_key ''alice'' (sr_operation ex_request))) = Some ex_receipt"
    by (simp add: ex_recovered_def ex_request_def row_of_def) (simp add: ex_receipt_def new_receipt_def)
  have "replay_receipt ex_dc ex_receipt ex_hash ''alice'' (sr_operation ex_request) (sr_fingerprint ex_request) 100 = Inr (public_receipt ex_receipt)"
    unfolding ex_receipt_def by (rule replay_new [OF f ex_lasting(4)]) simp_all
  then have "replay_receipt ex_dc ex_receipt ex_hash ''alice'' (sr_operation ex_request) (sr_fingerprint ex_request) 150 = Inr (public_receipt ex_receipt)"
    by (rule replay_later) (simp_all add: public_receipt_def inum_def, simp add: ex_receipt_def new_receipt_def)
  with replay_run [OF ex_lasting(1,2) sig t row] show ?thesis by (simp add: ex_lasting(3))
qed

lemma self_recovery_replays_witness:
  "\<exists>r w. process_self_recovery (ex_lasting 200) ex_dc ''alice'' ex_request \<lparr>tables = ex_recovered, tick = 7\<rparr> = (Inr r, w) \<and> tables w = ex_recovered"
proof -
  obtain w where run: "process_self_recovery (ex_lasting 150) ex_dc ''alice'' ex_request \<lparr>tables = ex_recovered, tick = 0\<rparr>
      = (Inr (public_receipt ex_receipt), w)" "tables w = ex_recovered" using ex_replay_run by blast
  have f: "FINGERPRINT_PATTERN (sr_fingerprint ex_request)"
    by (simp add: ex_request_def FINGERPRINT_PATTERN_def first_then_def fullmatch_def is_alnum_def is_digit_def code_def)
  have w: "w\<lparr>tick := 7\<rparr> = \<lparr>tables = ex_recovered, tick = 7\<rparr>" using run(2) by (cases w) simp
  from self_recovery_replays [OF ex_lasting(1,1) ex_lasting(2,2) _ _ f _ _ run(1), of 200 7]
  show ?thesis unfolding w by (auto simp: ex_lasting run(2) fun_eq_iff public_receipt_def inum_def ex_receipt_def new_receipt_def)
qed

end
