(* ===== verification/Sweeps.thy ===== *)
theory Sweeps
  imports Workers
begin

text \<open>
  The work of one sweep. Both background sweeps (\<open>Recovery.sweep\<close> and \<open>Expiry.sweep\<close>) read pages
  of a secondary index until a page is the last, the page limit is reached or the time runs out. The
  locale \<open>paged\<close> is what the index service promises, that a page has at most \<open>Limit\<close> items; the
  counts a sweep reports are then bounded by the pages it may read.
\<close>

section \<open>What a sweep counts\<close>

definition moved :: "nat \<Rightarrow> counts \<Rightarrow> counts \<Rightarrow> bool" where
  "moved k c c' =
     (examined c' = examined c + k \<and> pages c' = pages c \<and> completed c' + failed c' \<le> completed c + failed c + k
      \<and> operationsRetired c' \<le> operationsRetired c + k)"

lemma moved_trans: "moved j a b \<Longrightarrow> moved k b c \<Longrightarrow> moved (j + k) a c"
  by (auto simp: moved_def)

lemma moved_0: "moved 0 c c"
  by (simp add: moved_def)

definition tallied :: "counts \<Rightarrow> counts \<Rightarrow> bool" where
  \<comment> \<open>after one stage of an item: at most one completion or failure more\<close>
  "tallied c c' = (examined c' = examined c \<and> pages c' = pages c \<and> operationsRetired c' = operationsRetired c
     \<and> completed c' + failed c' \<le> completed c + failed c + 1)"

definition retired_one :: "counts \<Rightarrow> counts \<Rightarrow> bool" where
  "retired_one c c' = (examined c' = examined c \<and> pages c' = pages c \<and> completed c' + failed c' = completed c + failed c
     \<and> operationsRetired c' \<le> operationsRetired c + 1)"

lemmas count_defs = moved_def tallied_def retired_one_def

lemma yields_overdue: "yields (overdue E d c) c' \<Longrightarrow> \<exists>x. c' = c\<lparr>oldestOverdueSeconds := x\<rparr>"
proof (cases d)
  case None
  moreover assume "yields (overdue E d c) c'"
  ultimately have "c' = c\<lparr>oldestOverdueSeconds := oldestOverdueSeconds c\<rparr>" by (simp add: overdue_def)
  then show ?thesis by blast
next
  case (Some x)
  moreover assume "yields (overdue E d c) c'"
  ultimately show ?thesis by (auto simp: overdue_def dest!: yields_bind)
qed

lemma yields_counted:
  assumes "yields (ebind m (\<lambda>r. eret (if r then c\<lparr>completed := completed c + 1\<rparr> else c))) c'"
  shows "tallied c c'"
  using yields_bind [OF assms] by (auto simp: tallied_def)

lemma yields_handler:
  "yields (case e of AuthorityError x \<Rightarrow> eret a | KeyError x \<Rightarrow> eret a | TypeError \<Rightarrow> eret a | _ \<Rightarrow> eraise e) b \<Longrightarrow> b = a"
  by (cases e) auto

lemma yields_failure_counted:
  assumes "yields (failure_counted m c) c'" "\<And>x. yields m x \<Longrightarrow> tallied c x"
  shows "tallied c c'"
  using yields_catch [OF assms(1) [unfolded failure_counted_def]] assms(2)
  by (auto simp: tallied_def dest!: yields_handler)

lemma yields_retire_item: "yields (retire_item E table it c) c' \<Longrightarrow> retired_one c c'"
  by (auto simp: retire_item_def retired_one_def dest!: yields_bind)

lemma yields_stage:
  assumes "yields (if b then guarded_stage (retire_item E table it c) c else eret (c, False)) s"
  shows "if snd s then tallied c (fst s) else retired_one c (fst s)"
proof (cases b)
  case True
  with assms have "yields (guarded_stage (retire_item E table it c) c) s" by simp
  from yields_catch [OF this [unfolded guarded_stage_def]] show ?thesis
    by (auto simp: tallied_def dest!: yields_handler yields_bind yields_retire_item)
next
  case False
  with assms show ?thesis by (simp add: retired_one_def)
qed

lemma yields_attempt:
  assumes "yields (failure_counted (ebind a (\<lambda>x. ebind b (\<lambda>y. ebind (m x y)
    (\<lambda>r. eret (if r then c\<lparr>completed := completed c + 1\<rparr> else c))))) c) c'"
  shows "tallied c c'"
proof (rule yields_failure_counted [OF assms])
  fix u
  assume "yields (ebind a (\<lambda>x. ebind b (\<lambda>y. ebind (m x y) (\<lambda>r. eret (if r then c\<lparr>completed := completed c + 1\<rparr> else c))))) u"
  from yields_bind [OF this] obtain x where
    "yields (ebind b (\<lambda>y. ebind (m x y) (\<lambda>r. eret (if r then c\<lparr>completed := completed c + 1\<rparr> else c)))) u" by blast
  from yields_bind [OF this] show "tallied c u" using yields_counted by blast
qed

lemma yields_go:
  assumes "yields (ebind g (\<lambda>go. if \<not> go then eret (c, True) else m)) s" "yields m s \<Longrightarrow> fst s = c \<or> tallied c (fst s)"
  shows "fst s = c \<or> tallied c (fst s)"
  using yields_bind [OF assms(1)] assms(2) by (auto split: if_splits)

lemma yields_close: "yields (ebind m (\<lambda>c2. eret (c2, False))) s \<Longrightarrow> yields m (fst s)"
  by (auto dest!: yields_bind)

lemma moved_item:
  assumes "if snd q then tallied c1 (fst q) else retired_one c1 (fst q)" "yields (if snd q then eret (fst q, False) else m) s"
    and "yields m s \<Longrightarrow> fst s = fst q \<or> tallied (fst q) (fst s)" "c1 = c\<lparr>examined := examined c + 1, oldestOverdueSeconds := x\<rparr>"
  shows "moved 1 c (fst s)"
proof (cases "snd q")
  case True
  with assms(1,2,4) show ?thesis by (simp add: count_defs)
next
  case False
  with assms(2,3) have "fst s = fst q \<or> tallied (fst q) (fst s)" by simp
  with False assms(1,4) show ?thesis by (auto simp: count_defs)
qed

lemma yields_bindE:
  assumes "yields (ebind m f) y"
  obtains x where "yields m x" "yields (f x) y"
  using yields_bind [OF assms] by blast

lemma overdue_examined:
  assumes "yields (overdue E d (c\<lparr>examined := examined c + 1\<rparr>)) c1"
  obtains x where "c1 = c\<lparr>examined := examined c + 1, oldestOverdueSeconds := x\<rparr>"
  using yields_overdue [OF assms] by auto

section \<open>One item\<close>

lemma recovery_item_moves: "yields (recovery_item E table it c) s \<Longrightarrow> moved 1 c (fst s)"
  unfolding recovery_item_def
  apply (erule yields_bindE, erule overdue_examined)
  apply (erule yields_bindE, drule yields_stage)
  apply (erule (1) moved_item)
   apply (erule yields_go, rule disjI2, erule yields_attempt [OF yields_close])
  apply assumption
  done

lemma expiry_item_moves: "yields (expiry_item E table it c) s \<Longrightarrow> moved 1 c (fst s)"
  unfolding expiry_item_def Let_def
  apply (erule yields_bindE)
  apply (erule yields_bindE, erule overdue_examined)
  apply (erule yields_bindE, drule yields_stage)
  apply (erule (1) moved_item)
   apply (erule yields_go, erule yields_bindE)
   subgoal for d c1 x q due by (cases due) (simp_all add: yields_attempt [OF yields_close])
  apply assumption
  done

lemma yields_stop: "yields (ebind g (\<lambda>go. if \<not> go then eret a else m)) r \<Longrightarrow> r = a \<or> yields m r"
  by (erule yields_bindE) (simp split: if_splits)

lemma items_step:
  assumes "moved 1 c (fst s)" "yields (if snd s then eret (fst s, cursor, True) else m) r"
    and "yields m r \<Longrightarrow> \<exists>k \<le> n. moved k (fst s) (fst r)"
  shows "\<exists>k \<le> Suc n. moved k c (fst r)"
proof (cases "snd s")
  case True
  with assms(1,2) show ?thesis by (intro exI [of _ 1]) simp
next
  case False
  with assms(2,3) obtain k where "k \<le> n" "moved k (fst s) (fst r)" by auto
  with moved_trans [OF assms(1) this(2)] show ?thesis by (intro exI [of _ "1 + k"]) simp
qed

lemma recovery_items_move: "yields (recovery_items E table its cursor c) r \<Longrightarrow> \<exists>k \<le> length its. moved k c (fst r)"
proof (induction its arbitrary: cursor c)
  case Nil
  then show ?case by (auto simp: moved_def yields_def)
next
  case (Cons it its)
  from yields_stop [OF Cons.prems [unfolded recovery_items.simps]] show ?case
  proof
    assume "r = (c, cursor, True)"
    then show ?thesis by (intro exI [of _ 0]) (simp add: moved_0)
  qed (unfold list.size add_0_right add_Suc_right, elim yields_bindE, erule items_step [OF recovery_item_moves], assumption, rule Cons.IH)
qed

lemma expiry_items_move: "yields (expiry_items E table its cursor c) r \<Longrightarrow> \<exists>k \<le> length its. moved k c (fst r)"
proof (induction its arbitrary: cursor c)
  case Nil
  then show ?case by (auto simp: moved_def yields_def)
next
  case (Cons it its)
  from yields_stop [OF Cons.prems [unfolded expiry_items.simps]] show ?case
  proof
    assume "r = (c, cursor, True)"
    then show ?thesis by (intro exI [of _ 0]) (simp add: moved_0)
  qed (unfold list.size add_0_right add_Suc_right, elim yields_bindE, erule items_step [OF expiry_item_moves], assumption, erule yields_bindE, rule Cons.IH)
qed

section \<open>Pages\<close>

definition swept :: "nat \<Rightarrow> nat \<Rightarrow> counts \<Rightarrow> counts \<Rightarrow> bool" where
  \<comment> \<open>at most \<open>n\<close> pages of at most \<open>limit\<close> items\<close>
  "swept n limit c c' =
     (\<exists>j k. j \<le> n \<and> k \<le> j * limit \<and> pages c' = pages c + j \<and> examined c' = examined c + k
      \<and> completed c' + failed c' \<le> completed c + failed c + k \<and> operationsRetired c' \<le> operationsRetired c + k)"

lemma swept_none: "swept n limit c c"
  by (auto simp: swept_def)

lemma swept_page:
  assumes "moved k (c\<lparr>pages := pages c + 1\<rparr>) c1" "k \<le> limit" "swept n limit c1 c'"
  shows "swept (Suc n) limit c c'"
proof -
  from assms(3) obtain j m where "j \<le> n" "m \<le> j * limit" "pages c' = pages c1 + j" "examined c' = examined c1 + m"
    "completed c' + failed c' \<le> completed c1 + failed c1 + m" "operationsRetired c' \<le> operationsRetired c1 + m"
    unfolding swept_def by blast
  with assms(1,2) show ?thesis
    unfolding swept_def by (intro exI [of _ "Suc j"] exI [of _ "k + m"]) (auto simp: moved_def)
qed

locale paged =
  fixes E :: env
  assumes page_limit: "length (fst (index_page E i table index bound limit cursor)) \<le> limit"
begin

lemma yields_page: "yields (e_page E table index bound limit cursor) page \<Longrightarrow> length (fst page) \<le> limit"
  by (auto simp: yields_def e_page_def Let_def page_limit split: if_splits)

lemma recovery_pages_sweep: "yields (recovery_pages n E table limit cursor c) r \<Longrightarrow> swept n limit c (fst r)"
proof (induction n arbitrary: cursor c)
  case 0
  then show ?case by (auto simp: swept_none yields_def)
next
  case (Suc n)
  from Suc.prems consider "fst r = c" | now page s where
      "yields (e_page E table ''V1_PENDING'' (fmt_d 12 now @ ''~'') limit cursor) page"
      "yields (recovery_items E table (fst page) cursor (c\<lparr>pages := pages c + 1\<rparr>)) s"
      "fst r = fst s \<or> yields (recovery_pages n E table limit (snd page) (fst s)) r"
    by (auto elim!: yields_bindE split: if_splits)
  then show ?case
  proof cases
    case 2
    from recovery_items_move [OF 2(2)] yields_page [OF 2(1)] obtain k where "k \<le> limit" "moved k (c\<lparr>pages := pages c + 1\<rparr>) (fst s)"
      by (metis le_trans)
    moreover from 2(3) have "swept n limit (fst s) (fst r)" using Suc.IH swept_none by metis
    ultimately show ?thesis by (blast intro: swept_page)
  qed (simp add: swept_none)
qed

lemma expiry_pages_sweep: "yields (expiry_pages n E table limit cursor c) r \<Longrightarrow> swept n limit c (fst r)"
proof (induction n arbitrary: cursor c)
  case 0
  then show ?case by (auto simp: swept_none yields_def)
next
  case (Suc n)
  from Suc.prems consider "fst r = c" | now page s where
      "yields (e_page E table ''V1_EXPIRING'' (fmt_d 12 now @ ''~'') limit cursor) page"
      "yields (expiry_items E table (fst page) cursor (c\<lparr>pages := pages c + 1\<rparr>)) s"
      "fst r = fst s \<or> yields (expiry_pages n E table limit (snd page) (fst s)) r"
    by (auto elim!: yields_bindE split: if_splits)
  then show ?case
  proof cases
    case 2
    from expiry_items_move [OF 2(2)] yields_page [OF 2(1)] obtain k where "k \<le> limit" "moved k (c\<lparr>pages := pages c + 1\<rparr>) (fst s)"
      by (metis le_trans)
    moreover from 2(3) have "swept n limit (fst s) (fst r)" using Suc.IH swept_none by metis
    ultimately show ?thesis by (blast intro: swept_page)
  qed (simp add: swept_none)
qed

lemma sweep_swept:
  assumes "recovery_sweep E table cursor limit n w = (Inr r, w') \<or> expiry_sweep E table cursor limit n w = (Inr r, w')"
  shows "sweep_bounds limit n \<and> swept n limit no_counts (fst r)"
  using assms recovery_pages_sweep [of n table limit cursor no_counts r] expiry_pages_sweep [of n table limit cursor no_counts r]
  by (auto simp: recovery_sweep_def expiry_sweep_def ebind_Inr yields_def)

end

interpretation quiet_paged: paged "quiet_env now h" for now h
  by unfold_locales (simp add: quiet_env_def)

text \<open>
  C40 (bounds). A sweep does a bounded amount of work. When the index respects the page limit, a
  recovery or expiry sweep that returns has read at most the four pages it was allowed, of at most 25
  items each, so it examined at most 100 rows, whatever the rows are, whatever each of them raised and
  however often the index offers a next page; and it has reported for each row it examined at most one
  completion or failure and at most one retired reference.
\<close>

theorem sweep_work_bounded:
  assumes "\<And>i table index bound limit cursor. length (fst (index_page E i table index bound limit cursor)) \<le> limit"
    and "recovery_sweep E table cursor limit n w = (Inr r, w') \<or> expiry_sweep E table cursor limit n w = (Inr r, w')"
  shows "pages (fst r) \<le> n \<and> n \<le> 4 \<and> examined (fst r) \<le> pages (fst r) * limit \<and> examined (fst r) \<le> 100
     \<and> completed (fst r) + failed (fst r) \<le> examined (fst r) \<and> operationsRetired (fst r) \<le> examined (fst r)"
proof -
  from paged.sweep_swept [OF paged.intro [OF assms(1)] assms(2)] obtain j where
    b: "limit \<le> 25" "n \<le> 4" and j: "pages (fst r) = j" "j \<le> n" "examined (fst r) \<le> j * limit"
      "completed (fst r) + failed (fst r) \<le> examined (fst r)" "operationsRetired (fst r) \<le> examined (fst r)"
    by (auto simp: sweep_bounds_def swept_def no_counts_def)
  have "j * limit \<le> 4 * 25" using b j(2) by (intro mult_le_mono) simp_all
  with b j show ?thesis by simp
qed

text \<open>A page of one row that no worker may touch: the row is examined, counted as a failure and passed.\<close>

definition ex_poison :: dict where
  "ex_poison = [(''PK'', PStr ''x''), (''SK'', PStr ''y''), (''GSI1PK'', PStr ''V1_EXPIRING''), (''GSI1SK'', PStr ''0'')]"

abbreviation poison_env :: env where
  "poison_env \<equiv> (quiet_env 1000 (\<lambda>_ _. []))\<lparr>index_page := \<lambda>i t x b k c. (take k [ex_poison], [])\<rparr>"

lemma ex_poison_sweep: "expiry_sweep poison_env ''checks'' [] 25 4 \<lparr>tables = \<lambda>t k. None, tick = 0\<rparr>
   = (Inr (\<lparr>examined = 1, completed = 0, failed = 1, pages = 1, oldestOverdueSeconds = 0, operationsRetired = 0\<rparr>, []),
      \<lparr>tables = \<lambda>t k. None, tick = 4\<rparr>)"
  by (simp add: expiry_sweep_def sweep_bounds_def eval_nat_numeral no_counts_def ebind_def e_continue_def e_now_def e_page_def
      expiry_item_def indexed_expiry_def overdue_def has_operations_def ex_poison_def failure_counted_def expire_def
      prefixed_def partition_key_def item_cursor_def Let_def ecatch_def quiet_env_def)

lemma sweep_work_bounded_witness: "pages \<lparr>examined = 1, completed = 0, failed = 1, pages = 1, oldestOverdueSeconds = 0, operationsRetired = 0\<rparr> \<le> 4
   \<and> expiry_sweep poison_env ''checks'' [] 25 4 \<lparr>tables = \<lambda>t k. None, tick = 0\<rparr>
     = (Inr (\<lparr>examined = 1, completed = 0, failed = 1, pages = 1, oldestOverdueSeconds = 0, operationsRetired = 0\<rparr>, []),
        \<lparr>tables = \<lambda>t k. None, tick = 4\<rparr>)"
  using sweep_work_bounded [OF _ disjI2 [OF ex_poison_sweep]] ex_poison_sweep by simp

end
