(* ===== verification/HistorySettings.thy ===== *)
theory HistorySettings
  imports Settlement
begin

text \<open>
  The settings of the retained history (\<open>shared_history/config.py\<close>). They are read from the process
  environment, and each handler validates the part of the contract it relies on before it touches a
  table. The environment is a function from names to texts; \<open>loads\<close> is \<open>json.loads\<close>. The messages of
  the errors are not part of the model.
\<close>

section \<open>Reading the environment\<close>

text \<open>\<open>int(s)\<close> of any text: spaces around it, a sign, and single underscores between digits.\<close>

fun underscores_ok :: "bool \<Rightarrow> string \<Rightarrow> bool" where
  "underscores_ok after_digit [] = after_digit"
| "underscores_ok after_digit (c # cs) =
     (if c = CHR ''_'' then after_digit \<and> underscores_ok False cs else is_digit c \<and> underscores_ok True cs)"

definition int_text :: "string \<Rightarrow> int result" where
  "int_text s =
     (let t = strip s; negative = (t \<noteq> [] \<and> hd t = CHR ''-'');
          body = (if t \<noteq> [] \<and> (hd t = CHR ''-'' \<or> hd t = CHR ''+'') then tl t else t) in
      if underscores_ok False body
      then rbind (parse_int (filter is_digit body)) (\<lambda>n. Inr (if negative then - n else n))
      else Inl ValueError)"

definition py_int :: "pyval \<Rightarrow> int result" where   \<comment> \<open>\<open>int(v)\<close>\<close>
  "py_int v = (case v of PStr t \<Rightarrow> int_text t | _ \<Rightarrow> whole v)"

lemma py_int_PInt [simp]: "py_int (PInt n) = Inr n"
  by (simp add: py_int_def whole_def)

definition os_get :: "(string \<Rightarrow> string option) \<Rightarrow> string \<Rightarrow> string \<Rightarrow> string" where
  "os_get env name dflt = (case env name of None \<Rightarrow> dflt | Some t \<Rightarrow> t)"

abbreviation HISTORY_UNAVAILABLE :: exc where "HISTORY_UNAVAILABLE \<equiv> HistoryError ''SERVER_UNAVAILABLE'' []"
abbreviation HISTORY_DISABLED :: exc where "HISTORY_DISABLED \<equiv> HistoryError ''FEATURE_DISABLED'' []"

definition enabled_flag :: "(string \<Rightarrow> string option) \<Rightarrow> string \<Rightarrow> bool" where
  "enabled_flag env name = (lower (strip (os_get env name ''false'')) = ''true'')"

definition as_unavailable :: "'a result \<Rightarrow> 'a result" where   \<comment> \<open>\<open>except ValueError: raise HistoryError(...)\<close>\<close>
  "as_unavailable r = (case r of Inl ValueError \<Rightarrow> Inl HISTORY_UNAVAILABLE | _ \<Rightarrow> r)"

definition optional_positive_int :: "(string \<Rightarrow> string option) \<Rightarrow> string \<Rightarrow> int option \<Rightarrow> int option result" where
  "optional_positive_int env name dflt =
     (let raw = os_get env name (case dflt of None \<Rightarrow> [] | Some n \<Rightarrow> show_int n) in
      if strip raw = [] then Inr None else
      rbind (as_unavailable (int_text raw)) (\<lambda>n.
      rbind (raise_if (n < 1) HISTORY_UNAVAILABLE) (\<lambda>_. Inr (Some n))))"

definition optional_nonnegative_int :: "(string \<Rightarrow> string option) \<Rightarrow> string \<Rightarrow> int option result" where
  "optional_nonnegative_int env name =
     (case env name of
        None \<Rightarrow> Inr None
      | Some raw \<Rightarrow>
          if strip raw = [] then Inr None else
          rbind (as_unavailable (int_text raw)) (\<lambda>n.
          rbind (raise_if (n < 0) HISTORY_UNAVAILABLE) (\<lambda>_. Inr (Some n))))"

section \<open>The settings\<close>

definition badge_entry :: "string \<Rightarrow> int \<Rightarrow> pyval" where
  "badge_entry name n =
     PDict [(''id'', PStr name), (''threshold'', PInt n), (''titleKey'', PStr (''badges.'' @ name @ ''.title'')),
       (''descriptionKey'', PStr (''badges.'' @ name @ ''.description''))]"

definition DEFAULT_BADGE_CATALOG :: "pyval list" where
  "DEFAULT_BADGE_CATALOG = [badge_entry ''checks_1'' 1, badge_entry ''checks_5'' 5, badge_entry ''checks_20'' 20]"

definition as_tuple :: "pyval \<Rightarrow> pyval list result" where   \<comment> \<open>\<open>tuple(v)\<close>\<close>
  "as_tuple v =
     (case v of
        PList xs \<Rightarrow> Inr xs
      | PStr s \<Rightarrow> Inr (map (\<lambda>c. PStr [c]) s)
      | PDict d \<Rightarrow> Inr (map (\<lambda>kv. PStr (fst kv)) d)
      | _ \<Rightarrow> Inl TypeError)"

definition badge_catalog_from :: "(string \<Rightarrow> pyval option) \<Rightarrow> string \<Rightarrow> pyval list result" where
  "badge_catalog_from loads raw =
     (if raw = [] then Inr DEFAULT_BADGE_CATALOG else
      case loads raw of
        None \<Rightarrow> Inl HISTORY_UNAVAILABLE
      | Some v \<Rightarrow> rejected (as_tuple v) HISTORY_UNAVAILABLE)"

record history_settings =
  hs_environment :: string
  hs_tokens :: token_settings
  hs_content_table_name :: string
  hs_control_table_name :: string
  hs_device_bindings_table_name :: string
  hs_users_table_name :: string
  hs_deletion_ledger_table_name :: string
  hs_analysis_abuse_table_name :: string
  hs_expiration_index_name :: string
  hs_lifecycle_index_name :: string
  hs_schema_version :: int
  hs_retention_days :: int
  hs_erasure_sla_hours :: int
  hs_reads_enabled :: bool
  hs_writes_enabled :: bool
  hs_mutations_enabled :: bool
  hs_recognition_enabled :: bool
  hs_lifecycle_enabled :: bool
  hs_durable_replay_enabled :: bool
  hs_api_contract_status :: string
  hs_recognition_contract_status :: string
  hs_pitr_policy_approved :: bool
  hs_control_retention_policy_approved :: bool
  hs_cursor_secret_name :: string
  hs_cursor_ttl_seconds :: "int option"
  hs_default_page_size :: "int option"
  hs_max_page_size :: "int option"
  hs_max_response_bytes :: "int option"
  hs_dedup_retention_days :: "int option"
  hs_mutation_retention_days :: "int option"
  hs_max_summary_bytes :: "int option"
  hs_max_list_items :: "int option"
  hs_max_text_field_bytes :: "int option"
  hs_badge_catalog :: "pyval list"
  hs_new_id_recognition_policy :: string
  hs_lifecycle_start_epoch_hour :: "int option"
  hs_badge_qualification_policy :: string
  hs_lifecycle_max_items_per_sweep :: "int option"
  hs_erasure_batch_size :: "int option"
  hs_completion_stuck_seconds :: "int option"
  hs_completion_recheck_seconds :: "int option"
  hs_lifecycle_max_bucket_queries_per_sweep :: "int option"
  hs_expiration_reconciliation_hours :: "int option"

definition history_from_env :: "(string \<Rightarrow> pyval option) \<Rightarrow> (string \<Rightarrow> string option) \<Rightarrow> history_settings result" where
  "history_from_env loads env =
     rbind (as_unavailable (int_text (os_get env ''HISTORY_SCHEMA_VERSION'' ''1''))) (\<lambda>schema_version.
     rbind (as_unavailable (int_text (os_get env ''HISTORY_RETENTION_DAYS'' ''90''))) (\<lambda>retention_days.
     rbind (as_unavailable (int_text (os_get env ''HISTORY_ERASURE_SLA_HOURS'' ''24''))) (\<lambda>erasure_sla_hours.
     rbind (badge_catalog_from loads (os_get env ''HISTORY_BADGE_CATALOG_JSON'' [])) (\<lambda>catalog.
     rbind (optional_positive_int env ''HISTORY_CURSOR_TTL_SECONDS'' (Some 900)) (\<lambda>cursor_ttl_seconds.
     rbind (optional_positive_int env ''HISTORY_DEFAULT_PAGE_SIZE'' (Some 20)) (\<lambda>default_page_size.
     rbind (optional_positive_int env ''HISTORY_MAX_PAGE_SIZE'' (Some 50)) (\<lambda>max_page_size.
     rbind (optional_positive_int env ''HISTORY_MAX_RESPONSE_BYTES'' (Some 262144)) (\<lambda>max_response_bytes.
     rbind (optional_positive_int env ''HISTORY_DEDUP_RETENTION_DAYS'' (Some 120)) (\<lambda>dedup_retention_days.
     rbind (optional_positive_int env ''HISTORY_MUTATION_RETENTION_DAYS'' (Some 7)) (\<lambda>mutation_retention_days.
     rbind (optional_positive_int env ''HISTORY_MAX_SUMMARY_BYTES'' (Some 4096)) (\<lambda>max_summary_bytes.
     rbind (optional_positive_int env ''HISTORY_MAX_LIST_ITEMS'' (Some 20)) (\<lambda>max_list_items.
     rbind (optional_positive_int env ''HISTORY_MAX_TEXT_FIELD_BYTES'' (Some 1024)) (\<lambda>max_text_field_bytes.
     rbind (optional_nonnegative_int env ''HISTORY_LIFECYCLE_START_EPOCH_HOUR'') (\<lambda>lifecycle_start_epoch_hour.
     rbind (optional_positive_int env ''HISTORY_LIFECYCLE_MAX_ITEMS_PER_SWEEP'' None) (\<lambda>lifecycle_max_items_per_sweep.
     rbind (optional_positive_int env ''HISTORY_ERASURE_BATCH_SIZE'' None) (\<lambda>erasure_batch_size.
     rbind (optional_positive_int env ''HISTORY_COMPLETION_STUCK_SECONDS'' None) (\<lambda>completion_stuck_seconds.
     rbind (optional_positive_int env ''HISTORY_COMPLETION_RECHECK_SECONDS'' None) (\<lambda>completion_recheck_seconds.
     rbind (optional_positive_int env ''HISTORY_LIFECYCLE_MAX_BUCKET_QUERIES_PER_SWEEP'' None) (\<lambda>lifecycle_max_bucket_queries_per_sweep.
     rbind (optional_positive_int env ''HISTORY_EXPIRATION_RECONCILIATION_HOURS'' None) (\<lambda>expiration_reconciliation_hours.
     Inr \<lparr>hs_environment = os_get env ''APP_ENVIRONMENT'' [],
       hs_tokens = \<lparr>cognito_issuer = os_get env ''COGNITO_ISSUER'' [], cognito_app_client_id = os_get env ''COGNITO_APP_CLIENT_ID'' [],
         cognito_required_scope = os_get env ''COGNITO_REQUIRED_SCOPE'' ''aws.cognito.signin.user.admin''\<rparr>,
       hs_content_table_name = os_get env ''HISTORY_CONTENT_TABLE_NAME'' [],
       hs_control_table_name = os_get env ''HISTORY_CONTROL_TABLE_NAME'' [],
       hs_device_bindings_table_name = os_get env ''DEVICE_BINDINGS_TABLE_NAME'' [],
       hs_users_table_name = os_get env ''USERS_TABLE_NAME'' [],
       hs_deletion_ledger_table_name = os_get env ''DELETION_LEDGER_TABLE_NAME'' [],
       hs_analysis_abuse_table_name = os_get env ''ANALYSIS_ABUSE_TABLE_NAME'' [],
       hs_expiration_index_name = os_get env ''HISTORY_EXPIRATION_INDEX_NAME'' ''ExpirationIndex'',
       hs_lifecycle_index_name = os_get env ''HISTORY_LIFECYCLE_INDEX_NAME'' ''PendingLifecycleIndex'',
       hs_schema_version = schema_version,
       hs_retention_days = retention_days,
       hs_erasure_sla_hours = erasure_sla_hours,
       hs_reads_enabled = enabled_flag env ''HISTORY_READS_ENABLED'',
       hs_writes_enabled = enabled_flag env ''HISTORY_WRITES_ENABLED'',
       hs_mutations_enabled = enabled_flag env ''HISTORY_MUTATIONS_ENABLED'',
       hs_recognition_enabled = enabled_flag env ''RECOGNITION_ENABLED'',
       hs_lifecycle_enabled = enabled_flag env ''HISTORY_LIFECYCLE_ENABLED'',
       hs_durable_replay_enabled = enabled_flag env ''HISTORY_DURABLE_REPLAY_ENABLED'',
       hs_api_contract_status = os_get env ''HISTORY_API_CONTRACT_STATUS'' ''pending'',
       hs_recognition_contract_status = os_get env ''HISTORY_RECOGNITION_CONTRACT_STATUS'' ''pending'',
       hs_pitr_policy_approved = enabled_flag env ''HISTORY_PITR_POLICY_APPROVED'',
       hs_control_retention_policy_approved = enabled_flag env ''HISTORY_CONTROL_RETENTION_POLICY_APPROVED'',
       hs_cursor_secret_name = os_get env ''HISTORY_CURSOR_SECRET_NAME'' [],
       hs_cursor_ttl_seconds = cursor_ttl_seconds,
       hs_default_page_size = default_page_size,
       hs_max_page_size = max_page_size,
       hs_max_response_bytes = max_response_bytes,
       hs_dedup_retention_days = dedup_retention_days,
       hs_mutation_retention_days = mutation_retention_days,
       hs_max_summary_bytes = max_summary_bytes,
       hs_max_list_items = max_list_items,
       hs_max_text_field_bytes = max_text_field_bytes,
       hs_badge_catalog = catalog,
       hs_new_id_recognition_policy = os_get env ''HISTORY_NEW_ID_RECOGNITION_POLICY'' ''count'',
       hs_lifecycle_start_epoch_hour = lifecycle_start_epoch_hour,
       hs_badge_qualification_policy = os_get env ''HISTORY_BADGE_QUALIFICATION_POLICY'' ''all_server_accepted_completed_assessments'',
       hs_lifecycle_max_items_per_sweep = lifecycle_max_items_per_sweep,
       hs_erasure_batch_size = erasure_batch_size,
       hs_completion_stuck_seconds = completion_stuck_seconds,
       hs_completion_recheck_seconds = completion_recheck_seconds,
       hs_lifecycle_max_bucket_queries_per_sweep = lifecycle_max_bucket_queries_per_sweep,
       hs_expiration_reconciliation_hours = expiration_reconciliation_hours\<rparr>))))))))))))))))))))"

section \<open>Validation\<close>

definition validate_common :: "history_settings \<Rightarrow> unit result" where
  "validate_common s =
     rbind (raise_if (hs_environment s \<notin> set [''dev'', ''uat'', ''prod'']) HISTORY_UNAVAILABLE) (\<lambda>_.
     rbind (raise_if (hs_content_table_name s = [] \<or> hs_control_table_name s = []) HISTORY_UNAVAILABLE) (\<lambda>_.
     rbind (raise_if (hs_schema_version s \<noteq> 1 \<or> hs_retention_days s \<noteq> 90 \<or> hs_erasure_sla_hours s \<noteq> 24) HISTORY_UNAVAILABLE) (\<lambda>_.
     raise_if (\<not> hs_pitr_policy_approved s \<or> \<not> hs_control_retention_policy_approved s) HISTORY_UNAVAILABLE)))"

definition validate_api_auth :: "history_settings \<Rightarrow> unit result" where
  "validate_api_auth s =
     raise_if (\<not> prefixed ''https://cognito-idp.'' (\<lambda>_. True) (cognito_issuer (hs_tokens s))
       \<or> cognito_app_client_id (hs_tokens s) = []
       \<or> cognito_required_scope (hs_tokens s) \<noteq> ''aws.cognito.signin.user.admin'') HISTORY_UNAVAILABLE"

definition validate_reads :: "history_settings \<Rightarrow> unit result" where
  "validate_reads s =
     rbind (raise_if (\<not> hs_reads_enabled s) HISTORY_DISABLED) (\<lambda>_.
     rbind (validate_common s) (\<lambda>_.
     rbind (validate_api_auth s) (\<lambda>_.
     rbind (raise_if (hs_device_bindings_table_name s = []) HISTORY_UNAVAILABLE) (\<lambda>_.
     rbind (raise_if (hs_users_table_name s = [] \<or> hs_deletion_ledger_table_name s = []) HISTORY_UNAVAILABLE) (\<lambda>_.
     rbind (raise_if (hs_api_contract_status s \<noteq> ''approved'') HISTORY_UNAVAILABLE) (\<lambda>_.
     rbind (raise_if (None \<in> set [hs_cursor_ttl_seconds s, hs_default_page_size s, hs_max_page_size s, hs_max_response_bytes s]
         \<or> hs_cursor_secret_name s = []) HISTORY_UNAVAILABLE) (\<lambda>_.
     raise_if (hs_default_page_size s \<noteq> Some 20 \<or> hs_max_page_size s \<noteq> Some 50
         \<or> hs_max_response_bytes s \<noteq> Some 262144 \<or> hs_cursor_ttl_seconds s \<noteq> Some 900) HISTORY_UNAVAILABLE)))))))"

definition dedup_retention_covers_cleanup :: "history_settings \<Rightarrow> bool" where
  "dedup_retention_covers_cleanup s =
     (case hs_dedup_retention_days s of
        None \<Rightarrow> False
      | Some days \<Rightarrow> days * 86400 \<ge> hs_retention_days s * 86400 + hs_erasure_sla_hours s * 3600)"

definition validate_write_contract :: "history_settings \<Rightarrow> unit result" where
  "validate_write_contract s =
     rbind (validate_common s) (\<lambda>_.
     rbind (raise_if (None \<in> set [hs_dedup_retention_days s, hs_max_summary_bytes s, hs_max_list_items s, hs_max_text_field_bytes s])
       HISTORY_UNAVAILABLE) (\<lambda>_.
     rbind (raise_if (hs_max_summary_bytes s \<noteq> Some 4096 \<or> hs_max_list_items s \<noteq> Some 20 \<or> hs_max_text_field_bytes s \<noteq> Some 1024)
       HISTORY_UNAVAILABLE) (\<lambda>_.
     raise_if (\<not> dedup_retention_covers_cleanup s) HISTORY_UNAVAILABLE)))"

definition validate_writes :: "history_settings \<Rightarrow> unit result" where
  "validate_writes s =
     rbind (raise_if (\<not> hs_writes_enabled s) HISTORY_DISABLED) (\<lambda>_.
     rbind (validate_write_contract s) (\<lambda>_.
     rbind (raise_if (hs_users_table_name s = [] \<or> hs_deletion_ledger_table_name s = []) HISTORY_UNAVAILABLE) (\<lambda>_.
     raise_if (\<not> hs_durable_replay_enabled s) HISTORY_UNAVAILABLE)))"

definition validate_durable_replay :: "history_settings \<Rightarrow> unit result" where
  "validate_durable_replay s =
     rbind (raise_if (\<not> hs_durable_replay_enabled s) HISTORY_DISABLED) (\<lambda>_. validate_write_contract s)"

definition validate_mutations :: "history_settings \<Rightarrow> unit result" where
  "validate_mutations s =
     rbind (raise_if (\<not> hs_mutations_enabled s) HISTORY_DISABLED) (\<lambda>_.
     rbind (validate_common s) (\<lambda>_.
     rbind (validate_api_auth s) (\<lambda>_.
     rbind (raise_if (hs_device_bindings_table_name s = [] \<or> hs_users_table_name s = [] \<or> hs_deletion_ledger_table_name s = [])
       HISTORY_UNAVAILABLE) (\<lambda>_.
     raise_if (hs_api_contract_status s \<noteq> ''approved'' \<or> hs_mutation_retention_days s \<noteq> Some 7
       \<or> \<not> dedup_retention_covers_cleanup s \<or> hs_analysis_abuse_table_name s = []) HISTORY_UNAVAILABLE))))"

definition badge_column :: "pyval list \<Rightarrow> string \<Rightarrow> pyval list" where
  \<comment> \<open>\<open>[item.get(key) for item in catalog if isinstance(item, dict)]\<close>\<close>
  "badge_column catalog key = concat (map (\<lambda>v. case as_dict v of None \<Rightarrow> [] | Some d \<Rightarrow> [dget d key]) catalog)"

fun is_int :: "pyval \<Rightarrow> bool" where   \<comment> \<open>an \<open>int\<close> that is not a \<open>bool\<close>\<close>
  "is_int (PInt n) = True"
| "is_int _ = False"

definition validate_recognition :: "history_settings \<Rightarrow> unit result" where
  "validate_recognition s =
     (let thresholds = badge_column (hs_badge_catalog s) ''threshold''; ids = badge_column (hs_badge_catalog s) ''id'';
          expected_ids = [''checks_1'', ''checks_5'', ''checks_20'']
      in rbind (raise_if (\<not> hs_recognition_enabled s) HISTORY_DISABLED) (\<lambda>_.
         rbind (validate_common s) (\<lambda>_.
         rbind (raise_if (hs_recognition_contract_status s \<noteq> ''approved'') HISTORY_UNAVAILABLE) (\<lambda>_.
         rbind (raise_if (hs_new_id_recognition_policy s \<noteq> ''count'') HISTORY_UNAVAILABLE) (\<lambda>_.
         rbind (raise_if (hs_badge_qualification_policy s \<noteq> ''all_server_accepted_completed_assessments'') HISTORY_UNAVAILABLE) (\<lambda>_.
         raise_if (\<not> pyeq (PList thresholds) (PList [PInt 1, PInt 5, PInt 20]) \<or> \<not> list_all is_int thresholds
           \<or> ids \<noteq> map PStr expected_ids
           \<or> badge_column (hs_badge_catalog s) ''titleKey'' \<noteq> map (\<lambda>b. PStr (''badges.'' @ b @ ''.title'')) expected_ids
           \<or> badge_column (hs_badge_catalog s) ''descriptionKey'' \<noteq> map (\<lambda>b. PStr (''badges.'' @ b @ ''.description'')) expected_ids)
           HISTORY_UNAVAILABLE))))))"

definition at_most :: "int \<Rightarrow> int option \<Rightarrow> bool" where   \<comment> \<open>\<open>x is not None and x <= n\<close>\<close>
  "at_most n x = (case x of None \<Rightarrow> False | Some k \<Rightarrow> k \<le> n)"

definition at_least :: "int \<Rightarrow> int option \<Rightarrow> bool" where
  "at_least n x = (case x of None \<Rightarrow> False | Some k \<Rightarrow> n \<le> k)"

definition validate_lifecycle :: "history_settings \<Rightarrow> unit result" where
  "validate_lifecycle s =
     rbind (raise_if (\<not> hs_lifecycle_enabled s) HISTORY_DISABLED) (\<lambda>_.
     rbind (validate_common s) (\<lambda>_.
     rbind (raise_if (\<not> dedup_retention_covers_cleanup s) HISTORY_UNAVAILABLE) (\<lambda>_.
     raise_if ((case hs_lifecycle_start_epoch_hour s of None \<Rightarrow> True | Some h \<Rightarrow> h mod 3600 \<noteq> 0)
       \<or> \<not> at_least 3 (hs_lifecycle_max_items_per_sweep s) \<or> \<not> at_most 1000 (hs_lifecycle_max_items_per_sweep s)
       \<or> \<not> at_least 40 (hs_lifecycle_max_bucket_queries_per_sweep s) \<or> \<not> at_most 1000 (hs_lifecycle_max_bucket_queries_per_sweep s)
       \<or> \<not> at_most 168 (hs_expiration_reconciliation_hours s) \<or> \<not> at_most 25 (hs_erasure_batch_size s)
       \<or> hs_completion_stuck_seconds s = None \<or> hs_completion_recheck_seconds s = None \<or> hs_mutation_retention_days s = None
       \<or> hs_analysis_abuse_table_name s = [] \<or> hs_deletion_ledger_table_name s = []) HISTORY_UNAVAILABLE)))"

section \<open>Numbers of the environment\<close>

lemma underscores_digits: "list_all is_digit s \<Longrightarrow> underscores_ok b s \<longleftrightarrow> b \<or> s \<noteq> []"
proof (induction s arbitrary: b)
  case (Cons c s)
  then have "c \<noteq> CHR ''_''" by (auto simp: is_digit_def code_def)
  with Cons show ?case by simp
qed simp

lemma strip_digits: "list_all is_digit s \<Longrightarrow> strip s = s"
proof -
  have "list_all is_digit t \<Longrightarrow> dropWhile is_space t = t" for t
    by (cases t) (auto simp: is_digit_def is_space_def)
  moreover assume "list_all is_digit s"
  ultimately show ?thesis by (simp add: strip_def)
qed

lemma to_base_nonempty: "to_base b n \<noteq> []"
  by (simp add: to_base.simps [of b n])

text \<open>\<open>int(str(n)) == n\<close>, for numbers well below the length of text that Python converts.\<close>

lemma int_text_show:
  assumes "0 \<le> n" "n < 1000000000"
  shows "int_text (show_int n) = Inr n"
proof -
  define t where "t = to_base 10 (nat n)"
  have t: "list_all is_digit t" "t \<noteq> []" "of_base 10 t = nat n"
    by (simp_all add: t_def to_base_digits to_base_nonempty of_base_to_base)
  have "nat n < 10 ^ 9" using assms by (simp add: nat_less_iff)
  then have "length t \<le> 9" unfolding t_def by (rule length_to_base [rotated]) simp_all
  have "show_int n = t" using assms by (simp add: show_int_def t_def)
  moreover from t have "hd t \<noteq> CHR ''-''" "hd t \<noteq> CHR ''+''"
    by (cases t; auto simp: is_digit_def code_def)+
  moreover from t have "filter is_digit t = t" by (simp add: filter_id_conv list_all_iff)
  ultimately show ?thesis using t \<open>length t \<le> 9\<close> assms
    by (simp add: int_text_def Let_def strip_digits underscores_digits parse_int_def)
qed

lemma show_int_nonempty: "0 \<le> n \<Longrightarrow> strip (show_int n) \<noteq> []"
  by (simp add: show_int_def strip_digits to_base_digits to_base_nonempty)

lemma optional_positive_show:
  assumes "os_get env name (case dflt of None \<Rightarrow> [] | Some m \<Rightarrow> show_int m) = show_int n" "1 \<le> n" "n < 1000000000"
  shows "optional_positive_int env name dflt = Inr (Some n)"
  using assms by (simp add: optional_positive_int_def Let_def show_int_nonempty int_text_show as_unavailable_def)

lemma optional_nonnegative_show:
  "env name = Some (show_int n) \<Longrightarrow> 0 \<le> n \<Longrightarrow> n < 1000000000 \<Longrightarrow> optional_nonnegative_int env name = Inr (Some n)"
  by (simp add: optional_nonnegative_int_def show_int_nonempty int_text_show as_unavailable_def)

lemma optional_positive_bound: "optional_positive_int env name dflt = Inr (Some n) \<Longrightarrow> 1 \<le> n"
  by (auto simp: optional_positive_int_def Let_def rbind_Inr_iff split: if_splits)

lemma optional_nonnegative_bound: "optional_nonnegative_int env name = Inr (Some n) \<Longrightarrow> 0 \<le> n"
  by (auto simp: optional_nonnegative_int_def rbind_Inr_iff split: if_splits option.splits)

lemma history_from_env_bounds:
  assumes "history_from_env loads env = Inr s"
  shows "hs_erasure_batch_size s = Some n \<longrightarrow> 1 \<le> n" "hs_expiration_reconciliation_hours s = Some n \<longrightarrow> 1 \<le> n"
    "hs_lifecycle_start_epoch_hour s = Some n \<longrightarrow> 0 \<le> n" "hs_completion_stuck_seconds s = Some n \<longrightarrow> 1 \<le> n"
    "hs_completion_recheck_seconds s = Some n \<longrightarrow> 1 \<le> n"
  using assms unfolding history_from_env_def rbind_Inr_iff
  by (elim exE conjE; auto dest: optional_positive_bound optional_nonnegative_bound)+

lemma bounds_of [simp]:
  "at_most n x \<longleftrightarrow> (\<exists>k. x = Some k \<and> k \<le> n)" "at_least n x \<longleftrightarrow> (\<exists>k. x = Some k \<and> n \<le> k)"
  by (auto simp: at_most_def at_least_def split: option.splits)

text \<open>
  C16 (bounds). Settings that are read from the environment and accepted for the lifecycle sweep bound
  every sweep: it visits between 3 and 1000 items and between 40 and 1000 buckets, erases between 1
  and 25 items in a batch, reconciles at most 168 hours back, and starts at a whole hour.
\<close>

theorem lifecycle_settings_bounded:
  assumes "history_from_env loads env = Inr s" "validate_lifecycle s = Inr ()"
  shows "\<exists>items_cap queries batch hours start. hs_lifecycle_max_items_per_sweep s = Some items_cap \<and> 3 \<le> items_cap \<and> items_cap \<le> 1000
     \<and> hs_lifecycle_max_bucket_queries_per_sweep s = Some queries \<and> 40 \<le> queries \<and> queries \<le> 1000
     \<and> hs_erasure_batch_size s = Some batch \<and> 1 \<le> batch \<and> batch \<le> 25
     \<and> hs_expiration_reconciliation_hours s = Some hours \<and> 1 \<le> hours \<and> hours \<le> 168
     \<and> hs_lifecycle_start_epoch_hour s = Some start \<and> 0 \<le> start \<and> start mod 3600 = 0"
proof -
  from assms(2) obtain items_cap queries batch hours start where v:
      "hs_lifecycle_max_items_per_sweep s = Some items_cap" "3 \<le> items_cap" "items_cap \<le> 1000"
      "hs_lifecycle_max_bucket_queries_per_sweep s = Some queries" "40 \<le> queries" "queries \<le> 1000"
      "hs_erasure_batch_size s = Some batch" "batch \<le> 25" "hs_expiration_reconciliation_hours s = Some hours" "hours \<le> 168"
      "hs_lifecycle_start_epoch_hour s = Some start" "start mod 3600 = 0"
    by (cases "hs_lifecycle_start_epoch_hour s") (auto simp: validate_lifecycle_def rbind_Inr_iff)
  moreover from v have "1 \<le> batch" "1 \<le> hours" "0 \<le> start" using history_from_env_bounds [OF assms(1)] by simp_all
  ultimately show ?thesis by simp
qed

text \<open>An environment in which every part of the history is enabled.\<close>

definition ex_flags :: "string list" where
  "ex_flags = [''HISTORY_READS_ENABLED'', ''HISTORY_WRITES_ENABLED'', ''HISTORY_LIFECYCLE_ENABLED'', ''HISTORY_DURABLE_REPLAY_ENABLED'',
     ''HISTORY_PITR_POLICY_APPROVED'', ''HISTORY_CONTROL_RETENTION_POLICY_APPROVED'']"

definition ex_numbers :: "(string \<times> int) list" where
  "ex_numbers = [(''HISTORY_SCHEMA_VERSION'', 1), (''HISTORY_RETENTION_DAYS'', 90), (''HISTORY_ERASURE_SLA_HOURS'', 24),
     (''HISTORY_LIFECYCLE_START_EPOCH_HOUR'', 7200), (''HISTORY_LIFECYCLE_MAX_ITEMS_PER_SWEEP'', 100),
     (''HISTORY_ERASURE_BATCH_SIZE'', 25), (''HISTORY_COMPLETION_STUCK_SECONDS'', 60), (''HISTORY_COMPLETION_RECHECK_SECONDS'', 60),
     (''HISTORY_LIFECYCLE_MAX_BUCKET_QUERIES_PER_SWEEP'', 40), (''HISTORY_EXPIRATION_RECONCILIATION_HOURS'', 168)]"

definition ex_texts :: "(string \<times> string) list" where
  "ex_texts = [(''APP_ENVIRONMENT'', ''dev''), (''HISTORY_CONTENT_TABLE_NAME'', ''H''), (''HISTORY_CONTROL_TABLE_NAME'', ''C''),
     (''USERS_TABLE_NAME'', ''U''), (''DELETION_LEDGER_TABLE_NAME'', ''L''), (''ANALYSIS_ABUSE_TABLE_NAME'', ''A'')]"

definition ex_os :: "string \<Rightarrow> string option" where
  "ex_os name = (if name \<in> set ex_flags then Some ''true''
     else case map_of ex_numbers name of Some n \<Rightarrow> Some (show_int n) | None \<Rightarrow> map_of ex_texts name)"

lemma ex_flag:
  assumes "map_of ex_numbers name = None" "map_of ex_texts name = None"
  shows "enabled_flag ex_os name = (name \<in> set ex_flags)"
  using assms by (simp add: enabled_flag_def os_get_def ex_os_def lower_def strip_def is_space_def code_def)

lemma ex_numbers_range: "map_of ex_numbers name = Some n \<Longrightarrow> 1 \<le> n \<and> n < 1000000000"
  by (drule map_of_SomeD) (auto simp: ex_numbers_def)

lemma ex_positive:
  assumes "name \<notin> set ex_flags" "map_of ex_texts name = None" "case dflt of None \<Rightarrow> True | Some n \<Rightarrow> 1 \<le> n \<and> n < 1000000000"
  shows "optional_positive_int ex_os name dflt = Inr (case map_of ex_numbers name of None \<Rightarrow> dflt | Some n \<Rightarrow> Some n)"
proof (cases "map_of ex_numbers name")
  case (Some n)
  with assms(1) have "os_get ex_os name d = show_int n" for d by (simp add: os_get_def ex_os_def)
  with ex_numbers_range [OF Some] Some show ?thesis by (simp add: optional_positive_show)
next
  case None
  with assms have env: "os_get ex_os name d = d" for d by (simp add: os_get_def ex_os_def)
  show ?thesis
  proof (cases dflt)
    case None
    with env \<open>map_of ex_numbers name = None\<close> show ?thesis by (simp add: optional_positive_int_def Let_def strip_def)
  next
    case (Some n)
    with env assms(3) \<open>map_of ex_numbers name = None\<close> show ?thesis by (simp add: optional_positive_show)
  qed
qed

lemma ex_number:
  assumes "map_of ex_numbers name = Some n" "name \<notin> set ex_flags"
  shows "as_unavailable (int_text (os_get ex_os name d)) = Inr n" "optional_nonnegative_int ex_os name = Inr (Some n)"
proof -
  from assms have env: "ex_os name = Some (show_int n)" by (simp add: ex_os_def)
  with ex_numbers_range [OF assms(1)] show "as_unavailable (int_text (os_get ex_os name d)) = Inr n"
    by (simp add: os_get_def int_text_show as_unavailable_def)
  from env ex_numbers_range [OF assms(1)] show "optional_nonnegative_int ex_os name = Inr (Some n)"
    by (simp add: optional_nonnegative_show)
qed

lemma ex_text:
  "map_of ex_numbers name = None \<Longrightarrow> name \<notin> set ex_flags \<Longrightarrow>
     os_get ex_os name d = (case map_of ex_texts name of None \<Rightarrow> d | Some t \<Rightarrow> t)"
  by (simp add: os_get_def ex_os_def)

lemmas ex_lists = ex_flags_def ex_numbers_def ex_texts_def

lemma ex_history_read:
  "\<exists>s. history_from_env (\<lambda>_. None) ex_os = Inr s \<and> validate_lifecycle s = Inr () \<and> validate_writes s = Inr ()"
  by (simp add: history_from_env_def ex_flag ex_positive ex_number ex_text ex_lists badge_catalog_from_def validate_lifecycle_def
      validate_writes_def validate_write_contract_def validate_common_def dedup_retention_covers_cleanup_def)

theorem lifecycle_settings_bounded_witness:
  "\<exists>s. history_from_env (\<lambda>_. None) ex_os = Inr s \<and> (\<exists>batch. hs_erasure_batch_size s = Some batch \<and> 1 \<le> batch \<and> batch \<le> 25)"
proof -
  obtain s where "history_from_env (\<lambda>_. None) ex_os = Inr s" "validate_lifecycle s = Inr ()" using ex_history_read by blast
  with lifecycle_settings_bounded [OF this] show ?thesis by blast
qed

text \<open>
  Settings accepted for writes are accepted for the durable replay that every request
  consults, and keep the record of a request at least a day longer than the retained content, so a
  content row never outlives the row that makes its request a repetition.
\<close>

lemma writes_keep_replay_protection:
  assumes "validate_writes s = Inr ()"
  shows "validate_durable_replay s = Inr () \<and> (\<exists>days. hs_dedup_retention_days s = Some days \<and> hs_retention_days s + 1 \<le> days)"
proof -
  from assms have v: "validate_write_contract s = Inr ()" "hs_durable_replay_enabled s"
    by (simp_all add: validate_writes_def rbind_Inr_iff)
  then have "hs_erasure_sla_hours s = 24" "dedup_retention_covers_cleanup s"
    by (simp_all add: validate_write_contract_def validate_common_def rbind_Inr_iff)
  then obtain days where "hs_dedup_retention_days s = Some days" "hs_retention_days s * 86400 + 86400 \<le> days * 86400"
    by (auto simp: dedup_retention_covers_cleanup_def split: option.splits)
  with v show ?thesis by (simp add: validate_durable_replay_def)
qed

end
