(* ===== verification/HistoryContracts.thy ===== *)
theory HistoryContracts
  imports HistorySettings Devices
begin

text \<open>
  The retained record of a check (\<open>shared_history/contracts.py\<close>): the content row and the locator row
  that are written when a check completes, and the response that is read back from a content row.

  A Python \<open>float\<close> is represented by the decimal that its \<open>repr\<close> denotes, so \<open>Decimal(str(x))\<close> is \<open>x\<close>
  itself; \<open>fl m e\<close> is that decimal for \<open>float(Decimal)\<close> of \<open>m * 10 ^ e\<close>, a parameter. A bucket is
  written for moments whose year has four digits.
\<close>

section \<open>Fields\<close>

definition REQUEST_ID_PATTERN :: "string \<Rightarrow> bool" where
  "REQUEST_ID_PATTERN = first_then is_alnum (\<lambda>c. is_alnum c \<or> c \<in> set ''._:-'') 127"

definition ALLOWED_SOURCE_TYPES :: "string list" where "ALLOWED_SOURCE_TYPES = [''ocr'', ''pasted_text'', ''mixed'']"
definition ALLOWED_RISK_LEVELS :: "string list" where "ALLOWED_RISK_LEVELS = [''low'', ''medium'', ''high'']"

definition PROHIBITED_KEYS :: "string list" where
  "PROHIBITED_KEYS = [''sanitizedText'', ''text'', ''rawText'', ''ocrText'', ''image'', ''images'', ''attachment'', ''attachments'',
     ''snippet'', ''entities'', ''originalValue'']"

definition HISTORY_ITEM_FIELDS :: "string list" where
  "HISTORY_ITEM_FIELDS = [''PK'', ''SK'', ''recordType'', ''schemaVersion'', ''recordVersion'', ''requestId'', ''historyGeneration'',
     ''recognitionGeneration'', ''acceptedSequence'', ''acceptedAtEpochMs'', ''completedAtEpochMs'', ''sourceType'', ''assessment'',
     ''expiresAt'', ''expiryBucket'']"

definition RESPONSE_FIELDS :: "string list" where
  "RESPONSE_FIELDS = [''schemaVersion'', ''requestId'', ''scamScore'', ''riskLevel'', ''confidence'', ''summary'', ''signals'', ''recommendedActions'']"

definition ASSESSMENT_FIELDS :: "string list" where
  "ASSESSMENT_FIELDS = [''schemaVersion'', ''scamScore'', ''riskLevel'', ''confidence'', ''summary'', ''signals'', ''recommendedActions'']"

section \<open>Values\<close>

definition history_request_id :: "pyval \<Rightarrow> string result" where
  "history_request_id v =
     (case v of PStr t \<Rightarrow> if REQUEST_ID_PATTERN t then Inr t else Inl HISTORY_UNAVAILABLE | _ \<Rightarrow> Inl HISTORY_UNAVAILABLE)"

definition int_at_least :: "int \<Rightarrow> pyval \<Rightarrow> int result" where   \<comment> \<open>\<open>_positive_int\<close>\<close>
  "int_at_least lo v = (case v of PInt n \<Rightarrow> if lo \<le> n then Inr n else Inl HISTORY_UNAVAILABLE | _ \<Rightarrow> Inl HISTORY_UNAVAILABLE)"

definition bounded_number :: "int \<Rightarrow> int \<Rightarrow> pyval \<Rightarrow> pyval result" where
  "bounded_number lo hi v =
     (let in_range = (\<lambda>x. \<not> num_less x (lo, 0) \<and> \<not> num_less (hi, 0) x) in
      case v of
        PInt n \<Rightarrow> if in_range (n, 0) then Inr (PDec n 0) else Inl HISTORY_UNAVAILABLE
      | PDec m e \<Rightarrow> if in_range (m, e) then Inr (PDec m e) else Inl HISTORY_UNAVAILABLE
      | _ \<Rightarrow> Inl HISTORY_UNAVAILABLE)"

definition exceeds :: "nat \<Rightarrow> int option \<Rightarrow> bool result" where   \<comment> \<open>\<open>n > limit\<close>\<close>
  "exceeds n limit = (case limit of None \<Rightarrow> Inl TypeError | Some k \<Rightarrow> Inr (int n > k))"

definition plain_char :: "char \<Rightarrow> bool" where
  \<comment> \<open>neither a control character other than newline and tab nor of the category \<open>Cf\<close>\<close>
  "plain_char c = ((32 \<le> code c \<or> code c \<in> {9, 10}) \<and> code c \<noteq> 173)"

definition bounded_text :: "int option \<Rightarrow> pyval \<Rightarrow> string result" where
  "bounded_text max_bytes v =
     (case v of
        PStr t \<Rightarrow>
          rbind (raise_if (t = []) HISTORY_UNAVAILABLE) (\<lambda>_.
          rbind (exceeds (utf8_length t) max_bytes) (\<lambda>long.
          rbind (raise_if long HISTORY_UNAVAILABLE) (\<lambda>_.
          rbind (raise_if (\<not> list_all plain_char t) HISTORY_UNAVAILABLE) (\<lambda>_. Inr t))))
      | _ \<Rightarrow> Inl HISTORY_UNAVAILABLE)"

definition bounded_text_list :: "history_settings \<Rightarrow> pyval \<Rightarrow> string list result" where
  "bounded_text_list s v =
     (case v of
        PList xs \<Rightarrow>
          rbind (exceeds (length xs) (hs_max_list_items s)) (\<lambda>long.
          rbind (raise_if long HISTORY_UNAVAILABLE) (\<lambda>_.
          rbind (sequence (map (bounded_text (hs_max_text_field_bytes s)) xs)) (\<lambda>ts.
          rbind (raise_if (\<not> distinct ts) HISTORY_UNAVAILABLE) (\<lambda>_. Inr ts))))
      | _ \<Rightarrow> Inl HISTORY_UNAVAILABLE)"

fun no_prohibited_fields :: "pyval \<Rightarrow> bool" where
  "no_prohibited_fields (PDict d) = list_all (\<lambda>kv. fst kv \<notin> set PROHIBITED_KEYS \<and> no_prohibited_fields (snd kv)) d"
| "no_prohibited_fields (PList xs) = list_all no_prohibited_fields xs"
| "no_prohibited_fields v = True"

definition member_of :: "string list \<Rightarrow> pyval \<Rightarrow> unit result" where   \<comment> \<open>\<open>if v not in {...}: raise\<close>, of a hashable value\<close>
  "member_of names v = rbind (raise_if (\<not> hashable v) TypeError) (\<lambda>_. raise_if (\<not> one_of v names) HISTORY_UNAVAILABLE)"

definition assessment_of :: "history_settings \<Rightarrow> dict \<Rightarrow> dict result" where   \<comment> \<open>\<open>_assessment\<close>\<close>
  "assessment_of s response =
     rbind (raise_if (\<not> has_keys response RESPONSE_FIELDS) HISTORY_UNAVAILABLE) (\<lambda>_.
     rbind (raise_if (dget response ''schemaVersion'' \<noteq> PStr ''1.0'') HISTORY_UNAVAILABLE) (\<lambda>_.
     rbind (bounded_number 0 100 (dget response ''scamScore'')) (\<lambda>score.
     rbind (bounded_number 0 1 (dget response ''confidence'')) (\<lambda>confidence.
     rbind (member_of ALLOWED_RISK_LEVELS (dget response ''riskLevel'')) (\<lambda>_.
     rbind (bounded_text (hs_max_summary_bytes s) (dget response ''summary'')) (\<lambda>summary.
     rbind (bounded_text_list s (dget response ''signals'')) (\<lambda>signals.
     rbind (bounded_text_list s (dget response ''recommendedActions'')) (\<lambda>acts.
     let assessment = [(''schemaVersion'', PStr ''1.0''), (''scamScore'', score), (''riskLevel'', dget response ''riskLevel''),
           (''confidence'', confidence), (''summary'', PStr summary), (''signals'', PList (map PStr signals)),
           (''recommendedActions'', PList (map PStr acts))]
     in rbind (raise_if (\<not> no_prohibited_fields (PDict assessment)) HISTORY_UNAVAILABLE) (\<lambda>_. Inr assessment)))))))))"

section \<open>Writing\<close>

definition shard_of :: "env \<Rightarrow> string \<Rightarrow> string" where
  "shard_of E request_id = fmt_d 2 (int (of_base 16 (take 2 (sha256_hex E request_id)) mod 16))"

definition expiry_bucket :: "env \<Rightarrow> string \<Rightarrow> int \<Rightarrow> string \<Rightarrow> string" where
  "expiry_bucket E prefix expires request_id =
     (case civil (expires div 86400) of (y, m, d) \<Rightarrow>
        prefix @ ''#'' @ fmt_d 4 y @ fmt_d 2 m @ fmt_d 2 d @ fmt_d 2 (expires mod 86400 div 3600) @ ''#'' @ shard_of E request_id)"

definition lifecycle_bucket :: "env \<Rightarrow> string \<Rightarrow> string" where
  "lifecycle_bucket E request_id = ''PENDING#'' @ shard_of E request_id"

definition durable_hash :: "string \<Rightarrow> string result" where   \<comment> \<open>\<open>_sha256\<close>\<close>
  "durable_hash h = rbind (raise_if (\<not> fullmatch is_hex 64 64 h) HISTORY_UNAVAILABLE) (\<lambda>_. Inr h)"

definition build_history_items ::
  "env \<Rightarrow> history_settings \<Rightarrow> string \<Rightarrow> string \<Rightarrow> dict \<Rightarrow> dict \<Rightarrow> dict \<Rightarrow> int \<Rightarrow> (dict \<times> dict) result" where
  "build_history_items E s account payload_hash accepted payload response now =
     rbind (history_request_id (dget response ''requestId'')) (\<lambda>request_id.
     rbind (raise_if (dget payload ''requestId'' \<noteq> PStr request_id) HISTORY_UNAVAILABLE) (\<lambda>_.
     rbind (member_of ALLOWED_SOURCE_TYPES (dget payload ''sourceType'')) (\<lambda>_.
     rbind (assessment_of s response) (\<lambda>assessment.
     rbind (int_at_least 0 (dget accepted ''historyGeneration'')) (\<lambda>generation.
     rbind (int_at_least 0 (dget accepted ''recognitionGeneration'')) (\<lambda>recognition.
     rbind (int_at_least 1 (dget accepted ''acceptedSequence'')) (\<lambda>sequence_no.
     rbind (int_at_least 1 (dget accepted ''acceptedAtEpochMs'')) (\<lambda>accepted_at.
     let completed = now * 1000; expires = now + hs_retention_days s * 86400;
         content_sk = ''COMPLETE#'' @ fmt_d 13 completed @ ''#'' @ request_id;
         content =
           [(''PK'', PStr (''USER#'' @ account @ ''#HISTORY#'' @ show_int generation)), (''SK'', PStr content_sk),
            (''recordType'', PStr ''HISTORY''), (''schemaVersion'', PInt (hs_schema_version s)), (''recordVersion'', PInt 1),
            (''requestId'', PStr request_id), (''historyGeneration'', PInt generation), (''recognitionGeneration'', PInt recognition),
            (''acceptedSequence'', PInt sequence_no), (''acceptedAtEpochMs'', PInt accepted_at), (''completedAtEpochMs'', PInt completed),
            (''sourceType'', dget payload ''sourceType''), (''assessment'', PDict assessment), (''expiresAt'', PInt expires),
            (''expiryBucket'', PStr (expiry_bucket E ''HISTORY'' expires request_id))]
     in
     case hs_dedup_retention_days s of
       None \<Rightarrow> Inl TypeError
     | Some days \<Rightarrow>
         let dedup = now + days * 86400 in
         rbind (durable_hash payload_hash) (\<lambda>h.
         Inr (content,
           [(''PK'', PStr (''USER#'' @ account)), (''SK'', PStr (''REQUEST#'' @ request_id)), (''recordType'', PStr ''REQUEST''),
            (''schemaVersion'', PInt (hs_schema_version s)), (''status'', PStr ''ACTIVE''), (''requestId'', PStr request_id),
            (''payloadHash'', PStr h), (''historyGeneration'', PInt generation), (''acceptedSequence'', PInt sequence_no),
            (''contentSortKey'', PStr content_sk), (''completedAtEpochMs'', PInt completed), (''contentExpiresAt'', PInt expires),
            (''lifecycleAt'', PInt expires), (''lifecycleBucket'', PStr (lifecycle_bucket E request_id)),
            (''expiresAt'', PInt dedup), (''expiryBucket'', PStr (expiry_bucket E ''CONTROL'' dedup request_id))]))))))))))"

section \<open>Reading\<close>

type_synonym float_repr = "int \<Rightarrow> int \<Rightarrow> int \<times> int"

definition json_number :: "float_repr \<Rightarrow> pyval \<Rightarrow> pyval" where
  "json_number fl v =
     (case v of
        PDec m e \<Rightarrow> (case integral v of Some n \<Rightarrow> PInt n | None \<Rightarrow> PDec (fst (fl m e)) (snd (fl m e)))
      | _ \<Rightarrow> v)"

fun json_values :: "float_repr \<Rightarrow> pyval \<Rightarrow> pyval" where   \<comment> \<open>\<open>_json_compatible\<close>\<close>
  "json_values fl (PList xs) = PList (map (json_values fl) xs)"
| "json_values fl v = json_number fl v"

definition listed :: "pyval \<Rightarrow> pyval list result" where   \<comment> \<open>\<open>list(v or [])\<close>\<close>
  "listed v = (if truthy v then as_tuple v else Inr [])"

definition response_from_history_item :: "float_repr \<Rightarrow> history_settings option \<Rightarrow> dict \<Rightarrow> dict result" where
  "response_from_history_item fl s item =
     rbind (raise_if (\<not> has_keys item HISTORY_ITEM_FIELDS) HISTORY_UNAVAILABLE) (\<lambda>_.
     rbind (history_request_id (dget item ''requestId'')) (\<lambda>_.
     rbind (raise_if (dget item ''recordType'' \<noteq> PStr ''HISTORY'') HISTORY_UNAVAILABLE) (\<lambda>_.
     rbind (member_of ALLOWED_SOURCE_TYPES (dget item ''sourceType'')) (\<lambda>_.
     case as_dict (dget item ''assessment'') of
       None \<Rightarrow> Inl HISTORY_UNAVAILABLE
     | Some assessment \<Rightarrow>
         rbind (raise_if (\<not> has_keys assessment ASSESSMENT_FIELDS) HISTORY_UNAVAILABLE) (\<lambda>_.
         rbind (listed (dget assessment ''signals'')) (\<lambda>signals.
         rbind (listed (dget assessment ''recommendedActions'')) (\<lambda>acts.
         let response =
           [(''schemaVersion'', PStr ''1.0''), (''requestId'', dget item ''requestId''),
            (''scamScore'', json_number fl (dget assessment ''scamScore'')), (''riskLevel'', dget assessment ''riskLevel''),
            (''confidence'', json_number fl (dget assessment ''confidence'')), (''summary'', dget assessment ''summary''),
            (''signals'', PList signals), (''recommendedActions'', PList acts)]
         in case s of
              None \<Rightarrow> Inr response
            | Some settings \<Rightarrow>
                rbind (assessment_of settings response) (\<lambda>validated.
                Inr (dmerge response (map (\<lambda>kv. (fst kv, json_values fl (snd kv))) validated))))))))))"

definition public_history_item :: "float_repr \<Rightarrow> history_settings option \<Rightarrow> dict \<Rightarrow> dict result" where
  "public_history_item fl s item =
     rbind (didx item ''requestId'') (\<lambda>request_id.
     rbind (didx item ''sourceType'') (\<lambda>source_type.
     rbind (rbind (didx item ''acceptedAtEpochMs'') py_int) (\<lambda>accepted.
     rbind (rbind (didx item ''completedAtEpochMs'') py_int) (\<lambda>completed.
     rbind (response_from_history_item fl s item) (\<lambda>assessment.
     Inr [(''requestId'', request_id), (''sourceType'', source_type), (''acceptedAtEpochMs'', PInt accepted),
       (''completedAtEpochMs'', PInt completed), (''assessment'', PDict assessment)])))))"

end
