(* ===== verification/AbuseControls.thy ===== *)
theory AbuseControls
  imports HistoryContracts
begin

text \<open>
  The record of an analysis request (\<open>conversation_analysis/abuse_controls.py\<close>, with
  \<open>account_fence.py\<close>). A request is bound to its content by a hash, processed under a lease, stored
  when its result is ready, and committed; a repetition of the request is answered from the record or
  from the retained history. Every write is one transaction with the account's authority.

  \<open>ac_history\<close> is what \<open>HistorySettings.from_env()\<close> gives in the process environment.
\<close>

section \<open>Configuration and helpers\<close>

record abuse_config =
  ac_table :: string
  ac_users :: string
  ac_ledger :: string
  ac_window :: int
  ac_max :: int
  ac_ttl :: int
  ac_lease :: int
  ac_history :: "history_settings result"
  ac_float :: float_repr

fun storable :: "pyval \<Rightarrow> bool" where   \<comment> \<open>the values \<open>_serialize_value\<close> of the fence accepts\<close>
  "storable (PBytes b) = False"
| "storable (PList xs) = list_all storable xs"
| "storable (PDict d) = list_all (\<lambda>kv. storable (snd kv)) d"
| "storable v = True"

definition serialize_item :: "dict \<Rightarrow> dict result" where
  "serialize_item d = (if storable (PDict d) then Inr d else Inl TypeError)"

abbreviation IN_PROGRESS :: exc where "IN_PROGRESS \<equiv> AppError ''REQUEST_IN_PROGRESS'' True"
abbreviation RESULT_UNAVAILABLE :: exc where "RESULT_UNAVAILABLE \<equiv> AppError ''RESULT_UNAVAILABLE'' False"
abbreviation IDEMPOTENCY_CONFLICT :: exc where "IDEMPOTENCY_CONFLICT \<equiv> AppError ''IDEMPOTENCY_CONFLICT'' False"
abbreviation RATE_LIMITED :: exc where "RATE_LIMITED \<equiv> AppError ''RATE_LIMITED'' True"

definition account_authority_checks :: "abuse_config \<Rightarrow> string \<Rightarrow> action list result" where
  "account_authority_checks c account =
     rbind (raise_if (ac_users c = [] \<or> ac_ledger c = []) UNAVAILABLE) (\<lambda>_.
     Inr [ConditionCheck (ac_users c) (profile_key account)
            (all_of [equals ''status'' (PStr ''ACTIVE''), equals ''ageVerified'' (PBool True), equals ''sub'' (PStr account)]),
          ConditionCheck (ac_ledger c) (deletion_key account) (NotExists ''PK'')])"

definition assert_account_active :: "env \<Rightarrow> abuse_config \<Rightarrow> string \<Rightarrow> unit eff" where
  "assert_account_active E c account =
     ebind (eraise_if (ac_users c = [] \<or> ac_ledger c = []) UNAVAILABLE) (\<lambda>_.
     ebind (e_get E (ac_users c) (profile_key account)) (\<lambda>profile.
     ebind (e_get E (ac_ledger c) (deletion_key account)) (\<lambda>deletion.
     eraise_if (\<not> profile_active account profile deletion) (AppError ''FORBIDDEN'' False))))"

definition transact_abuse_write :: "env \<Rightarrow> abuse_config \<Rightarrow> string \<Rightarrow> action \<Rightarrow> exc \<Rightarrow> unit eff" where
  "transact_abuse_write E c identity write conflict =
     ebind (elift (account_authority_checks c identity)) (\<lambda>checks.
     ebind (e_transact E (checks @ [write])) (\<lambda>r.
     case r of
       Committed \<Rightarrow> eret ()
     | Cancelled \<Rightarrow> ebind (assert_account_active E c identity) (\<lambda>_. eraise conflict)
     | Failed \<Rightarrow> eraise SdkError))"

definition epoch_or :: "env \<Rightarrow> int option \<Rightarrow> int eff" where   \<comment> \<open>\<open>now_epoch or int(time.time())\<close>\<close>
  "epoch_or E now = (case now of None \<Rightarrow> e_now E | Some n \<Rightarrow> if n = 0 then e_now E else eret n)"

definition iso_now :: "env \<Rightarrow> string eff" where
  "iso_now E = ebind (e_utcnow E) (\<lambda>us. eret (isoformat us))"

definition uuid_text :: "string \<Rightarrow> string" where   \<comment> \<open>\<open>str(uuid.UUID(bytes, version=4))\<close> of 16 bytes in hexadecimal\<close>
  "uuid_text h =
     (let v = take 12 h @ CHR ''4'' # take 3 (drop 13 h) @ digit_char (8 + digit_val (h ! 16) mod 4) # drop 17 h in
      take 8 v @ CHR ''-'' # take 4 (drop 8 v) @ CHR ''-'' # take 4 (drop 12 v) @ CHR ''-'' # take 4 (drop 16 v) @ CHR ''-'' # drop 20 v)"

definition e_uuid4 :: "env \<Rightarrow> string eff" where
  "e_uuid4 E = ebind (e_random E 16) (\<lambda>h. eret (uuid_text h))"

definition hashed_identity :: "env \<Rightarrow> string \<Rightarrow> string" where
  "hashed_identity E identity = sha256_hex E identity"

definition payload_hash :: "env \<Rightarrow> dict \<Rightarrow> string result" where
  "payload_hash E payload = rbind (dumps True (PDict payload)) (\<lambda>t. Inr (sha256_hex E (ascii_json t)))"

definition normalize_identity :: "string \<Rightarrow> string" where
  "normalize_identity s =
     (let cleaned = map (\<lambda>c. if is_alnum c \<or> c \<in> set ''._:@-'' then c else CHR ''_'') (strip s) in
      if take 200 cleaned = [] then ''anonymous'' else take 200 cleaned)"

definition extract_identity :: "env \<Rightarrow> abuse_config \<Rightarrow> dict \<Rightarrow> string eff" where
  "extract_identity E c event =
     ecatch
       (ebind (elift (ac_history c)) (\<lambda>s.
        ebind (elift (validate_api_auth s)) (\<lambda>_.
        ebind (jwt_subject E event (hs_tokens s)) (\<lambda>subject.
        let identity = normalize_identity subject in
        ebind (eraise_if (hs_users_table_name s = [] \<or> hs_deletion_ledger_table_name s = []) HISTORY_UNAVAILABLE) (\<lambda>_.
        ebind (assert_authoritative_account_active E identity (hs_users_table_name s) (hs_deletion_ledger_table_name s)) (\<lambda>_.
        eret identity))))))
       (\<lambda>e. case e of HistoryError k m \<Rightarrow> eraise (AppError k (k = ''FEATURE_DISABLED'')) | _ \<Rightarrow> eraise e)"

fun json_compatible :: "float_repr \<Rightarrow> pyval \<Rightarrow> pyval" where   \<comment> \<open>\<open>_to_json_compatible\<close>\<close>
  "json_compatible fl (PDict d) = PDict (map (\<lambda>kv. (fst kv, json_compatible fl (snd kv))) d)"
| "json_compatible fl (PList xs) = PList (map (json_compatible fl) xs)"
| "json_compatible fl v = json_number fl v"

section \<open>Rows\<close>

definition request_key :: "string \<Rightarrow> string \<Rightarrow> key" where
  "request_key identity_key request_id = (''ANALYSIS#REQUEST#'' @ identity_key, request_id)"

definition assert_matching_payload :: "dict \<Rightarrow> string \<Rightarrow> unit result" where
  "assert_matching_payload existing h = raise_if (dget existing ''payloadHash'' \<noteq> PStr h) IDEMPOTENCY_CONFLICT"

definition processing_state :: "string \<Rightarrow> string \<Rightarrow> dict" where
  "processing_state h lease_token = [(''state'', PStr ''processing''), (''payloadHash'', PStr h), (''leaseToken'', PStr lease_token)]"

definition new_request :: "env \<Rightarrow> abuse_config \<Rightarrow> string \<Rightarrow> string \<Rightarrow> string \<Rightarrow> int \<Rightarrow> dict eff" where
  \<comment> \<open>the last part of \<open>check_or_lock_request\<close>\<close>
  "new_request E c identity request_id h now =
     ebind (e_uuid4 E) (\<lambda>lease_token.
     ebind (iso_now E) (\<lambda>created.
     ebind (iso_now E) (\<lambda>updated.
     ebind (transact_abuse_write E c identity
         (Put (ac_table c)
           [(''PK'', PStr (''ANALYSIS#REQUEST#'' @ hashed_identity E identity)), (''SK'', PStr request_id), (''status'', PStr ''PROCESSING''),
            (''payloadHash'', PStr h), (''leaseToken'', PStr lease_token), (''leaseExpiresAt'', PInt (now + ac_lease c)),
            (''createdAt'', PStr created), (''updatedAt'', PStr updated), (''expiresAt'', PInt (now + ac_ttl c)), (''ttl'', PInt (now + ac_ttl c))]
           is_new) IN_PROGRESS) (\<lambda>_.
     eret (processing_state h lease_token)))))"

definition take_over_expired_lease :: "env \<Rightarrow> abuse_config \<Rightarrow> string \<Rightarrow> string \<Rightarrow> string \<Rightarrow> dict \<Rightarrow> int \<Rightarrow> dict eff" where
  "take_over_expired_lease E c identity request_id h existing now =
     ebind (e_uuid4 E) (\<lambda>lease_token.
     ebind (elift (py_int (dget_or existing ''leaseExpiresAt'' (PInt 0)))) (\<lambda>previous.
     ebind (iso_now E) (\<lambda>updated.
     ebind (transact_abuse_write E c identity
         (Update (ac_table c) (request_key (hashed_identity E identity) request_id)
           [USet ''leaseToken'' (PStr lease_token), USet ''leaseExpiresAt'' (PInt (now + ac_lease c)), USet ''updatedAt'' (PStr updated),
            USet ''expiresAt'' (PInt (now + ac_ttl c)), USet ''ttl'' (PInt (now + ac_ttl c))]
           (all_of [equals ''status'' (PStr ''PROCESSING''), equals ''payloadHash'' (PStr h), equals ''leaseExpiresAt'' (PInt previous)]))
         IN_PROGRESS) (\<lambda>_.
     eret (processing_state h lease_token @ [(''takeover'', PBool True)]
       @ (case as_dict (dget existing ''historyAuthorization'') of
            None \<Rightarrow> []
          | Some a \<Rightarrow> [(''historyAuthorization'', json_compatible (ac_float c) (PDict a))]))))))"

definition take_over_retryable :: "env \<Rightarrow> abuse_config \<Rightarrow> string \<Rightarrow> string \<Rightarrow> string \<Rightarrow> dict \<Rightarrow> int \<Rightarrow> dict eff" where
  "take_over_retryable E c identity request_id h existing now =
     ebind (e_uuid4 E) (\<lambda>lease_token.
     ebind (iso_now E) (\<lambda>updated.
     ebind (transact_abuse_write E c identity
         (Update (ac_table c) (request_key (hashed_identity E identity) request_id)
           [USet ''status'' (PStr ''PROCESSING''), USet ''leaseToken'' (PStr lease_token), USet ''leaseExpiresAt'' (PInt (now + ac_lease c)),
            USet ''updatedAt'' (PStr updated), USet ''expiresAt'' (PInt (now + ac_ttl c)), USet ''ttl'' (PInt (now + ac_ttl c))]
           (all_of [equals ''status'' (PStr ''RETRYABLE''), equals ''payloadHash'' (PStr h)]))
         IN_PROGRESS) (\<lambda>_.
     ebind (elift (didx existing ''historyAuthorization'')) (\<lambda>a.
     eret (processing_state h lease_token @ [(''historyAuthorization'', json_compatible (ac_float c) a), (''takeover'', PBool True)])))))"

definition replace_expired_request :: "env \<Rightarrow> abuse_config \<Rightarrow> string \<Rightarrow> string \<Rightarrow> string \<Rightarrow> dict \<Rightarrow> int \<Rightarrow> dict eff" where
  "replace_expired_request E c identity request_id h existing now =
     ebind (e_uuid4 E) (\<lambda>lease_token.
     ebind (elift (py_int (dget_or existing ''expiresAt'' (PInt 0)))) (\<lambda>previous.
     ebind (iso_now E) (\<lambda>created.
     ebind (iso_now E) (\<lambda>updated.
     ebind (transact_abuse_write E c identity
         (Update (ac_table c) (request_key (hashed_identity E identity) request_id)
           [USet ''status'' (PStr ''PROCESSING''), USet ''payloadHash'' (PStr h), USet ''leaseToken'' (PStr lease_token),
            USet ''leaseExpiresAt'' (PInt (now + ac_lease c)), USet ''createdAt'' (PStr created), USet ''updatedAt'' (PStr updated),
            USet ''expiresAt'' (PInt (now + ac_ttl c)), USet ''ttl'' (PInt (now + ac_ttl c)),
            URemove ''response'', URemove ''resultReadyAt'', URemove ''completedAt'']
           (equals ''expiresAt'' (PInt previous)))
         IN_PROGRESS) (\<lambda>_.
     eret (processing_state h lease_token @ [(''replacedExpired'', PBool True)]))))))"

section \<open>Replay\<close>

definition result_unavailable :: "'a eff" where "result_unavailable = eraise RESULT_UNAVAILABLE"

definition completed_state :: "string \<Rightarrow> pyval \<Rightarrow> dict" where
  "completed_state h response = [(''state'', PStr ''completed''), (''payloadHash'', PStr h), (''response'', response)]"

definition replay_ready :: "history_settings \<Rightarrow> unit result" where
  "replay_ready s =
     (case validate_durable_replay s of
        Inl (HistoryError k m) \<Rightarrow> Inl (AppError ''SERVER_UNAVAILABLE'' (k = ''FEATURE_DISABLED''))
      | r \<Rightarrow> r)"

definition locator_current :: "dict option \<Rightarrow> dict \<Rightarrow> int \<Rightarrow> bool result" where
  \<comment> \<open>the account is active, and the locator is active, of the current generation and not expired\<close>
  "locator_current state locator now =
     (case state of
        None \<Rightarrow> Inr False
      | Some st \<Rightarrow>
          if dget st ''accountStatus'' \<noteq> PStr ''ACTIVE'' \<or> dget locator ''status'' \<noteq> PStr ''ACTIVE'' then Inr False else
          rbind (py_int (dget_or locator ''historyGeneration'' (PInt (- 1)))) (\<lambda>g.
          rbind (py_int (dget_or st ''historyGeneration'' (PInt (- 2)))) (\<lambda>g'.
          if g \<noteq> g' then Inr False else
          rbind (py_int (dget_or locator ''contentExpiresAt'' (PInt 0))) (\<lambda>x. Inr (x > now)))))"

definition replay_content :: "env \<Rightarrow> abuse_config \<Rightarrow> history_settings \<Rightarrow> string \<Rightarrow> string \<Rightarrow> dict \<Rightarrow> int \<Rightarrow> dict eff" where
  "replay_content E c s identity h locator now =
     ebind (elift (rbind (didx locator ''historyGeneration'') py_int)) (\<lambda>g.
     case as_str (dget locator ''contentSortKey'') of
       None \<Rightarrow> eraise SdkError
     | Some sk \<Rightarrow>
         ebind (e_get E (hs_content_table_name s) (''USER#'' @ identity @ ''#HISTORY#'' @ show_int g, sk)) (\<lambda>it.
         case row_of it of
           None \<Rightarrow> result_unavailable
         | Some content \<Rightarrow>
             ebind (elift (py_int (dget_or content ''expiresAt'' (PInt 0)))) (\<lambda>x.
             if x \<le> now then result_unavailable else
             case response_from_history_item (ac_float c) (Some s) content of
               Inl (HistoryError k m) \<Rightarrow> eraise UNAVAILABLE
             | Inl e \<Rightarrow> eraise e
             | Inr response \<Rightarrow> eret (completed_state h (PDict response)))))"

definition durable_replay :: "env \<Rightarrow> abuse_config \<Rightarrow> string \<Rightarrow> string \<Rightarrow> string \<Rightarrow> int \<Rightarrow> dict option eff" where
  "durable_replay E c identity request_id h now =
     ebind (elift (ac_history c)) (\<lambda>s.
     if \<not> hs_durable_replay_enabled s then eret None else
     ebind (elift (replay_ready s)) (\<lambda>_.
     ebind (e_get E (hs_control_table_name s) (''USER#'' @ identity, ''REQUEST#'' @ request_id)) (\<lambda>it.
     case row_of it of
       None \<Rightarrow> eret None
     | Some locator \<Rightarrow>
         ebind (eraise_if (dget locator ''payloadHash'' \<noteq> PStr h) IDEMPOTENCY_CONFLICT) (\<lambda>_.
         ebind (e_get E (hs_control_table_name s) (''USER#'' @ identity, ''STATE'')) (\<lambda>sit.
         ebind (elift (locator_current (row_of sit) locator now)) (\<lambda>ok.
         if \<not> ok then result_unavailable else
         ebind (replay_content E c s identity h locator now) (\<lambda>r. eret (Some r))))))))"

section \<open>Requests\<close>

definition ready_result :: "float_repr \<Rightarrow> dict \<Rightarrow> string \<Rightarrow> dict" where
  "ready_result fl existing h =
     [(''state'', PStr ''result_ready''), (''payloadHash'', PStr h), (''response'', json_compatible fl (dget existing ''response'')),
      (''statisticsEventId'', dget existing ''statisticsEventId'')]
     @ concat (map (\<lambda>f. case as_dict (dget existing f) of None \<Rightarrow> [] | Some a \<Rightarrow> [(f, json_compatible fl (PDict a))])
         [''campaignAuthorization'', ''historyAuthorization''])"

definition current_request :: "env \<Rightarrow> abuse_config \<Rightarrow> string \<Rightarrow> string \<Rightarrow> string \<Rightarrow> dict \<Rightarrow> int \<Rightarrow> dict eff" where
  \<comment> \<open>a record that is not expired\<close>
  "current_request E c identity request_id h existing now =
     (if dget existing ''status'' = PStr ''COMPLETED'' \<and> as_dict (dget existing ''response'') \<noteq> None then
        ebind (durable_replay E c identity request_id h now) (\<lambda>d.
        case d of
          Some r \<Rightarrow> eret r
        | None \<Rightarrow> eret (completed_state h (json_compatible (ac_float c) (dget existing ''response''))))
      else
        ebind (elift (py_int (dget_or existing ''leaseExpiresAt'' (PInt 0)))) (\<lambda>lease.
        if dget existing ''status'' = PStr ''PROCESSING'' then
          if lease > now then eraise IN_PROGRESS
          else take_over_expired_lease E c identity request_id h existing now
        else eraise UNAVAILABLE))"

definition known_request :: "env \<Rightarrow> abuse_config \<Rightarrow> string \<Rightarrow> string \<Rightarrow> string \<Rightarrow> dict \<Rightarrow> int \<Rightarrow> dict eff" where
  \<comment> \<open>\<open>check_or_lock_request\<close> with a record of the request\<close>
  "known_request E c identity request_id h existing now =
     ebind (elift (py_int (dget_or existing ''expiresAt'' (PInt 0)))) (\<lambda>expires.
     ebind (if expires > now then eret True else ebind (elift (ac_history c)) (\<lambda>s. eret (hs_durable_replay_enabled s))) (\<lambda>bound.
     ebind (if bound then elift (assert_matching_payload existing h) else eret ()) (\<lambda>_.
     let status = dget existing ''status'' in
     if status = PStr ''COMPLETED_ERASED'' then result_unavailable
     else if status = PStr ''RESULT_READY'' \<and> as_dict (dget existing ''response'') \<noteq> None
     then eret (ready_result (ac_float c) existing h)
     else if status = PStr ''RETRYABLE'' then take_over_retryable E c identity request_id h existing now
     else if expires \<le> now then
       ebind (durable_replay E c identity request_id h now) (\<lambda>d.
       case d of
         Some r \<Rightarrow> eret r
       | None \<Rightarrow> replace_expired_request E c identity request_id h existing now)
     else current_request E c identity request_id h existing now)))"

definition check_or_lock_request :: "env \<Rightarrow> abuse_config \<Rightarrow> string \<Rightarrow> string \<Rightarrow> dict \<Rightarrow> int option \<Rightarrow> dict eff" where
  "check_or_lock_request E c identity request_id payload now_epoch =
     ebind (eraise_if (ac_table c = []) UNAVAILABLE) (\<lambda>_.
     ebind (epoch_or E now_epoch) (\<lambda>now.
     ebind (elift (payload_hash E payload)) (\<lambda>h.
     ebind (e_read E (ac_table c) (request_key (hashed_identity E identity) request_id)) (\<lambda>it.
     case row_of it of
       Some existing \<Rightarrow> known_request E c identity request_id h existing now
     | None \<Rightarrow>
         ebind (durable_replay E c identity request_id h now) (\<lambda>d.
         case d of Some r \<Rightarrow> eret r | None \<Rightarrow> new_request E c identity request_id h now)))))"

definition enforce_rate_limit :: "env \<Rightarrow> abuse_config \<Rightarrow> string \<Rightarrow> int option \<Rightarrow> unit eff" where
  "enforce_rate_limit E c identity now_epoch =
     ebind (eraise_if (ac_table c = []) UNAVAILABLE) (\<lambda>_.
     ebind (epoch_or E now_epoch) (\<lambda>now.
     ebind (eraise_if (ac_window c = 0) ZeroDivisionError) (\<lambda>_.
     let window_start = now - now mod ac_window c; expires = window_start + ac_window c in
     ebind (iso_now E) (\<lambda>updated.
     transact_abuse_write E c identity
       (Update (ac_table c) (''ANALYSIS#RATE#'' @ hashed_identity E identity, show_int window_start)
         [UAdd ''requestCount'' 1, USet ''expiresAt'' (PInt expires), USet ''ttl'' (PInt expires), USet ''updatedAt'' (PStr updated)]
         (Or (NotExists ''requestCount'') (Cmp CLt ''requestCount'' (PInt (ac_max c)))))
       RATE_LIMITED))))"

definition store_result ::
  "env \<Rightarrow> abuse_config \<Rightarrow> string \<Rightarrow> string \<Rightarrow> string \<Rightarrow> string \<Rightarrow> dict \<Rightarrow> string option \<Rightarrow> dict option \<Rightarrow> dict option
     \<Rightarrow> int option \<Rightarrow> unit eff" where
  "store_result E c identity request_id h lease_token response event_id campaign history now_epoch =
     ebind (eraise_if (ac_table c = []) UNAVAILABLE) (\<lambda>_.
     ebind (epoch_or E now_epoch) (\<lambda>now.
     ebind (iso_now E) (\<lambda>ready_at.
     ebind (iso_now E) (\<lambda>updated.
     let extra = (\<lambda>name d. case row_of d of None \<Rightarrow> [] | Some a \<Rightarrow> [(name, PDict a)]);
         optional = (case event_id of None \<Rightarrow> [] | Some t \<Rightarrow> if t = [] then [] else [(''statisticsEventId'', PStr t)])
           @ extra ''campaignAuthorization'' campaign @ extra ''historyAuthorization'' history in
     ebind (elift (serialize_item ((''response'', PDict response) # optional))) (\<lambda>_.
     transact_abuse_write E c identity
       (Update (ac_table c) (request_key (hashed_identity E identity) request_id)
         ([USet ''status'' (PStr ''RESULT_READY''), USet ''response'' (PDict response), USet ''resultReadyAt'' (PStr ready_at),
           USet ''updatedAt'' (PStr updated), USet ''expiresAt'' (PInt (now + ac_ttl c)), USet ''ttl'' (PInt (now + ac_ttl c))]
          @ map (\<lambda>kv. USet (fst kv) (snd kv)) optional @ [URemove ''leaseToken'', URemove ''leaseExpiresAt''])
         (all_of [equals ''status'' (PStr ''PROCESSING''), equals ''payloadHash'' (PStr h), equals ''leaseToken'' (PStr lease_token)]))
       IN_PROGRESS)))))"

text \<open>
  A single conditional \<open>update_item\<close> or \<open>delete_item\<close>: \<open>Cancelled\<close> stands for
  \<open>ConditionalCheckFailedException\<close>.
\<close>

definition release_request :: "env \<Rightarrow> abuse_config \<Rightarrow> string \<Rightarrow> string \<Rightarrow> string option \<Rightarrow> unit eff" where
  "release_request E c identity request_id lease_token =
     (if ac_table c = [] then eret () else
      let k = request_key (hashed_identity E identity) request_id;
          token = (case lease_token of None \<Rightarrow> [] | Some t \<Rightarrow> t);
          held = [equals ''status'' (PStr ''PROCESSING''), equals ''leaseToken'' (PStr token)] in
      ebind (e_read E (ac_table c) k) (\<lambda>it.
      ebind (if token \<noteq> [] \<and> as_dict (dget (contents it) ''historyAuthorization'') \<noteq> None then
               ebind (iso_now E) (\<lambda>updated.
               ebind (e_transact E [Update (ac_table c) k
                   [USet ''status'' (PStr ''RETRYABLE''), USet ''updatedAt'' (PStr updated), URemove ''leaseToken'', URemove ''leaseExpiresAt'']
                   (all_of (held @ [Exists ''historyAuthorization'']))]) (\<lambda>r.
               case r of Committed \<Rightarrow> eret True | Cancelled \<Rightarrow> eret False | Failed \<Rightarrow> eraise SdkError))
             else eret False) (\<lambda>released.
      if released then eret () else
      ebind (e_transact E [Delete (ac_table c) k (if token = [] then Always else all_of held)]) (\<lambda>r.
      case r of Failed \<Rightarrow> eraise SdkError | _ \<Rightarrow> eret ()))))"

end
