(* ===== verification/Entitlements.thy ===== *)
theory Entitlements
  imports AbuseControls DeviceRequests
begin

text \<open>
  The entitlement of an account to checks (\<open>shared_entitlements/service.py\<close>): the stored row is
  normalised whenever it is read, a verified subscription is applied to it, and snapshots of it are
  what clients and the scan access see. Log messages are not part of the model.
\<close>

section \<open>Configuration and helpers\<close>

record ent_config =
  en_table :: string
  en_participation :: string
  en_environment :: string
  free_limit :: int
  pro_limit :: int
  en_str :: "pyval \<Rightarrow> string"   \<comment> \<open>\<open>str(v)\<close> of what is not a text\<close>

definition text_of :: "ent_config \<Rightarrow> pyval \<Rightarrow> string" where
  "text_of c v = (case v of PStr t \<Rightarrow> t | _ \<Rightarrow> en_str c v)"

definition SUPPORTED_SUBSCRIPTION_STATUSES :: "string list" where
  "SUPPORTED_SUBSCRIPTION_STATUSES = [''active'', ''expired'', ''grace'', ''hold'', ''paused'', ''canceled'', ''pending'']"

definition DEFAULT_ENTITLEMENT_SK :: string where "DEFAULT_ENTITLEMENT_SK = ''ENTITLEMENT''"
definition GOOGLE_PLAY_PRO_SK :: string where
  "GOOGLE_PLAY_PRO_SK = ''ENTITLEMENT#google_play#trustcheck_radar_pro_monthly''"

definition upper :: "string \<Rightarrow> string" where
  \<comment> \<open>\<open>str.upper\<close>, but for three characters whose capitals lie outside the alphabet of the model\<close>
  "upper = map (\<lambda>ch. if 97 \<le> code ch \<and> code ch \<le> 122 \<or> 224 \<le> code ch \<and> code ch \<le> 254 \<and> code ch \<noteq> 247
                      then char_of (code ch - 32) else ch)"

definition first_true :: "pyval \<Rightarrow> pyval \<Rightarrow> pyval" where   \<comment> \<open>\<open>v or w\<close>\<close>
  "first_true v w = (if truthy v then v else w)"

definition set_default :: "string \<Rightarrow> pyval \<Rightarrow> dict \<Rightarrow> dict" where   \<comment> \<open>\<open>d.setdefault(k, v)\<close>\<close>
  "set_default k v d = (if dhas d k then d else dset k v d)"

definition iso_z :: "int \<Rightarrow> string" where
  \<comment> \<open>\<open>isoformat().replace('+00:00', 'Z')\<close>: the offset is the last six characters\<close>
  "iso_z us = (let t = isoformat us in take (length t - 6) t @ ''Z'')"

definition iso_or :: "env \<Rightarrow> string option \<Rightarrow> string eff" where   \<comment> \<open>\<open>now_iso or _iso_now()\<close>\<close>
  "iso_or E now_iso =
     (case now_iso of
        None \<Rightarrow> ebind (e_utcnow E) (\<lambda>us. eret (iso_z us))
      | Some t \<Rightarrow> if t = [] then ebind (e_utcnow E) (\<lambda>us. eret (iso_z us)) else eret t)"

section \<open>Normalisation\<close>

definition default_entitlement :: "ent_config \<Rightarrow> pyval \<Rightarrow> string \<Rightarrow> string \<Rightarrow> dict" where
  "default_entitlement c account now_iso sk =
     (let play = (sk = GOOGLE_PLAY_PRO_SK) in
      [(''PK'', PStr (''USER#'' @ text_of c account)), (''SK'', PStr sk), (''accountId'', account), (''entitlementTier'', PStr ''FREE''),
       (''subscriptionStatus'', PStr ''expired''), (''platform'', if play then PStr ''google_play'' else PNone),
       (''productId'', if play then PStr ''trustcheck_radar_pro_monthly'' else PNone), (''billingPeriodStartUtc'', PNone),
       (''billingPeriodEndUtc'', PNone), (''lastVerifiedAtUtc'', PNone), (''isAccessGranted'', PBool False),
       (''monthlyScanLimit'', PInt (free_limit c)), (''remainingMonthlyScans'', PInt (free_limit c)), (''remainingCredits'', PInt 0),
       (''createdAt'', PStr now_iso), (''updatedAt'', PStr now_iso)])"

definition normalize_subscription_status :: "pyval \<Rightarrow> string \<Rightarrow> string" where
  "normalize_subscription_status v dflt =
     (case v of
        PStr t \<Rightarrow> if lower (strip t) \<in> set SUPPORTED_SUBSCRIPTION_STATUSES then lower (strip t) else dflt
      | _ \<Rightarrow> dflt)"

definition normalize_optional_string :: "pyval \<Rightarrow> pyval" where
  "normalize_optional_string v = (case v of PStr t \<Rightarrow> if strip t = [] then PNone else PStr (strip t) | _ \<Rightarrow> PNone)"

text \<open>\<open>int\<close> of a stored value raises only the two exceptions that the handler of the source names.\<close>

lemma py_int_errors: "py_int v = Inl e \<Longrightarrow> e = TypeError \<or> e = ValueError"
  by (auto simp: py_int_def whole_def int_text_def parse_int_def Let_def rbind_def split: pyval.splits if_splits sum.splits)

definition coerce_non_negative_int :: "pyval \<Rightarrow> int \<Rightarrow> int" where
  "coerce_non_negative_int v dflt = (case py_int v of Inl e \<Rightarrow> dflt   \<comment> \<open>\<open>except (TypeError, ValueError)\<close>, see \<open>py_int_errors\<close>\<close>
      | Inr n \<Rightarrow> if n < 0 then 0 else n)"

definition entitlement_tier :: "ent_config \<Rightarrow> dict \<Rightarrow> string" where
  "entitlement_tier c d =
     (let t = upper (text_of c (dget_or d ''entitlementTier'' (PStr ''FREE''))) in if t \<in> {''FREE'', ''PRO''} then t else ''FREE'')"

definition normalize_entitlement :: "ent_config \<Rightarrow> pyval \<Rightarrow> dict \<Rightarrow> string \<Rightarrow> string option \<Rightarrow> dict" where
  "normalize_entitlement c account d now_iso default_sk =
     (let sk = (case default_sk of None \<Rightarrow> DEFAULT_ENTITLEMENT_SK | Some t \<Rightarrow> if t = [] then DEFAULT_ENTITLEMENT_SK else t) in
      if d = [] then default_entitlement c account now_iso sk else
      let tier = entitlement_tier c d;
          status = normalize_subscription_status (dget d ''subscriptionStatus'') (if tier = ''PRO'' then ''active'' else ''expired'');
          monthly_limit = coerce_non_negative_int (dget d ''monthlyScanLimit'') (if tier = ''PRO'' then pro_limit c else free_limit c);
          remaining_monthly = min monthly_limit (coerce_non_negative_int (dget d ''remainingMonthlyScans'') monthly_limit);
          remaining_credits = coerce_non_negative_int (dget d ''remainingCredits'') 0;
          access = truthy (dget_or d ''isAccessGranted'' (PBool (tier = ''PRO'' \<and> status \<in> {''active'', ''grace'', ''canceled''})))
      in set_default ''updatedAt'' (PStr now_iso) (set_default ''createdAt'' (PStr now_iso)
        (dset ''isAccessGranted'' (PBool access)
        (dset ''lastVerifiedAtUtc'' (normalize_optional_string (first_true (dget d ''lastVerifiedAtUtc'') (dget d ''lastVerifiedAt'')))
        (dset ''billingPeriodEndUtc'' (normalize_optional_string (dget d ''billingPeriodEndUtc''))
        (dset ''billingPeriodStartUtc'' (normalize_optional_string (dget d ''billingPeriodStartUtc''))
        (dset ''productId'' (normalize_optional_string (dget d ''productId''))
        (dset ''platform'' (normalize_optional_string (dget d ''platform''))
        (dset ''remainingCredits'' (PInt remaining_credits)
        (dset ''remainingMonthlyScans'' (PInt remaining_monthly)
        (dset ''monthlyScanLimit'' (PInt monthly_limit)
        (dset ''subscriptionStatus'' (PStr status)
        (dset ''entitlementTier'' (PStr tier)
        (dset ''accountId'' account
        (dset ''SK'' (first_true (dget d ''SK'') (PStr sk))
        (dset ''PK'' (PStr (''USER#'' @ text_of c account)) d))))))))))))))))"

section \<open>Reading\<close>

definition require_store :: "ent_config \<Rightarrow> unit eff" where
  "require_store c = eraise_if (en_table c = []) StoreNotConfigured"

definition candidate_entitlement_sks :: "string option \<Rightarrow> string option \<Rightarrow> string list" where
  "candidate_entitlement_sks platform product =
     (let p = (case platform of None \<Rightarrow> [] | Some t \<Rightarrow> t); q = (case product of None \<Rightarrow> [] | Some t \<Rightarrow> t);
          first = (if p = ''google_play'' \<and> q = ''trustcheck_radar_pro_monthly'' then GOOGLE_PLAY_PRO_SK
                   else if p \<noteq> [] \<or> q \<noteq> []
                   then ''ENTITLEMENT#'' @ (if p = [] then ''unknown'' else p) @ ''#'' @ (if q = [] then ''unknown'' else q)
                   else GOOGLE_PLAY_PRO_SK)
      in if first = DEFAULT_ENTITLEMENT_SK then [first] else [first, DEFAULT_ENTITLEMENT_SK])"

fun first_entitlement :: "env \<Rightarrow> ent_config \<Rightarrow> string \<Rightarrow> string \<Rightarrow> string list \<Rightarrow> dict option eff" where
  "first_entitlement E c account now_iso [] = eret None"
| "first_entitlement E c account now_iso (sk # sks) =
     ebind (e_read E (en_table c) (''USER#'' @ account, sk)) (\<lambda>it.
     case row_of it of
       Some d \<Rightarrow> eret (Some (normalize_entitlement c (PStr account) d now_iso (Some sk)))
     | None \<Rightarrow> first_entitlement E c account now_iso sks)"

definition load_entitlement ::
  "env \<Rightarrow> ent_config \<Rightarrow> string \<Rightarrow> string option \<Rightarrow> string option \<Rightarrow> string option \<Rightarrow> dict eff" where
  "load_entitlement E c account now_iso platform product =
     ebind (require_store c) (\<lambda>_.
     ebind (iso_or E now_iso) (\<lambda>now.
     let sks = candidate_entitlement_sks platform product in
     ebind (first_entitlement E c account now sks) (\<lambda>found.
     case found of
       Some d \<Rightarrow> eret d
     | None \<Rightarrow> eret (default_entitlement c (PStr account) now (hd sks)))))"

definition NOT_ENROLLED :: dict where "NOT_ENROLLED = [(''state'', PStr ''not_enrolled''), (''stateVersion'', PInt 0)]"

definition enrolled_valid :: "ent_config \<Rightarrow> dict \<Rightarrow> bool" where
  "enrolled_valid c item =
     (let version = (case py_int (dget_or item ''stateVersion'' (PInt 0)) of Inl e \<Rightarrow> 0 | Inr n \<Rightarrow> n) in
      str_matches is_uuid4 (dget item ''consentEpochId'')
      \<and> dget item ''noticeVersion'' = PStr ''research-consent-2026-09-21-v2''
      \<and> dget item ''policyVersion'' = PStr ''independent-research-v1''
      \<and> \<not> is_bool (dget item ''stateVersion'') \<and> 1 \<le> version \<and> pyeq (PInt version) (dget item ''stateVersion'')
      \<and> (en_environment c = [] \<or> dget item ''environment'' = PStr (en_environment c)))"

definition load_campaign_participation :: "env \<Rightarrow> ent_config \<Rightarrow> string \<Rightarrow> dict eff" where
  "load_campaign_participation E c account =
     (if en_participation c = [] then eret NOT_ENROLLED else
      ebind (e_get E (en_participation c) (''USER#'' @ account, ''CAMPAIGN_PARTICIPATION'')) (\<lambda>it.
      case row_of it of
        None \<Rightarrow> eret NOT_ENROLLED
      | Some item \<Rightarrow>
          ebind (elift (in_set (dget item ''state'') [''enrolled'', ''withdrawal_pending'', ''withdrawn''])) (\<lambda>known.
          if \<not> known then eret NOT_ENROLLED
          else if dget item ''state'' = PStr ''enrolled'' \<and> \<not> enrolled_valid c item then eret NOT_ENROLLED
          else eret item)))"

definition save_entitlement :: "env \<Rightarrow> ent_config \<Rightarrow> dict \<Rightarrow> dict eff" where
  "save_entitlement E c d =
     ebind (require_store c) (\<lambda>_.
     ebind (e_transact E [Put (en_table c) d Always]) (\<lambda>r.
     case r of Committed \<Rightarrow> eret d | _ \<Rightarrow> eraise SdkError))"

section \<open>Snapshots and subscriptions\<close>

definition build_entitlement_snapshot :: "env \<Rightarrow> ent_config \<Rightarrow> dict \<Rightarrow> dict eff" where
  "build_entitlement_snapshot E c d =
     ebind (elift (didx d ''accountId'')) (\<lambda>account.
     ebind (iso_or E None) (\<lambda>now.
     let n = normalize_entitlement c account d now None in
     eret ([(''tier'', PStr (lower (text_of c (dget n ''entitlementTier'')))), (''status'', dget n ''subscriptionStatus'')]
       @ map (\<lambda>k. (k, dget n k)) [''platform'', ''productId'', ''billingPeriodStartUtc'', ''billingPeriodEndUtc'', ''lastVerifiedAtUtc'',
           ''isAccessGranted'', ''monthlyScanLimit'', ''remainingMonthlyScans'', ''remainingCredits''])))"

definition build_usage_snapshot :: "env \<Rightarrow> ent_config \<Rightarrow> dict \<Rightarrow> dict eff" where
  "build_usage_snapshot E c snapshot =
     ebind (elift (didx snapshot ''tier'')) (\<lambda>tier.
     ebind (elift (py_int (dget_or snapshot ''monthlyScanLimit'' (PInt (if tier = PStr ''pro'' then pro_limit c else free_limit c))))) (\<lambda>limit.
     ebind (elift (rbind (didx snapshot ''remainingMonthlyScans'') py_int)) (\<lambda>remaining.
     ebind (case dget snapshot ''billingPeriodStartUtc'' of
              PStr t \<Rightarrow> if 7 \<le> length t then eret (take 7 t) else ebind (iso_or E None) (\<lambda>now. eret (take 7 now))
            | _ \<Rightarrow> ebind (iso_or E None) (\<lambda>now. eret (take 7 now))) (\<lambda>period.
     eret [(''periodKey'', PStr period), (''monthlyLimit'', PInt limit), (''usedCount'', PInt (max 0 (limit - remaining))),
       (''remainingCount'', PInt remaining)]))))"

definition play_fields :: "dict \<Rightarrow> dict \<Rightarrow> string \<Rightarrow> dict \<Rightarrow> dict result" where
  \<comment> \<open>what is written whatever the state of the subscription\<close>
  "play_fields verification payload now_iso d =
     rbind (didx payload ''platform'') (\<lambda>platform.
     rbind (didx payload ''productId'') (\<lambda>product.
     rbind (didx verification ''normalizedStatus'') (\<lambda>status.
     rbind (didx verification ''isAccessGranted'') (\<lambda>granted.
     Inr (dset ''orderId'' (dget payload ''orderId'')
         (dset ''purchaseTokenHash'' (dget payload ''purchaseTokenHash'')
         (dset ''isAccessGranted'' granted
         (dset ''billingPeriodEndUtc'' (dget verification ''billingPeriodEndUtc'')
         (dset ''billingPeriodStartUtc'' (dget verification ''billingPeriodStartUtc'')
         (dset ''subscriptionStatus'' status
         (dset ''productId'' product
         (dset ''platform'' platform
         (dset ''lastVerifiedAtUtc'' (PStr now_iso)
         (dset ''updatedAt'' (PStr now_iso)
         (dset ''SK'' (PStr GOOGLE_PLAY_PRO_SK) d)))))))))))))))"

definition play_allowance :: "ent_config \<Rightarrow> bool \<Rightarrow> bool \<Rightarrow> dict \<Rightarrow> dict result" where
  "play_allowance c granted same_period d =
     (let limit = (if granted then pro_limit c else free_limit c);
          base = dset ''monthlyScanLimit'' (PInt limit) (dset ''entitlementTier'' (PStr (if granted then ''PRO'' else ''FREE'')) d) in
      if granted \<and> \<not> same_period then Inr (dset ''remainingMonthlyScans'' (PInt limit) base) else
      rbind (py_int (dget_or base ''remainingMonthlyScans'' (PInt limit))) (\<lambda>n.
      Inr (dset ''remainingMonthlyScans'' (PInt (min limit n)) base)))"

definition apply_google_play_subscription :: "env \<Rightarrow> ent_config \<Rightarrow> dict \<Rightarrow> dict \<Rightarrow> dict \<Rightarrow> string option \<Rightarrow> dict eff" where
  "apply_google_play_subscription E c entitlement verification payload now_iso =
     ebind (iso_or E now_iso) (\<lambda>now.
     ebind (elift (didx entitlement ''accountId'')) (\<lambda>account.
     let d = normalize_entitlement c account entitlement now (Some GOOGLE_PLAY_PRO_SK) in
     ebind (elift (play_fields verification payload now d)) (\<lambda>updated.
     elift (play_allowance c (truthy (dget verification ''isAccessGranted''))
       (pyeq (dget d ''billingPeriodStartUtc'') (dget verification ''billingPeriodStartUtc'')) updated))))"

end
