(* ===== verification/HistoryRecords.thy ===== *)
theory HistoryRecords
  imports HistoryContracts Ledger
begin

text \<open>
  Properties of the retained record: the response read back from a content row is the response it was
  built from, what is read back always meets the public contract, and the two rows of a record agree
  and expire in the right order.
\<close>

section \<open>Numbers\<close>

definition stable :: "float_repr \<Rightarrow> pyval \<Rightarrow> bool" where
  \<comment> \<open>a number that is not a decimal, or the decimal of a \<open>float\<close>\<close>
  "stable fl v = (case v of PDec m e \<Rightarrow> fl m e = (m, e) | _ \<Rightarrow> True)"

lemma num_eq_refl: "num_eq x x"
  by (simp add: num_eq_def Let_def)

lemma veq_num: "num_eq (m, e) (n, k) \<Longrightarrow> veq False (PDec m e) (PDec n k)" "num_eq (m, e) (n, 0) \<Longrightarrow> veq False (PInt n) (PDec m e)"
  by (simp_all add: pynum_veq [of _ "(m, e)" _ "(n, k)"] pynum_veq [of "PInt n" "(n, 0)" _ "(m, e)"] num_eq_sym)

lemma bounded_number_stable:
  assumes "bounded_number lo hi v = Inr u" "stable fl v"
  shows "\<exists>u'. bounded_number lo hi (json_number fl u) = Inr u' \<and> pyeq (json_number fl u') v"
proof (cases v)
  case (PInt n)
  with assms(1) show ?thesis by (auto simp: bounded_number_def json_number_def Let_def split: if_splits)
next
  case (PDec m e)
  with assms have u: "u = PDec m e" "\<not> num_less (m, e) (lo, 0)" "\<not> num_less (hi, 0) (m, e)" "fl m e = (m, e)"
    by (auto simp: bounded_number_def stable_def Let_def split: if_splits)
  show ?thesis
  proof (cases "integral (PDec m e)")
    case None
    with u PDec show ?thesis by (simp add: bounded_number_def json_number_def veq_num num_eq_refl del: integral.simps)
  next
    case (Some n)
    then have eq: "num_eq (m, e) (n, 0)" by (simp only: integral_dec)
    with u have "\<not> num_less (n, 0) (lo, 0)" "\<not> num_less (hi, 0) (n, 0)" by (simp_all only: num_less_cong [OF eq] not_False_eq_True)
    then have "bounded_number lo hi (PInt n) = Inr (PDec n 0)" by (simp only: bounded_number_def Let_def pyval.case not_False_eq_True if_True simp_thms)
    moreover have "json_number fl u = PInt n" "json_number fl (PDec n 0) = PInt n"
      using Some u(1) by (simp_all add: json_number_def del: integral.simps) (simp add: integral.simps)
    ultimately show ?thesis using PDec veq_num(2) [OF eq] by metis
  qed
qed (use assms in \<open>simp_all add: bounded_number_def\<close>)

section \<open>Texts\<close>

lemma bounded_text_eq: "bounded_text mb v = Inr t \<Longrightarrow> v = PStr t"
  by (cases v) (auto simp: bounded_text_def rbind_Inr_iff)

lemma sequence_texts: "sequence (map (bounded_text mb) xs) = Inr ts \<Longrightarrow> xs = map PStr ts"
  by (induction xs arbitrary: ts) (auto simp: rbind_Inr_iff dest: bounded_text_eq)

lemma bounded_text_list_eq: "bounded_text_list s v = Inr ts \<Longrightarrow> v = PList (map PStr ts)"
  by (cases v) (auto simp: bounded_text_list_def rbind_Inr_iff dest: sequence_texts)

lemma listed_texts: "listed (PList (map PStr ts)) = Inr (map PStr ts)"
  by (cases ts) (simp_all add: listed_def as_tuple_def)

lemma json_values_texts: "json_values fl (PList (map PStr ts)) = PList (map PStr ts)"
  by (induction ts) (simp_all add: json_number_def)

section \<open>Assessments\<close>

lemma assessment_of_Inr:
  assumes "assessment_of s response = Inr a"
  obtains score confidence summary signals acts where
    "has_keys response RESPONSE_FIELDS" "dget response ''schemaVersion'' = PStr ''1.0''"
    "bounded_number 0 100 (dget response ''scamScore'') = Inr score"
    "bounded_number 0 1 (dget response ''confidence'') = Inr confidence"
    "member_of ALLOWED_RISK_LEVELS (dget response ''riskLevel'') = Inr ()"
    "bounded_text (hs_max_summary_bytes s) (dget response ''summary'') = Inr summary"
    "bounded_text_list s (dget response ''signals'') = Inr signals"
    "bounded_text_list s (dget response ''recommendedActions'') = Inr acts"
    "a = [(''schemaVersion'', PStr ''1.0''), (''scamScore'', score), (''riskLevel'', dget response ''riskLevel''),
       (''confidence'', confidence), (''summary'', PStr summary), (''signals'', PList (map PStr signals)),
       (''recommendedActions'', PList (map PStr acts))]"
  using assms unfolding assessment_of_def Let_def rbind_raise_if
  by (elim conjE) (simp add: rbind_Inr_iff; elim exE conjE; simp)

lemma bounded_number_kind: "bounded_number lo hi v = Inr u \<Longrightarrow> \<exists>m e. u = PDec m e"
  by (cases v) (auto simp: bounded_number_def Let_def split: if_splits)

lemma no_prohibited_texts: "list_all no_prohibited_fields (map PStr ts)"
  by (simp add: list_all_iff)

lemma assessment_of_response:
  assumes "bounded_number 0 100 score = Inr score'" "bounded_number 0 1 confidence = Inr confidence'"
    "member_of ALLOWED_RISK_LEVELS risk = Inr ()" "bounded_text (hs_max_summary_bytes s) (PStr summary) = Inr summary"
    "bounded_text_list s (PList (map PStr signals)) = Inr signals" "bounded_text_list s (PList (map PStr acts)) = Inr acts"
  shows "assessment_of s [(''schemaVersion'', PStr ''1.0''), (''requestId'', rid), (''scamScore'', score), (''riskLevel'', risk),
      (''confidence'', confidence), (''summary'', PStr summary), (''signals'', PList (map PStr signals)),
      (''recommendedActions'', PList (map PStr acts))]
    = Inr [(''schemaVersion'', PStr ''1.0''), (''scamScore'', score'), (''riskLevel'', risk),
       (''confidence'', confidence'), (''summary'', PStr summary), (''signals'', PList (map PStr signals)),
       (''recommendedActions'', PList (map PStr acts))]"
proof -
  obtain m e m' e' where n: "score' = PDec m e" "confidence' = PDec m' e'"
    using bounded_number_kind [OF assms(1)] bounded_number_kind [OF assms(2)] by blast
  obtain r where r: "risk = PStr r"
    using assms(3) by (auto simp: member_of_def one_of_iff)
  have "has_keys [(''schemaVersion'', PStr ''1.0''), (''requestId'', rid), (''scamScore'', score), (''riskLevel'', risk),
      (''confidence'', confidence), (''summary'', PStr summary), (''signals'', PList (map PStr signals)),
      (''recommendedActions'', PList (map PStr acts))] RESPONSE_FIELDS"
    by (simp add: has_keys_def RESPONSE_FIELDS_def)
  then show ?thesis using assms
    by (simp add: assessment_of_def Let_def n r PROHIBITED_KEYS_def no_prohibited_texts)
qed

section \<open>The rows of a record\<close>

definition read_response :: "pyval \<Rightarrow> pyval \<Rightarrow> pyval \<Rightarrow> pyval \<Rightarrow> string \<Rightarrow> string list \<Rightarrow> string list \<Rightarrow> dict" where
  "read_response rid score risk confidence summary signals acts =
     [(''schemaVersion'', PStr ''1.0''), (''requestId'', rid), (''scamScore'', score), (''riskLevel'', risk), (''confidence'', confidence),
      (''summary'', PStr summary), (''signals'', PList (map PStr signals)), (''recommendedActions'', PList (map PStr acts))]"

lemma has_response_fields: "has_keys (read_response rid score risk confidence summary signals acts) RESPONSE_FIELDS"
  by (simp add: has_keys_def read_response_def RESPONSE_FIELDS_def)

lemma read_response_validated:
  assumes "bounded_number 0 100 score = Inr score'" "bounded_number 0 1 confidence = Inr confidence'"
    "member_of ALLOWED_RISK_LEVELS risk = Inr ()" "bounded_text (hs_max_summary_bytes s) (PStr summary) = Inr summary"
    "bounded_text_list s (PList (map PStr signals)) = Inr signals" "bounded_text_list s (PList (map PStr acts)) = Inr acts"
  shows "rbind (assessment_of s (read_response rid score risk confidence summary signals acts)) (\<lambda>validated.
      Inr (dmerge (read_response rid score risk confidence summary signals acts) (map (\<lambda>kv. (fst kv, json_values fl (snd kv))) validated)))
    = Inr (read_response rid (json_number fl score') risk (json_number fl confidence') summary signals acts)"
proof -
  obtain m e m' e' where n: "score' = PDec m e" "confidence' = PDec m' e'"
    using bounded_number_kind [OF assms(1)] bounded_number_kind [OF assms(2)] by blast
  obtain r where r: "risk = PStr r" using assms(3) by (auto simp: member_of_def one_of_iff)
  have "json_values fl (PStr t) = PStr t" "json_values fl (PDec i j) = json_number fl (PDec i j)" for t i j
    by (simp_all add: json_number_def)
  then show ?thesis unfolding read_response_def n r
    by (simp del: json_values.simps add: json_values_texts assessment_of_response [OF assms, unfolded n r])
qed

text \<open>What a completed check writes.\<close>

lemma build_Inr:
  assumes "build_history_items E s account h accepted payload response now = Inr (content, locator)"
  obtains rid a where
    "dget response ''requestId'' = PStr rid" "REQUEST_ID_PATTERN rid" "assessment_of s response = Inr a"
    "member_of ALLOWED_SOURCE_TYPES (dget content ''sourceType'') = Inr ()" "dget content ''recordType'' = PStr ''HISTORY''"
    "dget content ''requestId'' = PStr rid" "dget content ''assessment'' = PDict a" "has_keys content HISTORY_ITEM_FIELDS"
  using assms unfolding build_history_items_def Let_def
  by (auto simp: rbind_Inr_iff history_request_id_def has_keys_def HISTORY_ITEM_FIELDS_def split: pyval.splits if_splits option.splits)

text \<open>What a completed check writes is read back as its response, with numbers compared by value.\<close>

lemma history_read_back:
  assumes "build_history_items E s account h accepted payload response now = Inr (content, locator)"
    and "stable fl (dget response ''scamScore'')" "stable fl (dget response ''confidence'')"
  shows "\<exists>r. response_from_history_item fl (Some s) content = Inr r \<and> has_keys r RESPONSE_FIELDS
     \<and> list_all (\<lambda>k. pyeq (dget r k) (dget response k)) RESPONSE_FIELDS"
proof -
  from assms(1) obtain rid a where b:
      "dget response ''requestId'' = PStr rid" "REQUEST_ID_PATTERN rid" "assessment_of s response = Inr a"
      "member_of ALLOWED_SOURCE_TYPES (dget content ''sourceType'') = Inr ()" "dget content ''recordType'' = PStr ''HISTORY''"
      "dget content ''requestId'' = PStr rid" "dget content ''assessment'' = PDict a" "has_keys content HISTORY_ITEM_FIELDS"
    by (rule build_Inr)
  from b(3) obtain score confidence summary signals acts where a:
      "dget response ''schemaVersion'' = PStr ''1.0''" "bounded_number 0 100 (dget response ''scamScore'') = Inr score"
      "bounded_number 0 1 (dget response ''confidence'') = Inr confidence"
      "member_of ALLOWED_RISK_LEVELS (dget response ''riskLevel'') = Inr ()"
      "bounded_text (hs_max_summary_bytes s) (dget response ''summary'') = Inr summary"
      "bounded_text_list s (dget response ''signals'') = Inr signals"
      "bounded_text_list s (dget response ''recommendedActions'') = Inr acts"
      "a = [(''schemaVersion'', PStr ''1.0''), (''scamScore'', score), (''riskLevel'', dget response ''riskLevel''),
         (''confidence'', confidence), (''summary'', PStr summary), (''signals'', PList (map PStr signals)),
         (''recommendedActions'', PList (map PStr acts))]"
    by (rule assessment_of_Inr)
  have t: "dget response ''summary'' = PStr summary" "dget response ''signals'' = PList (map PStr signals)"
      "dget response ''recommendedActions'' = PList (map PStr acts)"
    using a bounded_text_eq bounded_text_list_eq by blast+
  obtain score' confidence' where n:
      "bounded_number 0 100 (json_number fl score) = Inr score'" "pyeq (json_number fl score') (dget response ''scamScore'')"
      "bounded_number 0 1 (json_number fl confidence) = Inr confidence'" "pyeq (json_number fl confidence') (dget response ''confidence'')"
    using bounded_number_stable [OF a(2) assms(2)] bounded_number_stable [OF a(3) assms(3)] by blast
  let ?r = "read_response (PStr rid) (json_number fl score') (dget response ''riskLevel'') (json_number fl confidence') summary signals acts"
  have keys: "has_keys a ASSESSMENT_FIELDS" unfolding a(8) by (simp add: has_keys_def ASSESSMENT_FIELDS_def)
  note v = read_response_validated [OF n(1,3) a(4) a(5-7) [unfolded t], of "PStr rid" fl, unfolded read_response_def]
  have "response_from_history_item fl (Some s) content = Inr ?r"
    using b(2,4-8) keys v
    by (simp add: response_from_history_item_def history_request_id_def a(8) listed_texts Let_def read_response_def)
  moreover obtain risk where "dget response ''riskLevel'' = PStr risk" using a(4) by (auto simp: member_of_def one_of_iff)
  moreover have "pyeq (PList (map PStr ts)) (PList (map PStr ts))" for ts by (rule veq_refl) (simp add: list_all_iff)
  ultimately show ?thesis using a(1) b(1) t n(2,4) has_response_fields
    by (simp add: RESPONSE_FIELDS_def read_response_def)
qed

text \<open>A completed check of an account, in an environment without other writers.\<close>

abbreviation still_env :: env where "still_env \<equiv> quiet_env 1000 (\<lambda>_ _. [])"

definition ex_response :: dict where
  "ex_response = [(''schemaVersion'', PStr ''1.0''), (''requestId'', PStr ''r1''), (''scamScore'', PInt 87), (''riskLevel'', PStr ''high''),
     (''confidence'', PDec 95 (-2)), (''summary'', PStr ''scam''), (''signals'', PList [PStr ''urgency'']), (''recommendedActions'', PList [])]"

definition ex_accepted :: dict where
  "ex_accepted = [(''historyGeneration'', PInt 0), (''recognitionGeneration'', PInt 0), (''acceptedSequence'', PInt 1), (''acceptedAtEpochMs'', PInt 1000)]"

definition ex_check :: dict where "ex_check = [(''requestId'', PStr ''r1''), (''sourceType'', PStr ''ocr'')]"

abbreviation ex_hash :: string where "ex_hash \<equiv> replicate 64 CHR ''a''"

lemma ex_assessed:
  assumes "hs_max_summary_bytes s = Some 4096" "hs_max_list_items s = Some 20" "hs_max_text_field_bytes s = Some 1024"
  shows "assessment_of s ex_response = Inr [(''schemaVersion'', PStr ''1.0''), (''scamScore'', PDec 87 0), (''riskLevel'', PStr ''high''),
     (''confidence'', PDec 95 (-2)), (''summary'', PStr ''scam''), (''signals'', PList [PStr ''urgency'']), (''recommendedActions'', PList [])]"
  using assms by (simp add: assessment_of_def ex_response_def has_keys_def RESPONSE_FIELDS_def bounded_number_def member_of_def
      ALLOWED_RISK_LEVELS_def bounded_text_def bounded_text_list_def exceeds_def utf8_length_def plain_char_def code_def Let_def
      num_less_def scaled_def PROHIBITED_KEYS_def)

lemma ex_built:
  assumes "validate_writes s = Inr ()"
  shows "\<exists>content locator. build_history_items E s ''alice'' ex_hash ex_accepted ex_check ex_response 1000 = Inr (content, locator)"
proof -
  from assms have s: "hs_max_summary_bytes s = Some 4096" "hs_max_list_items s = Some 20" "hs_max_text_field_bytes s = Some 1024"
      "dedup_retention_covers_cleanup s"
    by (simp_all add: validate_writes_def validate_write_contract_def rbind_Inr_iff)
  then obtain days where d: "hs_dedup_retention_days s = Some days"
    by (auto simp: dedup_retention_covers_cleanup_def split: option.splits)
  have "durable_hash ex_hash = Inr ex_hash"
    by (simp add: durable_hash_def fullmatch_def is_hex_def code_def list_all_iff)
  moreover have "history_request_id (dget ex_response ''requestId'') = Inr ''r1''"
    by (simp add: ex_response_def history_request_id_def REQUEST_ID_PATTERN_def first_then_def fullmatch_def is_alnum_def is_digit_def code_def)
  ultimately show ?thesis
    using d by (simp add: build_history_items_def ex_assessed [OF s(1-3)] ex_accepted_def ex_check_def member_of_def
      ALLOWED_SOURCE_TYPES_def int_at_least_def Let_def)
qed

lemma build_shape:
  assumes "build_history_items E s account h accepted payload response now = Inr (content, locator)"
  obtains g rid sk days c4 c5 c6 c7 l1 l2 l5 l6 where "hs_dedup_retention_days s = Some days"
    "dget response ''requestId'' = PStr rid" "dget accepted ''historyGeneration'' = PInt g"
    "content = [(''PK'', PStr (''USER#'' @ account @ ''#HISTORY#'' @ show_int g)), (''SK'', PStr sk), (''recordType'', PStr ''HISTORY''),
        (''schemaVersion'', PInt (hs_schema_version s)),
        (''recordVersion'', PInt 1), (''requestId'', PStr rid), (''historyGeneration'', PInt g), (''recognitionGeneration'', c4), (''acceptedSequence'', c5),
        (''acceptedAtEpochMs'', c6), (''completedAtEpochMs'', PInt (now * 1000)), (''sourceType'', c7), (''assessment'', l1),
        (''expiresAt'', PInt (now + hs_retention_days s * 86400)), (''expiryBucket'', l2)]"
    "locator = [(''PK'', PStr (''USER#'' @ account)), (''SK'', PStr (''REQUEST#'' @ rid)), (''recordType'', PStr ''REQUEST''),
        (''schemaVersion'', PInt (hs_schema_version s)),
        (''status'', PStr ''ACTIVE''), (''requestId'', PStr rid), (''payloadHash'', PStr h), (''historyGeneration'', PInt g), (''acceptedSequence'', c5),
        (''contentSortKey'', PStr sk), (''completedAtEpochMs'', PInt (now * 1000)), (''contentExpiresAt'', PInt (now + hs_retention_days s * 86400)),
        (''lifecycleAt'', PInt (now + hs_retention_days s * 86400)), (''lifecycleBucket'', l5), (''expiresAt'', PInt (now + days * 86400)),
        (''expiryBucket'', l6)]"
proof -
  from assms obtain days where d: "hs_dedup_retention_days s = Some days"
    by (cases "hs_dedup_retention_days s") (auto simp: build_history_items_def rbind_Inr_iff Let_def)
  have int: "int_at_least lo v = Inr n \<Longrightarrow> v = PInt n" for lo v n by (cases v) (auto simp: int_at_least_def split: if_splits)
  have rid: "history_request_id v = Inr q \<Longrightarrow> v = PStr q" for v q by (cases v) (auto simp: history_request_id_def split: if_splits)
  from assms show thesis unfolding build_history_items_def Let_def d option.case
    by (auto simp: durable_hash_def rbind_Inr_iff dest!: int rid intro!: that [OF d])
qed

text \<open>
  C32 (safety). The two rows of a record agree: the locator names the sort key and the expiry of its
  content row and carries the hash of the request, and with settings accepted for writes it stays at
  least a day longer than the content.
\<close>

theorem history_rows_agree:
  assumes "build_history_items E s account h accepted payload response now = Inr (content, locator)"
    and "validate_writes s = Inr ()"
  shows "dget locator ''contentSortKey'' = dget content ''SK'' \<and> dget locator ''contentExpiresAt'' = dget content ''expiresAt''
     \<and> dget locator ''payloadHash'' = PStr h \<and> dget locator ''historyGeneration'' = dget content ''historyGeneration''
     \<and> inum content ''expiresAt'' = now + 90 * 86400 \<and> inum content ''expiresAt'' + 86400 \<le> inum locator ''expiresAt''"
proof -
  from assms(2) have s: "hs_retention_days s = 90" "hs_erasure_sla_hours s = 24" "dedup_retention_covers_cleanup s"
    by (simp_all add: validate_writes_def validate_write_contract_def validate_common_def rbind_Inr_iff)
  from assms(1) obtain g rid sk days c4 c5 c6 c7 l1 l2 l5 l6 where d: "hs_dedup_retention_days s = Some days" and shape:
    "content = [(''PK'', PStr (''USER#'' @ account @ ''#HISTORY#'' @ show_int g)), (''SK'', PStr sk), (''recordType'', PStr ''HISTORY''),
        (''schemaVersion'', PInt (hs_schema_version s)),
        (''recordVersion'', PInt 1), (''requestId'', PStr rid), (''historyGeneration'', PInt g), (''recognitionGeneration'', c4), (''acceptedSequence'', c5),
        (''acceptedAtEpochMs'', c6), (''completedAtEpochMs'', PInt (now * 1000)), (''sourceType'', c7), (''assessment'', l1),
        (''expiresAt'', PInt (now + hs_retention_days s * 86400)), (''expiryBucket'', l2)]"
    "locator = [(''PK'', PStr (''USER#'' @ account)), (''SK'', PStr (''REQUEST#'' @ rid)), (''recordType'', PStr ''REQUEST''),
        (''schemaVersion'', PInt (hs_schema_version s)),
        (''status'', PStr ''ACTIVE''), (''requestId'', PStr rid), (''payloadHash'', PStr h), (''historyGeneration'', PInt g), (''acceptedSequence'', c5),
        (''contentSortKey'', PStr sk), (''completedAtEpochMs'', PInt (now * 1000)), (''contentExpiresAt'', PInt (now + hs_retention_days s * 86400)),
        (''lifecycleAt'', PInt (now + hs_retention_days s * 86400)), (''lifecycleBucket'', l5), (''expiresAt'', PInt (now + days * 86400)),
        (''expiryBucket'', l6)]"
    by (rule build_shape)
  from s d have "91 \<le> days" by (auto simp: dedup_retention_covers_cleanup_def)
  then show ?thesis by (simp add: shape s(1))
qed

theorem history_rows_agree_witness:
  "\<exists>s content locator. build_history_items still_env s ''alice'' ex_hash ex_accepted ex_check ex_response 1000 = Inr (content, locator)
     \<and> dget locator ''contentSortKey'' = dget content ''SK''"
proof -
  obtain s where s: "validate_writes s = Inr ()" using ex_history_read by blast
  from ex_built [OF this, of "still_env"] obtain content locator where
    b: "build_history_items still_env s ''alice'' ex_hash ex_accepted ex_check ex_response 1000 = Inr (content, locator)" by blast
  from history_rows_agree [OF b s] b show ?thesis by blast
qed

end
