(* ===== verification/AbuseSafety.thy ===== *)
theory AbuseSafety
  imports AbuseControls HistoryRecords
begin

text \<open>
  Properties of the request records: what every write preserves, whatever other writers do; who may
  store a result; which repetitions are refused, replayed or taken over.
\<close>

section \<open>What the rows satisfy\<close>

definition REQUEST_STATUSES :: "string list" where
  \<comment> \<open>the states of a request; the last two are written by the commit of a scan and by erasure\<close>
  "REQUEST_STATUSES = [''PROCESSING'', ''RESULT_READY'', ''RETRYABLE'', ''COMPLETED'', ''COMPLETED_ERASED'']"

definition request_ok :: "dict \<Rightarrow> bool" where
  "request_ok d =
     ((\<exists>s \<in> set REQUEST_STATUSES. dget d ''status'' = PStr s)
      \<and> (dget d ''status'' = PStr ''PROCESSING'' \<longrightarrow>
         (\<exists>h. dget d ''payloadHash'' = PStr h) \<and> (\<exists>t. dget d ''leaseToken'' = PStr t) \<and> integral (dget d ''leaseExpiresAt'') \<noteq> None)
      \<and> (dget d ''status'' = PStr ''RESULT_READY'' \<longrightarrow>
         (\<exists>h. dget d ''payloadHash'' = PStr h) \<and> (\<exists>r. dget d ''response'' = PDict r) \<and> \<not> dhas d ''leaseToken'')
      \<and> (dget d ''status'' = PStr ''RETRYABLE'' \<longrightarrow>
         (\<exists>h. dget d ''payloadHash'' = PStr h) \<and> dhas d ''historyAuthorization'' \<and> \<not> dhas d ''leaseToken''))"

definition abuse_item :: "abuse_config \<Rightarrow> item_prop" where
  "abuse_item c t k it =
     (t = ac_table c \<longrightarrow>
        (\<forall>i. fst k = ''ANALYSIS#REQUEST#'' @ i \<longrightarrow> pred_option request_ok it)
      \<and> (\<forall>i. fst k = ''ANALYSIS#RATE#'' @ i \<longrightarrow> capped ''requestCount'' (ac_max c) (contents it)))"

lemma request_update:
  assumes "\<And>d. request_ok d \<Longrightarrow> cond_holds g d \<Longrightarrow> request_ok (fold apply_update us d)" "\<not> cond_holds g []"
  shows "item_safe (abuse_item c) (Update (ac_table c) (request_key i r) us g)"
  unfolding item_safe_def
proof (intro allI impI)
  fix it
  assume a: "abuse_item c (fst (target (Update (ac_table c) (request_key i r) us g))) (snd (target (Update (ac_table c) (request_key i r) us g))) it"
    "cond_holds (guard (Update (ac_table c) (request_key i r) us g)) (contents it)"
  with assms(2) obtain d where "it = Some d" by (cases it) (auto simp: contents_def)
  with a assms(1) show "abuse_item c (fst (target (Update (ac_table c) (request_key i r) us g)))
      (snd (target (Update (ac_table c) (request_key i r) us g))) (after (Update (ac_table c) (request_key i r) us g) it)"
    by (simp add: abuse_item_def request_key_def contents_def)
qed

lemma equals_PStr: "cond_holds (equals a (PStr s)) d \<longleftrightarrow> dget d a = PStr s"
  by (auto simp: equals_def dget_def split: option.splits)

lemma equals_absent: "\<not> cond_holds (equals a v) []"
  by (simp add: equals_def)

lemma authority_checks_safe: "account_authority_checks c account = Inr checks \<Longrightarrow> list_all (item_safe P) checks"
  by (auto simp: account_authority_checks_def)

section \<open>The writes\<close>

text \<open>A write of \<open>transact_abuse_write\<close> preserves a property of items when its own action does.\<close>

context guarded_items
begin

lemma keeps_iso [keeps_intros]: "keeps (all_items P) (iso_now E)" "keeps (all_items P) (e_uuid4 E)" "keeps (all_items P) (epoch_or E now)"
  unfolding iso_now_def e_utcnow_def e_uuid4_def epoch_or_def by (intro keeps_intros)+

lemma keeps_active [keeps_intros]: "keeps (all_items P) (assert_account_active E c account)"
  unfolding assert_account_active_def by (intro keeps_intros)

lemma keeps_abuse_write [keeps_intros]:
  "item_safe P write \<Longrightarrow> keeps (all_items P) (transact_abuse_write E c identity write conflict)"
  unfolding transact_abuse_write_def
  by (intro keeps_intros) (auto dest: authority_checks_safe)

lemma keeps_one: "item_safe P a \<Longrightarrow> keeps (all_items P) (e_transact E [a])"
  by (rule keeps_batch) simp

lemma keeps_replay [keeps_intros]: "keeps (all_items P) (durable_replay E c identity r h now)"
  unfolding durable_replay_def replay_content_def result_unavailable_def
  by (intro keeps_intros) (auto intro!: keeps_intros split: sum.splits exc.splits)

end

lemma new_request_safe:
  "item_safe (abuse_item c) (Put (ac_table c)
     [(''PK'', PStr (''ANALYSIS#REQUEST#'' @ i)), (''SK'', PStr r), (''status'', PStr ''PROCESSING''), (''payloadHash'', PStr h),
      (''leaseToken'', PStr t), (''leaseExpiresAt'', PInt l), (''createdAt'', a), (''updatedAt'', b), (''expiresAt'', x), (''ttl'', y)] g)"
  by (simp add: item_safe_def abuse_item_def request_ok_def REQUEST_STATUSES_def item_key_def contents_def)

lemma rate_safe:
  assumes "1 \<le> ac_max c"
  shows "item_safe (abuse_item c) (Update (ac_table c) (''ANALYSIS#RATE#'' @ i, sk)
     [UAdd ''requestCount'' 1, USet ''expiresAt'' x, USet ''ttl'' y, USet ''updatedAt'' z]
     (Or (NotExists ''requestCount'') (Cmp CLt ''requestCount'' (PInt (ac_max c)))))"
  unfolding item_safe_def
proof (intro allI impI)
  let ?k = "(''ANALYSIS#RATE#'' @ i, sk)"
  let ?g = "Or (NotExists ''requestCount'') (Cmp CLt ''requestCount'' (PInt (ac_max c)))"
  let ?us = "[UAdd ''requestCount'' 1, USet ''expiresAt'' x, USet ''ttl'' y, USet ''updatedAt'' z]"
  fix it
  assume a: "abuse_item c (fst (target (Update (ac_table c) ?k ?us ?g))) (snd (target (Update (ac_table c) ?k ?us ?g))) it"
    "cond_holds (guard (Update (ac_table c) ?k ?us ?g)) (contents it)"
  then have "capped ''requestCount'' (ac_max c) (contents it)" "cond_holds ?g (contents it)"
    by (simp_all add: abuse_item_def del: cond_holds.simps)
  then have "capped ''requestCount'' (ac_max c) (apply_update (UAdd ''requestCount'' 1) (update_base ?k it))"
    by (rule capped_increment [OF _ _ assms]) (simp_all add: update_base_fields)
  then have "capped ''requestCount'' (ac_max c) (fold apply_update ?us (update_base ?k it))"
    by (simp add: capped_def within_def)
  then show "abuse_item c (fst (target (Update (ac_table c) ?k ?us ?g))) (snd (target (Update (ac_table c) ?k ?us ?g)))
      (after (Update (ac_table c) ?k ?us ?g) it)"
    by (simp add: abuse_item_def after_update contents_def del: after.simps)
qed

lemma takeover_safe:
  "item_safe (abuse_item c) (Update (ac_table c) (request_key i r)
     [USet ''leaseToken'' (PStr t), USet ''leaseExpiresAt'' (PInt l), USet ''updatedAt'' u, USet ''expiresAt'' x, USet ''ttl'' y]
     (all_of [equals ''status'' (PStr ''PROCESSING''), equals ''payloadHash'' (PStr h), equals ''leaseExpiresAt'' (PInt p)]))"
  by (rule request_update) (simp_all add: request_ok_def REQUEST_STATUSES_def equals_PStr equals_absent)

lemma retry_safe:
  "item_safe (abuse_item c) (Update (ac_table c) (request_key i r)
     [USet ''status'' (PStr ''PROCESSING''), USet ''leaseToken'' (PStr t), USet ''leaseExpiresAt'' (PInt l), USet ''updatedAt'' u,
      USet ''expiresAt'' x, USet ''ttl'' y]
     (all_of [equals ''status'' (PStr ''RETRYABLE''), equals ''payloadHash'' (PStr h)]))"
  by (rule request_update) (simp_all add: request_ok_def REQUEST_STATUSES_def equals_PStr equals_absent)

lemma replace_safe:
  "item_safe (abuse_item c) (Update (ac_table c) (request_key i r)
     [USet ''status'' (PStr ''PROCESSING''), USet ''payloadHash'' (PStr h), USet ''leaseToken'' (PStr t), USet ''leaseExpiresAt'' (PInt l),
      USet ''createdAt'' a, USet ''updatedAt'' u, USet ''expiresAt'' x, USet ''ttl'' y,
      URemove ''response'', URemove ''resultReadyAt'', URemove ''completedAt'']
     (equals ''expiresAt'' (PInt p)))"
  by (rule request_update) (simp_all add: request_ok_def REQUEST_STATUSES_def equals_absent)

lemma release_safe:
  "item_safe (abuse_item c) (Update (ac_table c) (request_key i r)
     [USet ''status'' (PStr ''RETRYABLE''), USet ''updatedAt'' u, URemove ''leaseToken'', URemove ''leaseExpiresAt'']
     (all_of ([equals ''status'' (PStr ''PROCESSING''), equals ''leaseToken'' (PStr t)] @ [Exists ''historyAuthorization''])))"
  by (rule request_update) (auto simp: request_ok_def REQUEST_STATUSES_def equals_PStr equals_absent)

lemma delete_safe: "item_safe (abuse_item c) (Delete (ac_table c) (request_key i r) g)"
  by (simp add: item_safe_def abuse_item_def request_key_def request_ok_def contents_def)

lemma fold_sets:
  "k \<notin> fst ` set kvs \<Longrightarrow> dget (fold apply_update (map (\<lambda>kv. USet (fst kv) (snd kv)) kvs) d) k = dget d k"
  "k \<notin> fst ` set kvs \<Longrightarrow> dhas (fold apply_update (map (\<lambda>kv. USet (fst kv) (snd kv)) kvs) d) k = dhas d k"
  by (induction kvs arbitrary: d) auto

definition stored_updates :: "abuse_config \<Rightarrow> dict \<Rightarrow> dict \<Rightarrow> string \<Rightarrow> string \<Rightarrow> int \<Rightarrow> update list" where
  "stored_updates c response optional ready_at updated now =
     [USet ''status'' (PStr ''RESULT_READY''), USet ''response'' (PDict response), USet ''resultReadyAt'' (PStr ready_at),
      USet ''updatedAt'' (PStr updated), USet ''expiresAt'' (PInt (now + ac_ttl c)), USet ''ttl'' (PInt (now + ac_ttl c))]
     @ map (\<lambda>kv. USet (fst kv) (snd kv)) optional @ [URemove ''leaseToken'', URemove ''leaseExpiresAt'']"

definition held_by :: "string \<Rightarrow> string \<Rightarrow> cond" where
  "held_by h t = all_of [equals ''status'' (PStr ''PROCESSING''), equals ''payloadHash'' (PStr h), equals ''leaseToken'' (PStr t)]"

lemma store_safe:
  assumes "fst ` set kvs \<subseteq> {''statisticsEventId'', ''campaignAuthorization'', ''historyAuthorization''}"
  shows "item_safe (abuse_item c) (Update (ac_table c) (request_key i r) (stored_updates c resp kvs a b n) (held_by h t))"
proof (rule request_update)
  fix d
  assume "request_ok d" "cond_holds (held_by h t) d"
  moreover from assms have "''status'' \<notin> fst ` set kvs" "''payloadHash'' \<notin> fst ` set kvs" "''response'' \<notin> fst ` set kvs" by auto
  ultimately show "request_ok (fold apply_update (stored_updates c resp kvs a b n) d)"
    by (simp add: request_ok_def REQUEST_STATUSES_def held_by_def stored_updates_def equals_PStr fold_sets)
qed (simp add: held_by_def equals_absent)

section \<open>The kinds of writes\<close>

definition minted :: "env \<Rightarrow> string \<Rightarrow> bool" where   \<comment> \<open>a lease that \<open>uuid.uuid4()\<close> can give\<close>
  "minted E t = (\<exists>i. t = uuid_text (random_hex E i 16))"

lemma yields_uuid: "yields (e_uuid4 E) t \<Longrightarrow> minted E t"
  by (auto simp: yields_def e_uuid4_def e_random_def ebind_def minted_def)

inductive request_write :: "env \<Rightarrow> abuse_config \<Rightarrow> action \<Rightarrow> bool" for E c where
  created: "minted E t \<Longrightarrow> request_write E c (Put (ac_table c)
     [(''PK'', PStr (''ANALYSIS#REQUEST#'' @ i)), (''SK'', PStr r), (''status'', PStr ''PROCESSING''), (''payloadHash'', PStr h),
      (''leaseToken'', PStr t), (''leaseExpiresAt'', PInt l), (''createdAt'', a), (''updatedAt'', b), (''expiresAt'', x), (''ttl'', y)] g)"
| taken_over: "minted E t \<Longrightarrow> request_write E c (Update (ac_table c) (request_key i r)
     [USet ''leaseToken'' (PStr t), USet ''leaseExpiresAt'' (PInt l), USet ''updatedAt'' u, USet ''expiresAt'' x, USet ''ttl'' y]
     (all_of [equals ''status'' (PStr ''PROCESSING''), equals ''payloadHash'' (PStr h), equals ''leaseExpiresAt'' (PInt p)]))"
| retried: "minted E t \<Longrightarrow> request_write E c (Update (ac_table c) (request_key i r)
     [USet ''status'' (PStr ''PROCESSING''), USet ''leaseToken'' (PStr t), USet ''leaseExpiresAt'' (PInt l), USet ''updatedAt'' u,
      USet ''expiresAt'' x, USet ''ttl'' y]
     (all_of [equals ''status'' (PStr ''RETRYABLE''), equals ''payloadHash'' (PStr h)]))"
| replaced: "minted E t \<Longrightarrow> request_write E c (Update (ac_table c) (request_key i r)
     [USet ''status'' (PStr ''PROCESSING''), USet ''payloadHash'' (PStr h), USet ''leaseToken'' (PStr t), USet ''leaseExpiresAt'' (PInt l),
      USet ''createdAt'' a, USet ''updatedAt'' u, USet ''expiresAt'' x, USet ''ttl'' y,
      URemove ''response'', URemove ''resultReadyAt'', URemove ''completedAt'']
     (equals ''expiresAt'' (PInt p)))"
| retryable: "request_write E c (Update (ac_table c) (request_key i r)
     [USet ''status'' (PStr ''RETRYABLE''), USet ''updatedAt'' u, URemove ''leaseToken'', URemove ''leaseExpiresAt'']
     (all_of ([equals ''status'' (PStr ''PROCESSING''), equals ''leaseToken'' (PStr t)] @ [Exists ''historyAuthorization''])))"
| released: "request_write E c (Delete (ac_table c) (request_key i r) g)"
| counted: "request_write E c (Update (ac_table c) (''ANALYSIS#RATE#'' @ i, sk)
     [UAdd ''requestCount'' 1, USet ''expiresAt'' x, USet ''ttl'' y, USet ''updatedAt'' z]
     (Or (NotExists ''requestCount'') (Cmp CLt ''requestCount'' (PInt (ac_max c)))))"
| stored: "fst ` set kvs \<subseteq> {''statisticsEventId'', ''campaignAuthorization'', ''historyAuthorization''} \<Longrightarrow>
     request_write E c (Update (ac_table c) (request_key i r) (stored_updates c resp kvs a b n) (held_by h t))"

section \<open>The operations\<close>

text \<open>
  The contract of the operations: they write the kinds of actions above and nothing else. Whatever
  property of items these writes preserve is an invariant of the request table.
\<close>

locale request_writes = guarded_items E P for E :: env and P :: item_prop +
  fixes c :: abuse_config
  assumes writes_safe: "request_write E c a \<Longrightarrow> item_safe P a"
begin

lemmas kinds_safe = request_write.intros [THEN writes_safe]

lemma keeps_requests [keeps_intros]:
  "keeps (all_items P) (new_request E c identity r h now)"
  "keeps (all_items P) (take_over_expired_lease E c identity r h existing now)"
  "keeps (all_items P) (take_over_retryable E c identity r h existing now)"
  "keeps (all_items P) (replace_expired_request E c identity r h existing now)"
  unfolding new_request_def take_over_expired_lease_def take_over_retryable_def replace_expired_request_def
  by (intro keeps_intros kinds_safe yields_uuid; assumption)+

lemma keeps_check: "keeps (all_items P) (check_or_lock_request E c identity r payload now)"
  unfolding check_or_lock_request_def known_request_def current_request_def result_unavailable_def Let_def
  by (intro keeps_intros)

lemma keeps_rate: "keeps (all_items P) (enforce_rate_limit E c identity now)"
  unfolding enforce_rate_limit_def Let_def by (intro keeps_intros kinds_safe)

lemma keeps_store: "keeps (all_items P) (store_result E c identity r h t response event_id campaign history now)"
  unfolding store_result_def Let_def stored_updates_def [symmetric] held_by_def [symmetric]
  by (intro keeps_intros kinds_safe) (auto split: option.splits if_splits)

lemma keeps_release: "keeps (all_items P) (release_request E c identity r t)"
  unfolding release_request_def Let_def
  by (intro keeps_one kinds_safe keeps_intros)

end

lemma abuse_writes:
  assumes "guarded_items E (abuse_item c)" "1 \<le> ac_max c"
  shows "request_writes E (abuse_item c) c"
proof (intro request_writes.intro request_writes_axioms.intro assms(1))
  fix a
  assume "request_write E c a"
  then show "item_safe (abuse_item c) a"
    by cases (simp_all only: new_request_safe takeover_safe retry_safe replace_safe release_safe delete_safe rate_safe [OF assms(2)] store_safe)
qed

section \<open>A lease that is gone\<close>

definition lease_gone :: "abuse_config \<Rightarrow> key \<Rightarrow> string \<Rightarrow> item_prop" where
  "lease_gone c k t = (\<lambda>tb k' it. tb = ac_table c \<and> k' = k \<longrightarrow> dget (contents it) ''leaseToken'' \<noteq> PStr t)"

lemma lease_gone_all: "all_items (lease_gone c k t) db \<longleftrightarrow> dget (contents (db (ac_table c) k)) ''leaseToken'' \<noteq> PStr t"
  by (auto simp: all_items_def lease_gone_def)

lemma lease_gone_safe:
  assumes "\<And>it. dget (contents it) ''leaseToken'' \<noteq> PStr t \<Longrightarrow> dget (contents (after a it)) ''leaseToken'' \<noteq> PStr t"
  shows "item_safe (lease_gone c k t) a"
  using assms by (simp add: item_safe_def lease_gone_def)

lemma lease_update:
  assumes "\<And>d. dget d ''leaseToken'' \<noteq> PStr t \<Longrightarrow> dget (fold apply_update us d) ''leaseToken'' \<noteq> PStr t"
  shows "item_safe (lease_gone c k t) (Update tb k' us g)"
  by (rule lease_gone_safe) (use assms in \<open>simp add: contents_def key_item_def split: option.splits\<close>)

lemma lease_writes:
  assumes "guarded_items E (lease_gone c k t)" "\<not> minted E t"
  shows "request_writes E (lease_gone c k t) c"
proof (intro request_writes.intro request_writes_axioms.intro assms(1))
  fix a
  assume "request_write E c a"
  then show "item_safe (lease_gone c k t) a"
  proof cases
    case (created t')
    with assms(2) have "t' \<noteq> t" by blast
    with created show ?thesis by (auto intro!: lease_gone_safe simp: contents_def)
  next
    case (stored kvs i r resp x b n h t')
    then have "''leaseToken'' \<notin> fst ` set kvs" by auto
    with stored show ?thesis by (auto intro!: lease_update simp: stored_updates_def fold_sets)
  next
    case (released i r g)
    then show ?thesis by (auto intro!: lease_gone_safe simp: contents_def)
  qed (use assms(2) in \<open>auto intro!: lease_update\<close>)
qed

section \<open>Writes in an undisturbed environment\<close>

definition account_rows :: "abuse_config \<Rightarrow> db \<Rightarrow> string \<Rightarrow> bool" where
  "account_rows c db account =
     (ac_users c \<noteq> [] \<and> ac_ledger c \<noteq> []
      \<and> profile_active account (db (ac_users c) (profile_key account)) (db (ac_ledger c) (deletion_key account)))"

definition fence_checks :: "abuse_config \<Rightarrow> string \<Rightarrow> action list" where
  "fence_checks c account =
     [ConditionCheck (ac_users c) (profile_key account)
        (all_of [equals ''status'' (PStr ''ACTIVE''), equals ''ageVerified'' (PBool True), equals ''sub'' (PStr account)]),
      ConditionCheck (ac_ledger c) (deletion_key account) (NotExists ''PK'')]"

lemma authority_checks_eq:
  "account_authority_checks c account = Inr checks \<longleftrightarrow> ac_users c \<noteq> [] \<and> ac_ledger c \<noteq> [] \<and> checks = fence_checks c account"
  by (auto simp: account_authority_checks_def fence_checks_def)

lemma equals_PBool: "cond_holds (equals a (PBool b)) d \<longleftrightarrow> dget d a = PBool b"
  by (auto simp: equals_def dget_def split: option.splits)

lemma fence_holds: "account_rows c db account \<Longrightarrow> list_all (\<lambda>a. holds_at a db) (fence_checks c account)"
  by (auto simp: account_rows_def profile_active_def fence_checks_def holds_at_def Let_def contents_def equals_PStr equals_PBool
      split: option.splits)

lemma abuse_batch:
  assumes "account_rows c db account" "holds_at a db" "fst (snd (target a)) = ''ANALYSIS#'' @ x"
  shows "batch_holds (fence_checks c account @ [a]) db"
proof -
  have "distinct (map target (fence_checks c account @ [a]))"
    using assms(3) by (cases "target a") (auto simp: fence_checks_def profile_key_def deletion_key_def)
  moreover have "length (fence_checks c account @ [a]) \<le> 100" by (simp add: fence_checks_def)
  ultimately show ?thesis using fence_holds [OF assms(1)] assms(2) by (simp add: batch_holds_def batch_wf_def)
qed

lemma quiet_abuse_write:
  assumes "quiet E" "account_rows c (tables w) account" "holds_at a (tables w)" "fst (snd (target a)) = ''ANALYSIS#'' @ x"
  shows "transact_abuse_write E c account a conflict w =
     (Inr (), w\<lparr>tables := commit (fence_checks c account @ [a]) (tables w), tick := Suc (tick w)\<rparr>)"
  using assms abuse_batch [OF assms(2-4)] authority_checks_eq [of c account "fence_checks c account"]
  by (simp add: transact_abuse_write_def account_rows_def ebind_def quiet_transact)

lemma abuse_committed:
  assumes "fst (snd (target a)) = ''ANALYSIS#'' @ x" "target a = (t, k)"
  shows "commit (fence_checks c account @ [a]) db t k = after a (db t k)"
  by (rule commit_at)
    (use assms in \<open>auto simp: fence_checks_def profile_key_def deletion_key_def\<close>)

section \<open>Histories of the request table\<close>

inductive abuse_step :: "env \<Rightarrow> abuse_config \<Rightarrow> world \<Rightarrow> world \<Rightarrow> bool" for E c where
  Check: "check_or_lock_request E c identity r payload now w = (res, w') \<Longrightarrow> abuse_step E c w w'"
| Rate: "enforce_rate_limit E c identity now w = (unit_res, w') \<Longrightarrow> abuse_step E c w w'"
| Store: "store_result E c identity r h t response event_id campaign history now w = (unit_res, w') \<Longrightarrow> abuse_step E c w w'"
| Release: "release_request E c identity r lease w = (unit_res, w') \<Longrightarrow> abuse_step E c w w'"

context request_writes
begin

lemma abuse_step_keeps: "abuse_step E c w w' \<Longrightarrow> all_items P (tables w) \<Longrightarrow> all_items P (tables w')"
  by (induction rule: abuse_step.induct) (auto intro: keepsD keeps_check keeps_rate keeps_store keeps_release)

lemma abuse_run_keeps: "(abuse_step E c)\<^sup>*\<^sup>* w w' \<Longrightarrow> all_items P (tables w) \<Longrightarrow> all_items P (tables w')"
  by (induction rule: rtranclp_induct) (auto intro: abuse_step_keeps)

end

definition ex_ac :: abuse_config where
  "ex_ac = \<lparr>ac_table = ''A'', ac_users = ''U'', ac_ledger = ''L'', ac_window = 300, ac_max = 10, ac_ttl = 900, ac_lease = 60,
     ac_history = history_from_env (\<lambda>_. None) (\<lambda>_. None), ac_float = Pair\<rparr>"

lemma ex_ac_sel [simp]:
  "ac_table ex_ac = ''A''" "ac_users ex_ac = ''U''" "ac_ledger ex_ac = ''L''" "ac_window ex_ac = 300" "ac_max ex_ac = 10"
  "ac_ttl ex_ac = 900" "ac_lease ex_ac = 60"
  by (simp_all add: ex_ac_def)

definition ex_accounts :: db where
  "ex_accounts = (\<lambda>t k. if t = ''U'' \<and> k = profile_key ''alice''
     then Some [(''status'', PStr ''ACTIVE''), (''ageVerified'', PBool True), (''sub'', PStr ''alice'')] else None)"

lemma ex_accounts_rows: "account_rows ex_ac ex_accounts ''alice''"
  by (simp add: account_rows_def ex_accounts_def profile_active_def)

lemma ex_accounts_ok: "all_items (abuse_item ex_ac) ex_accounts"
  by (simp add: all_items_def abuse_item_def capped_def contents_def ex_accounts_def)

interpretation quiet_abuse: request_writes "quiet_env now h" "abuse_item ex_ac" ex_ac for now h
  by (rule abuse_writes) (simp_all add: quiet_items.guarded_items_axioms)

lemma quiet_uuid: "minted (quiet_env now h) t \<Longrightarrow> t \<noteq> ''t''"
  by (auto simp: minted_def uuid_text_def quiet_env_def Let_def)

interpretation quiet_lease: request_writes "quiet_env now h" "lease_gone c k ''t''" c for now h c k
  by (rule lease_writes) (use quiet_uuid in \<open>auto simp: quiet_items.guarded_items_axioms\<close>)

lemma empty_table_ok: "all_items (abuse_item c) (\<lambda>_ _. None)"
  by (simp add: all_items_def abuse_item_def capped_def contents_def)

text \<open>
  C14 (invariant). Whatever other writers do that keep the rows well formed, no sequence of the
  operations breaks them: every request row has one of the five states of a request, one that is being
  processed has a content hash and a lease with a deadline, one whose result is ready has its content
  hash, its response and no lease, and one that can be retried has its content hash, its authorization and
  no lease.
\<close>

theorem request_rows_valid:
  assumes "transact_service (transact E)" "\<And>db i. all_items (abuse_item c) db \<Longrightarrow> all_items (abuse_item c) (peers E i db)"
    "1 \<le> ac_max c" "all_items (abuse_item c) (tables w)" "(abuse_step E c)\<^sup>*\<^sup>* w w'"
    "tables w' (ac_table c) (request_key i r) = Some d"
  shows "request_ok d"
proof -
  have "request_writes E (abuse_item c) c" using abuse_writes [OF guarded_items.intro assms(3)] assms(1,2) by blast
  from request_writes.abuse_run_keeps [OF this assms(5,4)] have "abuse_item c (ac_table c) (request_key i r) (Some d)"
    using assms(6) by (metis all_items_def)
  then show ?thesis by (simp add: abuse_item_def request_key_def)
qed

text \<open>
  C9 (bounds). The counter of requests of a window never exceeds the configured maximum, in any
  sequence of the operations and for every identity and window.
\<close>

theorem rate_counter_bounded:
  assumes "transact_service (transact E)" "\<And>db i. all_items (abuse_item c) db \<Longrightarrow> all_items (abuse_item c) (peers E i db)"
    "1 \<le> ac_max c" "all_items (abuse_item c) (tables w)" "(abuse_step E c)\<^sup>*\<^sup>* w w'"
    "tables w' (ac_table c) (''ANALYSIS#RATE#'' @ i, window) = Some d" "dhas d ''requestCount''"
  shows "\<exists>n. integral (dget d ''requestCount'') = Some n \<and> 0 \<le> n \<and> n \<le> ac_max c"
proof -
  have "request_writes E (abuse_item c) c" using abuse_writes [OF guarded_items.intro assms(3)] assms(1,2) by blast
  from request_writes.abuse_run_keeps [OF this assms(5,4)] have "abuse_item c (ac_table c) (''ANALYSIS#RATE#'' @ i, window) (Some d)"
    using assms(6) by (metis all_items_def)
  with assms(7) show ?thesis by (simp add: abuse_item_def contents_def capped_def within_def)
qed

lemma ex_rate_run:
  "\<exists>w' d. enforce_rate_limit still_env ex_ac ''alice'' None \<lparr>tables = ex_accounts, tick = 0\<rparr> = (Inr (), w')
     \<and> tables w' ''A'' (''ANALYSIS#RATE#alice'', show_int 900) = Some d \<and> dget d ''requestCount'' = PInt 1 \<and> dhas d ''requestCount''"
proof -
  let ?a = "\<lambda>u. Update ''A'' (''ANALYSIS#RATE#'' @ ''alice'', show_int 900)
      [UAdd ''requestCount'' 1, USet ''expiresAt'' (PInt 1200), USet ''ttl'' (PInt 1200), USet ''updatedAt'' (PStr u)]
      (Or (NotExists ''requestCount'') (Cmp CLt ''requestCount'' (PInt 10)))"
  have none: "ex_accounts ''A'' k = None" for k by (simp add: ex_accounts_def)
  have hold: "holds_at (?a u) ex_accounts" for u
    by (simp add: holds_at_def none contents_def Let_def)
  have written: "commit (fence_checks ex_ac ''alice'' @ [?a u]) ex_accounts ''A'' (''ANALYSIS#RATE#'' @ ''alice'', show_int 900)
      = after (?a u) (ex_accounts ''A'' (''ANALYSIS#RATE#'' @ ''alice'', show_int 900))" for u
    by (rule abuse_committed [where x = "''RATE#alice''"]) simp_all
  define acts where "acts = fence_checks ex_ac ''alice'' @ [?a (isoformat 1000000000)]"
  have wrote: "transact_abuse_write still_env ex_ac ''alice'' (?a (isoformat 1000000000)) RATE_LIMITED \<lparr>tables = ex_accounts, tick = Suc (Suc 0)\<rparr>
      = (Inr (), \<lparr>tables = commit acts ex_accounts, tick = Suc (Suc (Suc 0))\<rparr>)"
    unfolding acts_def using quiet_abuse_write [OF quiet_env(1), of ex_ac "\<lparr>tables = ex_accounts, tick = Suc (Suc 0)\<rparr>" "''alice''" "?a (isoformat 1000000000)" "''RATE#alice''"]
      ex_accounts_rows hold by simp
  have "enforce_rate_limit still_env ex_ac ''alice'' None \<lparr>tables = ex_accounts, tick = 0\<rparr>
      = (Inr (), \<lparr>tables = commit acts ex_accounts, tick = Suc (Suc (Suc 0))\<rparr>)"
    using wrote by (simp add: enforce_rate_limit_def epoch_or_def e_now_def iso_now_def e_utcnow_def e_wall_def ebind_def hashed_identity_def
        quiet_env_def Let_def)
  moreover have "commit acts ex_accounts ''A'' (''ANALYSIS#RATE#alice'', show_int 900) = after (?a (isoformat 1000000000)) None"
    using written [of "isoformat 1000000000"] by (simp add: acts_def none del: after.simps)
  ultimately show ?thesis by (simp add: after_update update_base_def key_item_def dget_uadd del: after.simps)
qed

theorem rate_counter_bounded_witness:
  "\<exists>w' d. (abuse_step still_env ex_ac)\<^sup>*\<^sup>* \<lparr>tables = ex_accounts, tick = 0\<rparr> w'
     \<and> tables w' ''A'' (''ANALYSIS#RATE#alice'', show_int 900) = Some d
     \<and> (\<exists>n. integral (dget d ''requestCount'') = Some n \<and> 0 \<le> n \<and> n \<le> 10)"
proof -
  obtain w' d where run: "enforce_rate_limit still_env ex_ac ''alice'' None \<lparr>tables = ex_accounts, tick = 0\<rparr> = (Inr (), w')"
      "tables w' ''A'' (''ANALYSIS#RATE#alice'', show_int 900) = Some d" "dhas d ''requestCount''" using ex_rate_run by blast
  then have step: "(abuse_step still_env ex_ac)\<^sup>*\<^sup>* \<lparr>tables = ex_accounts, tick = 0\<rparr> w'" by (blast intro: abuse_step.Rate)
  have "\<exists>n. integral (dget d ''requestCount'') = Some n \<and> 0 \<le> n \<and> n \<le> ac_max ex_ac"
    by (rule rate_counter_bounded [OF quiet_env(2) _ _ _ step, where i = "''alice''" and window = "show_int 900"])
      (use run in \<open>simp_all add: ex_accounts_ok\<close>)
  with step run(2) show ?thesis by auto
qed

section \<open>Storing a result\<close>

lemma e_clock_tables:
  "e_now E w = (r, w') \<Longrightarrow> tables w' = tables w" "e_utcnow E w = (r', w') \<Longrightarrow> tables w' = tables w"
  "iso_now E w = (r'', w') \<Longrightarrow> tables w' = tables w" "epoch_or E n w = (r, w') \<Longrightarrow> tables w' = tables w"
  "e_uuid4 E w = (r'', w') \<Longrightarrow> tables w' = tables w"
  by (auto simp: e_now_def e_utcnow_def e_wall_def iso_now_def epoch_or_def e_uuid4_def e_random_def ebind_def split: option.splits if_splits)

lemma abuse_write_Inr:
  assumes "transact_abuse_write E c account a conflict w = (Inr u, w')"
  shows "ac_users c \<noteq> [] \<and> ac_ledger c \<noteq> [] \<and> e_transact E (fence_checks c account @ [a]) w = (Inr Committed, w')"
proof -
  from assms obtain checks where "account_authority_checks c account = Inr checks"
    by (cases "account_authority_checks c account") (simp_all add: transact_abuse_write_def)
  moreover from this assms obtain r w1 where "e_transact E (checks @ [a]) w = (Inr r, w1)"
      "(case r of Committed \<Rightarrow> eret () | Cancelled \<Rightarrow> ebind (assert_account_active E c account) (\<lambda>_. eraise conflict)
        | Failed \<Rightarrow> eraise SdkError) w1 = (Inr u, w')"
    by (auto simp: transact_abuse_write_def ebind_Inr)
  ultimately show ?thesis by (cases r) (auto simp: authority_checks_eq ebind_Inr)
qed

lemma store_run:
  assumes "store_result E c account r h t response event_id campaign history now_epoch w = (Inr u, w')"
  obtains w1 optional ready_at updated now where "tables w1 = tables w"
    "fst ` set optional \<subseteq> {''statisticsEventId'', ''campaignAuthorization'', ''historyAuthorization''}"
    "e_transact E (fence_checks c account
       @ [Update (ac_table c) (request_key (hashed_identity E account) r) (stored_updates c response optional ready_at updated now) (held_by h t)]) w1
     = (Inr Committed, w')"
proof -
  let ?extra = "\<lambda>name d. case row_of d of None \<Rightarrow> [] | Some a \<Rightarrow> [(name, PDict a)]"
  define optional where "optional = (case event_id of None \<Rightarrow> [] | Some t \<Rightarrow> if t = [] then [] else [(''statisticsEventId'', PStr t)])
      @ ?extra ''campaignAuthorization'' campaign @ ?extra ''historyAuthorization'' history"
  have names: "fst ` set optional \<subseteq> {''statisticsEventId'', ''campaignAuthorization'', ''historyAuthorization''}"
    by (auto simp: optional_def split: option.splits if_splits)
  from assms obtain now w1 ready_at w2 updated w3 where
      run: "epoch_or E now_epoch w = (Inr now, w1)" "iso_now E w1 = (Inr ready_at, w2)" "iso_now E w2 = (Inr updated, w3)"
      "transact_abuse_write E c account
         (Update (ac_table c) (request_key (hashed_identity E account) r) (stored_updates c response optional ready_at updated now) (held_by h t))
         IN_PROGRESS w3 = (Inr u, w')"
    unfolding store_result_def Let_def stored_updates_def held_by_def optional_def [symmetric]
    by (auto simp: ebind_Inr serialize_item_def elift_def split: if_splits)
  from run(1-3) e_clock_tables have "tables w3 = tables w" by metis
  with abuse_write_Inr [OF run(4)] names show thesis by (metis that)
qed

lemma stored_row:
  assumes "dget row ''status'' = PStr ''PROCESSING''" "dget row ''payloadHash'' = PStr h"
    "fst ` set optional \<subseteq> {''statisticsEventId'', ''campaignAuthorization'', ''historyAuthorization''}"
  shows "let row' = fold apply_update (stored_updates c response optional ready_at updated now) row in
     dget row' ''status'' = PStr ''RESULT_READY'' \<and> dget row' ''response'' = PDict response \<and> dget row' ''payloadHash'' = PStr h
     \<and> \<not> dhas row' ''leaseToken''"
proof -
  from assms(3) have "''status'' \<notin> fst ` set optional" "''payloadHash'' \<notin> fst ` set optional" "''response'' \<notin> fst ` set optional" by auto
  with assms(1,2) show ?thesis by (simp add: stored_updates_def Let_def fold_sets)
qed

lemma held_by_iff:
  "cond_holds (held_by h t) d \<longleftrightarrow> dget d ''status'' = PStr ''PROCESSING'' \<and> dget d ''payloadHash'' = PStr h \<and> dget d ''leaseToken'' = PStr t"
  by (simp add: held_by_def equals_PStr)

lemma store_effect:
  assumes "transact_service (transact E)"
    and "store_result E c account r h t response event_id campaign history now w = (Inr u, w')"
  shows "\<exists>i db row row'. db = peers E i (tables w) \<and> db (ac_table c) (request_key (hashed_identity E account) r) = Some row
     \<and> dget row ''status'' = PStr ''PROCESSING'' \<and> dget row ''payloadHash'' = PStr h \<and> dget row ''leaseToken'' = PStr t
     \<and> dget (contents (db (ac_users c) (profile_key account))) ''status'' = PStr ''ACTIVE''
     \<and> dget (contents (db (ac_users c) (profile_key account))) ''ageVerified'' = PBool True
     \<and> dget (contents (db (ac_users c) (profile_key account))) ''sub'' = PStr account
     \<and> \<not> dhas (contents (db (ac_ledger c) (deletion_key account))) ''PK''
     \<and> tables w' (ac_table c) (request_key (hashed_identity E account) r) = Some row'
     \<and> dget row' ''status'' = PStr ''RESULT_READY'' \<and> dget row' ''response'' = PDict response
     \<and> dget row' ''payloadHash'' = PStr h \<and> \<not> dhas row' ''leaseToken''"
proof -
  from assms(2) obtain w1 optional ready_at updated now where
    t: "tables w1 = tables w" and o: "fst ` set optional \<subseteq> {''statisticsEventId'', ''campaignAuthorization'', ''historyAuthorization''}"
    and e: "e_transact E (fence_checks c account
       @ [Update (ac_table c) (request_key (hashed_identity E account) r) (stored_updates c response optional ready_at updated now) (held_by h t)]) w1
     = (Inr Committed, w')"
    by (rule store_run)
  let ?k = "request_key (hashed_identity E account) r"
  let ?a = "Update (ac_table c) ?k (stored_updates c response optional ready_at updated now) (held_by h t)"
  define db where "db = peers E (tick w1) (tables w1)"
  from e have "transact E (tick w1) (fence_checks c account @ [?a]) db = (Committed, tables w')"
    by (auto simp: e_transact_def db_def split: prod.splits)
  from transact_service.committed [OF assms(1) this]
  have b: "batch_holds (fence_checks c account @ [?a]) db" "tables w' = commit (fence_checks c account @ [?a]) db" by simp_all
  from b(1) have held: "cond_holds (held_by h t) (contents (db (ac_table c) ?k))"
    by (simp add: batch_holds_def holds_at_def Let_def)
  from b(1) have fence: "list_all (\<lambda>a. holds_at a db) (fence_checks c account)"
    by (simp add: batch_holds_def)
  from held obtain row where row: "db (ac_table c) ?k = Some row"
    by (cases "db (ac_table c) ?k") (auto simp: held_by_iff contents_def)
  have "tables w' (ac_table c) ?k = after ?a (db (ac_table c) ?k)"
    unfolding b(2) by (rule abuse_committed [where x = "''REQUEST#'' @ hashed_identity E account"]) (simp_all add: request_key_def)
  with row have "tables w' (ac_table c) ?k = Some (fold apply_update (stored_updates c response optional ready_at updated now) row)" by simp
  with held row fence stored_row [OF _ _ o, of row h c response ready_at updated now] show ?thesis
    unfolding db_def t by (auto simp: held_by_iff fence_checks_def holds_at_def Let_def equals_PStr equals_PBool contents_def [of "Some row"])
qed

text \<open>
  C10 (safety). A result is stored only by the holder of the lease, for the content the request is bound
  to, while the account may act. The state in which the write commits is the state before the call as
  other writers left it (the state before the call itself when there are none): there the request is
  being processed under the lease and the content hash of the caller, and the account is active, verified
  and not being deleted. Afterwards the row has the result, the same content hash and no lease.
\<close>

theorem store_needs_lease:
  assumes "transact_service (transact E)"
    and "store_result E c account r h t response event_id campaign history now w = (Inr u, w')"
  shows "\<exists>i row row'. peers E i (tables w) (ac_table c) (request_key (hashed_identity E account) r) = Some row
     \<and> dget row ''status'' = PStr ''PROCESSING'' \<and> dget row ''payloadHash'' = PStr h \<and> dget row ''leaseToken'' = PStr t
     \<and> dget (contents (peers E i (tables w) (ac_users c) (profile_key account))) ''status'' = PStr ''ACTIVE''
     \<and> dget (contents (peers E i (tables w) (ac_users c) (profile_key account))) ''ageVerified'' = PBool True
     \<and> dget (contents (peers E i (tables w) (ac_users c) (profile_key account))) ''sub'' = PStr account
     \<and> \<not> dhas (contents (peers E i (tables w) (ac_ledger c) (deletion_key account))) ''PK''
     \<and> tables w' (ac_table c) (request_key (hashed_identity E account) r) = Some row'
     \<and> dget row' ''status'' = PStr ''RESULT_READY'' \<and> dget row' ''response'' = PDict response
     \<and> dget row' ''payloadHash'' = PStr h \<and> \<not> dhas row' ''leaseToken''"
  using store_effect [OF assms] by blast

section \<open>A leased request\<close>

definition ex_leased :: "dict \<Rightarrow> db" where
  "ex_leased row = (\<lambda>t k. if t = ''A'' \<and> k = request_key ''alice'' ''r1'' then Some row else ex_accounts t k)"

lemma ex_leased_simps: "ex_leased row ''A'' (request_key ''alice'' ''r1'') = Some row" "account_rows ex_ac (ex_leased row) ''alice''"
  using ex_accounts_rows by (simp_all add: ex_leased_def account_rows_def)

definition ex_processing :: dict where
  "ex_processing = [(''status'', PStr ''PROCESSING''), (''payloadHash'', PStr ''h''), (''leaseToken'', PStr ''t''), (''leaseExpiresAt'', PInt 900),
     (''expiresAt'', PInt 1500)]"

lemma quiet_iso: "quiet E \<Longrightarrow> \<exists>t. iso_now E w = (Inr t, w\<lparr>tick := Suc (tick w)\<rparr>)"
  by (auto simp: iso_now_def e_utcnow_def e_wall_def ebind_def)

lemma uuid_run: "\<exists>t. e_uuid4 E w = (Inr t, w\<lparr>tick := Suc (tick w)\<rparr>)"
  by (auto simp: e_uuid4_def e_random_def ebind_def)

lemma request_write:
  assumes "quiet E" "account_rows c (tables w) account" "tables w (ac_table c) (request_key (hashed_identity E account) r) = Some row"
    "cond_holds g row" "list_all (\<lambda>u. addable u row) us"
  shows "transact_abuse_write E c account (Update (ac_table c) (request_key (hashed_identity E account) r) us g) conflict w
      = (Inr (), w\<lparr>tables := commit (fence_checks c account @ [Update (ac_table c) (request_key (hashed_identity E account) r) us g]) (tables w),
           tick := Suc (tick w)\<rparr>)"
    "commit (fence_checks c account @ [Update (ac_table c) (request_key (hashed_identity E account) r) us g]) (tables w)
       (ac_table c) (request_key (hashed_identity E account) r) = Some (fold apply_update us row)"
proof -
  let ?a = "Update (ac_table c) (request_key (hashed_identity E account) r) us g"
  have "holds_at ?a (tables w)" using assms(3-5) by (simp add: holds_at_def Let_def contents_def)
  moreover have pk: "fst (snd (target ?a)) = ''ANALYSIS#'' @ (''REQUEST#'' @ hashed_identity E account)" by (simp add: request_key_def)
  ultimately show "transact_abuse_write E c account ?a conflict w
      = (Inr (), w\<lparr>tables := commit (fence_checks c account @ [?a]) (tables w), tick := Suc (tick w)\<rparr>)"
    by (rule quiet_abuse_write [OF assms(1,2)])
  show "commit (fence_checks c account @ [?a]) (tables w) (ac_table c) (request_key (hashed_identity E account) r) = Some (fold apply_update us row)"
    using abuse_committed [OF pk, of "ac_table c" "request_key (hashed_identity E account) r" c account "tables w"] assms(3) by simp
qed

lemma store_possible:
  assumes "quiet E" "ac_table c \<noteq> []" "account_rows c (tables w) account"
    "tables w (ac_table c) (request_key (hashed_identity E account) r) = Some row" "cond_holds (held_by h t) row" "storable (PDict response)" "n \<noteq> 0"
  shows "\<exists>w'. store_result E c account r h t response None None None (Some n) w = (Inr (), w')"
proof -
  obtain a where a: "iso_now E w = (Inr a, w\<lparr>tick := Suc (tick w)\<rparr>)" using quiet_iso [OF assms(1)] by blast
  obtain b where b: "iso_now E (w\<lparr>tick := Suc (tick w)\<rparr>) = (Inr b, w\<lparr>tick := Suc (Suc (tick w))\<rparr>)"
    using quiet_iso [OF assms(1), of "w\<lparr>tick := Suc (tick w)\<rparr>"] by auto
  define us where "us = stored_updates c response [] a b n"
  have "list_all (\<lambda>u. addable u row) us" by (simp add: us_def stored_updates_def)
  with request_write(1) [OF assms(1) _ _ assms(5), of c "w\<lparr>tick := Suc (Suc (tick w))\<rparr>" account r us IN_PROGRESS] assms(3,4)
  have "\<exists>w'. transact_abuse_write E c account (Update (ac_table c) (request_key (hashed_identity E account) r) us (held_by h t)) IN_PROGRESS
      (w\<lparr>tick := Suc (Suc (tick w))\<rparr>) = (Inr (), w')" by simp
  then show ?thesis using a b assms(2,6,7)
    by (simp add: store_result_def epoch_or_def ebind_def serialize_item_def us_def stored_updates_def held_by_def row_of_def elift_def Let_def)
qed

lemma ex_store:
  "\<exists>w'. store_result still_env ex_ac ''alice'' ''r1'' ''h'' ''t'' [] None None None (Some 1000) \<lparr>tables = ex_leased ex_processing, tick = 0\<rparr>
     = (Inr (), w')"
  by (rule store_possible [OF quiet_env(1), where row = ex_processing])
    (simp_all add: ex_leased_simps hashed_identity_def quiet_env_def held_by_iff ex_processing_def)

theorem store_needs_lease_witness:
  "\<exists>w' row row'. store_result still_env ex_ac ''alice'' ''r1'' ''h'' ''t'' [] None None None (Some 1000)
       \<lparr>tables = ex_leased ex_processing, tick = 0\<rparr> = (Inr (), w')
     \<and> ex_leased ex_processing ''A'' (request_key ''alice'' ''r1'') = Some row \<and> dget row ''leaseToken'' = PStr ''t''
     \<and> tables w' ''A'' (request_key ''alice'' ''r1'') = Some row' \<and> dget row' ''status'' = PStr ''RESULT_READY''"
proof -
  obtain w' where run: "store_result still_env ex_ac ''alice'' ''r1'' ''h'' ''t'' [] None None None (Some 1000)
      \<lparr>tables = ex_leased ex_processing, tick = 0\<rparr> = (Inr (), w')" using ex_store by blast
  from store_needs_lease [OF quiet_env(2) run] run show ?thesis by (auto simp: hashed_identity_def quiet_env_def)
qed

lemma ex_leased_ok: "all_items (abuse_item ex_ac) (ex_leased ex_processing)"
  by (simp add: all_items_def abuse_item_def ex_leased_def ex_accounts_def request_key_def capped_def contents_def
      request_ok_def REQUEST_STATUSES_def ex_processing_def)

theorem request_rows_valid_witness:
  "\<exists>w' d. (abuse_step still_env ex_ac)\<^sup>*\<^sup>* \<lparr>tables = ex_leased ex_processing, tick = 0\<rparr> w'
     \<and> tables w' ''A'' (request_key ''alice'' ''r1'') = Some d \<and> dget d ''status'' = PStr ''RESULT_READY'' \<and> request_ok d"
proof -
  define w where "w = \<lparr>tables = ex_leased ex_processing, tick = 0\<rparr>"
  obtain w' where run: "store_result still_env ex_ac ''alice'' ''r1'' ''h'' ''t'' [] None None None (Some 1000) w = (Inr (), w')"
    using ex_store w_def by blast
  then have step: "(abuse_step still_env ex_ac)\<^sup>*\<^sup>* w w'" by (blast intro: abuse_step.Store)
  from store_effect [OF quiet_env(2) run] obtain d where d: "tables w' ''A'' (request_key ''alice'' ''r1'') = Some d" "dget d ''status'' = PStr ''RESULT_READY''"
    by (auto simp: hashed_identity_def quiet_env_def)
  have "request_ok d"
    by (rule request_rows_valid [OF quiet_env(2) _ _ _ step, where i = "''alice''" and r = "''r1''"])
      (use d ex_leased_ok in \<open>simp_all add: w_def\<close>)
  with step d show ?thesis unfolding w_def by blast
qed

text \<open>
  C33 (safety). A lease stores at most one result, in every history. After \<open>store_result\<close> returned for a
  lease, no later \<open>store_result\<close> of the same request returns for that lease, whatever result, content
  hash and authorizations it brings: not after any sequence of the operations on any requests and
  identities, and not with any other writers in between, as long as the lease is not given out a second
  time, neither by \<open>uuid4\<close> (in the environment \<open>E'\<close> of everything after the first call) nor by
  another writer.
\<close>

theorem lease_stores_once:
  assumes "transact_service (transact E)" "store_result E c account r h t response event_id campaign history now w = (Inr u, w1)"
    and "transact_service (transact E')" "hashed_identity E' account = hashed_identity E account" "\<And>i. uuid_text (random_hex E' i 16) \<noteq> t"
    and "\<And>db i. dget (contents (db (ac_table c) (request_key (hashed_identity E account) r))) ''leaseToken'' \<noteq> PStr t \<Longrightarrow>
       dget (contents (peers E' i db (ac_table c) (request_key (hashed_identity E account) r))) ''leaseToken'' \<noteq> PStr t"
    and "(abuse_step E' c)\<^sup>*\<^sup>* w1 w2"
    and "store_result E' c account r h' t response' event_id' campaign' history' now' w2 = (res, w3)"
  shows "\<exists>e. res = Inl e"
proof (cases res)
  case (Inr u')
  let ?k = "request_key (hashed_identity E account) r"
  have "guarded_items E' (lease_gone c ?k t)"
    by (rule guarded_items.intro [OF assms(3)]) (use assms(6) in \<open>simp add: lease_gone_all\<close>)
  moreover have "\<not> minted E' t" using assms(5) by (metis minted_def)
  ultimately have "request_writes E' (lease_gone c ?k t) c" by (rule lease_writes)
  moreover have "all_items (lease_gone c ?k t) (tables w1)"
    using store_effect [OF assms(1,2)] by (auto simp: lease_gone_all contents_def dhas_def dget_def)
  ultimately have "all_items (lease_gone c ?k t) (tables w2)" using request_writes.abuse_run_keeps assms(7) by blast
  then have "dget (contents (peers E' i (tables w2) (ac_table c) ?k)) ''leaseToken'' \<noteq> PStr t" for i
    using assms(6) by (simp add: lease_gone_all)
  with store_effect [OF assms(3) assms(8) [unfolded Inr]] assms(4) show ?thesis by (metis contents_def option.simps(5))
qed simp

theorem lease_stores_once_witness:
  "\<exists>w1 x w2 e w3. store_result still_env ex_ac ''alice'' ''r1'' ''h'' ''t'' [] None None None (Some 1000)
       \<lparr>tables = ex_leased ex_processing, tick = 0\<rparr> = (Inr (), w1)
     \<and> release_request still_env ex_ac ''alice'' ''r2'' None w1 = (x, w2)
     \<and> store_result still_env ex_ac ''alice'' ''r1'' ''h'' ''t'' [(''a'', PNone)] None None None (Some 1000) w2 = (Inl e, w3)"
proof -
  obtain w1 where run: "store_result still_env ex_ac ''alice'' ''r1'' ''h'' ''t'' [] None None None (Some 1000)
      \<lparr>tables = ex_leased ex_processing, tick = 0\<rparr> = (Inr (), w1)" using ex_store by blast
  obtain x w2 where between: "release_request still_env ex_ac ''alice'' ''r2'' None w1 = (x, w2)" by (metis surj_pair)
  then have step: "(abuse_step still_env ex_ac)\<^sup>*\<^sup>* w1 w2" by (blast intro: abuse_step.Release)
  obtain res w3 where second: "store_result still_env ex_ac ''alice'' ''r1'' ''h'' ''t'' [(''a'', PNone)] None None None (Some 1000) w2 = (res, w3)"
    by (metis surj_pair)
  have fresh: "uuid_text (random_hex still_env i 16) \<noteq> ''t''" for i using quiet_uuid by (auto simp: minted_def)
  from lease_stores_once [OF quiet_env(2) run quiet_env(2) refl fresh _ step second] obtain e where "res = Inl e" by auto
  with run between second show ?thesis by blast
qed

end
