(* ===== verification/AbuseReplay.thy ===== *)
theory AbuseReplay
  imports AbuseSafety
begin

text \<open>
  Repetitions of a request, in an environment without other writers: what is refused, what is taken
  over, what an expired record does, and that a completed check is replayed from the retained history.
\<close>

section \<open>Reading the record\<close>

lemma check_known:
  assumes "quiet E" "ac_table c \<noteq> []" "n \<noteq> 0" "payload_hash E payload = Inr h"
    "tables w (ac_table c) (request_key (hashed_identity E account) r) = Some row" "row \<noteq> []"
  shows "check_or_lock_request E c account r payload (Some n) w = known_request E c account r h row n (w\<lparr>tick := Suc (tick w)\<rparr>)"
  using assms by (simp add: check_or_lock_request_def epoch_or_def ebind_def quiet_read row_of_def elift_def)

section \<open>An instance\<close>

lemma ex_defaults: "\<exists>s. ac_history ex_ac = Inr s \<and> \<not> hs_durable_replay_enabled s"
proof -
  have "enabled_flag (\<lambda>_. None) name = False" for name
    by (simp add: enabled_flag_def os_get_def lower_def strip_def is_space_def code_def)
  moreover have "optional_positive_int (\<lambda>_. None) name None = Inr None" for name
    by (simp add: optional_positive_int_def os_get_def strip_def)
  moreover have "1 \<le> n \<Longrightarrow> n < 1000000000 \<Longrightarrow> optional_positive_int (\<lambda>_. None) name (Some n) = Inr (Some n)" for name n
    by (rule optional_positive_show) (simp_all add: os_get_def)
  moreover have "optional_nonnegative_int (\<lambda>_. None) name = Inr None" for name by (simp add: optional_nonnegative_int_def)
  moreover have "\<exists>n. int_text ''1'' = Inr n" "\<exists>n. int_text ''90'' = Inr n" "\<exists>n. int_text ''24'' = Inr n"
    by (simp_all add: int_text_def strip_def is_space_def is_digit_def code_def parse_int_def)
  ultimately show ?thesis by (auto simp: ex_ac_def history_from_env_def os_get_def as_unavailable_def badge_catalog_from_def)
qed

lemma ex_payload: "\<exists>h. payload_hash still_env [] = Inr h"
  by (simp add: payload_hash_def dumps_def)

definition ex_world :: "dict \<Rightarrow> world" where "ex_world row = \<lparr>tables = ex_leased row, tick = 0\<rparr>"

lemma ex_world_rows:
  "tables (ex_world row) (ac_table ex_ac) (request_key (hashed_identity still_env ''alice'') ''r1'') = Some row"
  "account_rows ex_ac (tables (ex_world row)) ''alice''"
  by (simp_all add: ex_world_def ex_leased_simps hashed_identity_def quiet_env_def)

text \<open>
  C34 (error). A request identifier that is bound to other content is refused and nothing is written,
  as long as the record is not expired or the durable replay is enabled.
\<close>

theorem other_content_refused:
  assumes "quiet E" "ac_table c \<noteq> []" "n \<noteq> 0" "payload_hash E payload = Inr h"
    "tables w (ac_table c) (request_key (hashed_identity E account) r) = Some row" "row \<noteq> []"
    "py_int (dget_or row ''expiresAt'' (PInt 0)) = Inr x" "n < x \<or> (\<exists>s. ac_history c = Inr s \<and> hs_durable_replay_enabled s)"
    "dget row ''payloadHash'' \<noteq> PStr h"
  shows "\<exists>w'. check_or_lock_request E c account r payload (Some n) w = (Inl IDEMPOTENCY_CONFLICT, w') \<and> tables w' = tables w"
  unfolding check_known [OF assms(1-6)] known_request_def
  using assms(7-9) by (auto simp: ebind_def assert_matching_payload_def elift_def)

theorem other_content_refused_witness:
  "\<exists>h w'. payload_hash still_env [] = Inr h
     \<and> check_or_lock_request still_env ex_ac ''alice'' ''r1'' [] (Some 1000)
         (ex_world [(''status'', PStr ''COMPLETED''), (''payloadHash'', PStr (CHR ''x'' # h)), (''expiresAt'', PInt 1500)]) = (Inl IDEMPOTENCY_CONFLICT, w')"
proof -
  obtain h where h: "payload_hash still_env [] = Inr h" using ex_payload by blast
  from other_content_refused [OF quiet_env(1) _ _ h ex_world_rows(1), of 1000 "[(''status'', PStr ''COMPLETED''), (''payloadHash'', PStr (CHR ''x'' # h)), (''expiresAt'', PInt 1500)]" 1500]
  show ?thesis using h by auto
qed


text \<open>
  C35 (functional). An expired record whose result is ready is not replaced as other expired records
  are: without the durable replay its response is offered to a request with any content, under the
  hash of that content.
\<close>

theorem expired_result_offered:
  assumes "quiet E" "ac_table c \<noteq> []" "n \<noteq> 0" "payload_hash E payload = Inr h"
    "tables w (ac_table c) (request_key (hashed_identity E account) r) = Some row"
    "dget row ''status'' = PStr ''RESULT_READY''" "dget row ''response'' = PDict response"
    "py_int (dget_or row ''expiresAt'' (PInt 0)) = Inr x" "x \<le> n" "ac_history c = Inr s" "\<not> hs_durable_replay_enabled s"
  shows "\<exists>res w'. check_or_lock_request E c account r payload (Some n) w = (Inr res, w') \<and> tables w' = tables w
     \<and> dget res ''state'' = PStr ''result_ready'' \<and> dget res ''payloadHash'' = PStr h
     \<and> dget res ''response'' = json_compatible (ac_float c) (PDict response)"
proof -
  have "row \<noteq> []" using assms(6) by auto
  then show ?thesis
    unfolding check_known [OF assms(1-5) \<open>row \<noteq> []\<close>] known_request_def
    using assms(6-11) by (simp add: ebind_def Let_def ready_result_def elift_def)
qed

theorem expired_result_offered_witness:
  "\<exists>h res w'. payload_hash still_env [] = Inr h
     \<and> check_or_lock_request still_env ex_ac ''alice'' ''r1'' [] (Some 1000)
         (ex_world [(''status'', PStr ''RESULT_READY''), (''payloadHash'', PStr (CHR ''x'' # h)), (''response'', PDict []), (''expiresAt'', PInt 900)]) = (Inr res, w')
     \<and> dget res ''payloadHash'' = PStr h"
proof -
  obtain h where h: "payload_hash still_env [] = Inr h" using ex_payload by blast
  obtain s where s: "ac_history ex_ac = Inr s" "\<not> hs_durable_replay_enabled s" using ex_defaults by blast
  from expired_result_offered [OF quiet_env(1) _ _ h ex_world_rows(1) _ _ _ _ s, of 1000 "[(''status'', PStr ''RESULT_READY''), (''payloadHash'', PStr (CHR ''x'' # h)), (''response'', PDict []), (''expiresAt'', PInt 900)]" "[]" 900]
  show ?thesis using h by auto
qed


section \<open>Taking over\<close>

lemma takeover_row:
  assumes "dget row ''status'' = PStr ''PROCESSING''" "dget row ''payloadHash'' = PStr h" "dget row ''leaseExpiresAt'' = PInt l"
  shows "cond_holds (all_of [equals ''status'' (PStr ''PROCESSING''), equals ''payloadHash'' (PStr h), equals ''leaseExpiresAt'' (PInt l)]) row"
proof -
  from assms(3) have "map_of row ''leaseExpiresAt'' = Some (PInt l)" by (auto simp: dget_def split: option.splits)
  with assms show ?thesis by (simp add: equals_PStr) (simp add: equals_def)
qed

lemma dget_or_present: "dget d k = v \<Longrightarrow> v \<noteq> PNone \<Longrightarrow> dget_or d k x = v"
  by (auto simp: dget_def dget_or_def split: option.splits)

text \<open>
  C36 (liveness). A request whose lease has run out does not stay blocked: the next repetition with the
  same content, by an active account, takes the lease over and holds it for the configured time.
\<close>

theorem expired_lease_taken_over:
  assumes "quiet E" "ac_table c \<noteq> []" "n \<noteq> 0" "payload_hash E payload = Inr h" "account_rows c (tables w) account"
    "tables w (ac_table c) (request_key (hashed_identity E account) r) = Some row"
    "dget row ''status'' = PStr ''PROCESSING''" "dget row ''payloadHash'' = PStr h" "dget row ''leaseExpiresAt'' = PInt l" "l \<le> n"
    "dget row ''expiresAt'' = PInt x" "n < x"
  shows "\<exists>res w' t row'. check_or_lock_request E c account r payload (Some n) w = (Inr res, w')
     \<and> dget res ''state'' = PStr ''processing'' \<and> dget res ''takeover'' = PBool True \<and> dget res ''leaseToken'' = PStr t
     \<and> tables w' (ac_table c) (request_key (hashed_identity E account) r) = Some row'
     \<and> dget row' ''leaseToken'' = PStr t \<and> dget row' ''leaseExpiresAt'' = PInt (n + ac_lease c)"
proof -
  define w1 where "w1 = w\<lparr>tick := Suc (tick w)\<rparr>"
  obtain t where t: "e_uuid4 E w1 = (Inr t, w1\<lparr>tick := Suc (tick w1)\<rparr>)" using uuid_run by blast
  define w2 where "w2 = w1\<lparr>tick := Suc (tick w1)\<rparr>"
  obtain u where u: "iso_now E w2 = (Inr u, w2\<lparr>tick := Suc (tick w2)\<rparr>)" using quiet_iso [OF assms(1)] by blast
  define w3 where "w3 = w2\<lparr>tick := Suc (tick w2)\<rparr>"
  have tw: "tables w3 = tables w" by (simp add: w1_def w2_def w3_def)
  define us where "us = [USet ''leaseToken'' (PStr t), USet ''leaseExpiresAt'' (PInt (n + ac_lease c)), USet ''updatedAt'' (PStr u),
      USet ''expiresAt'' (PInt (n + ac_ttl c)), USet ''ttl'' (PInt (n + ac_ttl c))]"
  define g where "g = all_of [equals ''status'' (PStr ''PROCESSING''), equals ''payloadHash'' (PStr h), equals ''leaseExpiresAt'' (PInt l)]"
  have "cond_holds g row" "list_all (\<lambda>u. addable u row) us"
    unfolding g_def us_def by (simp_all only: takeover_row [OF assms(7-9)]) simp
  note wrote = request_write [OF assms(1) assms(5) [folded tw] assms(6) [folded tw] this]
  have "row \<noteq> []" using assms(7) by auto
  have "check_or_lock_request E c account r payload (Some n) w = take_over_expired_lease E c account r h row n w1"
    unfolding check_known [OF assms(1-4,6) \<open>row \<noteq> []\<close>] known_request_def current_request_def w1_def [symmetric]
    using assms(7-12) by (simp add: dget_or_present assert_matching_payload_def Let_def)
  also have "take_over_expired_lease E c account r h row n w1 =
      ebind (transact_abuse_write E c account (Update (ac_table c) (request_key (hashed_identity E account) r) us g) IN_PROGRESS) (\<lambda>_.
        eret (processing_state h t @ [(''takeover'', PBool True)]
          @ (case as_dict (dget row ''historyAuthorization'') of None \<Rightarrow> [] | Some a \<Rightarrow> [(''historyAuthorization'', json_compatible (ac_float c) (PDict a))]))) w3"
    using t u assms(9) by (simp add: take_over_expired_lease_def ebind_def dget_or_present w2_def [symmetric] w3_def [symmetric] us_def g_def)
  moreover have "dget (fold apply_update us row) ''leaseToken'' = PStr t"
      "dget (fold apply_update us row) ''leaseExpiresAt'' = PInt (n + ac_lease c)" by (simp_all add: us_def)
  ultimately show ?thesis using wrote(2)
    by (cases "as_dict (dget row ''historyAuthorization'')") (simp_all add: ebind_def wrote(1) processing_state_def)
qed

theorem expired_lease_taken_over_witness:
  "\<exists>h res w'. payload_hash still_env [] = Inr h
     \<and> check_or_lock_request still_env ex_ac ''alice'' ''r1'' [] (Some 1000)
         (ex_world [(''status'', PStr ''PROCESSING''), (''payloadHash'', PStr h), (''leaseExpiresAt'', PInt 900), (''expiresAt'', PInt 1500)]) = (Inr res, w')
     \<and> dget res ''takeover'' = PBool True"
proof -
  obtain h where h: "payload_hash still_env [] = Inr h" using ex_payload by blast
  from expired_lease_taken_over [OF quiet_env(1) _ _ h ex_world_rows(2,1), of 1000 "[(''status'', PStr ''PROCESSING''), (''payloadHash'', PStr h), (''leaseExpiresAt'', PInt 900), (''expiresAt'', PInt 1500)]" 900 1500]
  show ?thesis using h by auto
qed


text \<open>
  C37 (functional). Replacing an expired record for new content keeps the authorizations and the event
  of the request it replaces: they stay on the row, beside the hash of the new content.
\<close>

theorem replacement_keeps_authorizations:
  assumes "quiet E" "ac_table c \<noteq> []" "n \<noteq> 0" "payload_hash E payload = Inr h" "account_rows c (tables w) account"
    "tables w (ac_table c) (request_key (hashed_identity E account) r) = Some row"
    "dget row ''status'' = PStr ''COMPLETED''" "dget row ''expiresAt'' = PInt x" "x \<le> n"
    "ac_history c = Inr s" "\<not> hs_durable_replay_enabled s"
  shows "\<exists>res w' row'. check_or_lock_request E c account r payload (Some n) w = (Inr res, w')
     \<and> dget res ''state'' = PStr ''processing'' \<and> dget res ''replacedExpired'' = PBool True
     \<and> tables w' (ac_table c) (request_key (hashed_identity E account) r) = Some row'
     \<and> dget row' ''status'' = PStr ''PROCESSING'' \<and> dget row' ''payloadHash'' = PStr h
     \<and> dget row' ''response'' = PNone
     \<and> list_all (\<lambda>k. dget row' k = dget row k) [''historyAuthorization'', ''campaignAuthorization'', ''statisticsEventId'']"
proof -
  define w1 where "w1 = w\<lparr>tick := Suc (tick w)\<rparr>"
  obtain t where t: "e_uuid4 E w1 = (Inr t, w1\<lparr>tick := Suc (tick w1)\<rparr>)" using uuid_run by blast
  define w2 where "w2 = w1\<lparr>tick := Suc (tick w1)\<rparr>"
  obtain u where u: "iso_now E w2 = (Inr u, w2\<lparr>tick := Suc (tick w2)\<rparr>)" using quiet_iso [OF assms(1)] by blast
  define w3 where "w3 = w2\<lparr>tick := Suc (tick w2)\<rparr>"
  obtain v where v: "iso_now E w3 = (Inr v, w3\<lparr>tick := Suc (tick w3)\<rparr>)" using quiet_iso [OF assms(1)] by blast
  define w4 where "w4 = w3\<lparr>tick := Suc (tick w3)\<rparr>"
  have tw: "tables w4 = tables w" by (simp add: w1_def w2_def w3_def w4_def)
  define us where "us = [USet ''status'' (PStr ''PROCESSING''), USet ''payloadHash'' (PStr h), USet ''leaseToken'' (PStr t),
      USet ''leaseExpiresAt'' (PInt (n + ac_lease c)), USet ''createdAt'' (PStr u), USet ''updatedAt'' (PStr v),
      USet ''expiresAt'' (PInt (n + ac_ttl c)), USet ''ttl'' (PInt (n + ac_ttl c)),
      URemove ''response'', URemove ''resultReadyAt'', URemove ''completedAt'']"
  define g where "g = equals ''expiresAt'' (PInt x)"
  from assms(8) have "map_of row ''expiresAt'' = Some (PInt x)" by (auto simp: dget_def split: option.splits)
  then have "cond_holds g row" by (simp add: g_def equals_def)
  moreover have "list_all (\<lambda>u. addable u row) us" by (simp add: us_def)
  ultimately have wrote:
      "transact_abuse_write E c account (Update (ac_table c) (request_key (hashed_identity E account) r) us g) IN_PROGRESS w4
       = (Inr (), w4\<lparr>tables := commit (fence_checks c account @ [Update (ac_table c) (request_key (hashed_identity E account) r) us g]) (tables w4),
            tick := Suc (tick w4)\<rparr>)"
      "commit (fence_checks c account @ [Update (ac_table c) (request_key (hashed_identity E account) r) us g]) (tables w4)
         (ac_table c) (request_key (hashed_identity E account) r) = Some (fold apply_update us row)"
    using request_write [OF assms(1), of c w4 account r row g us] assms(5,6) tw by simp_all
  have "row \<noteq> []" using assms(7) by auto
  have "check_or_lock_request E c account r payload (Some n) w = replace_expired_request E c account r h row n w1"
    unfolding check_known [OF assms(1-4,6) \<open>row \<noteq> []\<close>] known_request_def w1_def [symmetric]
    using assms(7-11) by (simp add: dget_or_present Let_def durable_replay_def ebind_def)
  also have "replace_expired_request E c account r h row n w1 =
      ebind (transact_abuse_write E c account (Update (ac_table c) (request_key (hashed_identity E account) r) us g) IN_PROGRESS) (\<lambda>_.
        eret (processing_state h t @ [(''replacedExpired'', PBool True)])) w4"
    using t u v assms(8) by (simp add: replace_expired_request_def ebind_def dget_or_present w2_def [symmetric] w3_def [symmetric] w4_def [symmetric] us_def g_def)
  also have "\<dots> = (Inr (processing_state h t @ [(''replacedExpired'', PBool True)]), w4\<lparr>tables := commit (fence_checks c account @ [Update (ac_table c) (request_key (hashed_identity E account) r) us g]) (tables w4), tick := Suc (tick w4)\<rparr>)"
    by (simp add: ebind_def wrote(1))
  finally have run: "check_or_lock_request E c account r payload (Some n) w = \<dots>" .
  have "dget (fold apply_update us row) ''status'' = PStr ''PROCESSING''" "dget (fold apply_update us row) ''payloadHash'' = PStr h"
      "dget (fold apply_update us row) ''response'' = PNone"
      "list_all (\<lambda>k. dget (fold apply_update us row) k = dget row k) [''historyAuthorization'', ''campaignAuthorization'', ''statisticsEventId'']"
    by (simp_all add: us_def)
  with run wrote(2) show ?thesis by (simp add: processing_state_def)
qed

definition ex_completed :: dict where
  "ex_completed = [(''status'', PStr ''COMPLETED''), (''payloadHash'', PStr ''x''), (''historyAuthorization'', PDict [(''acceptedSequence'', PInt 7)]),
     (''response'', PDict []), (''expiresAt'', PInt 900)]"

theorem replacement_keeps_authorizations_witness:
  "\<exists>h res w' row'. payload_hash still_env [] = Inr h
     \<and> check_or_lock_request still_env ex_ac ''alice'' ''r1'' [] (Some 1000) (ex_world ex_completed) = (Inr res, w')
     \<and> tables w' ''A'' (request_key ''alice'' ''r1'') = Some row' \<and> dget row' ''payloadHash'' = PStr h
     \<and> dget row' ''historyAuthorization'' = PDict [(''acceptedSequence'', PInt 7)]"
proof -
  obtain h where h: "payload_hash still_env [] = Inr h" using ex_payload by blast
  obtain s where s: "ac_history ex_ac = Inr s" "\<not> hs_durable_replay_enabled s" using ex_defaults by blast
  from replacement_keeps_authorizations [OF quiet_env(1) _ _ h ex_world_rows(2,1) _ _ _ s, of 1000 ex_completed 900]
  show ?thesis using h by (auto simp: ex_completed_def hashed_identity_def quiet_env_def)
qed


section \<open>Replay from the history\<close>










end
