(* ===== verification/ScanAccess.thy ===== *)
theory ScanAccess
  imports Entitlements AbuseReplay
begin

text \<open>
  Access to a scan (\<open>conversation_analysis/scan_access.py\<close>): the rate limit of scans, the choice
  between the monthly allowance and credits, the consumption of one unit, and the authorization of a
  campaign; with the properties of the stored entitlement that access relies on.
\<close>

section \<open>Operations\<close>

record scan_config =
  sc_abuse :: abuse_config
  sc_ent :: ent_config
  sc_window :: int
  sc_max :: int

abbreviation EXHAUSTED :: exc where "EXHAUSTED \<equiv> AppError ''ENTITLEMENT_EXHAUSTED'' False"

definition scan_rate_update :: "scan_config \<Rightarrow> string \<Rightarrow> int \<Rightarrow> string \<Rightarrow> action" where
  "scan_rate_update c account_key now updated =
     (let window_start = now - now mod sc_window c; expires = window_start + sc_window c in
      Update (ac_table (sc_abuse c)) (''ANALYSIS#SCAN_RATE#'' @ account_key, show_int window_start)
        [UAdd ''requestCount'' 1, USet ''expiresAt'' (PInt expires), USet ''ttl'' (PInt expires), USet ''updatedAt'' (PStr updated)]
        (Or (NotExists ''requestCount'') (Cmp CLt ''requestCount'' (PInt (sc_max c)))))"

definition enforce_scan_rate_limit :: "env \<Rightarrow> scan_config \<Rightarrow> string \<Rightarrow> int \<Rightarrow> unit eff" where
  "enforce_scan_rate_limit E c account now =
     ebind (eraise_if (sc_window c = 0) ZeroDivisionError) (\<lambda>_.
     ebind (elift (account_authority_checks (sc_abuse c) account)) (\<lambda>checks.
     ebind (iso_now E) (\<lambda>updated.
     ebind (e_transact E (checks @ [scan_rate_update c (hashed_identity E account) now updated])) (\<lambda>r.
     case r of
       Committed \<Rightarrow> eret ()
     | Cancelled \<Rightarrow> ebind (assert_account_active E (sc_abuse c) account) (\<lambda>_. eraise RATE_LIMITED)
     | Failed \<Rightarrow> eraise SdkError))))"

definition store_configured :: "'a eff \<Rightarrow> 'a eff" where   \<comment> \<open>\<open>except EntitlementStoreNotConfiguredError\<close>\<close>
  "store_configured m = ecatch m (\<lambda>e. case e of StoreNotConfigured \<Rightarrow> eraise UNAVAILABLE | _ \<Rightarrow> eraise e)"

definition access_grant :: "string \<Rightarrow> string \<Rightarrow> dict \<Rightarrow> dict \<Rightarrow> dict \<Rightarrow> dict" where
  "access_grant account consumption entitlement snapshot participation =
     [(''accountId'', PStr account), (''consumptionType'', PStr consumption), (''entitlement'', PDict entitlement),
      (''snapshot'', PDict snapshot), (''campaignParticipation'', PDict participation)]"

definition prepare_scan_access :: "env \<Rightarrow> scan_config \<Rightarrow> string \<Rightarrow> int option \<Rightarrow> dict eff" where
  "prepare_scan_access E c account now_epoch =
     ebind (eraise_if (ac_table (sc_abuse c) = []) UNAVAILABLE) (\<lambda>_.
     ebind (epoch_or E now_epoch) (\<lambda>now.
     ebind (enforce_scan_rate_limit E c account now) (\<lambda>_.
     ebind (store_configured (load_entitlement E (sc_ent c) account None None None)) (\<lambda>entitlement.
     ebind (build_entitlement_snapshot E (sc_ent c) entitlement) (\<lambda>snapshot.
     if inum snapshot ''remainingMonthlyScans'' > 0 then
       ebind (load_campaign_participation E (sc_ent c) account) (\<lambda>p. eret (access_grant account ''monthly'' entitlement snapshot p))
     else if inum snapshot ''remainingCredits'' > 0 then
       ebind (load_campaign_participation E (sc_ent c) account) (\<lambda>p. eret (access_grant account ''credit'' entitlement snapshot p))
     else eraise EXHAUSTED)))))"

definition minus_one :: "pyval \<Rightarrow> pyval" where   \<comment> \<open>\<open>v - 1\<close> of a number\<close>
  "minus_one v = (case v of PBool b \<Rightarrow> PInt (of_bool b - 1) | _ \<Rightarrow> add_num v (- 1))"

definition decrement :: "string \<Rightarrow> dict \<Rightarrow> dict result" where
  "decrement k d =
     rbind (didx d k) (\<lambda>v.
     case pynum v of
       None \<Rightarrow> Inl TypeError
     | Some x \<Rightarrow> if num_less (0, 0) x then Inr (dset k (minus_one v) d) else Inl EXHAUSTED)"

definition build_consumed_entitlement :: "dict \<Rightarrow> string \<Rightarrow> string \<Rightarrow> dict result" where
  "build_consumed_entitlement grant request_id now_iso =
     rbind (didx grant ''entitlement'') (\<lambda>v.
     rbind (case as_dict v of None \<Rightarrow> Inl TypeError | Some d \<Rightarrow> Inr d) (\<lambda>entitlement.
     rbind (didx grant ''consumptionType'') (\<lambda>consumption.
     if dget entitlement ''lastScanRequestId'' = PStr request_id then Inr entitlement else
     rbind (if consumption = PStr ''monthly'' then decrement ''remainingMonthlyScans'' entitlement
            else if consumption = PStr ''credit'' then decrement ''remainingCredits'' entitlement
            else Inl UNAVAILABLE) (\<lambda>d.
     Inr (dset ''lastScanConsumptionType'' consumption
         (dset ''lastScanRequestId'' (PStr request_id)
         (dset ''lastScanAt'' (PStr now_iso)
         (dset ''updatedAt'' (PStr now_iso) d))))))))"

definition consume_scan_access :: "env \<Rightarrow> scan_config \<Rightarrow> dict \<Rightarrow> string \<Rightarrow> string option \<Rightarrow> dict eff" where
  "consume_scan_access E c grant request_id now_iso =
     ebind (case now_iso of None \<Rightarrow> iso_now E | Some t \<Rightarrow> if t = [] then iso_now E else eret t) (\<lambda>now.
     ebind (elift (build_consumed_entitlement grant request_id now)) (\<lambda>entitlement.
     ebind (store_configured (save_entitlement E (sc_ent c) entitlement)) (\<lambda>_. eret entitlement)))"

definition campaign_authorization :: "dict \<Rightarrow> dict option result" where
  "campaign_authorization grant =
     (case as_dict (dget grant ''campaignParticipation'') of
        None \<Rightarrow> Inr None
      | Some p \<Rightarrow>
          if dget p ''state'' \<noteq> PStr ''enrolled'' then Inr None else
          let notice = dget p ''noticeVersion''; stored = dget p ''stateVersion'';
              version = (case py_int stored of Inl e \<Rightarrow> 0 | Inr n \<Rightarrow> n) in
          rbind (raise_if (\<not> str_matches is_uuid4 (dget p ''consentEpochId'') \<or> \<not> str_matches (\<lambda>t. t \<noteq> []) notice
              \<or> is_bool stored \<or> version < 1 \<or> \<not> pyeq (PInt version) stored) UNAVAILABLE) (\<lambda>_.
          Inr (Some [(''consentEpochId'', dget p ''consentEpochId''), (''noticeVersion'', notice), (''stateVersion'', PInt version)])))"

definition authorization_matches :: "pyval \<Rightarrow> pyval \<Rightarrow> bool" where
  "authorization_matches participation authorization =
     (case (as_dict participation, as_dict authorization) of
        (Some p, Some a) \<Rightarrow> dget p ''state'' = PStr ''enrolled''
          \<and> pyeq (dget p ''stateVersion'') (dget a ''stateVersion'')
          \<and> pyeq (dget p ''consentEpochId'') (dget a ''consentEpochId'')
          \<and> pyeq (dget p ''noticeVersion'') (dget a ''noticeVersion'')
      | _ \<Rightarrow> False)"

definition require_statistics_event_id :: "pyval \<Rightarrow> string result" where
  "require_statistics_event_id v = (case v of PStr t \<Rightarrow> if is_uuid4 t then Inr t else Inl UNAVAILABLE | _ \<Rightarrow> Inl UNAVAILABLE)"

section \<open>The normalised entitlement\<close>

definition limits_ok :: "ent_config \<Rightarrow> bool" where
  "limits_ok c = (0 \<le> free_limit c \<and> 0 \<le> pro_limit c)"

definition entitlement_ok :: "dict \<Rightarrow> bool" where
  "entitlement_ok d =
     ((\<exists>t \<in> {''FREE'', ''PRO''}. dget d ''entitlementTier'' = PStr t)
      \<and> (\<exists>st \<in> set SUPPORTED_SUBSCRIPTION_STATUSES. dget d ''subscriptionStatus'' = PStr st)
      \<and> (\<exists>limit n. dget d ''monthlyScanLimit'' = PInt limit \<and> dget d ''remainingMonthlyScans'' = PInt n \<and> 0 \<le> n \<and> n \<le> limit)
      \<and> (\<exists>k. dget d ''remainingCredits'' = PInt k \<and> 0 \<le> k)
      \<and> (\<exists>b. dget d ''isAccessGranted'' = PBool b))"

lemma set_default_row [simp]: "dget (set_default k v d) k' = (if k = k' \<and> \<not> dhas d k then v else dget d k')"
  by (simp add: set_default_def)

lemma coerce_nonneg: "0 \<le> dflt \<Longrightarrow> 0 \<le> coerce_non_negative_int v dflt"
  by (simp add: coerce_non_negative_int_def split: sum.splits)

lemma status_supported:
  "dflt \<in> set SUPPORTED_SUBSCRIPTION_STATUSES \<Longrightarrow> normalize_subscription_status v dflt \<in> set SUPPORTED_SUBSCRIPTION_STATUSES"
  by (cases v) (simp_all add: normalize_subscription_status_def)

lemma tier_known: "entitlement_tier c d \<in> {''FREE'', ''PRO''}"
  by (simp add: entitlement_tier_def Let_def)

lemma default_ok: "limits_ok c \<Longrightarrow> entitlement_ok (default_entitlement c account now sk)"
  by (auto simp: entitlement_ok_def default_entitlement_def limits_ok_def SUPPORTED_SUBSCRIPTION_STATUSES_def Let_def)

lemma normalize_ok:
  assumes "limits_ok c"
  shows "entitlement_ok (normalize_entitlement c account d now sk)"
proof (cases "d = []")
  case True
  with default_ok [OF assms] show ?thesis by (simp add: normalize_entitlement_def Let_def)
next
  case False
  define tier where "tier = entitlement_tier c d"
  define status where "status = normalize_subscription_status (dget d ''subscriptionStatus'') (if tier = ''PRO'' then ''active'' else ''expired'')"
  define limit where "limit = coerce_non_negative_int (dget d ''monthlyScanLimit'') (if tier = ''PRO'' then pro_limit c else free_limit c)"
  have "tier \<in> {''FREE'', ''PRO''}" using tier_known by (simp add: tier_def)
  moreover have "status \<in> set SUPPORTED_SUBSCRIPTION_STATUSES"
    unfolding status_def by (rule status_supported) (simp add: SUPPORTED_SUBSCRIPTION_STATUSES_def)
  moreover have "0 \<le> limit" using assms unfolding limit_def by (intro coerce_nonneg) (simp add: limits_ok_def)
  moreover from this have "0 \<le> min limit (coerce_non_negative_int (dget d ''remainingMonthlyScans'') limit)"
    by (simp add: coerce_nonneg)
  moreover have "0 \<le> coerce_non_negative_int (dget d ''remainingCredits'') 0" by (rule coerce_nonneg) simp
  ultimately show ?thesis
    using False unfolding normalize_entitlement_def Let_def tier_def [symmetric] status_def [symmetric] limit_def [symmetric]
    by (simp add: entitlement_ok_def del: bex_simps insert_iff)
qed

lemma normalize_key:
  "dget (normalize_entitlement c account d now sk) ''accountId'' = account"
  "dget (normalize_entitlement c account d now sk) ''PK'' = PStr (''USER#'' @ text_of c account)"
  by (simp_all add: normalize_entitlement_def default_entitlement_def Let_def)

text \<open>What is normalised already keeps its numbers when it is normalised again.\<close>

lemma normalize_numbers:
  assumes "entitlement_ok d"
  shows "dget (normalize_entitlement c account d now sk) ''remainingMonthlyScans'' = dget d ''remainingMonthlyScans''"
    "dget (normalize_entitlement c account d now sk) ''remainingCredits'' = dget d ''remainingCredits''"
    "dget (normalize_entitlement c account d now sk) ''monthlyScanLimit'' = dget d ''monthlyScanLimit''"
proof -
  from assms obtain limit n k where d: "dget d ''monthlyScanLimit'' = PInt limit" "dget d ''remainingMonthlyScans'' = PInt n" "0 \<le> n" "n \<le> limit"
      "dget d ''remainingCredits'' = PInt k" "0 \<le> k" by (auto simp: entitlement_ok_def)
  then have "d \<noteq> []" by auto
  with d show "dget (normalize_entitlement c account d now sk) ''remainingMonthlyScans'' = dget d ''remainingMonthlyScans''"
    "dget (normalize_entitlement c account d now sk) ''remainingCredits'' = dget d ''remainingCredits''"
    "dget (normalize_entitlement c account d now sk) ''monthlyScanLimit'' = dget d ''monthlyScanLimit''"
    by (simp_all add: normalize_entitlement_def Let_def coerce_non_negative_int_def min_def)
qed

lemma first_entitlement_found:
  "yields (first_entitlement E c account now sks) (Some d) \<Longrightarrow> \<exists>x sk. d = normalize_entitlement c (PStr account) x now (Some sk)"
proof (induction sks)
  case (Cons sk sks)
  then obtain it where "yields (case row_of it of Some d \<Rightarrow> eret (Some (normalize_entitlement c (PStr account) d now (Some sk)))
      | None \<Rightarrow> first_entitlement E c account now sks) (Some d)" by (auto dest!: yields_bind)
  with Cons.IH show ?case by (cases "row_of it") auto
qed simp

lemma load_entitlement_shape:
  assumes "yields (load_entitlement E c account now_iso platform product) d"
  shows "(\<exists>x now sk. d = normalize_entitlement c (PStr account) x now (Some sk)) \<or> (\<exists>now sk. d = default_entitlement c (PStr account) now sk)"
proof -
  from assms obtain now found where f: "yields (first_entitlement E c account now (candidate_entitlement_sks platform product)) found"
      "yields (case found of Some d \<Rightarrow> eret d | None \<Rightarrow> eret (default_entitlement c (PStr account) now (hd (candidate_entitlement_sks platform product)))) d"
    unfolding load_entitlement_def Let_def by (blast dest!: yields_bind)
  show ?thesis
  proof (cases found)
    case None
    with f(2) show ?thesis by auto
  next
    case (Some x)
    with f(2) have "d = x" by simp
    with first_entitlement_found [OF f(1) [unfolded Some]] show ?thesis by blast
  qed
qed

lemma load_entitlement_ok:
  assumes "yields (load_entitlement E c account now_iso platform product) d" "limits_ok c"
  shows "entitlement_ok d"
  using load_entitlement_shape [OF assms(1)] normalize_ok [OF assms(2)] default_ok [OF assms(2)] by auto

text \<open>
  C38 (type). Whatever is stored, an entitlement that is loaded is well typed: its tier and status are
  among the known ones, its counters are integers that are not negative, the remaining scans are within
  the monthly limit, and it belongs to the account it was loaded for.
\<close>

theorem loaded_entitlement_typed:
  assumes "load_entitlement E c account now_iso platform product w = (Inr d, w')" "limits_ok c"
  shows "entitlement_ok d \<and> dget d ''accountId'' = PStr account \<and> dget d ''PK'' = PStr (''USER#'' @ account)"
proof -
  from assms(1) have y: "yields (load_entitlement E c account now_iso platform product) d" by (auto simp: yields_def)
  have "text_of c (PStr account) = account" by (simp add: text_of_def)
  with load_entitlement_shape [OF y] load_entitlement_ok [OF y assms(2)] show ?thesis
    by (auto simp: normalize_key default_entitlement_def Let_def)
qed

definition ex_ec :: ent_config where
  "ex_ec = \<lparr>en_table = ''E'', en_participation = [], en_environment = [], free_limit = 10, pro_limit = 100, en_str = \<lambda>_. []\<rparr>"

definition ex_sc :: scan_config where
  "ex_sc = \<lparr>sc_abuse = ex_ac, sc_ent = ex_ec, sc_window = 60, sc_max = 10\<rparr>"

lemma ex_load:
  "\<exists>d. load_entitlement still_env ex_ec ''alice'' (Some ''now'') None None \<lparr>tables = \<lambda>_ _. None, tick = 0\<rparr> = (Inr d, \<lparr>tables = \<lambda>_ _. None, tick = 2\<rparr>)"
  by (simp add: load_entitlement_def require_store_def ex_ec_def iso_or_def candidate_entitlement_sks_def GOOGLE_PLAY_PRO_SK_def DEFAULT_ENTITLEMENT_SK_def
      ebind_def quiet_read [OF quiet_env(1)] row_of_def Let_def)

theorem loaded_entitlement_typed_witness:
  "\<exists>d w'. load_entitlement still_env ex_ec ''alice'' (Some ''now'') None None \<lparr>tables = \<lambda>_ _. None, tick = 0\<rparr> = (Inr d, w') \<and> entitlement_ok d"
proof -
  obtain d w' where run: "load_entitlement still_env ex_ec ''alice'' (Some ''now'') None None \<lparr>tables = \<lambda>_ _. None, tick = 0\<rparr> = (Inr d, w')"
    using ex_load by blast
  have "limits_ok ex_ec" by (simp add: limits_ok_def ex_ec_def)
  from loaded_entitlement_typed [OF run this] run show ?thesis by blast
qed

section \<open>Consumption\<close>

lemma decrement_int:
  assumes "dget d k = PInt n"
  shows "decrement k d = (if 0 < n then Inr (dset k (PInt (n - 1)) d) else Inl EXHAUSTED)"
proof -
  from assms have "didx d k = Inr (PInt n)" by (auto simp: didx_def dget_def split: option.splits)
  then show ?thesis by (simp add: decrement_def minus_one_def add_num_def)
qed

definition grantable :: "string \<Rightarrow> dict \<Rightarrow> bool" where
  "grantable consumption d =
     (consumption = ''monthly'' \<and> 0 < inum d ''remainingMonthlyScans''
      \<or> consumption = ''credit'' \<and> inum d ''remainingMonthlyScans'' \<le> 0 \<and> 0 < inum d ''remainingCredits'')"

lemma prepare_shape:
  assumes "prepare_scan_access E c account now w = (Inr grant, w')" "limits_ok (sc_ent c)"
  obtains consumption d snapshot p where "grant = access_grant account consumption d snapshot p" "entitlement_ok d" "grantable consumption d"
proof -
  from assms(1) have y: "yields (prepare_scan_access E c account now) grant" by (auto simp: yields_def)
  then obtain d snapshot where d: "yields (store_configured (load_entitlement E (sc_ent c) account None None None)) d"
      "yields (build_entitlement_snapshot E (sc_ent c) d) snapshot"
    and g: "yields (if inum snapshot ''remainingMonthlyScans'' > 0 then
       ebind (load_campaign_participation E (sc_ent c) account) (\<lambda>p. eret (access_grant account ''monthly'' d snapshot p))
     else if inum snapshot ''remainingCredits'' > 0 then
       ebind (load_campaign_participation E (sc_ent c) account) (\<lambda>p. eret (access_grant account ''credit'' d snapshot p))
     else eraise EXHAUSTED) grant"
    unfolding prepare_scan_access_def by (blast dest!: yields_bind)
  have "yields (load_entitlement E (sc_ent c) account None None None) d"
    using d(1) unfolding store_configured_def by (auto dest!: yields_catch split: exc.splits)
  then have ok: "entitlement_ok d" by (rule load_entitlement_ok [OF _ assms(2)])
  from d(2) obtain acc now' where s: "snapshot = [(''tier'', PStr (lower (text_of (sc_ent c) (dget (normalize_entitlement (sc_ent c) acc d now' None) ''entitlementTier'')))),
       (''status'', dget (normalize_entitlement (sc_ent c) acc d now' None) ''subscriptionStatus'')]
       @ map (\<lambda>k. (k, dget (normalize_entitlement (sc_ent c) acc d now' None) k)) [''platform'', ''productId'', ''billingPeriodStartUtc'', ''billingPeriodEndUtc'', ''lastVerifiedAtUtc'',
           ''isAccessGranted'', ''monthlyScanLimit'', ''remainingMonthlyScans'', ''remainingCredits'']"
    unfolding build_entitlement_snapshot_def Let_def by (auto dest!: yields_bind)
  have n: "inum snapshot ''remainingMonthlyScans'' = inum d ''remainingMonthlyScans''" "inum snapshot ''remainingCredits'' = inum d ''remainingCredits''"
    unfolding s by (simp_all add: inum_def normalize_numbers [OF ok])
  from g obtain consumption p where "grant = access_grant account consumption d snapshot p" "grantable consumption d"
    unfolding n by (auto simp: grantable_def dest!: yields_bind yields_if)
  with ok that show thesis by blast
qed

text \<open>
  C11 (safety). A granted access names its allowance, and a request that was not consumed yet takes one
  unit of exactly that allowance: with \<open>monthly\<close> the account has a scan left this month, loses one of
  them and keeps its credits; with \<open>credit\<close> it has no monthly scan left, loses one credit and keeps the
  rest. A request that is the last one consumed takes nothing, and neither does consuming it once more.
  The entitlement stays well typed, so no counter becomes negative.
\<close>

theorem granted_access_takes_one_unit:
  assumes "prepare_scan_access E c account now w = (Inr grant, w')" "limits_ok (sc_ent c)"
  shows "\<exists>d e consumption n k n' k'. dget grant ''entitlement'' = PDict d \<and> dget grant ''consumptionType'' = PStr consumption
     \<and> build_consumed_entitlement grant request_id now_iso = Inr e \<and> entitlement_ok e
     \<and> dget d ''remainingMonthlyScans'' = PInt n \<and> dget d ''remainingCredits'' = PInt k
     \<and> dget e ''remainingMonthlyScans'' = PInt n' \<and> dget e ''remainingCredits'' = PInt k'
     \<and> (consumption = ''monthly'' \<and> 0 < n \<or> consumption = ''credit'' \<and> n = 0 \<and> 0 < k)
     \<and> (if dget d ''lastScanRequestId'' = PStr request_id then e = d
        else (n', k') = (if consumption = ''monthly'' then (n - 1, k) else (n, k - 1))
           \<and> dget e ''lastScanRequestId'' = PStr request_id \<and> dget e ''lastScanConsumptionType'' = PStr consumption)
     \<and> build_consumed_entitlement (dset ''entitlement'' (PDict e) grant) request_id now_iso' = Inr e"
proof -
  from assms obtain consumption d snapshot p where g: "grant = access_grant account consumption d snapshot p"
      and ok: "entitlement_ok d" and can: "grantable consumption d"
    by (rule prepare_shape)
  from ok obtain limit n k where d: "dget d ''monthlyScanLimit'' = PInt limit" "dget d ''remainingMonthlyScans'' = PInt n" "0 \<le> n" "n \<le> limit"
      "dget d ''remainingCredits'' = PInt k" "0 \<le> k" by (auto simp: entitlement_ok_def)
  have grant: "didx grant ''entitlement'' = Inr (PDict d)" "didx grant ''consumptionType'' = Inr (PStr consumption)"
      "dget grant ''entitlement'' = PDict d" "dget grant ''consumptionType'' = PStr consumption"
    by (simp_all add: g access_grant_def)
  have can': "consumption = ''monthly'' \<and> 0 < n \<or> consumption = ''credit'' \<and> n = 0 \<and> 0 < k"
    using can d by (auto simp: grantable_def inum_def)
  show ?thesis
  proof (cases "dget d ''lastScanRequestId'' = PStr request_id")
    case True
    with grant ok can' d show ?thesis by (simp add: build_consumed_entitlement_def)
  next
    case False
    define e where "e = dset ''lastScanConsumptionType'' (PStr consumption) (dset ''lastScanRequestId'' (PStr request_id)
        (dset ''lastScanAt'' (PStr now_iso) (dset ''updatedAt'' (PStr now_iso)
          (if consumption = ''monthly'' then dset ''remainingMonthlyScans'' (PInt (n - 1)) d else dset ''remainingCredits'' (PInt (k - 1)) d))))"
    have run: "build_consumed_entitlement grant request_id now_iso = Inr e"
      using grant False can' d by (auto simp: build_consumed_entitlement_def decrement_int e_def)
    have "entitlement_ok e"
      using ok can' d by (auto simp: entitlement_ok_def e_def)
    moreover have "build_consumed_entitlement (dset ''entitlement'' (PDict e) grant) request_id now_iso' = Inr e"
      using grant by (simp add: build_consumed_entitlement_def e_def)
    moreover have "dget e ''remainingMonthlyScans'' = PInt (if consumption = ''monthly'' then n - 1 else n)"
        "dget e ''remainingCredits'' = PInt (if consumption = ''monthly'' then k else k - 1)"
        "dget e ''lastScanRequestId'' = PStr request_id" "dget e ''lastScanConsumptionType'' = PStr consumption"
      using d by (simp_all add: e_def)
    ultimately show ?thesis using run grant(3,4) False can' d by simp
  qed
qed

text \<open>An account without a stored entitlement is granted a free scan.\<close>

lemma ex_prepare: "\<exists>grant w'. prepare_scan_access still_env ex_sc ''alice'' (Some 1000) \<lparr>tables = ex_accounts, tick = 0\<rparr> = (Inr grant, w')"
proof -
  obtain u where u: "iso_now still_env \<lparr>tables = ex_accounts, tick = 0\<rparr> = (Inr u, \<lparr>tables = ex_accounts, tick = Suc 0\<rparr>)"
    using quiet_iso [OF quiet_env(1), of 1000 "\<lambda>_ _. []" "\<lparr>tables = ex_accounts, tick = 0\<rparr>"] by auto
  define a where "a = scan_rate_update ex_sc ''alice'' 1000 u"
  have key: "fst (snd (target a)) = ''ANALYSIS#'' @ ''SCAN_RATE#alice''" by (simp add: a_def scan_rate_update_def Let_def)
  have "holds_at a ex_accounts"
    by (simp add: a_def scan_rate_update_def holds_at_def ex_accounts_def contents_def ex_sc_def Let_def)
  from abuse_batch [OF ex_accounts_rows this key] have batch: "batch_holds (fence_checks ex_ac ''alice'' @ [a]) ex_accounts" .
  define db where "db = commit (fence_checks ex_ac ''alice'' @ [a]) ex_accounts"
  have none: "db ''E'' k = None" for k
  proof -
    have "(''E'', k) \<notin> set (map target (fence_checks ex_ac ''alice'' @ [a]))"
      by (auto simp: fence_checks_def a_def scan_rate_update_def ex_sc_def Let_def)
    from commit_untouched [OF this] show ?thesis by (simp add: db_def ex_accounts_def)
  qed
  have sel: "sc_abuse ex_sc = ex_ac" "sc_window ex_sc = 60" "hashed_identity still_env ''alice'' = ''alice''"
    by (simp_all add: ex_sc_def hashed_identity_def quiet_env_def)
  have checks: "account_authority_checks ex_ac ''alice'' = Inr (fence_checks ex_ac ''alice'')" by (simp add: authority_checks_eq)
  have rate: "enforce_scan_rate_limit still_env ex_sc ''alice'' 1000 \<lparr>tables = ex_accounts, tick = 0\<rparr> = (Inr (), \<lparr>tables = db, tick = Suc (Suc 0)\<rparr>)"
    using batch u checks by (simp add: enforce_scan_rate_limit_def sel ebind_def quiet_transact [OF quiet_env(1)] a_def [symmetric] db_def)
  have now: "iso_or still_env None w = (Inr (iso_z 1000000000), w\<lparr>tick := Suc (tick w)\<rparr>)" for w
    by (simp add: iso_or_def e_utcnow_def e_wall_def ebind_def quiet_env_def)
  define d where "d = default_entitlement ex_ec (PStr ''alice'') (iso_z 1000000000) GOOGLE_PLAY_PRO_SK"
  have load: "load_entitlement still_env ex_ec ''alice'' None None None \<lparr>tables = db, tick = t\<rparr> = (Inr d, \<lparr>tables = db, tick = Suc (Suc (Suc t))\<rparr>)" for t
    using none now by (simp add: load_entitlement_def require_store_def ex_ec_def candidate_entitlement_sks_def GOOGLE_PLAY_PRO_SK_def
        DEFAULT_ENTITLEMENT_SK_def ebind_def quiet_read [OF quiet_env(1)] row_of_def Let_def d_def)
  have ok: "entitlement_ok d" unfolding d_def by (rule default_ok) (simp add: limits_ok_def ex_ec_def)
  have left: "dget d ''remainingMonthlyScans'' = PInt 10" "didx d ''accountId'' = Inr (PStr ''alice'')"
    by (simp_all add: d_def default_entitlement_def ex_ec_def Let_def)
  obtain snapshot w2 where snap: "build_entitlement_snapshot still_env ex_ec d \<lparr>tables = db, tick = Suc (Suc (Suc (Suc (Suc 0))))\<rparr> = (Inr snapshot, w2)"
      "inum snapshot ''remainingMonthlyScans'' = 10"
    using left by (simp add: build_entitlement_snapshot_def ebind_def now Let_def inum_def normalize_numbers [OF ok])
  show ?thesis
    using rate load [of "Suc (Suc 0)"] snap
    by (simp add: prepare_scan_access_def epoch_or_def ebind_def store_configured_def ecatch_def ex_sc_def load_campaign_participation_def ex_ec_def)
qed

theorem granted_access_takes_one_unit_witness:
  "\<exists>grant w' d e consumption. prepare_scan_access still_env ex_sc ''alice'' (Some 1000) \<lparr>tables = ex_accounts, tick = 0\<rparr> = (Inr grant, w')
     \<and> dget grant ''entitlement'' = PDict d \<and> dget grant ''consumptionType'' = PStr consumption
     \<and> build_consumed_entitlement grant ''r1'' ''now'' = Inr e \<and> entitlement_ok e"
proof -
  obtain grant w' where run: "prepare_scan_access still_env ex_sc ''alice'' (Some 1000) \<lparr>tables = ex_accounts, tick = 0\<rparr> = (Inr grant, w')"
    using ex_prepare by blast
  have "limits_ok (sc_ent ex_sc)" by (simp add: limits_ok_def ex_sc_def ex_ec_def)
  from granted_access_takes_one_unit [OF run this, of "''r1''" "''now''"] run show ?thesis by blast
qed

section \<open>Subscriptions\<close>

text \<open>
  C39 (bounds). Applying a verified subscription never leaves more scans than the limit of the tier it
  grants: without access the account falls back to the free limit whatever it had, and a new billing
  period of a granted one starts with the whole allowance.
\<close>

theorem subscription_allowance_bounded:
  assumes "apply_google_play_subscription E c entitlement verification payload now_iso w = (Inr d, w')" "limits_ok c"
  shows "\<exists>limit n. limit = (if truthy (dget verification ''isAccessGranted'') then pro_limit c else free_limit c)
     \<and> dget d ''monthlyScanLimit'' = PInt limit \<and> dget d ''remainingMonthlyScans'' = PInt n \<and> 0 \<le> n \<and> n \<le> limit
     \<and> dget d ''entitlementTier'' = PStr (if truthy (dget verification ''isAccessGranted'') then ''PRO'' else ''FREE'')
     \<and> (truthy (dget verification ''isAccessGranted'')
         \<and> \<not> pyeq (normalize_optional_string (dget entitlement ''billingPeriodStartUtc'')) (dget verification ''billingPeriodStartUtc'') \<longrightarrow> n = limit)"
proof -
  define granted where "granted = truthy (dget verification ''isAccessGranted'')"
  from assms(1) obtain now account u where
      account: "didx entitlement ''accountId'' = Inr account"
    and run: "play_fields verification payload now (normalize_entitlement c account entitlement now (Some GOOGLE_PLAY_PRO_SK)) = Inr u"
      "play_allowance c granted (pyeq (dget (normalize_entitlement c account entitlement now (Some GOOGLE_PLAY_PRO_SK)) ''billingPeriodStartUtc'')
         (dget verification ''billingPeriodStartUtc'')) u = Inr d"
    unfolding apply_google_play_subscription_def Let_def granted_def by (auto simp: ebind_Inr elift_def)
  define e where "e = normalize_entitlement c account entitlement now (Some GOOGLE_PLAY_PRO_SK)"
  have "entitlement \<noteq> []" using account by (auto simp: didx_def)
  then have period: "dget e ''billingPeriodStartUtc'' = normalize_optional_string (dget entitlement ''billingPeriodStartUtc'')"
    by (simp add: e_def normalize_entitlement_def Let_def)
  have "entitlement_ok e" unfolding e_def by (rule normalize_ok [OF assms(2)])
  then obtain n where n: "dget e ''remainingMonthlyScans'' = PInt n" "0 \<le> n" by (auto simp: entitlement_ok_def)
  from run(1) have u: "dget u ''remainingMonthlyScans'' = PInt n"
    unfolding e_def [symmetric] using n by (auto simp: play_fields_def rbind_Inr_iff)
  have limit: "0 \<le> (if granted then pro_limit c else free_limit c)" using assms(2) by (simp add: limits_ok_def)
  define limit' where "limit' = (if granted then pro_limit c else free_limit c)"
  define same_period where "same_period = pyeq (normalize_optional_string (dget entitlement ''billingPeriodStartUtc'')) (dget verification ''billingPeriodStartUtc'')"
  define left where "left = (if granted \<and> \<not> same_period then limit' else min limit' n)"
  have "d = dset ''remainingMonthlyScans'' (PInt left) (dset ''monthlyScanLimit'' (PInt limit') (dset ''entitlementTier'' (PStr (if granted then ''PRO'' else ''FREE'')) u))"
    using run(2) dget_or_present [OF u] unfolding e_def [symmetric] period same_period_def [symmetric]
    by (simp add: play_allowance_def Let_def limit'_def [symmetric] left_def split: if_splits)
  then have "dget d ''remainingMonthlyScans'' = PInt left" "dget d ''monthlyScanLimit'' = PInt limit'"
      "dget d ''entitlementTier'' = PStr (if granted then ''PRO'' else ''FREE'')" by simp_all
  moreover have "0 \<le> left" "left \<le> limit'" using limit n(2) by (auto simp: left_def limit'_def split: if_splits)
  moreover have "granted \<and> \<not> same_period \<longrightarrow> left = limit'" by (simp add: left_def)
  ultimately show ?thesis unfolding granted_def [symmetric] same_period_def [symmetric] limit'_def [symmetric] by blast
qed

definition ex_verification :: dict where
  "ex_verification = [(''normalizedStatus'', PStr ''active''), (''isAccessGranted'', PBool True), (''billingPeriodStartUtc'', PStr ''2026-01-01T00:00:00Z'')]"

definition ex_purchase :: dict where "ex_purchase = [(''platform'', PStr ''google_play''), (''productId'', PStr ''pro'')]"

theorem subscription_allowance_bounded_witness:
  "\<exists>d w'. apply_google_play_subscription still_env ex_ec [(''accountId'', PStr ''alice'')] ex_verification ex_purchase (Some ''now'')
       \<lparr>tables = \<lambda>_ _. None, tick = 0\<rparr> = (Inr d, w')
     \<and> (\<exists>n. dget d ''monthlyScanLimit'' = PInt 100 \<and> dget d ''remainingMonthlyScans'' = PInt n \<and> 0 \<le> n \<and> n \<le> 100)"
proof -
  define e where "e = normalize_entitlement ex_ec (PStr ''alice'') [(''accountId'', PStr ''alice'')] ''now'' (Some GOOGLE_PLAY_PRO_SK)"
  have ok: "limits_ok ex_ec" by (simp add: limits_ok_def ex_ec_def)
  obtain u where u: "play_fields ex_verification ex_purchase ''now'' e = Inr u" by (simp add: play_fields_def ex_verification_def ex_purchase_def)
  have "dget e ''billingPeriodStartUtc'' = PNone"
    by (simp add: e_def normalize_entitlement_def Let_def normalize_optional_string_def)
  then obtain d where d: "play_allowance ex_ec True (pyeq (dget e ''billingPeriodStartUtc'') (dget ex_verification ''billingPeriodStartUtc'')) u = Inr d"
    by (simp add: play_allowance_def ex_verification_def Let_def)
  have run: "apply_google_play_subscription still_env ex_ec [(''accountId'', PStr ''alice'')] ex_verification ex_purchase (Some ''now'')
       \<lparr>tables = \<lambda>_ _. None, tick = 0\<rparr> = (Inr d, \<lparr>tables = \<lambda>_ _. None, tick = 0\<rparr>)"
    using u d by (simp add: apply_google_play_subscription_def iso_or_def ebind_def e_def [symmetric] Let_def ex_verification_def)
  from subscription_allowance_bounded [OF run ok] run show ?thesis by (auto simp: ex_verification_def ex_ec_def)
qed

end
