(* ===== verification/Spec2Isabelle.thy ===== *)
theory Spec2Isabelle
  imports PurchaseUsage Operations Identity Summaries MessageSummaries Recovery GovernedHistory OneSettlement DeviceReplay Sweeps ScanAccess
begin

text \<open>
  A model of the server-side handlers of the TrustCheck Radar service (the Python packages under
  \<open>src/src\<close>), with the properties that make them correct.

  The program. A client asks for a check of a URL or of a message. The check authority
  (\<open>shared_check_authority\<close>) prepares a check identifier, admits the check against the allowance of the
  account, and settles it when its result is known; background workers close checks whose lease lapsed and
  delete or strip records that are due. Only a caller whose token, account and device are accepted reaches
  these operations (\<open>shared_history/security.py\<close>, \<open>device_registration\<close>, \<open>device_recovery\<close>). What a check
  may settle with is fixed by closed contracts (\<open>shared_message_contract\<close>, \<open>shared_recovery_contract\<close>,
  \<open>shared_check_authority/summary.py\<close>), and what a settled receipt keeps for operations and for the
  account's history by two projections (\<open>shared_operations\<close>, \<open>shared_governed_history\<close>). Beside it stands
  the earlier analysis service (\<open>conversation_analysis\<close>): it locks a request identifier, rate-limits the
  account, takes one unit of its entitlement (\<open>shared_entitlements\<close>), stores the result under the lease of
  the request and replays completed requests from the retained history (\<open>shared_history\<close>). All of them
  share state only through rows of DynamoDB tables, changed by conditional transactions.

  \<^bold>\<open>Common theories.\<close>
  \<^item> \<open>PyValue\<close>: Python's values, their equality (\<open>1 == 1.0 == True\<close>), truth, dictionaries and exceptions
    (\<open>exc\<close>, with \<open>result = exc + 'a\<close>); \<open>PyText\<close>: number formats, \<open>str.split\<close>, \<open>strip\<close>; \<open>Json\<close>:
    \<open>json.dumps\<close> in canonical form and the comparison of digests.
  \<^item> \<open>Dynamo\<close>: rows, condition expressions, update expressions, and \<open>transact_write_items\<close>. The locale
    \<open>transact_service\<close> states what the service promises (a batch that reports success was applied as a
    whole, under its conditions; one that reports a cancellation changed nothing; an error leaves it open). It
    is interpreted on a service that never errs and on one that may commit without an answer.
  \<^item> \<open>Effects\<close>: operations as functions from a world (tables and a counter of interactions) to a result
    and a world. The record \<open>env\<close> holds what the code cannot see: the clocks, the writes of other
    writers between two of its own accesses (\<open>peers\<close>), older replicas, failing reads, the transaction
    service, HMAC and SHA-256, random bytes, the time left, and the answers of index queries. The locales
    \<open>guarded_db\<close> and \<open>guarded_items\<close> give the rule for invariants under such interleavings.

  \<^bold>\<open>The check authority.\<close>
  \<^item> \<open>PurchaseUsage\<close> (\<open>purchase_usage.py\<close>): the counters of a purchased period, kept twice, for the account
    and for the purchase. Lemmas: the two rows move together and stay within 200 checks; a new row
    validates; moving the access window and funding keep the counters.
  \<^item> \<open>Identity\<close> (\<open>security.py\<close>), \<open>Operations\<close> (\<open>shared_operations\<close>), \<open>Summaries\<close> and
    \<open>MessageSummaries\<close> (the summaries of URLs and messages, the message policies of
    \<open>message_evaluator\<close>), \<open>Recovery\<close> (\<open>shared_recovery_contract\<close>), \<open>GovernedHistory\<close>
    (\<open>shared_governed_history\<close>): the data an admission and a settlement write. Lemmas: what the policies
    produce is what the validators accept, validated values are fixed points, a stored projection reads back.
  \<^item> \<open>Authority\<close>, \<open>Checks\<close>, \<open>Settlement\<close> (\<open>core.py\<close>, \<open>inventory.py\<close>): \<open>prepare\<close>, \<open>admit\<close>, \<open>reconcile\<close>,
    \<open>settle\<close>, \<open>recover_expired\<close>. \<open>Leases\<close> (\<open>recovery.py\<close>, \<open>expiry.py\<close>, \<open>operations_retirement.py\<close>): the
    background workers.
  \<^item> \<open>Ledger\<close> and \<open>Workers\<close>: the invariant of the tables. The locale \<open>authority_writes\<close> lists the kinds of
    writes the authority makes, \<open>worker_writes\<close> adds those of the workers; every operation is shown once to
    make only such writes, and each invariant is an interpretation: counters within their caps, settled
    receipts final, receipts never removed by the authority. \<open>system_run\<close> is every interleaving.
  \<^item> \<open>Protocol\<close>: accepted check identifiers are exactly the minted ones, an admission is bound to its
    account and request and happens at most once. \<open>OneSettlement\<close>: in the locale \<open>lone_world\<close> (no
    other writer; reads may fail and replies be lost) a settlement of an unpaid check is one step of an
    abstract pair of counters, and a failing one changes nothing unless only the reading back of the
    committed receipt failed. \<open>Sweeps\<close>: the bounded work of a sweep.

  \<^bold>\<open>Devices.\<close>
  \<open>Devices\<close>, \<open>DeviceRequests\<close> and \<open>DeviceRecovery\<close> model registration, its requests, and recovery by an
  operator and by the account. \<open>DeviceBinding\<close> and \<open>DeviceProperties\<close> show the invariant that an account has at
  most one active device, the one its pointer names, in histories that do not use the placeholder
  fingerprint \<open>NONE\<close>; \<open>DeviceReplay\<close> that a repeated self-recovery is
  answered from its receipt.

  \<^bold>\<open>The analysis service.\<close>
  \<open>HistorySettings\<close> and \<open>HistoryContracts\<close> (\<open>shared_history/config.py\<close>, \<open>contracts.py\<close>) model the policy of
  the retained history and its rows, with lemmas in \<open>HistoryRecords\<close>; \<open>AbuseControls\<close>
  (\<open>abuse_controls.py\<close>, \<open>account_fence.py\<close>) the record of a request; \<open>AbuseSafety\<close> its invariant, the rate
  limit and the lease under any interleaving (the locale \<open>request_writes\<close> lists the kinds of writes of a
  request; the rows' invariant and the absence of a spent lease are two uses of it); \<open>AbuseReplay\<close> what a repetition of a request obtains;
  \<open>Entitlements\<close> (\<open>shared_entitlements\<close>) and \<open>ScanAccess\<close> (\<open>scan_access.py\<close>) the entitlement and its use.

  \<^bold>\<open>Bounds.\<close> The loops of the source are bounded, and so are the recursions: a sweep reads at most
  \<open>max_pages\<close> pages, which it requires to be at most 4, of at most 25 items (\<open>sweep_bounds\<close>), and
  \<open>recovery_pages\<close> and \<open>expiry_pages\<close> take that number as their argument; all other recursion is on the
  structure of a value. Numbers are Python's integers, so there is no wrap-around. Characters are 8-bit.

  \<^bold>\<open>Parameters.\<close> Code outside the repository is an argument: the services of \<open>env\<close>, \<open>json.loads\<close> of the
  badge catalogue, \<open>str\<close> of values that are not text or numbers and the shortest decimal text of a
  binary float (\<open>float_repr\<close>). The validators of message and recovery intents work on Unicode text and are
  the argument \<open>intents\<close> of the authority. Hypotheses on them are stated where they are used.

  \<^bold>\<open>Findings.\<close> Three deviations are proved as properties: a device whose fingerprint is the text that
  marks an empty pointer stays active beside the next one (\<open>placeholder_leaves_two_active\<close>); an expired result is
  offered to a request with other content when durable replay is off (\<open>expired_result_offered\<close>); a replaced
  request keeps the authorizations of the one it replaces (\<open>replacement_keeps_authorizations\<close>).

  \<^bold>\<open>Not modelled.\<close> The entry points (parsing of the event, CORS, logging, response bodies); clients of external
  services (the text model, the lookup service, the store); the queue consumers, whose retries surround the
  modelled settlement; the campaign and research pipeline; account deletion and export, which are components
  of their own over the same rows; \<open>commit_scan_and_request\<close>, which joins the history completion with the
  campaign outbox; \<open>due_reservation_actions\<close>, used by the entitlement service only; the diagnostics of a failed
  preparation; version 3 of the message policy. Log output is left out everywhere.
\<close>

end
